(* ===== verification/Prelude.thy ===== *)
theory Prelude
  imports Main "HOL-Library.AList" "HOL-Library.Word" "HOL-Library.Multiset"
begin

section \<open>Shared types, standard-library models and automation\<close>

text \<open>
  What every component of the development uses: the machine integers of Rust at their width
  (release profile: \<open>+\<close>, \<open>-\<close> and \<open>*\<close> wrap around, \<open>saturating_sub\<close> stops at 0), results
  (\<open>Err\<close> and \<open>Ok\<close>), the standard \<open>HashMap\<close> as an association list with distinct keys (its
  iteration order is the order of the list, so a statement for every list covers every
  iteration order), decimal rendering and parsing of numbers, ASCII string helpers, bounded
  channels, and the composition of fallible effectful operations (Rust's \<open>?\<close>).
\<close>

named_theorems frame_simps \<open>an operation leaves a field unchanged\<close>
named_theorems inv_intros \<open>an operation preserves an invariant\<close>

subsection \<open>Machine integers\<close>

type_synonym u8 = "8 word"
type_synonym u16 = "16 word"
type_synonym u32 = "32 word"
type_synonym u64 = "64 word"
type_synonym usize = "64 word"
type_synonym i32 = "32 word"
type_synonym i64 = "64 word"
type_synonym uuid = "128 word"

definition saturating_sub :: "'a::len word \<Rightarrow> 'a word \<Rightarrow> 'a word" where
  "saturating_sub a b = (if b \<le> a then a - b else 0)"

lemma unat_saturating_sub [simp]: "unat (saturating_sub a b) = unat a - unat b"
  by (auto simp: saturating_sub_def unat_sub word_le_nat_alt)

lemma unat_plus_no_overflow:
  fixes a b :: "'a::len word"
  assumes "unat a + unat b < 2 ^ LENGTH('a)"
  shows "unat (a + b) = unat a + unat b"
  using assms by (simp add: unat_word_ariths)

lemma unat_lt_64: "unat (a :: 64 word) < 18446744073709551616"
  using unsigned_less [of a, where ?'a = nat] by simp

subsection \<open>Results and options\<close>

abbreviation Err :: "'e \<Rightarrow> 'e + 'a" where
  "Err \<equiv> Inl"

abbreviation Ok :: "'a \<Rightarrow> 'e + 'a" where
  "Ok \<equiv> Inr"

definition is_ok :: "'e + 'a \<Rightarrow> bool" where
  "is_ok r = (case r of Inl _ \<Rightarrow> False | Inr _ \<Rightarrow> True)"

lemma is_ok_simps [simp]: "is_ok (Ok a)" "\<not> is_ok (Err e)"
  by (simp_all add: is_ok_def)

fun to_option :: "'e + 'a \<Rightarrow> 'a option" where
  "to_option (Inl e) = None"
| "to_option (Inr a) = Some a"

fun unwrap_or :: "'a option \<Rightarrow> 'a \<Rightarrow> 'a" where
  "unwrap_or None d = d"
| "unwrap_or (Some a) d = a"

text \<open>An iterator of results collected into a result of a list: the first error wins.\<close>

fun collect_results :: "('e + 'a) list \<Rightarrow> 'e + 'a list" where
  "collect_results [] = Ok []"
| "collect_results (r # rs) =
     (case r of Inl e \<Rightarrow> Err e
      | Inr a \<Rightarrow> (case collect_results rs of Inl e \<Rightarrow> Err e | Inr as \<Rightarrow> Ok (a # as)))"

lemma collect_results_map_Ok [simp]: "collect_results (map Inr as) = Ok as"
  by (induction as) simp_all

lemma collect_results_Ok:
  "collect_results rs = Ok as \<longleftrightarrow> rs = map Inr as"
proof
  show "rs = map Inr as" if "collect_results rs = Ok as"
    using that by (induction rs arbitrary: as) (auto split: sum.splits)
qed simp

lemma collect_results_Err:
  "(\<exists>e. collect_results rs = Err e) \<longleftrightarrow> (\<exists>e. Inl e \<in> set rs)"
  by (induction rs) (auto split: sum.splits)

subsection \<open>Lists\<close>

definition remove_nth :: "nat \<Rightarrow> 'a list \<Rightarrow> 'a list" where
  "remove_nth n xs = take n xs @ drop (Suc n) xs"

definition gather :: "('a \<Rightarrow> 'b list) \<Rightarrow> 'a list \<Rightarrow> 'b list" where
  "gather f xs = concat (map f xs)"

lemma gather_simps [simp]:
  "gather f [] = []" "gather f (x # xs) = f x @ gather f xs"
  "gather f (xs @ ys) = gather f xs @ gather f ys"
  by (simp_all add: gather_def)

lemma gather_remove_nth:
  assumes "n < length xs"
  shows "mset (gather f xs) = mset (f (xs ! n)) + mset (gather f (remove_nth n xs))"
proof -
  have "gather f xs = gather f (take n xs @ xs ! n # drop (Suc n) xs)"
    using id_take_nth_drop [OF assms] by (rule arg_cong)
  then show ?thesis by (simp add: remove_nth_def)
qed

lemma set_remove_nth: "set (remove_nth n xs) \<subseteq> set xs"
  by (auto simp: remove_nth_def dest: in_set_takeD in_set_dropD)

subsection \<open>HashMap\<close>

type_synonym ('k, 'v) hmap = "('k \<times> 'v) list"

definition hm_get :: "('k, 'v) hmap \<Rightarrow> 'k \<Rightarrow> 'v option" where
  "hm_get m k = map_of m k"

definition hm_contains :: "('k, 'v) hmap \<Rightarrow> 'k \<Rightarrow> bool" where
  "hm_contains m k = (hm_get m k \<noteq> None)"

definition hm_insert :: "'k \<Rightarrow> 'v \<Rightarrow> ('k, 'v) hmap \<Rightarrow> ('k, 'v) hmap" where
  "hm_insert k v m = AList.update k v m"

definition hm_remove :: "'k \<Rightarrow> ('k, 'v) hmap \<Rightarrow> ('k, 'v) hmap" where
  "hm_remove k m = AList.delete k m"

definition hm_keys :: "('k, 'v) hmap \<Rightarrow> 'k list" where
  "hm_keys m = map fst m"

definition hm_values :: "('k, 'v) hmap \<Rightarrow> 'v list" where
  "hm_values m = map snd m"

definition hm_len :: "('k, 'v) hmap \<Rightarrow> nat" where
  "hm_len m = length m"

definition hm_wf :: "('k, 'v) hmap \<Rightarrow> bool" where
  "hm_wf m = distinct (map fst m)"

text \<open>The contract of the standard \<open>HashMap\<close> that the components rely on.\<close>

locale hash_map =
  fixes empty :: "'m"
    and get :: "'m \<Rightarrow> 'k \<Rightarrow> 'v option"
    and ins :: "'k \<Rightarrow> 'v \<Rightarrow> 'm \<Rightarrow> 'm"
    and rem :: "'k \<Rightarrow> 'm \<Rightarrow> 'm"
    and len :: "'m \<Rightarrow> nat"
    and wf :: "'m \<Rightarrow> bool"
  assumes get_empty: "get empty k = None"
    and get_ins: "get (ins k v m) k' = (if k' = k then Some v else get m k')"
    and get_rem: "get (rem k m) k' = (if k' = k then None else get m k')"
    and wf_empty: "wf empty"
    and wf_ins: "wf m \<Longrightarrow> wf (ins k v m)"
    and wf_rem: "wf m \<Longrightarrow> wf (rem k m)"
    and len_empty: "len empty = 0"
    and len_ins: "wf m \<Longrightarrow> len (ins k v m) = (if get m k = None then Suc (len m) else len m)"
    and len_rem: "wf m \<Longrightarrow> len (rem k m) = (if get m k = None then len m else len m - 1)"
begin

lemma get_rem_ins_same: "get (rem k (ins k v m)) k' = get (rem k m) k'"
  by (simp add: get_rem get_ins)

lemma len_rem_ins_fresh: "wf m \<Longrightarrow> get m k = None \<Longrightarrow> len (rem k (ins k v m)) = len m"
  by (simp add: len_rem len_ins wf_ins get_ins)

lemma ins_other: "k \<noteq> k' \<Longrightarrow> get (ins k v m) k' = get m k'"
  by (simp add: get_ins)

end

lemma hm_get_insert: "hm_get (hm_insert k v m) k' = (if k' = k then Some v else hm_get m k')"
  by (simp add: hm_get_def hm_insert_def update_conv')

lemma hm_get_remove: "hm_get (hm_remove k m) k' = (if k' = k then None else hm_get m k')"
  by (simp add: hm_get_def hm_remove_def delete_conv')

lemma hm_get_None: "hm_get m k = None \<longleftrightarrow> k \<notin> fst ` set m"
  by (simp add: hm_get_def map_of_eq_None_iff)

lemma hm_insert_fresh: "hm_get m k = None \<Longrightarrow> hm_insert k v m = m @ [(k, v)]"
  unfolding hm_get_None hm_insert_def
  by (induction m) auto

lemma hm_remove_filter: "hm_remove k m = filter (\<lambda>p. fst p \<noteq> k) m"
  by (auto simp: hm_remove_def AList.delete_eq case_prod_unfold intro!: filter_cong)

lemma hm_keys_insert [simp]: "fst ` set (hm_insert k v m) = insert k (fst ` set m)"
  by (simp add: hm_insert_def dom_update)

lemma hm_keys_remove [simp]: "fst ` set (hm_remove k m) = fst ` set m - {k}"
  by (auto simp: hm_remove_filter)

lemma hm_remove_absent: "hm_get m k = None \<Longrightarrow> hm_remove k m = m"
  unfolding hm_get_None hm_remove_filter by (auto simp: filter_id_conv)

lemma hm_wf_insert [simp]: "hm_wf m \<Longrightarrow> hm_wf (hm_insert k v m)"
  by (simp add: hm_wf_def hm_insert_def distinct_update)

lemma hm_wf_remove [simp]: "hm_wf m \<Longrightarrow> hm_wf (hm_remove k m)"
  by (simp add: hm_wf_def hm_remove_def distinct_delete)

lemma length_hm_insert:
  "length (hm_insert k v m) = (if hm_get m k = None then Suc (length m) else length m)"
  unfolding hm_insert_def hm_get_def by (induction m) auto

lemma filter_key_fresh:
  "k \<notin> fst ` set m \<Longrightarrow> filter (\<lambda>p. fst p \<noteq> k) m = m"
  by (induction m) auto

lemma length_hm_remove:
  assumes "hm_wf m"
  shows "length (hm_remove k m) = (if hm_get m k = None then length m else length m - 1)"
proof (cases "hm_get m k")
  case None
  then show ?thesis by (simp add: hm_remove_absent)
next
  case (Some v)
  have "length (filter (\<lambda>p. fst p \<noteq> k) m) = length m - 1"
    if "distinct (map fst m)" "map_of m k = Some v" for m :: "('a \<times> 'b) list"
    using that
  proof (induction m)
    case Nil
    then show ?case by simp
  next
    case (Cons p m)
    show ?case
    proof (cases "fst p = k")
      case True
      with Cons.prems have "filter (\<lambda>p. fst p \<noteq> k) m = m"
        by (intro filter_key_fresh) auto
      with True show ?thesis by simp
    next
      case False
      with Cons show ?thesis by (cases m) auto
    qed
  qed
  with Some assms show ?thesis
    by (simp add: hm_remove_filter hm_wf_def hm_get_def)
qed

interpretation hm: hash_map "[]" hm_get hm_insert hm_remove hm_len hm_wf
  by unfold_locales
    (simp_all add: hm_get_insert hm_get_remove hm_len_def length_hm_insert length_hm_remove,
      simp_all add: hm_get_def hm_wf_def)

lemma hm_get_Some_in: "hm_get m k = Some v \<Longrightarrow> (k, v) \<in> set m"
  by (simp add: hm_get_def map_of_SomeD)

lemma hm_get_in: "hm_wf m \<Longrightarrow> (k, v) \<in> set m \<Longrightarrow> hm_get m k = Some v"
  by (simp add: hm_get_def hm_wf_def)

text \<open>Totals over the values of a map: a fresh insertion adds, a removal subtracts.\<close>

definition hm_sum :: "('v \<Rightarrow> nat) \<Rightarrow> ('k, 'v) hmap \<Rightarrow> nat" where
  "hm_sum f m = sum_list (map (\<lambda>p. f (snd p)) m)"

lemma hm_sum_Nil [simp]: "hm_sum f [] = 0"
  by (simp add: hm_sum_def)

lemma hm_sum_insert_fresh:
  "hm_get m k = None \<Longrightarrow> hm_sum f (hm_insert k v m) = hm_sum f m + f v"
  by (simp add: hm_sum_def hm_insert_fresh)

lemma hm_sum_remove:
  assumes "hm_wf m" and "hm_get m k = Some v"
  shows "hm_sum f (hm_remove k m) + f v = hm_sum f m"
  using assms unfolding hm_wf_def hm_get_def hm_remove_filter hm_sum_def
proof (induction m)
  case Nil
  then show ?case by simp
next
  case (Cons p m)
  show ?case
  proof (cases "fst p = k")
    case True
    with Cons.prems have "filter (\<lambda>p. fst p \<noteq> k) m = m" and "snd p = v"
      by (auto intro!: filter_key_fresh)
    with True show ?thesis by simp
  next
    case False
    with Cons show ?thesis by (cases p) auto
  qed
qed

subsection \<open>Fallible effectful operations\<close>

text \<open>
  An operation of a component that changes a world and may fail: it returns its result and the
  new world, also when it fails (what was done before the failure stays done).
  \<open>and_then\<close> is Rust's \<open>?\<close>; \<open>attempt\<close> inspects the result instead of propagating it.
\<close>

type_synonym ('w, 'e, 'a) io = "'w \<Rightarrow> ('e + 'a) \<times> 'w"

definition ret :: "'a \<Rightarrow> ('w, 'e, 'a) io" where
  "ret a w = (Ok a, w)"

definition throw :: "'e \<Rightarrow> ('w, 'e, 'a) io" where
  "throw e w = (Err e, w)"

definition and_then :: "('w, 'e, 'a) io \<Rightarrow> ('a \<Rightarrow> ('w, 'e, 'b) io) \<Rightarrow> ('w, 'e, 'b) io" where
  "and_then m f w = (case m w of (r, w') \<Rightarrow> (case r of Inl e \<Rightarrow> (Err e, w') | Inr a \<Rightarrow> f a w'))"

definition attempt :: "('w, 'e, 'a) io \<Rightarrow> ('w, 'f, 'e + 'a) io" where
  "attempt m w = (case m w of (r, w') \<Rightarrow> (Ok r, w'))"

definition map_err :: "('e \<Rightarrow> 'f) \<Rightarrow> ('w, 'e, 'a) io \<Rightarrow> ('w, 'f, 'a) io" where
  "map_err g m w = (case m w of (r, w') \<Rightarrow> (case r of Inl e \<Rightarrow> (Err (g e), w') | Inr a \<Rightarrow> (Ok a, w')))"

definition modify :: "('w \<Rightarrow> 'w) \<Rightarrow> ('w, 'e, unit) io" where
  "modify f w = (Ok (), f w)"

definition from_result :: "'e + 'a \<Rightarrow> ('w, 'e, 'a) io" where
  "from_result r w = (r, w)"

fun for_each :: "('a \<Rightarrow> ('w, 'e, unit) io) \<Rightarrow> 'a list \<Rightarrow> ('w, 'e, unit) io" where
  "for_each f [] = ret ()"
| "for_each f (x # xs) = and_then (f x) (\<lambda>_. for_each f xs)"

lemmas io_defs = ret_def throw_def and_then_def attempt_def map_err_def modify_def from_result_def

lemma and_then_ret [simp]: "and_then (ret a) f = f a"
  by (rule ext) (simp add: io_defs)

lemma and_then_throw [simp]: "and_then (throw e) f = throw e"
  by (rule ext) (simp add: io_defs)

lemma and_then_assoc: "and_then (and_then m f) g = and_then m (\<lambda>a. and_then (f a) g)"
  by (rule ext) (simp add: and_then_def split: prod.splits sum.splits)

lemma and_then_OkE:
  assumes "and_then m f w = (Ok b, w'')"
  obtains a w' where "m w = (Ok a, w')" and "f a w' = (Ok b, w'')"
  using assms by (auto simp: and_then_def split: prod.splits sum.splits)

definition preserves :: "('w \<Rightarrow> bool) \<Rightarrow> ('w, 'e, 'a) io \<Rightarrow> bool" where
  "preserves P m = (\<forall>w. P w \<longrightarrow> P (snd (m w)))"

lemma preservesI: "(\<And>w. P w \<Longrightarrow> P (snd (m w))) \<Longrightarrow> preserves P m"
  by (simp add: preserves_def)

lemma preservesD: "preserves P m \<Longrightarrow> P w \<Longrightarrow> P (snd (m w))"
  by (simp add: preserves_def)

lemma preserves_ret [intro, simp]: "preserves P (ret a)"
  by (simp add: preserves_def ret_def)

lemma preserves_throw [intro, simp]: "preserves P (throw e)"
  by (simp add: preserves_def throw_def)

lemma preserves_from_result [intro, simp]: "preserves P (from_result r)"
  by (simp add: preserves_def from_result_def)

lemma preserves_and_then [intro]:
  assumes "preserves P m" and "\<And>a. preserves P (f a)"
  shows "preserves P (and_then m f)"
  using assms by (fastforce simp: preserves_def and_then_def split: prod.splits sum.splits)

lemma preserves_attempt [intro]: "preserves P m \<Longrightarrow> preserves P (attempt m)"
  by (simp add: preserves_def attempt_def case_prod_unfold)

lemma preserves_map_err [intro]: "preserves P m \<Longrightarrow> preserves P (map_err g m)"
  by (auto simp: preserves_def map_err_def case_prod_unfold split: sum.splits)

lemma preserves_modify: "(\<And>w. P w \<Longrightarrow> P (f w)) \<Longrightarrow> preserves P (modify f)"
  by (simp add: preserves_def modify_def)

lemma preserves_for_each: "(\<And>x. preserves P (f x)) \<Longrightarrow> preserves P (for_each f xs)"
  by (induction xs) auto

subsection \<open>Bounded channels\<close>

text \<open>
  A channel of \<open>tokio::sync::mpsc\<close>: the messages sent and not yet received, oldest first, its
  capacity (\<open>None\<close> for an unbounded one) and whether the receiver still exists. \<open>send\<close> on a full
  channel does not return (\<open>Would_Block\<close>) until the receiver takes a message.
\<close>

datatype send_outcome = Sent | Closed | Would_Block

record 'a chan =
  ch_queue :: "'a list"
  ch_cap :: "nat option"
  ch_open :: bool

definition chan_full :: "'a chan \<Rightarrow> bool" where
  "chan_full c = (case ch_cap c of None \<Rightarrow> False | Some n \<Rightarrow> n \<le> length (ch_queue c))"

definition chan_send :: "'a \<Rightarrow> 'a chan \<Rightarrow> send_outcome \<times> 'a chan" where
  "chan_send x c =
     (if \<not> ch_open c then (Closed, c)
      else if chan_full c then (Would_Block, c)
      else (Sent, c\<lparr>ch_queue := ch_queue c @ [x]\<rparr>))"

definition chan_recv :: "'a chan \<Rightarrow> 'a option \<times> 'a chan" where
  "chan_recv c = (case ch_queue c of [] \<Rightarrow> (None, c) | x # xs \<Rightarrow> (Some x, c\<lparr>ch_queue := xs\<rparr>))"

definition chan_wf :: "'a chan \<Rightarrow> bool" where
  "chan_wf c = (case ch_cap c of None \<Rightarrow> True | Some n \<Rightarrow> length (ch_queue c) \<le> n)"

lemma chan_wf_send [simp]: "chan_wf c \<Longrightarrow> chan_wf (snd (chan_send x c))"
  by (auto simp: chan_wf_def chan_send_def chan_full_def split: option.splits)

lemma chan_wf_recv [simp]: "chan_wf c \<Longrightarrow> chan_wf (snd (chan_recv c))"
  by (auto simp: chan_wf_def chan_recv_def split: option.splits list.splits)

text \<open>The contract of a FIFO pool of identifiers, with what its clients rely on.\<close>

locale id_pool =
  fixes alloc :: "'p \<Rightarrow> 'i option \<times> 'p"
    and release :: "'i \<Rightarrow> 'p \<Rightarrow> 'p"
    and free :: "'p \<Rightarrow> 'i list"
  assumes alloc_empty: "free p = [] \<Longrightarrow> alloc p = (None, p)"
    and alloc_front: "free p = i # is \<Longrightarrow> fst (alloc p) = Some i \<and> free (snd (alloc p)) = is"
    and free_release: "free (release i p) = free p @ [i]"
begin

lemma alloc_None_iff: "fst (alloc p) = None \<longleftrightarrow> free p = []"
  using alloc_empty alloc_front by (cases "free p") auto

lemma alloc_mset:
  assumes "fst (alloc p) = Some i"
  shows "add_mset i (mset (free (snd (alloc p)))) = mset (free p)"
  using assms alloc_empty [of p] alloc_front [of p] by (cases "free p") auto

lemma alloc_fresh:
  assumes "fst (alloc p) = Some i" and "distinct (free p)"
  shows "i \<in> set (free p)" and "i \<notin> set (free (snd (alloc p)))"
    and "distinct (free (snd (alloc p)))"
  using assms alloc_empty [of p] alloc_front [of p] by (cases "free p"; auto)+

lemma released_is_last: "free p \<noteq> [] \<Longrightarrow> fst (alloc (release i p)) = fst (alloc p)"
  using alloc_front [of p] alloc_front [of "release i p"] by (cases "free p") (auto simp: free_release)

end

subsection \<open>Runs of a component\<close>

text \<open>
  A component driven by a sequence of events, and an invariant of it. Every component whose
  operations are functions of the event and the state is an instance: what holds initially and
  is preserved by one event (when the event's guard holds) holds after every run.
\<close>

locale machine =
  fixes step :: "'e \<Rightarrow> 's \<Rightarrow> 's"
    and guard :: "'e \<Rightarrow> 's \<Rightarrow> bool"
    and inv :: "'s \<Rightarrow> bool"
  assumes step_inv: "inv s \<Longrightarrow> guard e s \<Longrightarrow> inv (step e s)"
begin

primrec guarded :: "'e list \<Rightarrow> 's \<Rightarrow> bool" where
  "guarded [] s = True"
| "guarded (e # es) s = (guard e s \<and> guarded es (step e s))"

lemma run_inv: "inv s \<Longrightarrow> guarded es s \<Longrightarrow> inv (fold step es s)"
  by (induction es arbitrary: s) (auto simp: step_inv)

lemma guarded_append: "guarded (es @ fs) s \<longleftrightarrow> guarded es s \<and> guarded fs (fold step es s)"
  by (induction es arbitrary: s) auto

lemma guarded_UNIV: "(\<And>e s. guard e s) \<Longrightarrow> guarded es s"
  by (induction es arbitrary: s) auto

end

text \<open>The same for a step relation: an invariant of every reachable state.\<close>

locale transition_system =
  fixes init :: "'s \<Rightarrow> bool"
    and trans :: "'s \<Rightarrow> 's \<Rightarrow> bool"
    and inv :: "'s \<Rightarrow> bool"
  assumes init_inv: "init s \<Longrightarrow> inv s"
    and trans_inv: "inv s \<Longrightarrow> trans s s' \<Longrightarrow> inv s'"
begin

lemma steps_inv: "trans\<^sup>*\<^sup>* s s' \<Longrightarrow> inv s \<Longrightarrow> inv s'"
  by (induction rule: rtranclp_induct) (auto intro: trans_inv)

lemma reachable_inv: "init s \<Longrightarrow> trans\<^sup>*\<^sup>* s s' \<Longrightarrow> inv s'"
  using steps_inv init_inv by blast

end

end
