(* ===== verification/Texts.thy ===== *)
theory Texts
  imports Prelude "HOL-Library.Char_ord" "HOL-Library.List_Lexorder"
begin

section \<open>Strings: searching, splitting, numbers as text\<close>

text \<open>
  The operations of Rust's \<open>str\<close> that the program uses, on ASCII strings (char lists), and the
  decimal and hexadecimal rendering of its \<open>format!\<close> calls with the matching parsers.
\<close>

subsection \<open>Prefixes, suffixes, trimming\<close>

fun strip_prefix :: "string \<Rightarrow> string \<Rightarrow> string option" where
  "strip_prefix [] s = Some s"
| "strip_prefix (p # ps) [] = None"
| "strip_prefix (p # ps) (c # s) = (if p = c then strip_prefix ps s else None)"

definition starts_with :: "string \<Rightarrow> string \<Rightarrow> bool" where
  "starts_with s p = (strip_prefix p s \<noteq> None)"

definition strip_suffix :: "string \<Rightarrow> string \<Rightarrow> string option" where
  "strip_suffix p s = map_option rev (strip_prefix (rev p) (rev s))"

definition ends_with :: "string \<Rightarrow> string \<Rightarrow> bool" where
  "ends_with s p = (strip_suffix p s \<noteq> None)"

lemma strip_prefix_Some [simp]: "strip_prefix p s = Some r \<longleftrightarrow> s = p @ r"
  by (induction p s rule: strip_prefix.induct) auto

lemma strip_prefix_append [simp]: "strip_prefix p (p @ r) = Some r"
  by simp

lemma strip_prefix_None: "strip_prefix p s = None \<longleftrightarrow> (\<nexists>r. s = p @ r)"
  by (metis not_Some_eq strip_prefix_Some)

lemma starts_with_iff: "starts_with s p \<longleftrightarrow> (\<exists>r. s = p @ r)"
  by (simp add: starts_with_def strip_prefix_None)

lemma strip_suffix_Some [simp]: "strip_suffix p s = Some r \<longleftrightarrow> s = r @ p"
  by (auto simp: strip_suffix_def rev_swap)

lemma ends_with_iff: "ends_with s p \<longleftrightarrow> (\<exists>r. s = r @ p)"
  unfolding ends_with_def by (metis not_Some_eq strip_suffix_Some)

function trim_start_matches :: "string \<Rightarrow> string \<Rightarrow> string" where
  "trim_start_matches p s =
     (if p = [] then s
      else case strip_prefix p s of None \<Rightarrow> s | Some r \<Rightarrow> trim_start_matches p r)"
  by auto
termination
  by (relation "measure (\<lambda>(p, s). length s)") auto

declare trim_start_matches.simps [simp del, code del]

lemma trim_start_matches_code [code]:
  "trim_start_matches p s =
     (if p = [] \<or> \<not> starts_with s p then s else trim_start_matches p (drop (length p) s))"
  by (subst trim_start_matches.simps) (auto simp: starts_with_def split: option.splits)

definition trim_end_matches :: "string \<Rightarrow> string \<Rightarrow> string" where
  "trim_end_matches p s = rev (trim_start_matches (rev p) (rev s))"

lemma trim_start_matches_step:
  "p \<noteq> [] \<Longrightarrow> trim_start_matches p (p @ s) = trim_start_matches p s"
  by (subst trim_start_matches.simps) simp

lemma trim_start_matches_none: "\<not> starts_with s p \<Longrightarrow> trim_start_matches p s = s"
  by (subst trim_start_matches.simps) (simp add: starts_with_def split: option.splits)

lemma trim_start_matches_stops:
  "p \<noteq> [] \<Longrightarrow> \<not> starts_with (trim_start_matches p s) p"
proof (induction p s rule: trim_start_matches.induct)
  case (1 p s)
  show ?case
  proof (cases "strip_prefix p s")
    case None
    then show ?thesis by (subst trim_start_matches.simps) (simp add: "1.prems" starts_with_def)
  next
    case (Some r)
    then have "trim_start_matches p s = trim_start_matches p r"
      by (subst trim_start_matches.simps) (simp add: "1.prems")
    with "1.IH" [OF _ Some] "1.prems" show ?thesis by simp
  qed
qed

lemma trim_end_matches_step:
  "p \<noteq> [] \<Longrightarrow> trim_end_matches p (s @ p) = trim_end_matches p s"
  by (simp add: trim_end_matches_def trim_start_matches_step)

lemma trim_end_matches_none: "\<not> ends_with s p \<Longrightarrow> trim_end_matches p s = s"
  by (simp add: trim_end_matches_def ends_with_def strip_suffix_def trim_start_matches_none
      starts_with_def)

fun contains :: "string \<Rightarrow> string \<Rightarrow> bool" where
  "contains s p = (starts_with s p \<or> (case s of [] \<Rightarrow> False | c # cs \<Rightarrow> contains cs p))"

declare contains.simps [simp del]

definition is_space :: "char \<Rightarrow> bool" where
  "is_space c = (c = CHR '' '' \<or> (9 \<le> (of_char c :: nat) \<and> (of_char c :: nat) \<le> 13))"

definition trim :: "string \<Rightarrow> string" where
  "trim s = rev (dropWhile is_space (rev (dropWhile is_space s)))"

definition to_lower :: "char \<Rightarrow> char" where
  "to_lower c = (if 65 \<le> (of_char c :: nat) \<and> (of_char c :: nat) \<le> 90
                 then char_of ((of_char c :: nat) + 32) else c)"

definition to_lowercase :: "string \<Rightarrow> string" where
  "to_lowercase s = map to_lower s"

lemma trim_id: "\<forall>c \<in> set s. \<not> is_space c \<Longrightarrow> trim s = s"
proof -
  assume *: "\<forall>c \<in> set s. \<not> is_space c"
  have "dropWhile is_space w = w" if "\<forall>c \<in> set w. \<not> is_space c" for w
    using that by (cases w) auto
  from this [of s] this [of "rev s"] * show ?thesis by (simp add: trim_def)
qed

subsection \<open>Splitting and joining\<close>

fun split_with :: "(char \<Rightarrow> bool) \<Rightarrow> string \<Rightarrow> string list" where
  "split_with P [] = [[]]"
| "split_with P (c # s) =
     (if P c then [] # split_with P s
      else case split_with P s of [] \<Rightarrow> [[c]] | w # ws \<Rightarrow> (c # w) # ws)"

definition split_on :: "char \<Rightarrow> string \<Rightarrow> string list" where
  "split_on c = split_with (\<lambda>x. x = c)"

definition split_whitespace :: "string \<Rightarrow> string list" where
  "split_whitespace s = filter (\<lambda>w. w \<noteq> []) (split_with is_space s)"

fun join_with :: "string \<Rightarrow> string list \<Rightarrow> string" where
  "join_with sep [] = []"
| "join_with sep [w] = w"
| "join_with sep (w # ws) = w @ sep @ join_with sep ws"

lemma split_with_not_Nil [simp]: "split_with P s \<noteq> []"
  by (induction s) (auto split: list.splits)

lemma split_with_free: "\<forall>c \<in> set w. \<not> P c \<Longrightarrow> split_with P w = [w]"
  by (induction w) auto

lemma split_with_append:
  "\<forall>c \<in> set w. \<not> P c \<Longrightarrow> P d \<Longrightarrow> split_with P (w @ d # s) = w # split_with P s"
  by (induction w) auto

lemma split_on_free: "c \<notin> set w \<Longrightarrow> split_on c w = [w]"
  unfolding split_on_def by (rule split_with_free) auto

lemma split_on_append: "c \<notin> set w \<Longrightarrow> split_on c (w @ c # s) = w # split_on c s"
  unfolding split_on_def by (rule split_with_append) auto

lemma split_whitespace_word:
  "w \<noteq> [] \<Longrightarrow> \<forall>c \<in> set w. \<not> is_space c \<Longrightarrow> split_whitespace w = [w]"
  by (simp add: split_whitespace_def split_with_free)

lemma split_whitespace_Cons:
  "w \<noteq> [] \<Longrightarrow> \<forall>c \<in> set w. \<not> is_space c \<Longrightarrow> split_whitespace (w @ CHR '' '' # s) = w # split_whitespace s"
  by (simp add: split_whitespace_def split_with_append is_space_def)

subsection \<open>Decimal numbers\<close>

definition digit_char :: "nat \<Rightarrow> char" where
  "digit_char n = char_of (48 + n)"

definition is_digit :: "char \<Rightarrow> bool" where
  "is_digit c = (48 \<le> (of_char c :: nat) \<and> (of_char c :: nat) \<le> 57)"

definition digit_val :: "char \<Rightarrow> nat" where
  "digit_val c = of_char c - 48"

fun dec_digits :: "nat \<Rightarrow> string" where
  "dec_digits n = (if n < 10 then [digit_char n] else dec_digits (n div 10) @ [digit_char (n mod 10)])"

declare dec_digits.simps [simp del]

fun parse_dec :: "nat \<Rightarrow> string \<Rightarrow> nat option" where
  "parse_dec acc [] = Some acc"
| "parse_dec acc (c # cs) = (if is_digit c then parse_dec (10 * acc + digit_val c) cs else None)"

lemma of_char_digit: "n < 10 \<Longrightarrow> of_char (digit_char n) = 48 + n"
  by (simp add: digit_char_def)

lemma digit_char_simps [simp]:
  "n < 10 \<Longrightarrow> is_digit (digit_char n)" "n < 10 \<Longrightarrow> digit_val (digit_char n) = n"
  by (simp_all add: is_digit_def digit_val_def of_char_digit)

lemma parse_dec_append:
  "parse_dec acc (xs @ ys) = Option.bind (parse_dec acc xs) (\<lambda>a. parse_dec a ys)"
  by (induction acc xs rule: parse_dec.induct) auto

lemma parse_dec_digits: "parse_dec 0 (dec_digits n) = Some n"
proof (induction n rule: dec_digits.induct)
  case (1 n)
  then show ?case
    by (subst dec_digits.simps) (simp add: parse_dec_append)
qed

lemma dec_digits_not_Nil [simp]: "dec_digits n \<noteq> []"
  by (subst dec_digits.simps) simp

lemma dec_digits_digits: "c \<in> set (dec_digits n) \<Longrightarrow> is_digit c"
proof (induction n rule: dec_digits.induct)
  case (1 n)
  from "1.prems" show ?case
    by (subst (asm) dec_digits.simps) (auto split: if_splits dest: "1.IH")
qed

lemma dec_digits_inj: "dec_digits m = dec_digits n \<Longrightarrow> m = n"
  by (metis option.inject parse_dec_digits)

text \<open>\<open>str::parse\<close> for an unsigned integer of \<open>w\<close> bits: an optional \<open>+\<close>, at least one digit, in range.\<close>

definition parse_uint :: "nat \<Rightarrow> string \<Rightarrow> nat option" where
  "parse_uint w s =
     (let ds = (case s of [] \<Rightarrow> [] | c # cs \<Rightarrow> if c = CHR ''+'' then cs else s)
      in if ds = [] then None
         else case parse_dec 0 ds of None \<Rightarrow> None | Some n \<Rightarrow> if n < 2 ^ w then Some n else None)"

definition parse_u32 :: "string \<Rightarrow> u32 option" where
  "parse_u32 s = map_option of_nat (parse_uint 32 s)"

lemma plus_not_digit: "\<not> is_digit (CHR ''+'')"
  by (simp add: is_digit_def)

lemma parse_uint_digits:
  assumes "n < 2 ^ w"
  shows "parse_uint w (dec_digits n) = Some n"
proof -
  obtain c cs where d: "dec_digits n = c # cs"
    by (cases "dec_digits n") simp_all
  then have "is_digit c" using dec_digits_digits [of c n] by simp
  then have "c \<noteq> CHR ''+''" using plus_not_digit by auto
  moreover have "parse_dec 0 (c # cs) = Some n"
    using parse_dec_digits [of n] d by simp
  ultimately show ?thesis
    using assms d by (simp add: parse_uint_def Let_def del: parse_dec.simps)
qed

lemma parse_u32_digits: "unat (n :: u32) = m \<Longrightarrow> parse_u32 (dec_digits m) = Some n"
  using parse_uint_digits [of m 32] unsigned_less [of n, where ?'a = nat]
  by (auto simp: parse_u32_def)

subsection \<open>Fixed-width hexadecimal\<close>

definition hex_char :: "nat \<Rightarrow> char" where
  "hex_char n = (if n < 10 then char_of (48 + n) else char_of (87 + n))"

primrec hexw :: "nat \<Rightarrow> nat \<Rightarrow> string" where
  "hexw 0 n = []"
| "hexw (Suc k) n = hexw k (n div 16) @ [hex_char (n mod 16)]"

lemma length_hexw [simp]: "length (hexw k n) = k"
  by (induction k arbitrary: n) simp_all

lemma hex_char_less: "m < 16 \<Longrightarrow> n < 16 \<Longrightarrow> hex_char m < hex_char n \<longleftrightarrow> m < n"
  by (auto simp: hex_char_def less_char_def)

lemma hex_char_inj: "m < 16 \<Longrightarrow> n < 16 \<Longrightarrow> hex_char m = hex_char n \<longleftrightarrow> m = n"
  using hex_char_less [of m n] hex_char_less [of n m] by (metis less_irrefl nat_neq_iff)

lemma snoc_less_snoc:
  fixes xs ys :: "'a::linorder list"
  shows "length xs = length ys \<Longrightarrow> xs @ [a] < ys @ [b] \<longleftrightarrow> xs < ys \<or> (xs = ys \<and> a < b)"
  by (induction xs ys rule: list_induct2) auto

lemma less_div_mod:
  "(m::nat) < n \<longleftrightarrow> m div 16 < n div 16 \<or> (m div 16 = n div 16 \<and> m mod 16 < n mod 16)"
proof -
  have "m = 16 * (m div 16) + m mod 16" "n = 16 * (n div 16) + n mod 16"
    "m mod 16 < 16" "n mod 16 < 16" by simp_all
  then show ?thesis
    by (cases "m div 16" "n div 16" rule: linorder_cases) linarith+
qed

lemma hexw_less:
  "m < 16 ^ k \<Longrightarrow> n < 16 ^ k \<Longrightarrow> hexw k m < hexw k n \<longleftrightarrow> m < n"
proof (induction k arbitrary: m n)
  case 0
  then show ?case by simp
next
  case (Suc k)
  have IH: "hexw k (m div 16) < hexw k (n div 16) \<longleftrightarrow> m div 16 < n div 16"
    and IH': "hexw k (n div 16) < hexw k (m div 16) \<longleftrightarrow> n div 16 < m div 16"
    using Suc.prems by (auto intro!: Suc.IH simp: less_mult_imp_div_less mult.commute)
  have eq: "hexw k (m div 16) = hexw k (n div 16) \<longleftrightarrow> m div 16 = n div 16"
    using IH IH' by (metis less_irrefl nat_neq_iff)
  have "m < n \<longleftrightarrow> m div 16 < n div 16 \<or> (m div 16 = n div 16 \<and> m mod 16 < n mod 16)"
    using less_div_mod by blast
  moreover have "hex_char (m mod 16) < hex_char (n mod 16) \<longleftrightarrow> m mod 16 < n mod 16"
    by (simp add: hex_char_less)
  ultimately show ?case
    unfolding hexw.simps using IH eq snoc_less_snoc [OF trans [OF length_hexw length_hexw [symmetric]]]
    by metis
qed

lemma hexw_inj: "m < 16 ^ k \<Longrightarrow> n < 16 ^ k \<Longrightarrow> hexw k m = hexw k n \<Longrightarrow> m = n"
  using hexw_less [of m k n] hexw_less [of n k m] by (metis less_irrefl nat_neq_iff)

subsection \<open>Replacement\<close>

text \<open>\<open>str::replace\<close>: every occurrence from the left, without overlap. The pattern is not empty.\<close>

function replace_all :: "string \<Rightarrow> string \<Rightarrow> string \<Rightarrow> string" where
  "replace_all p q s =
     (if p = [] then s
      else case strip_prefix p s of
             Some r \<Rightarrow> q @ replace_all p q r
           | None \<Rightarrow> (case s of [] \<Rightarrow> [] | c # cs \<Rightarrow> c # replace_all p q cs))"
  by auto
termination
  by (relation "measure (\<lambda>(p, q, s). length s)") auto

declare replace_all.simps [simp del]

end
