(* ===== verification/External.thy ===== *)
theory External
  imports Texts
begin

section \<open>Operations on the outside world\<close>

text \<open>
  System calls and external commands: the world keeps the operations performed, oldest first,
  and answers each by a function of its position and of the operation, so that the same command
  can answer differently the second time. Statements for every answering function cover every
  behaviour of the outside.
\<close>

record ('op, 'r) ext =
  ext_log :: "'op list"
  ext_reply :: "nat \<Rightarrow> 'op \<Rightarrow> 'r"

definition perform :: "'op \<Rightarrow> (('op, 'r) ext, 'e, 'r) io" where
  "perform op w = (Ok (ext_reply w (length (ext_log w)) op), w\<lparr>ext_log := ext_log w @ [op]\<rparr>)"

definition ext_new :: "(nat \<Rightarrow> 'op \<Rightarrow> 'r) \<Rightarrow> ('op, 'r) ext" where
  "ext_new reply = \<lparr>ext_log = [], ext_reply = reply\<rparr>"

text \<open>An operation that answers only success or failure, with the error it is turned into.\<close>

definition perform_or :: "'e \<Rightarrow> 'op \<Rightarrow> (('op, bool) ext, 'e, unit) io" where
  "perform_or e op = and_then (perform op) (\<lambda>b. if b then ret () else throw e)"

text \<open>The operations of a world with their answers.\<close>

definition answered :: "('op, 'r) ext \<Rightarrow> ('op \<times> 'r) list" where
  "answered w = map (\<lambda>n. (ext_log w ! n, ext_reply w n (ext_log w ! n))) [0..<length (ext_log w)]"

lemma answered_new [simp]: "answered (ext_new reply) = []"
  by (simp add: answered_def ext_new_def)

lemma answered_perform:
  "answered (snd (perform op w)) = answered w @ [(op, ext_reply w (length (ext_log w)) op)]"
proof -
  have "map (\<lambda>n. ((ext_log w @ [op]) ! n, ext_reply w n ((ext_log w @ [op]) ! n)))
      [0..<length (ext_log w)] = answered w"
    unfolding answered_def by (rule map_cong) (simp_all add: nth_append)
  then show ?thesis by (simp add: answered_def perform_def)
qed

lemma fst_perform: "fst (perform op w) = Ok (ext_reply w (length (ext_log w)) op)"
  by (simp add: perform_def)

text \<open>
  The one rule needed to reason about a sequence of operations: what is added to the answered
  operations, and with which result.
\<close>

definition trace ::
    "(('op, 'r) ext, 'e, 'a) io \<Rightarrow> ('op, 'r) ext \<Rightarrow> ('op \<times> 'r) list \<Rightarrow> ('e + 'a) \<Rightarrow> bool" where
  "trace m w t r = (fst (m w) = r \<and> answered (snd (m w)) = answered w @ t)"

lemma trace_ret: "trace (ret a) w [] (Ok a)"
  by (simp add: trace_def ret_def)

lemma trace_throw: "trace (throw e) w [] (Err e)"
  by (simp add: trace_def throw_def)

lemma trace_perform: "trace (perform op) w [(op, ext_reply w (length (ext_log w)) op)]
    (Ok (ext_reply w (length (ext_log w)) op))"
  by (simp add: trace_def answered_perform fst_perform)

lemma trace_and_then:
  assumes "trace m w t (Ok a)" and "trace (f a) (snd (m w)) t' r"
  shows "trace (and_then m f) w (t @ t') r"
  using assms by (cases "m w") (auto simp: trace_def and_then_def)

lemma trace_and_then_Err:
  assumes "trace m w t (Err e)"
  shows "trace (and_then m f) w t (Err e)"
  using assms by (cases "m w") (auto simp: trace_def and_then_def)

text \<open>
  What every run of an operation adds to the answered operations, given whether it succeeded.
\<close>

definition emits ::
    "(bool \<Rightarrow> ('op \<times> 'r) list \<Rightarrow> bool) \<Rightarrow> (('op, 'r) ext, 'e, 'a) io \<Rightarrow> bool" where
  "emits R m = (\<forall>w. \<exists>t. answered (snd (m w)) = answered w @ t \<and> R (is_ok (fst (m w))) t)"

abbreviation emits_only :: "('op \<Rightarrow> bool) \<Rightarrow> (('op, 'r) ext, 'e, 'a) io \<Rightarrow> bool" where
  "emits_only P \<equiv> emits (\<lambda>_. list_all (\<lambda>p. P (fst p)))"

lemma emitsE:
  assumes "emits R m" and "m w = (r, w')"
  obtains t where "answered w' = answered w @ t" and "R (is_ok r) t"
  using assms by (fastforce simp: emits_def dest: spec [of _ w])

lemma emits_mono: "emits P m \<Longrightarrow> (\<And>b t. P b t \<Longrightarrow> R b t) \<Longrightarrow> emits R m"
  by (fastforce simp: emits_def)

lemma emits_and_then:
  assumes "emits P m" and "\<And>a. emits Q (f a)"
    and "\<And>t. P False t \<Longrightarrow> R False t" and "\<And>b t u. P True t \<Longrightarrow> Q b u \<Longrightarrow> R b (t @ u)"
  shows "emits R (and_then m f)"
  unfolding emits_def
proof
  fix w
  obtain r w' where m: "m w = (r, w')" by (cases "m w")
  obtain t where t: "answered w' = answered w @ t" "P (is_ok r) t" using emitsE [OF assms(1) m] .
  show "\<exists>t. answered (snd (and_then m f w)) = answered w @ t \<and> R (is_ok (fst (and_then m f w))) t"
  proof (cases r)
    case (Inl e)
    then show ?thesis using t assms(3) by (auto simp: and_then_def m)
  next
    case (Inr a)
    obtain r' w'' where f: "f a w' = (r', w'')" by (cases "f a w'")
    obtain u where "answered w'' = answered w' @ u" "Q (is_ok r') u" using emitsE [OF assms(2) f] .
    then show ?thesis using t assms(4) Inr by (auto simp: and_then_def m f)
  qed
qed

lemma emits_only_and_then:
  "emits_only P m \<Longrightarrow> (\<And>a. emits_only P (f a)) \<Longrightarrow> emits_only P (and_then m f)"
  by (erule emits_and_then) auto

lemma emits_only_ret: "emits_only P (ret a)" "emits_only P (throw e)"
  by (simp_all add: emits_def ret_def throw_def)

lemma emits_only_perform: "P op \<Longrightarrow> emits_only P (perform op)"
  by (simp add: emits_def answered_perform)

lemma emits_only_for_each: "(\<And>x. x \<in> set xs \<Longrightarrow> emits_only P (f x)) \<Longrightarrow> emits_only P (for_each f xs)"
  by (induction xs) (simp_all add: emits_only_ret emits_only_and_then)

lemmas emits_only_intros = emits_only_and_then emits_only_ret emits_only_perform emits_only_for_each

lemma answered_extend:
  "\<exists>t. answered (w\<lparr>ext_log := ext_log w @ ops\<rparr>) = answered w @ t \<and> map fst t = ops"
proof (induction ops rule: rev_induct)
  case (snoc op ops)
  then obtain t where t: "answered (w\<lparr>ext_log := ext_log w @ ops\<rparr>) = answered w @ t" "map fst t = ops"
    by blast
  let ?w = "w\<lparr>ext_log := ext_log w @ ops\<rparr>" and ?w' = "w\<lparr>ext_log := ext_log w @ ops @ [op]\<rparr>"
  have "answered ?w' = answered ?w @ [(op, ext_reply ?w (length (ext_log ?w)) op)]"
    using answered_perform [of op ?w] by (simp add: perform_def)
  then have "answered ?w' = answered w @ t @ [(op, ext_reply ?w (length (ext_log ?w)) op)]"
    using t(1) by simp
  then show ?case using t(2) by (intro exI conjI) (assumption, simp)
qed simp

subsection \<open>Commands\<close>

record cmd_output =
  co_success :: bool
  co_stdout :: string
  co_stderr :: string

text \<open>A command line with its standard input; \<open>None\<close> when the command could not be executed.\<close>

datatype command = Command "string list" string

type_synonym 'a shell = "((command, cmd_output option) ext, string, 'a) io"

definition run_command :: "string \<Rightarrow> string list \<Rightarrow> string \<Rightarrow> cmd_output shell" where
  "run_command context argv stdin =
     and_then (perform (Command argv stdin))
       (\<lambda>r. case r of None \<Rightarrow> throw context | Some out \<Rightarrow> ret out)"

end
