(* ===== verification/Protocol.thy ===== *)
theory Protocol
  imports Texts
begin

section \<open>The runner protocol: runner/src/protocol.rs and runner/src/vm.rs\<close>

text \<open>
  The data every part of the system exchanges: platforms and virtual machine sizes, the job
  configuration a guest receives, the messages between host and guest over vsock, the messages
  between the backend and a runner over its websocket, and the status of a job. The JSON form of
  these types is derived by serde, which is not part of the repository; where a component reads
  or writes JSON its codec is an argument.
\<close>

subsection \<open>Platforms and machines\<close>

datatype platform = X86_64Linux | AArch64Darwin

datatype target_os = Linux | Macos | Other_Os

text \<open>\<open>Platform::current\<close>; \<open>None\<close> is the panic on an unsupported system.\<close>

fun platform_current :: "target_os \<Rightarrow> platform option" where
  "platform_current Linux = Some X86_64Linux"
| "platform_current Macos = Some AArch64Darwin"
| "platform_current Other_Os = None"

fun platform_display :: "platform \<Rightarrow> string" where
  "platform_display X86_64Linux = ''x86_64-linux''"
| "platform_display AArch64Darwin = ''aarch64-darwin''"

definition platform_from_str :: "string \<Rightarrow> string + platform" where
  "platform_from_str s =
     (if s = ''x86_64-linux'' then Ok X86_64Linux
      else if s = ''aarch64-darwin'' then Ok AArch64Darwin
      else Err (''Unknown platform: '' @ s))"

lemma platform_from_str_display [simp]: "platform_from_str (platform_display p) = Ok p"
  by (cases p) (simp_all add: platform_from_str_def)

lemma platform_from_str_Ok: "platform_from_str s = Ok p \<longleftrightarrow> s = platform_display p"
  by (cases p) (auto simp: platform_from_str_def)

record vm =
  vm_cpu_count :: usize
  vm_memory_size_mb :: u64
  vm_platform :: platform

subsection \<open>Jobs\<close>

record job_config =
  jc_id :: uuid
  jc_project_url :: string
  jc_git_ref :: "string option"
  jc_tasks :: "string list"
  jc_cachix_push :: bool
  jc_clone_depth :: "u32 option"

datatype completion_status = Failed | Success | Cancelled | TimedOut | Skipped

datatype job_status = Queued | Running | Complete completion_status

fun is_complete :: "job_status \<Rightarrow> bool" where
  "is_complete (Complete c) = True"
| "is_complete Queued = False"
| "is_complete Running = False"

lemma is_complete_iff: "is_complete s \<longleftrightarrow> (\<exists>c. s = Complete c)"
  by (cases s) auto

text \<open>\<open>VmExitStatus\<close> and its conversion (runner/src/vm.rs).\<close>

datatype vm_exit_status = Exit_Success | Exit_Failure

fun completion_of_exit :: "vm_exit_status \<Rightarrow> completion_status" where
  "completion_of_exit Exit_Success = Success"
| "completion_of_exit Exit_Failure = Failed"

subsection \<open>Messages\<close>

definition CONFIG_VSOCK_PORT :: u32 where
  "CONFIG_VSOCK_PORT = 1234"

datatype vsock_host_message = Host_Job_Config job_config

datatype vsock_guest_message =
    Guest_Ready uuid
  | Guest_Complete uuid bool
  | Guest_Log uuid string string string "(string, string) hmap"

fun guest_message_id :: "vsock_guest_message \<Rightarrow> uuid" where
  "guest_message_id (Guest_Ready i) = i"
| "guest_message_id (Guest_Complete i _) = i"
| "guest_message_id (Guest_Log i _ _ _ _) = i"

datatype server_message =
    NewJobAvailable uuid vm
  | JobClaimed uuid vm string
  | JobTimedOut uuid
  | JobCancelled uuid

text \<open>
  The two utilization figures are \<open>f32\<close> values. They are kept as the expression the program
  evaluates: floating-point rounding is not modelled.
\<close>

datatype f32 = F_Zero | F_Hundred | F_Of_Usize usize | F_Of_U64 u64 | F_Div f32 f32 | F_Mul f32 f32

record runner_metrics =
  rmx_platform :: platform
  rmx_cpu_count :: usize
  rmx_memory_size_mb :: usize
  rmx_used_cpu_count :: usize
  rmx_used_memory_mb :: u64
  rmx_cpu_utilization_percent :: f32
  rmx_memory_utilization_percent :: f32
  rmx_active_jobs :: usize
  rmx_queued_jobs :: usize
  rmx_running_jobs :: usize
  rmx_max_instances :: "usize option"

datatype client_message =
    ClaimJob uuid vm
  | UpdateJobStatus uuid job_status
  | RequestJob
  | ReportMetrics runner_metrics

end
