(* ===== verification/Resources.thy ===== *)
theory Resources
  imports Protocol Texts
begin

section \<open>Resource accounting: runner/src/resource_manager.rs\<close>

text \<open>
  The CPU, memory and instance accounting of a runner and its pools of IP addresses and vsock
  context identifiers, with the guards that give them back. Each method takes one lock for its
  whole body, so it is one atomic step. Dropping a guard spawns a task that releases what the
  guard held; the model keeps those tasks in a list and runs them in any order.
\<close>

subsection \<open>Limits and accounting\<close>

datatype rejection_reason =
    InsufficientCPU usize usize
  | InsufficientMemory u64 u64
  | InstanceLimitReached usize usize

fun rejection_display :: "rejection_reason \<Rightarrow> string" where
  "rejection_display (InsufficientCPU required available) =
     ''Insufficient CPU: required '' @ dec_digits (unat required)
       @ '', available '' @ dec_digits (unat available)"
| "rejection_display (InsufficientMemory required available) =
     ''Insufficient memory: required '' @ dec_digits (unat (required div (1024 * 1024)))
       @ ''MB, available '' @ dec_digits (unat (available div (1024 * 1024))) @ ''MB''"
| "rejection_display (InstanceLimitReached current limit) =
     ''Instance limit reached: '' @ dec_digits (unat current) @ ''/'' @ dec_digits (unat limit)"

record resource_state =
  allocated_cpus :: usize
  allocated_memory :: u64
  alloc_jobs :: "(uuid, vm) hmap"

definition resource_state_new :: resource_state where
  "resource_state_new = \<lparr>allocated_cpus = 0, allocated_memory = 0, alloc_jobs = []\<rparr>"

record resource_limits =
  max_cpus :: usize
  max_memory_bytes :: u64
  max_instances :: "usize option"

definition check_limits ::
    "resource_state \<Rightarrow> usize \<Rightarrow> u64 \<Rightarrow> resource_limits \<Rightarrow> rejection_reason option" where
  "check_limits s cpus memory_bytes limits =
     (let total_instances = of_nat (hm_len (alloc_jobs s));
          available_cpus = saturating_sub (max_cpus limits) (allocated_cpus s + 1);
          available_memory =
            saturating_sub (max_memory_bytes limits) (allocated_memory s + 100 * 1024 * 1024);
          rest = (if available_cpus < cpus then Some (InsufficientCPU cpus available_cpus)
                  else if available_memory < memory_bytes
                  then Some (InsufficientMemory memory_bytes available_memory)
                  else None)
      in case max_instances limits of
           Some m \<Rightarrow> if m \<le> total_instances then Some (InstanceLimitReached total_instances m) else rest
         | None \<Rightarrow> rest)"

definition resource_limits_new :: "usize \<Rightarrow> u64 \<Rightarrow> usize option \<Rightarrow> resource_limits" where
  "resource_limits_new cpus mem instances =
     \<lparr>max_cpus = cpus, max_memory_bytes = mem, max_instances = instances\<rparr>"

text \<open>\<open>ResourceLimits::from_system_resources\<close>: one instance on macOS, no limit elsewhere.\<close>

fun from_system_resources :: "target_os \<Rightarrow> usize \<Rightarrow> u64 \<Rightarrow> resource_limits" where
  "from_system_resources Macos cpus mem =
     \<lparr>max_cpus = cpus, max_memory_bytes = mem, max_instances = Some 1\<rparr>"
| "from_system_resources os cpus mem =
     \<lparr>max_cpus = cpus, max_memory_bytes = mem, max_instances = None\<rparr>"

text \<open>\<open>sys_cpus\<close> and \<open>sys_memory\<close> are what \<open>sysinfo\<close> answers.\<close>

definition limits_with_platform_defaults :: "target_os \<Rightarrow> usize \<Rightarrow> u64 \<Rightarrow> resource_limits" where
  "limits_with_platform_defaults os sys_cpus sys_memory =
     \<lparr>max_cpus = sys_cpus, max_memory_bytes = sys_memory,
      max_instances = (if os = Macos then Some 1 else None)\<rparr>"

lemma platform_defaults_are_system_resources:
  "limits_with_platform_defaults os cpus mem = from_system_resources os cpus mem"
  by (cases os) (simp_all add: limits_with_platform_defaults_def)

definition memory_bytes :: "vm \<Rightarrow> u64" where
  "memory_bytes v = vm_memory_size_mb v * 1024 * 1024"

subsection \<open>The resource manager\<close>

datatype ipv4 = Ipv4 u8 u8 u8 u8

record resource_manager =
  rm_limits :: resource_limits
  rm_allocation :: resource_state
  rm_free_ips :: "ipv4 list"
  rm_free_cids :: "u32 list"

definition initial_ips :: "ipv4 list" where
  "initial_ips = map (\<lambda>i. Ipv4 10 0 0 (of_nat i)) [2..<255]"

definition initial_cids :: "u32 list" where
  "initial_cids = map of_nat [3..<1025]"

definition resource_manager_new :: "resource_limits \<Rightarrow> resource_manager" where
  "resource_manager_new limits =
     \<lparr>rm_limits = limits, rm_allocation = resource_state_new,
      rm_free_ips = initial_ips, rm_free_cids = initial_cids\<rparr>"

definition manager_with_platform_defaults :: "target_os \<Rightarrow> usize \<Rightarrow> u64 \<Rightarrow> resource_manager" where
  "manager_with_platform_defaults os sys_cpus sys_memory =
     resource_manager_new (limits_with_platform_defaults os sys_cpus sys_memory)"

definition manager_from_system_resources :: "target_os \<Rightarrow> usize \<Rightarrow> u64 \<Rightarrow> resource_manager" where
  "manager_from_system_resources os cpus mem =
     resource_manager_new (from_system_resources os cpus mem)"

record resource_guard =
  rg_job_id :: "uuid option"
  rg_vm :: "vm option"

definition resource_guard_new :: "uuid \<Rightarrow> vm \<Rightarrow> resource_guard" where
  "resource_guard_new i v = \<lparr>rg_job_id = Some i, rg_vm = Some v\<rparr>"

definition allocate_resources ::
    "uuid \<Rightarrow> vm \<Rightarrow> resource_manager \<Rightarrow> (rejection_reason + resource_guard) \<times> resource_manager" where
  "allocate_resources job_id v rm =
     (let bytes = memory_bytes v; a = rm_allocation rm
      in case check_limits a (vm_cpu_count v) bytes (rm_limits rm) of
           Some reason \<Rightarrow> (Err reason, rm)
         | None \<Rightarrow>
             (Ok (resource_guard_new job_id v),
              rm\<lparr>rm_allocation :=
                   a\<lparr>allocated_cpus := allocated_cpus a + vm_cpu_count v,
                     allocated_memory := allocated_memory a + bytes,
                     alloc_jobs := hm_insert job_id v (alloc_jobs a)\<rparr>\<rparr>))"

definition can_allocate :: "usize \<Rightarrow> u64 \<Rightarrow> resource_manager \<Rightarrow> bool" where
  "can_allocate cpu_count memory_mb rm =
     (check_limits (rm_allocation rm) cpu_count (memory_mb * 1024 * 1024) (rm_limits rm) = None)"

definition release_job :: "uuid \<Rightarrow> resource_manager \<Rightarrow> vm option \<times> resource_manager" where
  "release_job job_id rm =
     (let a = rm_allocation rm
      in case hm_get (alloc_jobs a) job_id of
           None \<Rightarrow> (None, rm)
         | Some v \<Rightarrow>
             (Some v,
              rm\<lparr>rm_allocation :=
                   a\<lparr>allocated_cpus := saturating_sub (allocated_cpus a) (vm_cpu_count v),
                     allocated_memory := saturating_sub (allocated_memory a) (memory_bytes v),
                     alloc_jobs := hm_remove job_id (alloc_jobs a)\<rparr>\<rparr>))"

definition has_minimal_capacity :: "resource_manager \<Rightarrow> bool" where
  "has_minimal_capacity rm = can_allocate 1 0 rm"

definition is_job_registered :: "uuid \<Rightarrow> resource_manager \<Rightarrow> bool" where
  "is_job_registered i rm = hm_contains (alloc_jobs (rm_allocation rm)) i"

definition get_job_vm_config :: "uuid \<Rightarrow> resource_manager \<Rightarrow> vm option" where
  "get_job_vm_config i rm = hm_get (alloc_jobs (rm_allocation rm)) i"

definition rm_active_job_count :: "resource_manager \<Rightarrow> usize" where
  "rm_active_job_count rm = of_nat (hm_len (alloc_jobs (rm_allocation rm)))"

definition get_usage_stats :: "resource_manager \<Rightarrow> usize \<times> u64" where
  "get_usage_stats rm =
     (allocated_cpus (rm_allocation rm), allocated_memory (rm_allocation rm) div (1024 * 1024))"

text \<open>
  \<open>resource_summary\<close>; \<open>percent\<close> is the floating-point expression \<open>(a as f64 / b as f64 * 100.0) as usize\<close>.
\<close>

definition resource_summary :: "(nat \<Rightarrow> nat \<Rightarrow> nat) \<Rightarrow> resource_manager \<Rightarrow> string" where
  "resource_summary percent rm =
     (let total_cpus = unat (allocated_cpus (rm_allocation rm));
          total_memory = allocated_memory (rm_allocation rm);
          job_count = dec_digits (hm_len (alloc_jobs (rm_allocation rm)));
          limits = rm_limits rm;
          instance_info =
            (case max_instances limits of
               Some m \<Rightarrow> '', Instances: '' @ job_count @ ''/'' @ dec_digits (unat m)
             | None \<Rightarrow> '', Active Jobs: '' @ job_count)
      in ''CPUs: '' @ dec_digits total_cpus @ ''/'' @ dec_digits (unat (max_cpus limits)) @ '' (''
         @ dec_digits (percent total_cpus (unat (max_cpus limits))) @ ''% used), Memory: ''
         @ dec_digits (unat (total_memory div (1024 * 1024))) @ ''/''
         @ dec_digits (unat (max_memory_bytes limits div (1024 * 1024))) @ ''MB (''
         @ dec_digits (percent (unat total_memory) (unat (max_memory_bytes limits))) @ ''% used)'' @ instance_info)"

definition allocate_ip :: "resource_manager \<Rightarrow> ipv4 option \<times> resource_manager" where
  "allocate_ip rm = (case rm_free_ips rm of [] \<Rightarrow> (None, rm) | i # is \<Rightarrow> (Some i, rm\<lparr>rm_free_ips := is\<rparr>))"

definition release_ip :: "ipv4 \<Rightarrow> resource_manager \<Rightarrow> resource_manager" where
  "release_ip i rm = rm\<lparr>rm_free_ips := rm_free_ips rm @ [i]\<rparr>"

definition allocate_cid :: "resource_manager \<Rightarrow> u32 option \<times> resource_manager" where
  "allocate_cid rm =
     (case rm_free_cids rm of [] \<Rightarrow> (None, rm) | c # cs \<Rightarrow> (Some c, rm\<lparr>rm_free_cids := cs\<rparr>))"

definition release_cid :: "u32 \<Rightarrow> resource_manager \<Rightarrow> resource_manager" where
  "release_cid c rm = rm\<lparr>rm_free_cids := rm_free_cids rm @ [c]\<rparr>"

interpretation ip_pool: id_pool allocate_ip release_ip rm_free_ips
  by unfold_locales (simp_all add: allocate_ip_def release_ip_def)

interpretation cid_pool: id_pool allocate_cid release_cid rm_free_cids
  by unfold_locales (simp_all add: allocate_cid_def release_cid_def)

subsection \<open>Guards\<close>

datatype release_task = Release_Ip ipv4 | Release_Cid u32 | Release_Job uuid

fun run_release :: "release_task \<Rightarrow> resource_manager \<Rightarrow> resource_manager" where
  "run_release (Release_Ip i) rm = release_ip i rm"
| "run_release (Release_Cid c) rm = release_cid c rm"
| "run_release (Release_Job j) rm = snd (release_job j rm)"

type_synonym ip_guard = "ipv4 option"
type_synonym cid_guard = "u32 option"

definition ip_guard_new :: "resource_manager \<Rightarrow> ip_guard option \<times> resource_manager" where
  "ip_guard_new rm = (case allocate_ip rm of (r, rm') \<Rightarrow> (map_option Some r, rm'))"

definition ip_guard_take :: "ip_guard \<Rightarrow> ipv4 option \<times> ip_guard" where
  "ip_guard_take g = (g, None)"

definition ip_guard_drop :: "ip_guard \<Rightarrow> release_task list" where
  "ip_guard_drop g = (case g of Some i \<Rightarrow> [Release_Ip i] | None \<Rightarrow> [])"

definition cid_guard_new :: "resource_manager \<Rightarrow> cid_guard option \<times> resource_manager" where
  "cid_guard_new rm = (case allocate_cid rm of (r, rm') \<Rightarrow> (map_option Some r, rm'))"

definition cid_guard_drop :: "cid_guard \<Rightarrow> release_task list" where
  "cid_guard_drop g = (case g of Some c \<Rightarrow> [Release_Cid c] | None \<Rightarrow> [])"

definition resource_guard_take :: "resource_guard \<Rightarrow> (uuid \<times> vm) option \<times> resource_guard" where
  "resource_guard_take g =
     ((case (rg_job_id g, rg_vm g) of (Some i, Some v) \<Rightarrow> Some (i, v) | _ \<Rightarrow> None),
      \<lparr>rg_job_id = None, rg_vm = None\<rparr>)"

definition resource_guard_drop :: "resource_guard \<Rightarrow> release_task list" where
  "resource_guard_drop g = (case rg_job_id g of Some i \<Rightarrow> [Release_Job i] | None \<Rightarrow> [])"

subsection \<open>The accounting invariant\<close>

abbreviation mib100 :: nat where
  "mib100 \<equiv> 104857600"

definition cpu_total :: "resource_state \<Rightarrow> nat" where
  "cpu_total a = hm_sum (\<lambda>v. unat (vm_cpu_count v)) (alloc_jobs a)"

definition mem_total :: "resource_state \<Rightarrow> nat" where
  "mem_total a = hm_sum (\<lambda>v. unat (memory_bytes v)) (alloc_jobs a)"

text \<open>
  The counters are the totals over the registered jobs, one CPU and 100 MiB stay free as soon as
  anything is allocated, and the number of jobs respects the instance limit.
\<close>

definition accounting :: "resource_manager \<Rightarrow> bool" where
  "accounting rm =
     (let a = rm_allocation rm; l = rm_limits rm
      in hm_wf (alloc_jobs a)
         \<and> unat (allocated_cpus a) = cpu_total a
         \<and> unat (allocated_memory a) = mem_total a
         \<and> (cpu_total a = 0 \<or> cpu_total a + 1 \<le> unat (max_cpus l))
         \<and> (mem_total a = 0 \<or> mem_total a + mib100 \<le> unat (max_memory_bytes l))
         \<and> (case max_instances l of None \<Rightarrow> True | Some m \<Rightarrow> hm_len (alloc_jobs a) \<le> unat m))"

text \<open>The specification of \<open>check_limits\<close> over natural numbers: the request and the buffer fit.\<close>

definition fits :: "resource_limits \<Rightarrow> nat \<Rightarrow> nat \<Rightarrow> nat \<Rightarrow> nat \<Rightarrow> nat \<Rightarrow> bool" where
  "fits l jobs used_cpus used_mem cpus bytes =
     ((case max_instances l of None \<Rightarrow> True | Some m \<Rightarrow> jobs < unat m)
      \<and> (cpus = 0 \<or> used_cpus + 1 + cpus \<le> unat (max_cpus l))
      \<and> (bytes = 0 \<or> used_mem + mib100 + bytes \<le> unat (max_memory_bytes l)))"

lemma saturating_fits:
  fixes m u b c :: "64 word"
  assumes "unat u = 0 \<or> unat u + unat b \<le> unat m" and "0 < unat b"
  shows "saturating_sub m (u + b) < c \<longleftrightarrow> \<not> (unat c = 0 \<or> unat u + unat b + unat c \<le> unat m)"
proof -
  have "unat u + unat b < 18446744073709551616"
    using assms(1) unat_lt_64 [of m] unat_lt_64 [of b] by linarith
  then have "unat (u + b) = unat u + unat b"
    by (intro unat_plus_no_overflow) simp
  then show ?thesis
    by (auto simp: word_less_nat_alt)
qed

lemma accounting_len:
  assumes "accounting rm" and "max_instances (rm_limits rm) = Some m"
  shows "unat (of_nat (hm_len (alloc_jobs (rm_allocation rm))) :: usize)
         = hm_len (alloc_jobs (rm_allocation rm))"
  using assms unat_lt_64 [of m]
  by (simp add: accounting_def Let_def unat_of_nat)

lemma check_limits_fits:
  assumes "accounting rm"
  shows "check_limits (rm_allocation rm) cpus bytes (rm_limits rm) = None
         \<longleftrightarrow> fits (rm_limits rm) (hm_len (alloc_jobs (rm_allocation rm)))
               (cpu_total (rm_allocation rm)) (mem_total (rm_allocation rm)) (unat cpus) (unat bytes)"
proof -
  let ?a = "rm_allocation rm" and ?l = "rm_limits rm"
  have c: "saturating_sub (max_cpus ?l) (allocated_cpus ?a + 1) < cpus
      \<longleftrightarrow> \<not> (unat cpus = 0 \<or> cpu_total ?a + 1 + unat cpus \<le> unat (max_cpus ?l))"
    using assms saturating_fits [of "allocated_cpus ?a" 1] by (simp add: accounting_def Let_def)
  have m: "saturating_sub (max_memory_bytes ?l) (allocated_memory ?a + 100 * 1024 * 1024) < bytes
      \<longleftrightarrow> \<not> (unat bytes = 0 \<or> mem_total ?a + mib100 + unat bytes \<le> unat (max_memory_bytes ?l))"
    using assms saturating_fits [of "allocated_memory ?a" "100 * 1024 * 1024"]
    by (simp add: accounting_def Let_def)
  have i: "m' \<le> of_nat (hm_len (alloc_jobs ?a)) \<longleftrightarrow> \<not> hm_len (alloc_jobs ?a) < unat m'"
    if "max_instances ?l = Some m'" for m'
    using accounting_len [OF assms that] by (simp add: word_le_nat_alt not_less)
  show ?thesis
    unfolding check_limits_def Let_def fits_def c m
    using i by (auto split: option.splits)
qed

lemma accounting_new [inv_intros]: "accounting (resource_manager_new limits)"
  by (simp add: accounting_def resource_manager_new_def resource_state_new_def cpu_total_def
      mem_total_def hm_wf_def hm_len_def split: option.splits)

lemma accounting_pools [simp]:
  "accounting (rm\<lparr>rm_free_ips := is\<rparr>) = accounting rm"
  "accounting (rm\<lparr>rm_free_cids := cs\<rparr>) = accounting rm"
  by (simp_all add: accounting_def)

lemma accounting_allocate [inv_intros]:
  assumes acc: "accounting rm" and fresh: "hm_get (alloc_jobs (rm_allocation rm)) i = None"
  shows "accounting (snd (allocate_resources i v rm))"
proof (cases "check_limits (rm_allocation rm) (vm_cpu_count v) (memory_bytes v) (rm_limits rm)")
  case (Some reason)
  with acc show ?thesis by (simp add: allocate_resources_def)
next
  case None
  let ?a = "rm_allocation rm" and ?l = "rm_limits rm"
  have fit: "fits ?l (hm_len (alloc_jobs ?a)) (cpu_total ?a) (mem_total ?a)
      (unat (vm_cpu_count v)) (unat (memory_bytes v))"
    using None check_limits_fits [OF acc] by simp
  have c: "unat (allocated_cpus ?a + vm_cpu_count v) = cpu_total ?a + unat (vm_cpu_count v)"
    using fit acc unat_lt_64 [of "max_cpus ?l"] unat_lt_64 [of "allocated_cpus ?a"]
      unat_plus_no_overflow [of "allocated_cpus ?a" "vm_cpu_count v"]
    by (auto simp: fits_def accounting_def Let_def)
  have m: "unat (allocated_memory ?a + memory_bytes v) = mem_total ?a + unat (memory_bytes v)"
    using fit acc unat_lt_64 [of "max_memory_bytes ?l"] unat_lt_64 [of "allocated_memory ?a"]
      unat_plus_no_overflow [of "allocated_memory ?a" "memory_bytes v"]
    by (auto simp: fits_def accounting_def Let_def)
  have sums: "hm_sum f (hm_insert i v (alloc_jobs ?a)) = hm_sum f (alloc_jobs ?a) + f v" for f
    using fresh by (rule hm_sum_insert_fresh)
  show ?thesis
    using acc fit fresh None c m
    by (auto simp: allocate_resources_def accounting_def Let_def cpu_total_def mem_total_def sums
        fits_def hm_len_def length_hm_insert split: option.splits)
qed

lemma accounting_release [inv_intros]:
  assumes acc: "accounting rm"
  shows "accounting (snd (release_job i rm))"
proof (cases "hm_get (alloc_jobs (rm_allocation rm)) i")
  case None
  with acc show ?thesis by (simp add: release_job_def Let_def)
next
  case (Some v)
  let ?a = "rm_allocation rm"
  have sums: "hm_sum f (hm_remove i (alloc_jobs ?a)) = hm_sum f (alloc_jobs ?a) - f v" for f
    using hm_sum_remove [of "alloc_jobs ?a" i v f] acc Some by (simp add: accounting_def Let_def)
  show ?thesis
    using acc Some
    by (auto simp: release_job_def accounting_def Let_def cpu_total_def mem_total_def sums
        hm_len_def length_hm_remove split: option.splits)
qed

lemma accounting_run_release [inv_intros]: "accounting rm \<Longrightarrow> accounting (run_release t rm)"
  by (cases t) (simp_all add: release_ip_def release_cid_def accounting_release)

lemma allocate_release_roundtrip:
  assumes acc: "accounting rm" and fresh: "hm_get (alloc_jobs (rm_allocation rm)) i = None"
    and ok: "allocate_resources i v rm = (Ok g, rm')"
  shows "release_job i rm' = (Some v, rm)"
proof -
  let ?a = "rm_allocation rm"
  have acc': "accounting rm'" using accounting_allocate [OF acc fresh, of v] ok by simp
  have rm': "rm' = rm\<lparr>rm_allocation :=
      ?a\<lparr>allocated_cpus := allocated_cpus ?a + vm_cpu_count v,
        allocated_memory := allocated_memory ?a + memory_bytes v,
        alloc_jobs := hm_insert i v (alloc_jobs ?a)\<rparr>\<rparr>"
    using ok by (auto simp: allocate_resources_def Let_def split: option.splits)
  have c: "unat (vm_cpu_count v) \<le> unat (allocated_cpus ?a + vm_cpu_count v)"
    and m: "unat (memory_bytes v) \<le> unat (allocated_memory ?a + memory_bytes v)"
    using acc' fresh by (simp_all add: rm' accounting_def Let_def cpu_total_def mem_total_def
        hm_sum_insert_fresh)
  have "hm_remove i (hm_insert i v (alloc_jobs ?a)) = alloc_jobs ?a"
    using fresh hm_remove_absent [OF fresh] by (simp add: hm_insert_fresh hm_remove_filter)
  then show ?thesis
    using c m by (simp add: rm' release_job_def Let_def hm_get_insert saturating_sub_def
        word_le_nat_alt)
qed

lemma run_release_frame [frame_simps]:
  "rm_limits (run_release t rm) = rm_limits rm"
  by (cases t) (simp_all add: release_ip_def release_cid_def release_job_def Let_def
      split: option.splits)

lemma allocate_frame [frame_simps]:
  "rm_limits (snd (allocate_resources i v rm)) = rm_limits rm"
  "rm_free_ips (snd (allocate_resources i v rm)) = rm_free_ips rm"
  "rm_free_cids (snd (allocate_resources i v rm)) = rm_free_cids rm"
  by (simp_all add: allocate_resources_def Let_def split: option.splits)

lemma release_job_frame [frame_simps]:
  "rm_limits (snd (release_job i rm)) = rm_limits rm"
  "rm_free_ips (snd (release_job i rm)) = rm_free_ips rm"
  "rm_free_cids (snd (release_job i rm)) = rm_free_cids rm"
  by (simp_all add: release_job_def Let_def split: option.splits)

end
