(* ===== verification/Networking.thy ===== *)
theory Networking
  imports External Resources
begin

section \<open>Virtual machine networking: runner/src/vm_impl/linux_networking.rs\<close>

text \<open>
  The host's NAT setup and, inside the guest, the configuration of its interface from the kernel
  command line. Every external command goes through \<open>run_command\<close>; errors are the messages of the
  source. The probe of \<open>/sys/class/net\<close> in each of the ten seconds is an argument.
\<close>

definition VM_GATEWAY_IP :: ipv4 where
  "VM_GATEWAY_IP = Ipv4 10 0 0 1"

definition VM_SUBNET_MASK :: string where
  "VM_SUBNET_MASK = ''255.255.255.0''"

definition VM_SUBNET :: string where
  "VM_SUBNET = ''10.0.0.0/24''"

fun ipv4_display :: "ipv4 \<Rightarrow> string" where
  "ipv4_display (Ipv4 a b c d) =
     join_with ''.'' (map (\<lambda>x. dec_digits (unat x)) [a, b, c, d])"

definition newline :: string where
  "newline = [char_of (10 :: nat)]"

definition fail_unless :: "bool \<Rightarrow> string \<Rightarrow> unit shell" where
  "fail_unless b msg = (if b then ret () else throw msg)"

subsection \<open>Host\<close>

definition nat_rules :: string where
  "nat_rules =
     (let nl = newline in
      nl @ ''# Create or update the devenv NAT table'' @ nl
      @ ''table ip devenv_nat {'' @ nl
      @ ''    # Postrouting chain for source NAT (masquerading)'' @ nl
      @ ''    chain postrouting {'' @ nl
      @ ''        type nat hook postrouting priority srcnat; policy accept;'' @ nl @ nl
      @ ''        # Masquerade traffic from VM subnet going out through non-vmtap interfaces'' @ nl
      @ ''        # This allows VMs to access the internet through the host'' @ nl
      @ ''        ip saddr '' @ VM_SUBNET @ '' oifname != \"vmtap*\" masquerade'' @ nl
      @ ''    }'' @ nl @ nl
      @ ''    # Prerouting chain for destination NAT (if needed in future)'' @ nl
      @ ''    chain prerouting {'' @ nl
      @ ''        type nat hook prerouting priority dstnat; policy accept;'' @ nl
      @ ''    }'' @ nl
      @ ''}'' @ nl)"

definition setup_nat_rules :: "unit shell" where
  "setup_nat_rules =
     and_then (run_command ''Failed to execute nft command'' [''nft'', ''-f'', ''-''] nat_rules)
       (\<lambda>out. fail_unless (co_success out) (''Failed to setup NAT rules: '' @ trim (co_stderr out) @ newline @ newline
          @ ''This typically requires root privileges. Run this command as root (sudo).''))"

definition setup_host_networking :: "unit shell" where
  "setup_host_networking =
     and_then (run_command ''Failed to execute sysctl command''
                 [''sysctl'', ''-w'', ''net.ipv4.ip_forward=1''] [])
       (\<lambda>out.
          if \<not> co_success out
          then throw (''Failed to enable IP forwarding: '' @ trim (co_stderr out) @ newline @ newline
            @ ''This typically requires root privileges. You can either:'' @ newline
            @ ''1. Run this command as root (sudo)'' @ newline
            @ ''2. Enable IP forwarding manually: sudo sysctl -w net.ipv4.ip_forward=1'')
          else setup_nat_rules)"

subsection \<open>Guest\<close>

record ip_config =
  ic_address :: string
  ic_gateway :: string
  ic_netmask :: string

definition parse_ip_from_cmdline :: "string \<Rightarrow> ip_config option" where
  "parse_ip_from_cmdline cmdline =
     Option.bind (find (\<lambda>s. starts_with s ''ip='') (split_whitespace cmdline))
       (\<lambda>s. Option.bind (strip_prefix ''ip='' s)
         (\<lambda>config.
            let parts = split_on (CHR '':'') config
            in if 4 \<le> length parts
               then Some \<lparr>ic_address = parts ! 0, ic_gateway = parts ! 2, ic_netmask = parts ! 3\<rparr>
               else None))"

text \<open>The wait for \<open>eth0\<close>: \<open>probe i\<close> says whether it exists at the i-th check, one per second.\<close>

fun wait_loop :: "(nat \<Rightarrow> bool) \<Rightarrow> nat \<Rightarrow> nat \<Rightarrow> string + string" where
  "wait_loop probe i 0 = Err ''Failed to find network interface eth0''"
| "wait_loop probe i (Suc n) =
     (if probe i then Ok ''eth0''
      else if i = 9 then Err ''Network interface eth0 not found after 10 seconds''
      else wait_loop probe (i + 1) n)"

definition wait_for_network_interface :: "(nat \<Rightarrow> bool) \<Rightarrow> string + string" where
  "wait_for_network_interface probe = wait_loop probe 0 10"

definition bring_interface_up :: "string \<Rightarrow> unit shell" where
  "bring_interface_up ifc =
     and_then (run_command ''Failed to bring up interface'' [''ip'', ''link'', ''set'', ifc, ''up''] [])
       (\<lambda>out. fail_unless (co_success out) (''Failed to bring up interface: '' @ co_stderr out))"

definition test_dns_resolution :: "unit shell" where
  "test_dns_resolution =
     and_then (run_command ''Failed to execute nslookup command'' [''nslookup'', ''github.com''] [])
       (\<lambda>out. fail_unless (co_success out)
          (''DNS resolution failed for devenv.sh'' @ newline @ ''stdout: '' @ trim (co_stdout out)
             @ newline @ ''stderr: '' @ trim (co_stderr out)))"

text \<open>A failure whose standard error mentions an existing entry is ignored.\<close>

definition ok_or_exists :: "string \<Rightarrow> cmd_output \<Rightarrow> unit shell" where
  "ok_or_exists msg out =
     (if \<not> co_success out \<and> \<not> contains (co_stderr out) ''File exists''
      then throw (msg @ co_stderr out) else ret ())"

definition configure_static_ip :: "string \<Rightarrow> ip_config \<Rightarrow> unit shell" where
  "configure_static_ip ifc config =
     (if ic_netmask config \<noteq> ''255.255.255.0''
      then throw (''Unsupported netmask: '' @ ic_netmask config)
      else
        and_then (run_command ''Failed to set IP address''
                    [''ip'', ''addr'', ''add'', ic_address config @ ''/24'', ''dev'', ifc] [])
          (\<lambda>out. and_then (ok_or_exists ''Failed to set IP address: '' out)
            (\<lambda>_. and_then (bring_interface_up ifc)
              (\<lambda>_. and_then (run_command ''Failed to add default route''
                             [''ip'', ''route'', ''add'', ''default'', ''via'', ic_gateway config] [])
                (\<lambda>out. and_then (ok_or_exists ''Failed to add default route: '' out)
                  (\<lambda>_. test_dns_resolution))))))"

definition configure_network :: "(nat \<Rightarrow> bool) \<Rightarrow> string option \<Rightarrow> unit shell" where
  "configure_network probe proc_cmdline =
     and_then (from_result (wait_for_network_interface probe))
       (\<lambda>ifc. and_then
          (case parse_ip_from_cmdline (unwrap_or proc_cmdline []) of
             Some config \<Rightarrow> configure_static_ip ifc config
           | None \<Rightarrow> bring_interface_up ifc)
          (\<lambda>_. test_dns_resolution))"

subsection \<open>The command line the host passes\<close>

text \<open>The address part is what \<open>LinuxVm::new\<close> formats into the kernel command line.\<close>

definition kernel_cmdline :: "ipv4 \<Rightarrow> string" where
  "kernel_cmdline guest_ip =
     ''console=hvc0 rootfstype=virtiofs root=rootfs ip='' @ ipv4_display guest_ip @ ''::''
     @ ipv4_display VM_GATEWAY_IP @ '':'' @ VM_SUBNET_MASK @ ''::eth0:off''"

lemma ipv4_display_chars:
  "c \<in> set (ipv4_display i) \<Longrightarrow> is_digit c \<or> c = CHR ''.''"
  by (cases i) (auto dest: dec_digits_digits)

lemma ipv4_display_free:
  "CHR '':'' \<notin> set (ipv4_display i)" "\<forall>c \<in> set (ipv4_display i). \<not> is_space c"
proof -
  have "\<not> is_digit (CHR '':'')" by (simp add: is_digit_def)
  moreover have "CHR '':'' \<noteq> CHR ''.''" by simp
  ultimately show "CHR '':'' \<notin> set (ipv4_display i)" by (metis ipv4_display_chars)
  have "\<not> is_space c" if "is_digit c \<or> c = CHR ''.''" for c
    using that by (auto simp: is_digit_def is_space_def)
  then show "\<forall>c \<in> set (ipv4_display i). \<not> is_space c" by (metis ipv4_display_chars)
qed

definition ip_word :: "ipv4 \<Rightarrow> string" where
  "ip_word i = ''ip='' @ ipv4_display i @ ''::'' @ ipv4_display VM_GATEWAY_IP @ '':''
     @ VM_SUBNET_MASK @ ''::eth0:off''"

lemma gateway_text: "ipv4_display VM_GATEWAY_IP = ''10.0.0.1''"
  by code_simp

lemma ip_word_no_space: "\<forall>c \<in> set (ip_word i). \<not> is_space c"
  using ipv4_display_free(2) [of i]
  by (simp add: ip_word_def gateway_text VM_SUBNET_MASK_def is_space_def)

lemma split_ip_word:
  "split_on (CHR '':'') (ipv4_display i @ ''::'' @ ipv4_display VM_GATEWAY_IP @ '':''
     @ VM_SUBNET_MASK @ ''::eth0:off'')
   = [ipv4_display i, [], ''10.0.0.1'', ''255.255.255.0'', [], ''eth0'', ''off'']"
proof -
  have "split_on (CHR '':'') (ipv4_display i @ (CHR '':'') # s) = ipv4_display i # split_on (CHR '':'') s"
    for s using ipv4_display_free(1) by (rule split_on_append)
  from this [of "'':10.0.0.1:255.255.255.0::eth0:off''"] show ?thesis
    by (simp add: gateway_text VM_SUBNET_MASK_def split_on_def)
qed

lemma parse_kernel_cmdline:
  "parse_ip_from_cmdline (kernel_cmdline i) =
     Some \<lparr>ic_address = ipv4_display i, ic_gateway = ''10.0.0.1'', ic_netmask = ''255.255.255.0''\<rparr>"
proof -
  have k: "kernel_cmdline i = ''console=hvc0'' @ CHR '' '' # ''rootfstype=virtiofs'' @ CHR '' ''
      # ''root=rootfs'' @ CHR '' '' # ip_word i"
    by (simp add: kernel_cmdline_def ip_word_def)
  note word = split_whitespace_Cons [of "''console=hvc0''"]
    split_whitespace_Cons [of "''rootfstype=virtiofs''"] split_whitespace_Cons [of "''root=rootfs''"]
  have "ip_word i \<noteq> []" by (simp add: ip_word_def)
  then have "split_whitespace (kernel_cmdline i) =
      [''console=hvc0'', ''rootfstype=virtiofs'', ''root=rootfs'', ip_word i]"
    unfolding k by (subst word, simp, simp add: is_space_def)+
      (simp add: split_whitespace_word ip_word_no_space)
  then show ?thesis
    by (simp add: parse_ip_from_cmdline_def starts_with_def ip_word_def Let_def
        split_ip_word [simplified])
qed

lemma wait_loop_spec:
  "i + n = 10 \<Longrightarrow> 0 < n \<Longrightarrow> wait_loop probe i n =
     (if \<exists>j. i \<le> j \<and> j < 10 \<and> probe j then Ok ''eth0''
      else Err ''Network interface eth0 not found after 10 seconds'')"
proof (induction n arbitrary: i)
  case (Suc n)
  show ?case
  proof (cases "probe i")
    case True
    with Suc.prems have "\<exists>j. i \<le> j \<and> j < 10 \<and> probe j" by (intro exI [of _ i]) simp
    with True show ?thesis by simp
  next
    case no: False
    then have "(\<exists>j. i \<le> j \<and> j < 10 \<and> probe j) \<longleftrightarrow> (\<exists>j. Suc i \<le> j \<and> j < 10 \<and> probe j)"
      by (metis Suc_leD le_antisym not_less_eq_eq)
    moreover have "\<not> (\<exists>j. Suc i \<le> j \<and> j < 10 \<and> probe j)" if "i = 9" using that by auto
    ultimately show ?thesis using no Suc by (cases "i = 9") simp_all
  qed
qed simp

lemma wait_for_network_interface_spec:
  "wait_for_network_interface probe =
     (if \<exists>j < 10. probe j then Ok ''eth0''
      else Err ''Network interface eth0 not found after 10 seconds'')"
  using wait_loop_spec [of 0 10 probe] by (simp add: wait_for_network_interface_def)

definition all_succeed :: "(command, cmd_output option) ext \<Rightarrow> bool" where
  "all_succeed w = (\<forall>n c. \<exists>out. ext_reply w n c = Some out \<and> co_success out)"

definition logged :: "command list \<Rightarrow> (command, 'r) ext \<Rightarrow> (command, 'r) ext" where
  "logged cs w = w\<lparr>ext_log := ext_log w @ cs\<rparr>"

lemma logged_simps [simp]:
  "logged ds (logged cs w) = logged (cs @ ds) w" "all_succeed (logged cs w) = all_succeed w"
  by (simp_all add: logged_def all_succeed_def)

lemma run_command_succeeds:
  assumes "all_succeed w"
    and "\<And>out. co_success out \<Longrightarrow> f out (logged [Command argv inp] w) = r"
  shows "and_then (run_command ctx argv inp) f w = r"
proof -
  obtain out where out: "ext_reply w (length (ext_log w)) (Command argv inp) = Some out" "co_success out"
    using assms(1) unfolding all_succeed_def by blast
  then show ?thesis
    using assms(2) [OF out(2)]
    by (simp add: run_command_def perform_def and_then_def ret_def logged_def)
qed

lemma test_dns_succeeds:
  "all_succeed w
   \<Longrightarrow> test_dns_resolution w = (Ok (), logged [Command [''nslookup'', ''github.com''] []] w)"
  unfolding test_dns_resolution_def
  by (erule run_command_succeeds) (simp add: fail_unless_def ret_def)

lemma bring_up_succeeds:
  "all_succeed w \<Longrightarrow> and_then (bring_interface_up ifc) f w =
     f () (logged [Command [''ip'', ''link'', ''set'', ifc, ''up''] []] w)"
proof -
  assume "all_succeed w"
  then have "bring_interface_up ifc w =
      (Ok (), logged [Command [''ip'', ''link'', ''set'', ifc, ''up''] []] w)"
    unfolding bring_interface_up_def
    by (rule run_command_succeeds) (simp add: fail_unless_def ret_def)
  then show ?thesis by (simp add: and_then_def)
qed

lemma configure_static_ip_succeeds:
  assumes "all_succeed w" and "ic_netmask config = ''255.255.255.0''"
  shows "configure_static_ip ifc config w = (Ok (), logged
    [Command [''ip'', ''addr'', ''add'', ic_address config @ ''/24'', ''dev'', ifc] [],
     Command [''ip'', ''link'', ''set'', ifc, ''up''] [],
     Command [''ip'', ''route'', ''add'', ''default'', ''via'', ic_gateway config] [],
     Command [''nslookup'', ''github.com''] []] w)"
  using assms
  by (auto simp: configure_static_ip_def ok_or_exists_def bring_up_succeeds test_dns_succeeds
      intro!: run_command_succeeds)

section \<open>Properties\<close>

text \<open>
  C29. The guest configures exactly what the host decided: for every address the host puts on the
  kernel command line, a guest whose interface appears within ten seconds and whose commands
  succeed adds that address with prefix 24, brings the interface up, routes through the host's
  gateway and resolves a name (twice), in this order and nothing else.
\<close>

theorem guest_applies_host_address:
  assumes "\<exists>j < 10. probe j" and "all_succeed w"
  shows "configure_network probe (Some (kernel_cmdline i)) w =
    (Ok (), logged
       [Command [''ip'', ''addr'', ''add'', ipv4_display i @ ''/24'', ''dev'', ''eth0''] [],
        Command [''ip'', ''link'', ''set'', ''eth0'', ''up''] [],
        Command [''ip'', ''route'', ''add'', ''default'', ''via'', ''10.0.0.1''] [],
        Command [''nslookup'', ''github.com''] [], Command [''nslookup'', ''github.com''] []] w)"
  using assms
  by (simp add: configure_network_def wait_for_network_interface_spec from_result_def and_then_def
      parse_kernel_cmdline configure_static_ip_succeeds test_dns_succeeds)

theorem guest_applies_host_address_witness:
  "fst (configure_network (\<lambda>i. i = 3) (Some (kernel_cmdline (Ipv4 10 0 0 2)))
     (ext_new (\<lambda>n c. Some \<lparr>co_success = True, co_stdout = [], co_stderr = []\<rparr>))) = Ok ()"
proof -
  have "all_succeed (ext_new (\<lambda>n c. Some \<lparr>co_success = True, co_stdout = [], co_stderr = []\<rparr>))"
    by (simp add: all_succeed_def ext_new_def)
  then show ?thesis
    using guest_applies_host_address [of "\<lambda>i. i = 3"] by simp
qed

end
