(* ===== verification/Init.thy ===== *)
theory Init
  imports External
begin

section \<open>The guest's init process: init/src/lib.rs and init/src/bin/init.rs\<close>

text \<open>
  The first process of a guest: it mounts the virtual filesystems, mounts the root filesystem the
  host shares, changes root and replaces itself by the driver. System calls are operations of the
  external world that answer success or failure (an existence test answers its result).
\<close>

datatype mount_flag = MS_NODEV | MS_NOEXEC | MS_NOSUID | MS_RDONLY | MS_NOATIME | MS_BIND

text \<open>A mount: device, target, type, flags and data.\<close>

datatype sysop =
    Mkdir_All string
  | Mount string string "string option" "mount_flag list" "string option"
  | Path_Exists string
  | Remove_File string
  | Symlink string string
  | Write_File string string
  | Set_Hostname string
  | Chroot string
  | Set_Cwd string
  | Exec string

type_synonym 'a sys = "((sysop, bool) ext, sysop, 'a) io"

text \<open>An operation whose failure is propagated; the error is the operation that failed.\<close>

definition sys_do :: "sysop \<Rightarrow> unit sys" where
  "sys_do op = perform_or op op"

record mount_point =
  mp_device :: string
  mp_path :: string
  mp_fs_type :: string
  mp_options :: "string list"

definition essential_filesystems :: "mount_point list" where
  "essential_filesystems =
     [\<lparr>mp_device = ''proc'', mp_path = ''/proc'', mp_fs_type = ''proc'', mp_options = []\<rparr>,
      \<lparr>mp_device = ''sysfs'', mp_path = ''/sys'', mp_fs_type = ''sysfs'', mp_options = []\<rparr>,
      \<lparr>mp_device = ''devtmpfs'', mp_path = ''/dev'', mp_fs_type = ''devtmpfs'', mp_options = []\<rparr>,
      \<lparr>mp_device = ''tmpfs'', mp_path = ''/tmp'', mp_fs_type = ''tmpfs'',
       mp_options = [''size=2G'']\<rparr>]"

text \<open>The loop over the options: known names become flags, those with \<open>=\<close> data, others are dropped.\<close>

fun parse_options :: "string list \<Rightarrow> mount_flag list \<times> string list" where
  "parse_options [] = ([], [])"
| "parse_options (opt # opts) =
     (case parse_options opts of
        (flags, data) \<Rightarrow>
          if opt = ''nodev'' then (MS_NODEV # flags, data)
          else if opt = ''noexec'' then (MS_NOEXEC # flags, data)
          else if opt = ''nosuid'' then (MS_NOSUID # flags, data)
          else if opt = ''ro'' then (MS_RDONLY # flags, data)
          else if opt = ''noatime'' then (MS_NOATIME # flags, data)
          else if contains opt ''='' then (flags, opt # data)
          else (flags, data))"

definition mount_data :: "string list \<Rightarrow> string option" where
  "mount_data data = (if data = [] then None else Some (join_with '','' data))"

definition mount_op :: "mount_point \<Rightarrow> sysop" where
  "mount_op m =
     (case parse_options (mp_options m) of
        (flags, data) \<Rightarrow> Mount (mp_device m) (mp_path m) (Some (mp_fs_type m)) flags (mount_data data))"

definition mount_filesystem :: "mount_point \<Rightarrow> unit sys" where
  "mount_filesystem m =
     and_then (sys_do (Mkdir_All (mp_path m))) (\<lambda>_. sys_do (mount_op m))"

definition mount_essential_filesystems :: "unit sys" where
  "mount_essential_filesystems = for_each mount_filesystem essential_filesystems"

definition create_symlinks :: "unit sys" where
  "create_symlinks =
     for_each (\<lambda>(target, link).
         and_then (perform (Path_Exists link))
           (\<lambda>exists. and_then (if exists then sys_do (Remove_File link) else ret ())
              (\<lambda>_. sys_do (Symlink target link))))
       [(''/proc/self/fd'', ''/dev/fd''), (''/proc/self/fd/0'', ''/dev/stdin''),
        (''/proc/self/fd/1'', ''/dev/stdout''), (''/proc/self/fd/2'', ''/dev/stderr'')]"

definition nl :: string where
  "nl = [char_of (10 :: nat)]"

definition init_system :: "unit sys" where
  "init_system =
     and_then (perform (Path_Exists ''/etc/passwd''))
       (\<lambda>exists. and_then
          (if exists then ret () else sys_do (Write_File ''/etc/passwd'' (''root:x:0:0:root:/root:/bin/sh'' @ nl)))
          (\<lambda>_. and_then (perform (Path_Exists ''/etc/group''))
             (\<lambda>exists. if exists then ret ()
                       else sys_do (Write_File ''/etc/group'' (''root:x:0:'' @ nl)))))"

definition set_hostname :: "string \<Rightarrow> unit sys" where
  "set_hostname h = sys_do (Set_Hostname h)"

definition NEW_ROOT :: string where
  "NEW_ROOT = ''/mnt''"

definition rootfs_mount :: sysop where
  "rootfs_mount = Mount ''rootfs'' NEW_ROOT (Some ''virtiofs'') [] None"

definition mount_root_filesystem :: "unit sys" where
  "mount_root_filesystem =
     and_then (sys_do (Mkdir_All NEW_ROOT)) (\<lambda>_. sys_do rootfs_mount)"

definition bind_mount :: "string \<Rightarrow> unit sys" where
  "bind_mount p =
     and_then (sys_do (Mkdir_All (NEW_ROOT @ ''/'' @ p)))
       (\<lambda>_. sys_do (Mount (''/'' @ p) (NEW_ROOT @ ''/'' @ p) None [MS_BIND] None))"

definition devpts_mount :: sysop where
  "devpts_mount = Mount ''devpts'' ''/dev/pts'' (Some ''devpts'') [MS_NOSUID, MS_NOEXEC]
     (Some ''mode=620,ptmxmode=0666,gid=100'')"

definition pivot_to_devenv_root :: "unit sys" where
  "pivot_to_devenv_root =
     and_then (sys_do (Path_Exists NEW_ROOT))
       (\<lambda>_. and_then (for_each bind_mount [''proc'', ''sys'', ''dev'', ''run'', ''tmp''])
         (\<lambda>_. and_then (sys_do (Chroot NEW_ROOT))
           (\<lambda>_. and_then (sys_do (Set_Cwd ''/''))
             (\<lambda>_. and_then (sys_do (Mkdir_All ''/dev/pts''))
               (\<lambda>_. and_then (perform devpts_mount) (\<lambda>_. ret ()))))))"

text \<open>\<open>main\<close> of init.rs. \<open>Exec\<close> answers \<open>True\<close> when the driver replaced the process.\<close>

definition essential_dirs :: "string list" where
  "essential_dirs =
     [''/proc'', ''/sys'', ''/dev'', ''/tmp'', ''/run'', NEW_ROOT, ''/dev/pts'', ''/dev/shm'']"

definition additional_mounts :: "mount_point list" where
  "additional_mounts =
     [\<lparr>mp_device = ''devpts'', mp_path = ''/dev/pts'', mp_fs_type = ''devpts'',
       mp_options = [''mode=0620,gid=5'']\<rparr>,
      \<lparr>mp_device = ''tmpfs'', mp_path = ''/dev/shm'', mp_fs_type = ''tmpfs'',
       mp_options = [''mode=1777'', ''size=128M'']\<rparr>]"

definition init_main :: "unit sys" where
  "init_main =
     and_then (for_each (\<lambda>d. and_then (perform (Mkdir_All d)) (\<lambda>_. ret ())) essential_dirs)
       (\<lambda>_. and_then mount_essential_filesystems
         (\<lambda>_. and_then (for_each mount_filesystem additional_mounts)
           (\<lambda>_. and_then mount_root_filesystem
             (\<lambda>_. and_then (attempt (set_hostname ''devenv-vm''))
               (\<lambda>_. and_then pivot_to_devenv_root
                 (\<lambda>_. sys_do (Exec ''/bin/devenv-driver'')))))))"

subsection \<open>The plan of the boot\<close>

text \<open>
  A straight-line plan: each operation with whether its failure stops the boot. The specification
  of \<open>init_main\<close> is one such list.
\<close>

fun run_plan :: "(sysop \<times> bool) list \<Rightarrow> unit sys" where
  "run_plan [] = ret ()"
| "run_plan ((op, required) # rest) =
     and_then (perform op) (\<lambda>b. if required \<and> \<not> b then throw op else run_plan rest)"

lemma run_plan_append: "run_plan (xs @ ys) = and_then (run_plan xs) (\<lambda>_. run_plan ys)"
proof (induction xs)
  case (Cons x xs)
  obtain op req where x: "x = (op, req)" by (cases x)
  show ?case
    unfolding x append.simps run_plan.simps and_then_assoc Cons
    by (rule arg_cong [where f = "and_then (perform op)"]) (rule ext, simp)
qed simp

lemma run_plan_for_each:
  "(\<And>x. f x = run_plan (g x)) \<Longrightarrow> for_each f xs = run_plan (gather g xs)"
  by (induction xs) (simp_all add: run_plan_append)

lemma sys_do_plan: "sys_do op = run_plan [(op, True)]"
  unfolding sys_do_def perform_or_def run_plan.simps
  by (rule arg_cong [where f = "and_then (perform op)"]) (rule ext, simp)

lemma tolerated_plan: "and_then (perform op) (\<lambda>_. ret ()) = run_plan [(op, False)]"
  by simp

lemma attempt_plan: "and_then (attempt (sys_do op)) (\<lambda>_. run_plan ps) = run_plan ((op, False) # ps)"
  by (rule ext) (simp add: sys_do_def perform_or_def io_defs perform_def)

definition mount_plan :: "mount_point \<Rightarrow> (sysop \<times> bool) list" where
  "mount_plan m = [(Mkdir_All (mp_path m), True), (mount_op m, True)]"

definition bind_plan :: "string \<Rightarrow> (sysop \<times> bool) list" where
  "bind_plan p = [(Mkdir_All (NEW_ROOT @ ''/'' @ p), True),
     (Mount (''/'' @ p) (NEW_ROOT @ ''/'' @ p) None [MS_BIND] None, True)]"

definition boot_plan :: "(sysop \<times> bool) list" where
  "boot_plan =
     map (\<lambda>d. (Mkdir_All d, False)) essential_dirs
     @ gather mount_plan (essential_filesystems @ additional_mounts)
     @ [(Mkdir_All NEW_ROOT, True), (rootfs_mount, True), (Set_Hostname ''devenv-vm'', False),
        (Path_Exists NEW_ROOT, True)]
     @ gather bind_plan [''proc'', ''sys'', ''dev'', ''run'', ''tmp'']
     @ [(Chroot NEW_ROOT, True), (Set_Cwd ''/'', True), (Mkdir_All ''/dev/pts'', True),
        (devpts_mount, False), (Exec ''/bin/devenv-driver'', True)]"

lemma mount_filesystem_plan: "mount_filesystem m = run_plan (mount_plan m)"
  by (simp only: mount_filesystem_def mount_plan_def sys_do_plan run_plan_append [symmetric]
      append.simps)

lemma bind_mount_plan: "bind_mount p = run_plan (bind_plan p)"
  by (simp only: bind_mount_def bind_plan_def sys_do_plan run_plan_append [symmetric] append.simps)

lemma pivot_plan:
  "pivot_to_devenv_root = run_plan ((Path_Exists NEW_ROOT, True)
     # gather bind_plan [''proc'', ''sys'', ''dev'', ''run'', ''tmp'']
     @ [(Chroot NEW_ROOT, True), (Set_Cwd ''/'', True), (Mkdir_All ''/dev/pts'', True),
        (devpts_mount, False)])"
  unfolding pivot_to_devenv_root_def tolerated_plan sys_do_plan run_plan_for_each [OF bind_mount_plan]
  by (simp only: run_plan_append [symmetric] append.simps append_assoc)

lemma init_main_plan: "init_main = run_plan boot_plan"
proof -
  have dirs: "for_each (\<lambda>d. and_then (perform (Mkdir_All d)) (\<lambda>_. ret ())) essential_dirs
      = run_plan (map (\<lambda>d. (Mkdir_All d, False)) essential_dirs)"
    using run_plan_for_each [of "\<lambda>d. and_then (perform (Mkdir_All d)) (\<lambda>_. ret ())"
        "\<lambda>d. [(Mkdir_All d, False)]" essential_dirs]
    by (simp add: gather_def del: for_each.simps)
  show ?thesis
    unfolding init_main_def dirs mount_essential_filesystems_def mount_root_filesystem_def
      run_plan_for_each [OF mount_filesystem_plan] pivot_plan set_hostname_def
    by (simp only: sys_do_plan [of "Mkdir_All NEW_ROOT"] sys_do_plan [of rootfs_mount]
        sys_do_plan [of "Exec _"] run_plan_append [symmetric] attempt_plan append.simps append_assoc
        boot_plan_def gather_simps)
qed

definition plan_ok :: "(nat \<Rightarrow> sysop \<Rightarrow> bool) \<Rightarrow> nat \<Rightarrow> (sysop \<times> bool) list \<Rightarrow> nat \<Rightarrow> bool" where
  "plan_ok reply start ps k =
     (\<forall>n < k. snd (ps ! n) \<longrightarrow> reply (start + n) (fst (ps ! n)))"

lemma plan_ok_0 [simp]: "plan_ok reply start ps 0"
  by (simp add: plan_ok_def)

lemma plan_ok_Suc [simp]:
  "plan_ok reply start (p # ps) (Suc k) \<longleftrightarrow>
     (snd p \<longrightarrow> reply start (fst p)) \<and> plan_ok reply (Suc start) ps k"
  by (simp add: plan_ok_def All_less_Suc2)

lemma run_plan_spec:
  "case run_plan ps w of
     (Inr _, w') \<Rightarrow> ext_log w' = ext_log w @ map fst ps
        \<and> plan_ok (ext_reply w) (length (ext_log w)) ps (length ps)
   | (Inl op, w') \<Rightarrow> \<exists>n < length ps. ext_log w' = ext_log w @ map fst (take (Suc n) ps)
        \<and> ps ! n = (op, True) \<and> \<not> ext_reply w (length (ext_log w) + n) op
        \<and> plan_ok (ext_reply w) (length (ext_log w)) ps n"
proof (induction ps arbitrary: w)
  case Nil
  then show ?case by (simp add: ret_def)
next
  case (Cons p ps)
  obtain op req where p: "p = (op, req)" by (cases p)
  let ?b = "ext_reply w (length (ext_log w)) op" and ?w = "w\<lparr>ext_log := ext_log w @ [op]\<rparr>"
  show ?case
  proof (cases "req \<and> \<not> ?b")
    case True
    then show ?thesis
      by (auto simp: p perform_def and_then_def throw_def intro!: exI [of _ 0])
  next
    case False
    then have r: "run_plan (p # ps) w = run_plan ps ?w"
      by (auto simp: p perform_def and_then_def)
    show ?thesis
    proof (cases "run_plan ps ?w")
      case (Pair res w')
      have IH: "case (res, w') of
          (Inr _, w') \<Rightarrow> ext_log w' = ext_log ?w @ map fst ps
            \<and> plan_ok (ext_reply ?w) (length (ext_log ?w)) ps (length ps)
        | (Inl op, w') \<Rightarrow> \<exists>n < length ps. ext_log w' = ext_log ?w @ map fst (take (Suc n) ps)
            \<and> ps ! n = (op, True) \<and> \<not> ext_reply ?w (length (ext_log ?w) + n) op
            \<and> plan_ok (ext_reply ?w) (length (ext_log ?w)) ps n"
        using Cons [of ?w] unfolding Pair .
      show ?thesis
      proof (cases res)
        case (Inr u)
        with IH False show ?thesis unfolding r Pair by (simp add: p)
      next
        case (Inl e)
        with IH obtain n where n: "n < length ps" "ext_log w' = ext_log ?w @ map fst (take (Suc n) ps)"
          "ps ! n = (e, True)" "\<not> ext_reply ?w (length (ext_log ?w) + n) e"
          "plan_ok (ext_reply ?w) (length (ext_log ?w)) ps n" by auto
        then show ?thesis
          using False unfolding r Pair Inl by (simp add: p) (intro exI [of _ "Suc n"], simp)
      qed
    qed
  qed
qed

section \<open>Properties\<close>

text \<open>
  C30. The boot is one fixed sequence of system calls: either all of them were made in that order,
  each one whose failure matters succeeded, and the driver replaced init; or init stopped right
  after the first failure that matters and made no further call. The driver therefore never starts
  outside the root filesystem the host shares.
\<close>

theorem boot_follows_plan:
  "case init_main (ext_new reply) of
     (Inr _, w) \<Rightarrow> ext_log w = map fst boot_plan \<and> plan_ok reply 0 boot_plan (length boot_plan)
   | (Inl op, w) \<Rightarrow> \<exists>n < length boot_plan. ext_log w = map fst (take (Suc n) boot_plan)
        \<and> boot_plan ! n = (op, True) \<and> \<not> reply n op \<and> plan_ok reply 0 boot_plan n"
  using run_plan_spec [of boot_plan "ext_new reply"]
  unfolding init_main_plan by (simp add: ext_new_def split: prod.splits sum.splits)

theorem boot_follows_plan_witness:
  "fst (init_main (ext_new (\<lambda>n op. True))) = Ok ()"
  using boot_follows_plan [of "\<lambda>n op. True"]
  by (cases "init_main (ext_new (\<lambda>n op. True))") (auto split: sum.splits)

end
