(* ===== verification/Vsock.thy ===== *)
theory Vsock
  imports Protocol Json
begin

section \<open>The vsock channel between host and guest: runner/src/vsock.rs\<close>

text \<open>
  Length-prefixed messages over a byte stream, the host's side of a guest connection, the guest's
  side of the handshake, and the writer that turns the guest's log lines into messages. The JSON
  codec (\<open>serde_json::to_vec\<close>, \<open>from_slice\<close>, \<open>to_string\<close>) is an argument. A stream is the bytes the
  peer delivers before it closes, the bytes written to it, and whether writing fails.
\<close>

subsection \<open>Framing\<close>

record stream =
  st_in :: "u8 list"
  st_out :: "u8 list"
  st_broken :: bool

datatype vsock_error =
    Vs_Io
  | Vs_Deserialize
  | Vs_Serialize
  | Vs_Wrong_Ready uuid uuid
  | Vs_Unexpected_Complete
  | Vs_Unexpected_Log
  | Vs_Connect

definition to_le_bytes :: "u32 \<Rightarrow> u8 list" where
  "to_le_bytes n = map (\<lambda>i. ucast (drop_bit (8 * i) n)) [0, 1, 2, 3]"

definition from_le_bytes :: "u8 list \<Rightarrow> nat" where
  "from_le_bytes bs = foldr (\<lambda>b acc. unat b + 256 * acc) bs 0"

definition read_exact :: "nat \<Rightarrow> u8 list \<Rightarrow> vsock_error + (u8 list \<times> u8 list)" where
  "read_exact n bs = (if n \<le> length bs then Ok (take n bs, drop n bs) else Err Vs_Io)"

text \<open>\<open>MessageStream::read_message\<close>: the message and the rest of the input.\<close>

definition read_message ::
    "(u8 list \<Rightarrow> 'm option) \<Rightarrow> u8 list \<Rightarrow> vsock_error + ('m \<times> u8 list)" where
  "read_message from_slice bs =
     (case read_exact 4 bs of
        Inl e \<Rightarrow> Err e
      | Inr (len_buf, bs1) \<Rightarrow>
          (case read_exact (from_le_bytes len_buf) bs1 of
             Inl e \<Rightarrow> Err e
           | Inr (buf, bs2) \<Rightarrow>
               (case from_slice buf of None \<Rightarrow> Err Vs_Deserialize | Some m \<Rightarrow> Ok (m, bs2))))"

text \<open>The bytes of one frame; the length is the data's length as \<open>u32\<close>.\<close>

definition frame :: "u8 list \<Rightarrow> u8 list" where
  "frame data = to_le_bytes (of_nat (length data)) @ data"

definition write_message ::
    "('m \<Rightarrow> u8 list option) \<Rightarrow> 'm \<Rightarrow> stream \<Rightarrow> (vsock_error + unit) \<times> stream" where
  "write_message to_vec msg s =
     (case to_vec msg of
        None \<Rightarrow> (Err Vs_Serialize, s)
      | Some data \<Rightarrow>
          if st_broken s then (Err Vs_Io, s)
          else (Ok (), s\<lparr>st_out := st_out s @ frame data\<rparr>))"

lemma four_bytes:
  assumes "(m::nat) < 4294967296"
  shows "m mod 256 + 256 * (m div 256 mod 256 + 256 * (m div 65536 mod 256
    + 256 * (m div 16777216 mod 256))) = m"
proof -
  have d: "m div 65536 = m div 256 div 256" "m div 16777216 = m div 256 div 256 div 256"
    by (simp_all add: div_mult2_eq [symmetric])
  have "m div 16777216 < 256"
    using assms by (simp add: less_mult_imp_div_less)
  then have e: "m div 256 div 256 div 256 mod 256 = m div 256 div 256 div 256"
    unfolding d by (rule mod_less)
  show ?thesis unfolding d e mod_mult_div_eq ..
qed
lemma unat_byte: "unat (ucast (drop_bit k (n :: u32)) :: u8) = unat n div 2 ^ k mod 256"
  by (simp add: unsigned_ucast_eq unat_drop_bit_eq take_bit_eq_mod drop_bit_eq_div [where 'a = nat])
lemma from_to_le_bytes: "from_le_bytes (to_le_bytes n) = unat n"
  using four_bytes [of "unat n"] unsigned_less [of n, where ?'a = nat]
    unat_byte [of 0 n]
  by (simp add: from_le_bytes_def to_le_bytes_def unat_byte)

lemma length_to_le_bytes [simp]: "length (to_le_bytes n) = 4"
  by (simp add: to_le_bytes_def)

lemma read_message_frame:
  assumes "length data < 2 ^ 32"
  shows "read_message from_slice (frame data @ bs) =
    (case from_slice data of None \<Rightarrow> Err Vs_Deserialize | Some m \<Rightarrow> Ok (m, bs))"
  using assms by (simp add: read_message_def frame_def read_exact_def from_to_le_bytes unat_of_nat)

lemma read_message_shorter:
  "read_message from_slice bs = Ok (m, bs') \<Longrightarrow> length bs' < length bs"
  by (auto simp: read_message_def read_exact_def split: if_splits option.splits)

subsection \<open>Host: one guest connection\<close>

record log_entry =
  le_level :: string
  le_target :: string
  le_message :: string
  le_fields :: "(string, string) hmap"

text \<open>
  The loop that waits for the result. Each turn consumes at least the four bytes of a length, so
  it ends with the input. A log line is forwarded unless it cannot be serialized.
\<close>

function guest_loop ::
    "(u8 list \<Rightarrow> vsock_guest_message option) \<Rightarrow> (log_entry \<Rightarrow> string option) \<Rightarrow> uuid
     \<Rightarrow> u8 list \<Rightarrow> string list \<Rightarrow> bool option \<times> string list" where
  "guest_loop from_slice to_string job_id bs logs =
     (case read_message from_slice bs of
        Inl e \<Rightarrow> (None, logs)
      | Inr (msg, bs') \<Rightarrow>
          (case msg of
             Guest_Complete i success \<Rightarrow>
               if i = job_id then (Some success, logs)
               else guest_loop from_slice to_string job_id bs' logs
           | Guest_Log i level target message flds \<Rightarrow>
               guest_loop from_slice to_string job_id bs'
                 (if i = job_id
                  then case to_string \<lparr>le_level = level, le_target = target, le_message = message,
                                       le_fields = flds\<rparr> of
                         Some l \<Rightarrow> logs @ [l] | None \<Rightarrow> logs
                  else logs)
           | Guest_Ready i \<Rightarrow> guest_loop from_slice to_string job_id bs' logs))"
  by auto
termination
  by (relation "measure (\<lambda>(fs, ts, i, bs, logs). length bs)") (auto dest: read_message_shorter)

declare guest_loop.simps [simp del]

record connection_state =
  cs_result :: "bool option option"
  cs_notified :: bool
  cs_logs :: "string list"

text \<open>
  \<open>handle_guest_connection\<close>: \<open>cs_result\<close> is the shared result slot (\<open>None\<close> when the caller gave none),
  \<open>cs_notified\<close> the shutdown notification of the server, \<open>cs_logs\<close> the log lines forwarded so far.
  The caller drops the stream afterwards, so its unread input is not tracked.
\<close>

definition handle_guest_connection ::
    "(vsock_host_message \<Rightarrow> u8 list option) \<Rightarrow> (u8 list \<Rightarrow> vsock_guest_message option)
     \<Rightarrow> (log_entry \<Rightarrow> string option) \<Rightarrow> job_config \<Rightarrow> stream \<Rightarrow> connection_state
     \<Rightarrow> (vsock_error + unit) \<times> stream \<times> connection_state" where
  "handle_guest_connection to_vec from_slice to_string job_config s c =
     (let job_id = jc_id job_config
      in case write_message to_vec (Host_Job_Config job_config) s of
           (Inl e, s1) \<Rightarrow> (Err e, s1, c)
         | (Inr _, s1) \<Rightarrow>
             (case read_message from_slice (st_in s1) of
                Inl e \<Rightarrow> (Err e, s1, c)
              | Inr (Guest_Ready i, rest) \<Rightarrow>
                  if i = job_id
                  then case guest_loop from_slice to_string job_id rest (cs_logs c) of
                         (received, logs) \<Rightarrow>
                           (Ok (), s1\<lparr>st_in := []\<rparr>,
                            c\<lparr>cs_logs := logs,
                              cs_result := (case (received, cs_result c) of
                                              (Some success, Some _) \<Rightarrow> Some (Some success)
                                            | _ \<Rightarrow> cs_result c),
                              cs_notified := (cs_notified c \<or> received \<noteq> None)\<rparr>)
                  else (Err (Vs_Wrong_Ready job_id i), s1, c)
              | Inr (Guest_Complete _ _, _) \<Rightarrow> (Err Vs_Unexpected_Complete, s1, c)
              | Inr (Guest_Log _ _ _ _ _, _) \<Rightarrow> (Err Vs_Unexpected_Log, s1, c)))"

subsection \<open>Host: the configuration server\<close>

definition vsock_socket_path :: "string \<Rightarrow> string" where
  "vsock_socket_path p = p @ ''_'' @ dec_digits (unat CONFIG_VSOCK_PORT)"

text \<open>What the \<open>select!\<close> of the server yields: a connection, a failed accept, or the notification.\<close>

datatype server_event = Se_Accepted | Se_Accept_Failed | Se_Notified

text \<open>
  The loop of \<open>start_unix_config_server\<close>: the number of connection handlers spawned, and whether
  the loop was left (\<open>False\<close>: it is still waiting).
\<close>

fun config_server_loop :: "server_event list \<Rightarrow> nat \<Rightarrow> nat \<times> bool" where
  "config_server_loop [] n = (n, False)"
| "config_server_loop (Se_Accepted # es) n = config_server_loop es (Suc n)"
| "config_server_loop (Se_Accept_Failed # es) n = config_server_loop es n"
| "config_server_loop (Se_Notified # es) n = (n, True)"

text \<open>
  The whole server over the set of existing socket files: \<open>remove_ok\<close> and \<open>bind_ok\<close> are the
  outcomes of \<open>remove_file\<close> and \<open>bind\<close>. A result of \<open>None\<close>: still serving.
\<close>

definition start_unix_config_server ::
    "(string \<Rightarrow> bool) \<Rightarrow> bool \<Rightarrow> string \<Rightarrow> server_event list \<Rightarrow> string set
     \<Rightarrow> (vsock_error + unit) option \<times> string set \<times> nat" where
  "start_unix_config_server remove_ok bind_ok vsock_path es files =
     (let p = vsock_socket_path vsock_path
      in if p \<in> files \<and> \<not> remove_ok p then (Some (Err Vs_Io), files, 0)
         else if \<not> bind_ok then (Some (Err Vs_Io), files - {p}, 0)
         else case config_server_loop es 0 of
                (n, finished) \<Rightarrow>
                  if \<not> finished then (None, insert p files, n)
                  else if remove_ok p then (Some (Ok ()), files - {p}, n)
                  else (Some (Err Vs_Io), insert p files, n))"

subsection \<open>Guest\<close>

record job_reporter =
  jr_stream :: stream
  jr_job_id :: uuid

definition report_complete ::
    "(vsock_guest_message \<Rightarrow> u8 list option) \<Rightarrow> bool \<Rightarrow> job_reporter
     \<Rightarrow> (vsock_error + unit) \<times> job_reporter" where
  "report_complete to_vec success r =
     (case write_message to_vec (Guest_Complete (jr_job_id r) success) (jr_stream r) of
        (res, s) \<Rightarrow> (res, r\<lparr>jr_stream := s\<rparr>))"

definition send_log ::
    "(vsock_guest_message \<Rightarrow> u8 list option) \<Rightarrow> log_entry \<Rightarrow> job_reporter
     \<Rightarrow> (vsock_error + unit) \<times> job_reporter" where
  "send_log to_vec e r =
     (case write_message to_vec
             (Guest_Log (jr_job_id r) (le_level e) (le_target e) (le_message e) (le_fields e))
             (jr_stream r) of
        (res, s) \<Rightarrow> (res, r\<lparr>jr_stream := s\<rparr>))"

text \<open>
  \<open>VsockWriter::write\<close> on one formatted log line. \<open>parse\<close> stands for the UTF-8 check and the JSON
  parser, \<open>print\<close> for \<open>Value::to_string\<close>; a full channel drops the entry, never blocks, and the
  writer always reports the whole buffer as written.
\<close>

definition log_entry_of_json :: "(json \<Rightarrow> string) \<Rightarrow> json \<Rightarrow> log_entry" where
  "log_entry_of_json print v =
     \<lparr>le_level = unwrap_or (Option.bind (json_get ''level'' v) as_str) ''INFO'',
      le_target = unwrap_or (Option.bind (json_get ''target'' v) as_str) [],
      le_message =
        unwrap_or
          (case Option.bind (json_path [''fields'', ''message''] v) as_str of
             Some m \<Rightarrow> Some m
           | None \<Rightarrow> Option.bind (json_get ''message'' v) as_str) [],
      le_fields =
        (case Option.bind (json_get ''fields'' v) as_object of
           None \<Rightarrow> []
         | Some kvs \<Rightarrow> fold (\<lambda>(k, x) m. if k \<noteq> ''message'' then hm_insert k (print x) m else m) kvs [])\<rparr>"

definition vsock_writer_write ::
    "(string \<Rightarrow> json option) \<Rightarrow> (json \<Rightarrow> string) \<Rightarrow> string \<Rightarrow> log_entry chan \<Rightarrow> nat \<times> log_entry chan" where
  "vsock_writer_write parse print buf c =
     (length buf,
      case parse buf of None \<Rightarrow> c | Some v \<Rightarrow> snd (chan_send (log_entry_of_json print v) c))"

text \<open>The task of \<open>VsockWriter::new\<close>: every queued entry is sent in order; a failure is only printed.\<close>

definition log_channel_new :: "log_entry chan" where
  "log_channel_new = \<lparr>ch_queue = [], ch_cap = Some 100, ch_open = True\<rparr>"

fun drain_logs ::
    "(vsock_guest_message \<Rightarrow> u8 list option) \<Rightarrow> log_entry list \<Rightarrow> job_reporter \<Rightarrow> job_reporter" where
  "drain_logs to_vec [] r = r"
| "drain_logs to_vec (e # es) r = drain_logs to_vec es (snd (send_log to_vec e r))"

text \<open>
  \<open>receive_config_from_host\<close>: connecting is retried at most ten times after the first attempt
  (\<open>attempts\<close> lists the outcomes); then the configuration is read and acknowledged.
\<close>

fun first_connection :: "nat \<Rightarrow> stream option list \<Rightarrow> stream option" where
  "first_connection n [] = None"
| "first_connection n (Some s # rest) = Some s"
| "first_connection 0 (None # rest) = None"
| "first_connection (Suc n) (None # rest) = first_connection n rest"

definition receive_config_from_host ::
    "(u8 list \<Rightarrow> vsock_host_message option) \<Rightarrow> (vsock_guest_message \<Rightarrow> u8 list option)
     \<Rightarrow> stream option list \<Rightarrow> vsock_error + (job_config \<times> job_reporter)" where
  "receive_config_from_host from_slice to_vec attempts =
     (case first_connection 10 attempts of
        None \<Rightarrow> Err Vs_Connect
      | Some s \<Rightarrow>
          (case read_message from_slice (st_in s) of
             Inl e \<Rightarrow> Err e
           | Inr (Host_Job_Config config, rest) \<Rightarrow>
               (case write_message to_vec (Guest_Ready (jc_id config)) (s\<lparr>st_in := rest\<rparr>) of
                  (Inl e, _) \<Rightarrow> Err e
                | (Inr _, s') \<Rightarrow> Ok (config, \<lparr>jr_stream = s', jr_job_id = jc_id config\<rparr>))))"

subsection \<open>Specification of a session\<close>

text \<open>
  What a sequence of guest messages means: the result is that of the first completion with the
  right identifier, the log lines are those with the right identifier before it.
\<close>

fun session :: "uuid \<Rightarrow> vsock_guest_message list \<Rightarrow> bool option \<times> log_entry list" where
  "session j [] = (None, [])"
| "session j (Guest_Complete i success # ms) = (if i = j then (Some success, []) else session j ms)"
| "session j (Guest_Log i level target message flds # ms) =
     (case session j ms of
        (r, ls) \<Rightarrow>
          (r, if i = j then \<lparr>le_level = level, le_target = target, le_message = message,
                             le_fields = flds\<rparr> # ls else ls))"
| "session j (Guest_Ready i # ms) = session j ms"

definition codec_ok :: "('m \<Rightarrow> u8 list option) \<Rightarrow> (u8 list \<Rightarrow> 'm option) \<Rightarrow> 'm \<Rightarrow> bool" where
  "codec_ok to_vec from_slice m =
     (case to_vec m of None \<Rightarrow> False | Some d \<Rightarrow> length d < 2 ^ 32 \<and> from_slice d = Some m)"

definition frames :: "('m \<Rightarrow> u8 list option) \<Rightarrow> 'm list \<Rightarrow> u8 list" where
  "frames to_vec ms = concat (map (\<lambda>m. frame (case to_vec m of None \<Rightarrow> [] | Some d \<Rightarrow> d)) ms)"

lemma frames_simps [simp]:
  "frames to_vec [] = []"
  "frames to_vec (m # ms) = frame (case to_vec m of None \<Rightarrow> [] | Some d \<Rightarrow> d) @ frames to_vec ms"
  "frames to_vec (ms @ ns) = frames to_vec ms @ frames to_vec ns"
  by (simp_all add: frames_def)

lemma read_message_codec:
  "codec_ok to_vec from_slice m
   \<Longrightarrow> read_message from_slice (frame (case to_vec m of None \<Rightarrow> [] | Some d \<Rightarrow> d) @ bs) = Ok (m, bs)"
  by (auto simp: codec_ok_def read_message_frame split: option.splits)

lemma read_message_eof: "read_message from_slice [] = Err Vs_Io"
  by (simp add: read_message_def read_exact_def)

lemma write_message_codec:
  "codec_ok to_vec from_slice m \<Longrightarrow> \<not> st_broken s
   \<Longrightarrow> write_message to_vec m s = (Ok (), s\<lparr>st_out := st_out s @ frames to_vec [m]\<rparr>)"
  by (auto simp: codec_ok_def write_message_def split: option.splits)

text \<open>The byte-level loop implements the session: it ends with its result and its log lines.\<close>

lemma guest_loop_session:
  assumes "\<forall>m \<in> set ms. codec_ok to_vec from_slice m"
  shows "guest_loop from_slice to_string j (frames to_vec ms) logs =
    (fst (session j ms), logs @ List.map_filter to_string (snd (session j ms)))"
  using assms
proof (induction ms arbitrary: logs)
  case Nil
  then show ?case
    by (subst guest_loop.simps) (simp add: read_message_eof map_filter_simps)
next
  case (Cons m ms)
  then have r: "read_message from_slice (frames to_vec (m # ms)) = Ok (m, frames to_vec ms)"
    by (simp add: read_message_codec)
  from Cons have IH: "guest_loop from_slice to_string j (frames to_vec ms) l =
    (fst (session j ms), l @ List.map_filter to_string (snd (session j ms)))" for l by simp
  show ?case
    by (subst guest_loop.simps, subst r)
      (cases m; simp add: IH map_filter_simps split: prod.splits option.splits)
qed

lemma handle_guest_connection_session:
  assumes "codec_ok host_to_vec host_from_slice (Host_Job_Config c)"
    and "\<forall>m \<in> set (Guest_Ready (jc_id c) # ms). codec_ok to_vec from_slice m"
    and "\<not> st_broken s" and "st_in s = frames to_vec (Guest_Ready (jc_id c) # ms)"
  shows "handle_guest_connection host_to_vec from_slice to_string c s cs =
    (Ok (), s\<lparr>st_in := [], st_out := st_out s @ frames host_to_vec [Host_Job_Config c]\<rparr>,
     cs\<lparr>cs_result := (case (fst (session (jc_id c) ms), cs_result cs) of
                       (Some b, Some _) \<Rightarrow> Some (Some b) | _ \<Rightarrow> cs_result cs),
       cs_notified := (cs_notified cs \<or> fst (session (jc_id c) ms) \<noteq> None),
       cs_logs := cs_logs cs @ List.map_filter to_string (snd (session (jc_id c) ms))\<rparr>)"
proof -
  have r: "read_message from_slice (frames to_vec (Guest_Ready (jc_id c) # ms))
      = Ok (Guest_Ready (jc_id c), frames to_vec ms)"
    using assms(2) by (simp add: read_message_codec)
  have g: "guest_loop from_slice to_string (jc_id c) (frames to_vec ms) (cs_logs cs) =
    (fst (session (jc_id c) ms), cs_logs cs @ List.map_filter to_string (snd (session (jc_id c) ms)))"
    using assms(2) by (intro guest_loop_session) simp
  show ?thesis
    unfolding handle_guest_connection_def Let_def write_message_codec [OF assms(1,3)]
    by (simp add: assms(4) r [simplified] g split: option.splits)
qed

text \<open>The guest's side: its log entries and its final report as the bytes it writes.\<close>

definition guest_log :: "uuid \<Rightarrow> log_entry \<Rightarrow> vsock_guest_message" where
  "guest_log j e = Guest_Log j (le_level e) (le_target e) (le_message e) (le_fields e)"

lemma drain_logs_frames:
  assumes "\<forall>e \<in> set es. codec_ok to_vec from_slice (guest_log (jr_job_id r) e)"
    and "\<not> st_broken (jr_stream r)"
  shows "drain_logs to_vec es r = r\<lparr>jr_stream := (jr_stream r)\<lparr>st_out :=
    st_out (jr_stream r) @ frames to_vec (map (guest_log (jr_job_id r)) es)\<rparr>\<rparr>"
  using assms
proof (induction es arbitrary: r)
  case (Cons e es)
  have w: "write_message to_vec (guest_log (jr_job_id r) e) (jr_stream r) = (Ok (), (jr_stream r)
      \<lparr>st_out := st_out (jr_stream r) @ frames to_vec [guest_log (jr_job_id r) e]\<rparr>)"
    using Cons.prems by (intro write_message_codec [where from_slice = from_slice]) simp_all
  show ?case
    using Cons w [unfolded guest_log_def] by (simp add: send_log_def guest_log_def)
qed simp

lemma session_logs:
  "session j (map (guest_log j) es @ [Guest_Complete j b]) = (Some b, es)"
  by (induction es) (simp_all add: guest_log_def)

lemma session_filter: "session j (filter (\<lambda>m. guest_message_id m = j) ms) = session j ms"
  by (induction j ms rule: session.induct) (auto split: prod.splits)

text \<open>A whole session: the guest receives its configuration, logs, and reports.\<close>

definition empty_stream :: stream where
  "empty_stream = \<lparr>st_in = [], st_out = [], st_broken = False\<rparr>"

lemma guest_session:
  assumes host: "codec_ok host_to_vec host_from_slice (Host_Job_Config c)"
    and ready: "codec_ok to_vec from_slice (Guest_Ready (jc_id c))"
    and logs: "\<forall>e \<in> set es. codec_ok to_vec from_slice (guest_log (jc_id c) e)"
    and complete: "codec_ok to_vec from_slice (Guest_Complete (jc_id c) b)"
    and gs: "gs = empty_stream\<lparr>st_in := frames host_to_vec [Host_Job_Config c]\<rparr>"
    and slot: "cs_result cs \<noteq> None"
  shows "\<exists>r. receive_config_from_host host_from_slice to_vec [Some gs] = Ok (c, r) \<and>
    (let (res, r') = report_complete to_vec b (drain_logs to_vec es r);
         (res', hs, cs') = handle_guest_connection host_to_vec from_slice to_string c
           (empty_stream\<lparr>st_in := st_out (jr_stream r')\<rparr>) cs
     in res = Ok () \<and> res' = Ok () \<and> cs_result cs' = Some (Some b) \<and> cs_notified cs'
        \<and> st_out hs = st_in gs \<and> cs_logs cs' = cs_logs cs @ List.map_filter to_string es)"
proof -
  let ?j = "jc_id c"
  let ?r = "\<lparr>jr_stream = empty_stream\<lparr>st_out := frames to_vec [Guest_Ready ?j]\<rparr>, jr_job_id = ?j\<rparr>"
  let ?ms = "map (guest_log ?j) es @ [Guest_Complete ?j b]"
  have 1: "receive_config_from_host host_from_slice to_vec [Some gs] = Ok (c, ?r)"
    using read_message_codec [OF host, of "[]"] write_message_codec [OF ready, of empty_stream]
    by (simp add: receive_config_from_host_def gs empty_stream_def)
  have 2: "drain_logs to_vec es ?r = ?r\<lparr>jr_stream := empty_stream\<lparr>st_out :=
      frames to_vec (Guest_Ready ?j # map (guest_log ?j) es)\<rparr>\<rparr>"
    using drain_logs_frames [where r = ?r] logs by (simp add: empty_stream_def)
  have 3: "report_complete to_vec b (drain_logs to_vec es ?r) = (Ok (), ?r\<lparr>jr_stream :=
      empty_stream\<lparr>st_out := frames to_vec (Guest_Ready ?j # ?ms)\<rparr>\<rparr>)"
    using write_message_codec [OF complete] unfolding 2
    by (simp add: report_complete_def empty_stream_def)
  have "\<forall>m \<in> set (Guest_Ready ?j # ?ms). codec_ok to_vec from_slice m"
    using ready logs complete by auto
  from handle_guest_connection_session [OF host this,
      where s = "empty_stream\<lparr>st_in := frames to_vec (Guest_Ready ?j # ?ms)\<rparr>" and cs = cs]
  have 4: "handle_guest_connection host_to_vec from_slice to_string c
      (empty_stream\<lparr>st_in := frames to_vec (Guest_Ready ?j # ?ms)\<rparr>) cs =
      (Ok (), empty_stream\<lparr>st_in := [], st_out := st_in gs\<rparr>,
       cs\<lparr>cs_result := Some (Some b), cs_notified := True,
         cs_logs := cs_logs cs @ List.map_filter to_string es\<rparr>)"
    using slot by (auto simp: session_logs gs empty_stream_def simp del: frames_simps)
  show ?thesis
    by (intro exI [of _ ?r] conjI 1) (simp add: 3 4 del: frames_simps)
qed

text \<open>A concrete codec on a few messages, for the examples.\<close>

definition demo_job :: job_config where
  "demo_job = \<lparr>jc_id = 7, jc_project_url = ''u'', jc_git_ref = None, jc_tasks = [],
     jc_cachix_push = False, jc_clone_depth = None\<rparr>"

definition demo_line :: log_entry where
  "demo_line = \<lparr>le_level = ''INFO'', le_target = ''t'', le_message = ''hello'', le_fields = []\<rparr>"

definition demo_messages :: "(u8 \<times> vsock_guest_message) list" where
  "demo_messages = [(0, Guest_Ready 7), (1, Guest_Complete 7 True), (2, guest_log 7 demo_line),
     (3, Guest_Complete 8 False), (4, Guest_Complete 7 False)]"

definition demo_to_vec :: "vsock_guest_message \<Rightarrow> u8 list option" where
  "demo_to_vec m = map_option (\<lambda>b. [b]) (map_of (map prod.swap demo_messages) m)"

definition demo_from_slice :: "u8 list \<Rightarrow> vsock_guest_message option" where
  "demo_from_slice bs = (case bs of [b] \<Rightarrow> map_of demo_messages b | _ \<Rightarrow> None)"

definition demo_host_to_vec :: "vsock_host_message \<Rightarrow> u8 list option" where
  "demo_host_to_vec m = (if m = Host_Job_Config demo_job then Some [9, 9] else None)"

definition demo_host_from_slice :: "u8 list \<Rightarrow> vsock_host_message option" where
  "demo_host_from_slice bs = (if bs = [9, 9] then Some (Host_Job_Config demo_job) else None)"

lemma demo_codec:
  "codec_ok demo_host_to_vec demo_host_from_slice (Host_Job_Config demo_job)"
  "codec_ok demo_to_vec demo_from_slice (Guest_Ready 7)"
  "codec_ok demo_to_vec demo_from_slice (guest_log 7 demo_line)"
  "codec_ok demo_to_vec demo_from_slice (Guest_Complete 7 True)"
  "codec_ok demo_to_vec demo_from_slice (Guest_Complete 8 False)"
  "codec_ok demo_to_vec demo_from_slice (Guest_Complete 7 False)"
  by (simp_all add: codec_ok_def demo_host_to_vec_def demo_host_from_slice_def demo_to_vec_def
      demo_from_slice_def demo_messages_def guest_log_def)

definition empty_connection :: connection_state where
  "empty_connection = \<lparr>cs_result = Some None, cs_notified = False, cs_logs = []\<rparr>"

section \<open>Properties\<close>

text \<open>
  C15. What the guest reports is what the host stores: when the guest reads the configuration the
  host wrote, sends any log lines and then its result, the host's handler of that connection ends
  without error, its shared result slot holds that result, the server is notified to stop, and the
  log lines were forwarded in order (those that serialize). The JSON codec round-trips the
  messages involved and they are shorter than 4 GiB.
\<close>

theorem guest_report_reaches_host:
  assumes host: "codec_ok host_to_vec host_from_slice (Host_Job_Config c)"
    and ready: "codec_ok to_vec from_slice (Guest_Ready (jc_id c))"
    and logs: "\<forall>e \<in> set es. codec_ok to_vec from_slice (guest_log (jc_id c) e)"
    and complete: "codec_ok to_vec from_slice (Guest_Complete (jc_id c) b)"
    and gs: "gs = empty_stream\<lparr>st_in := frames host_to_vec [Host_Job_Config c]\<rparr>"
    and slot: "cs_result cs \<noteq> None"
  shows "\<exists>r. receive_config_from_host host_from_slice to_vec [Some gs] = Ok (c, r) \<and>
    (let (res, r') = report_complete to_vec b (drain_logs to_vec es r);
         (res', hs, cs') = handle_guest_connection host_to_vec from_slice to_string c
           (empty_stream\<lparr>st_in := st_out (jr_stream r')\<rparr>) cs
     in res = Ok () \<and> res' = Ok () \<and> cs_result cs' = Some (Some b) \<and> cs_notified cs'
        \<and> st_out hs = st_in gs \<and> cs_logs cs' = cs_logs cs @ List.map_filter to_string es)"
  using assms by (rule guest_session)

theorem guest_report_reaches_host_witness:
  "\<exists>r. receive_config_from_host demo_host_from_slice demo_to_vec
     [Some (empty_stream\<lparr>st_in := frames demo_host_to_vec [Host_Job_Config demo_job]\<rparr>)]
   = Ok (demo_job, r)"
  using guest_report_reaches_host [OF demo_codec(1), of demo_to_vec demo_from_slice
      "[demo_line]" True _ empty_connection "\<lambda>e. Some (le_message e)"] demo_codec
  by (simp add: demo_job_def empty_connection_def Let_def) blast

text \<open>
  Framing round-trips at any position of a stream: the bytes one \<open>write_message\<close> appends are read
  back by \<open>read_message\<close> as the same message, leaving exactly what follows them.
\<close>

theorem message_framing_roundtrip:
  assumes "codec_ok to_vec from_slice m" and "\<not> st_broken s"
    and "write_message to_vec m s = (res, s')"
  shows "res = Ok () \<and> (\<exists>bytes. st_out s' = st_out s @ bytes
           \<and> read_message from_slice (bytes @ rest) = Ok (m, rest))"
  using write_message_codec [OF assms(1,2)] read_message_codec [OF assms(1), of rest] assms(3)
  by auto

theorem message_framing_roundtrip_witness:
  "\<exists>bytes. st_out (snd (write_message demo_to_vec (Guest_Ready 7) empty_stream)) = bytes
     \<and> read_message demo_from_slice (bytes @ [1, 2]) = Ok (Guest_Ready 7, [1, 2])"
  using message_framing_roundtrip [OF demo_codec(2), of empty_stream _ _ "[1, 2]"]
  by (cases "write_message demo_to_vec (Guest_Ready 7) empty_stream") (auto simp: empty_stream_def)

text \<open>
  Messages that carry another job's identifier have no effect on a connection: removing them
  from what the guest sends changes neither the stored result, nor the notification, nor the
  forwarded log lines.
\<close>

theorem foreign_messages_have_no_effect:
  assumes "codec_ok host_to_vec host_from_slice (Host_Job_Config c)"
    and "\<forall>m \<in> set (Guest_Ready (jc_id c) # ms). codec_ok to_vec from_slice m"
    and "own = filter (\<lambda>m. guest_message_id m = jc_id c) ms"
  shows "handle_guest_connection host_to_vec from_slice to_string c
           (empty_stream\<lparr>st_in := frames to_vec (Guest_Ready (jc_id c) # ms)\<rparr>) cs
       = handle_guest_connection host_to_vec from_slice to_string c
           (empty_stream\<lparr>st_in := frames to_vec (Guest_Ready (jc_id c) # own)\<rparr>) cs"
proof -
  have own: "\<forall>m \<in> set (Guest_Ready (jc_id c) # own). codec_ok to_vec from_slice m"
    using assms(2,3) by auto
  show ?thesis
    using handle_guest_connection_session [OF assms(1,2),
        where s = "empty_stream\<lparr>st_in := frames to_vec (Guest_Ready (jc_id c) # ms)\<rparr>" and cs = cs]
      handle_guest_connection_session [OF assms(1) own,
        where s = "empty_stream\<lparr>st_in := frames to_vec (Guest_Ready (jc_id c) # own)\<rparr>" and cs = cs]
    by (simp add: assms(3) session_filter empty_stream_def del: frames_simps)
qed

theorem foreign_messages_have_no_effect_witness:
  "cs_result (snd (snd (handle_guest_connection demo_host_to_vec demo_from_slice (\<lambda>e. None) demo_job
     (empty_stream\<lparr>st_in := frames demo_to_vec [Guest_Ready 7, Guest_Complete 8 False]\<rparr>)
     empty_connection)))
   = cs_result (snd (snd (handle_guest_connection demo_host_to_vec demo_from_slice (\<lambda>e. None) demo_job
     (empty_stream\<lparr>st_in := frames demo_to_vec [Guest_Ready 7]\<rparr>) empty_connection)))"
  using foreign_messages_have_no_effect [OF demo_codec(1), of "[Guest_Complete 8 False]"
      demo_to_vec demo_from_slice "[]" "\<lambda>e. None" empty_connection] demo_codec
  by (simp add: demo_job_def del: frames_simps)

end
