(* ===== verification/Guest_Driver.thy ===== *)
theory Guest_Driver
  imports Vsock Networking
begin

section \<open>The guest's driver: runner/src/bin/driver.rs\<close>

text \<open>
  The process that runs one job inside a guest: it receives the job over vsock, prepares the
  system as root, drops its privileges, clones the repository, runs devenv, reports the outcome
  and halts the machine. System calls, git and devenv are operations of the external world; the
  network set-up and the vsock functions are those of \<open>Networking\<close> and \<open>Vsock\<close>. The Linux
  build is modelled.
\<close>

datatype driver_op =
    Dv_Pid1_Launch
  | Dv_Shell command
  | Dv_Path_Exists string
  | Dv_Read_File string
  | Dv_Env_Is_Set string
  | Dv_Set_Env string string
  | Dv_Create_Dirs string
  | Dv_Setgid nat
  | Dv_Setuid nat
  | Dv_Prepare_Clone string string
  | Dv_Ref_Name string
  | Dv_Fetch string string "u32 option" "string option"
  | Dv_Main_Worktree
  | Dv_Canonicalize string
  | Dv_Set_Cwd string
  | Dv_Config_Load string
  | Dv_Devenv_New string
  | Dv_Devenv_Assemble
  | Dv_Devenv_Build "string list"
  | Dv_Sync
  | Dv_Halt

text \<open>An answer: success (or the result of a test), a text read, the output of a command.\<close>

record driver_reply =
  rp_ok :: bool
  rp_text :: string
  rp_output :: cmd_output

type_synonym driver_sys = "(driver_op, driver_reply) ext"
type_synonym 'a drv = "(driver_sys, string, 'a) io"

definition dv_call :: "string \<Rightarrow> driver_op \<Rightarrow> driver_reply drv" where
  "dv_call context op = and_then (perform op) (\<lambda>r. if rp_ok r then ret r else throw context)"

definition dv_do :: "string \<Rightarrow> driver_op \<Rightarrow> unit drv" where
  "dv_do context op = and_then (dv_call context op) (\<lambda>_. ret ())"

definition dv_test :: "driver_op \<Rightarrow> bool drv" where
  "dv_test op = and_then (perform op) (\<lambda>r. ret (rp_ok r))"

text \<open>The commands of another component, run in the driver's world.\<close>

definition dv_shell :: "'a shell \<Rightarrow> 'a drv" where
  "dv_shell m w =
     (let inner = ext_new (\<lambda>n c. let r = ext_reply w (length (ext_log w) + n) (Dv_Shell c)
                                 in if rp_ok r then Some (rp_output r) else None)
      in case m inner of (res, s) \<Rightarrow> (res, w\<lparr>ext_log := ext_log w @ map Dv_Shell (ext_log s)\<rparr>))"

definition PROJECT_DIR :: string where
  "PROJECT_DIR = ''/home/devenv''"

subsection \<open>Preparation as root\<close>

definition read_nix_path :: "string drv" where
  "read_nix_path =
     and_then (dv_test (Dv_Path_Exists ''/nix-binary-path''))
       (\<lambda>exists. if exists
          then and_then (dv_call ''Failed to read nix-binary-path file'' (Dv_Read_File ''/nix-binary-path''))
                 (\<lambda>r. ret (trim (rp_text r)))
          else throw ''nix-binary-path file not found at: /nix-binary-path'')"

definition nix_directories :: "string list" where
  "nix_directories = [''/nix/var/nix/db'', ''/nix/var/nix/profiles'', ''/nix/var/nix/gcroots'',
     ''/nix/var/nix/temproots'', ''/nix/var/log/nix'']"

text \<open>A command that must run and succeed.\<close>

definition checked_command :: "string \<Rightarrow> string \<Rightarrow> string list \<Rightarrow> string \<Rightarrow> unit shell" where
  "checked_command context msg argv stdin =
     and_then (run_command context argv stdin)
       (\<lambda>out. fail_unless (co_success out) (msg @ co_stderr out))"

definition chown_nix :: "string \<Rightarrow> string \<Rightarrow> unit drv" where
  "chown_nix context msg = dv_shell (checked_command context msg [''chown'', ''-R'', ''1000:100'', ''/nix''] [])"

text \<open>\<open>nix-store --load-db\<close> reads the file \<open>/registration\<close>, opened before the command runs.\<close>

definition load_nix_db :: "string \<Rightarrow> unit drv" where
  "load_nix_db nix_store_path =
     and_then (dv_call ''open /registration'' (Dv_Read_File ''/registration''))
       (\<lambda>reg. dv_shell (checked_command ''Failed to load Nix database'' ''Failed to load Nix database: ''
                         [nix_store_path @ ''/bin/nix-store'', ''--load-db''] (rp_text reg)))"

definition prepare_nix :: "(nat \<Rightarrow> bool) \<Rightarrow> string option \<Rightarrow> unit drv" where
  "prepare_nix probe proc_cmdline =
     and_then (dv_shell (configure_network probe proc_cmdline))
       (\<lambda>_. and_then read_nix_path
         (\<lambda>nix_store_path. and_then (perform (Dv_Set_Env ''DEVENV_NIX'' nix_store_path))
           (\<lambda>_. and_then (perform (Dv_Set_Env ''PATH'' ''/bin''))
             (\<lambda>_. and_then (for_each (\<lambda>d. dv_do d (Dv_Create_Dirs d)) nix_directories)
               (\<lambda>_. and_then (chown_nix ''Failed to change ownership of /nix'' ''Failed to chown /nix: '')
                 (\<lambda>_. and_then (load_nix_db nix_store_path)
                   (\<lambda>_. chown_nix ''Failed to change ownership of /nix after loading database''
                            ''Failed to chown /nix after loading database: '')))))))"

definition drop_privileges :: "unit drv" where
  "drop_privileges =
     and_then (dv_do ''Failed to set group ID for devenv user'' (Dv_Setgid 100))
       (\<lambda>_. dv_do ''Failed to set user ID for devenv user'' (Dv_Setuid 1000))"

subsection \<open>The job\<close>

definition cert_path :: string where
  "cert_path = ''/etc/ssl/certs/ca-bundle.crt''"

definition default_cert :: "string \<Rightarrow> unit drv" where
  "default_cert var =
     and_then (dv_test (Dv_Env_Is_Set var))
       (\<lambda>is_set. if is_set then ret ()
          else and_then (dv_test (Dv_Path_Exists cert_path))
                 (\<lambda>exists. if exists then and_then (perform (Dv_Set_Env var cert_path)) (\<lambda>_. ret ())
                           else throw (var @ '' not set and default cert file doesn't exist'')))"

definition non_zero :: "u32 \<Rightarrow> u32 option" where
  "non_zero n = (if n = 0 then None else Some n)"

definition clone_repository :: "job_config \<Rightarrow> string \<Rightarrow> unit drv" where
  "clone_repository config dir =
     and_then (default_cert ''SSL_CERT_FILE'')
       (\<lambda>_. and_then (default_cert ''NIX_SSL_CERT_FILE'')
         (\<lambda>_. and_then (dv_do ''Failed to prepare repository clone'' (Dv_Prepare_Clone (jc_project_url config) dir))
           (\<lambda>_. and_then (case jc_git_ref config of
                            None \<Rightarrow> ret ()
                          | Some r \<Rightarrow> dv_do (''Invalid git ref '' @ r) (Dv_Ref_Name r))
             (\<lambda>_. and_then (dv_do ''Failed to fetch repository''
                             (Dv_Fetch (jc_project_url config) dir
                               (Option.bind (jc_clone_depth config) non_zero) (jc_git_ref config)))
               (\<lambda>_. dv_do ''Failed to checkout repository'' Dv_Main_Worktree)))))"

definition canonical_dir :: "string \<Rightarrow> string drv" where
  "canonical_dir dir =
     and_then (perform (Dv_Canonicalize dir)) (\<lambda>r. ret (if rp_ok r then rp_text r else dir))"

definition run_devenv :: "job_config \<Rightarrow> string \<Rightarrow> unit drv" where
  "run_devenv config dir =
     and_then (canonical_dir dir)
       (\<lambda>dir. and_then (dv_do ''Failed to change to project directory'' (Dv_Set_Cwd dir))
         (\<lambda>_. and_then (dv_do ''Failed to load devenv config'' (Dv_Config_Load dir))
           (\<lambda>_. and_then (perform (Dv_Devenv_New dir))
             (\<lambda>_. and_then (dv_do ''Failed to assemble devenv'' Dv_Devenv_Assemble)
               (\<lambda>_. dv_do ''Failed to build devenv shell'' (Dv_Devenv_Build [''shell'']))))))"

definition create_project_dir :: "unit drv" where
  "create_project_dir =
     dv_do ''Failed to create /home/devenv as devenv user'' (Dv_Create_Dirs PROJECT_DIR)"

definition halt_system :: "unit drv" where
  "halt_system = and_then (perform Dv_Sync) (\<lambda>_. and_then (perform Dv_Halt) (\<lambda>_. ret ()))"

subsection \<open>The main function\<close>

text \<open>The world of the whole process: the system and, once connected, the reporter.\<close>

record driver =
  dw_sys :: driver_sys
  dw_reporter :: "job_reporter option"

definition on_sys :: "'a drv \<Rightarrow> (driver, string, 'a) io" where
  "on_sys m w = (case m (dw_sys w) of (r, s) \<Rightarrow> (r, w\<lparr>dw_sys := s\<rparr>))"

text \<open>A failure to report is only logged.\<close>

definition report_job ::
    "(vsock_guest_message \<Rightarrow> u8 list option) \<Rightarrow> bool \<Rightarrow> (driver, string, unit) io" where
  "report_job to_vec success =
     modify (\<lambda>w. w\<lparr>dw_reporter := map_option (\<lambda>r. snd (report_complete to_vec success r)) (dw_reporter w)\<rparr>)"

definition receive_job ::
    "(u8 list \<Rightarrow> vsock_host_message option) \<Rightarrow> (vsock_guest_message \<Rightarrow> u8 list option)
     \<Rightarrow> stream option list \<Rightarrow> (driver, string, job_config) io" where
  "receive_job from_slice to_vec attempts w =
     (case receive_config_from_host from_slice to_vec attempts of
        Inl _ \<Rightarrow> (Err ''Failed to receive job configuration over vsock'', w)
      | Inr (config, reporter) \<Rightarrow> (Ok config, w\<lparr>dw_reporter := Some reporter\<rparr>))"

definition driver_main ::
    "(u8 list \<Rightarrow> vsock_host_message option) \<Rightarrow> (vsock_guest_message \<Rightarrow> u8 list option)
     \<Rightarrow> stream option list \<Rightarrow> (nat \<Rightarrow> bool) \<Rightarrow> string option \<Rightarrow> (driver, string, unit) io" where
  "driver_main from_slice to_vec attempts probe proc_cmdline =
     and_then (on_sys (dv_do ''Failed to initialize PID 1 handling'' Dv_Pid1_Launch))
       (\<lambda>_. and_then (receive_job from_slice to_vec attempts)
         (\<lambda>config. and_then (on_sys (prepare_nix probe proc_cmdline))
           (\<lambda>_. and_then (on_sys drop_privileges)
             (\<lambda>_. and_then (on_sys create_project_dir)
               (\<lambda>_. and_then (on_sys (clone_repository config PROJECT_DIR))
                 (\<lambda>_. and_then (attempt (on_sys (run_devenv config PROJECT_DIR)))
                   (\<lambda>job_result. and_then (report_job to_vec (is_ok job_result))
                     (\<lambda>_. and_then (on_sys halt_system)
                       (\<lambda>_. from_result job_result)))))))))"

subsection \<open>What each stage does\<close>

text \<open>Operations that need root, operations on the job's repository, and the last ones.\<close>

fun root_op :: "driver_op \<Rightarrow> bool" where
  "root_op (Dv_Shell _) = True"
| "root_op (Dv_Setgid _) = True"
| "root_op (Dv_Setuid _) = True"
| "root_op _ = False"

fun job_op :: "driver_op \<Rightarrow> bool" where
  "job_op (Dv_Prepare_Clone _ _) = True"
| "job_op (Dv_Ref_Name _) = True"
| "job_op (Dv_Fetch _ _ _ _) = True"
| "job_op Dv_Main_Worktree = True"
| "job_op (Dv_Config_Load _) = True"
| "job_op (Dv_Devenv_New _) = True"
| "job_op Dv_Devenv_Assemble = True"
| "job_op (Dv_Devenv_Build _) = True"
| "job_op _ = False"

abbreviation checked_out :: "(driver_op \<times> driver_reply) list \<Rightarrow> bool" where
  "checked_out t \<equiv> list_ex (\<lambda>p. fst p = Dv_Main_Worktree \<and> rp_ok (snd p)) t"

abbreviation halts :: "(driver_op \<times> driver_reply) list \<Rightarrow> bool" where
  "halts t \<equiv> list_ex (\<lambda>p. fst p = Dv_Halt) t"

lemma emits_only_dv_shell: "(\<And>c. P (Dv_Shell c)) \<Longrightarrow> emits_only P (dv_shell m)"
  unfolding emits_def
proof
  fix w :: driver_sys
  assume P: "\<And>c. P (Dv_Shell c)"
  have "\<exists>ops. snd (dv_shell m w) = w\<lparr>ext_log := ext_log w @ map Dv_Shell ops\<rparr>"
    unfolding dv_shell_def Let_def by (simp split: prod.splits) blast
  then obtain ops where o: "snd (dv_shell m w) = w\<lparr>ext_log := ext_log w @ map Dv_Shell ops\<rparr>" by blast
  obtain t where "answered (snd (dv_shell m w)) = answered w @ t" "map fst t = map Dv_Shell ops"
    using answered_extend [of w "map Dv_Shell ops"] o by auto
  note t = this
  have "P (fst p)" if "p \<in> set t" for p
  proof -
    from that have "fst p \<in> set (map fst t)" by simp
    then show ?thesis unfolding t(2) using P by auto
  qed
  with t(1) show "\<exists>t. answered (snd (dv_shell m w)) = answered w @ t \<and> list_all (\<lambda>p. P (fst p)) t"
    by (auto simp: list_all_iff)
qed

lemma emits_only_dv:
  "P op \<Longrightarrow> emits_only P (dv_call c op)" "P op \<Longrightarrow> emits_only P (dv_do c op)"
  "P op \<Longrightarrow> emits_only P (dv_test op)"
  by (auto simp: dv_call_def dv_do_def dv_test_def intro!: emits_only_intros)

lemmas driver_intros = emits_only_intros emits_only_dv emits_only_dv_shell

lemma prepare_nix_only: "emits_only (\<lambda>op. \<not> job_op op \<and> op \<noteq> Dv_Halt) (prepare_nix probe cmd)"
  by (auto simp: prepare_nix_def read_nix_path_def chown_nix_def load_nix_db_def intro!: driver_intros)

lemma create_project_dir_only:
  "emits_only (\<lambda>op. \<not> job_op op \<and> \<not> root_op op \<and> op \<noteq> Dv_Halt) create_project_dir"
  by (auto simp: create_project_dir_def intro!: driver_intros)

lemma run_devenv_only:
  "emits_only (\<lambda>op. \<not> root_op op \<and> op \<noteq> Dv_Halt \<and> op \<noteq> Dv_Main_Worktree) (run_devenv config d)"
  by (auto simp: run_devenv_def canonical_dir_def intro!: driver_intros)

lemma dv_do_emits:
  "emits (\<lambda>b t. \<exists>r. t = [(op, r)] \<and> rp_ok r = b) (dv_do c op)"
  by (auto simp: emits_def dv_do_def dv_call_def and_then_def perform_def answered_perform
      [unfolded perform_def, simplified] ret_def throw_def)

text \<open>The privileges are dropped between the last operation of root and the first of the job.\<close>

definition separated :: "(driver_op \<times> driver_reply) list \<Rightarrow> bool" where
  "separated t \<longleftrightarrow> (\<exists>before rg ru after. t = before @ [(Dv_Setgid 100, rg), (Dv_Setuid 1000, ru)] @ after
     \<and> rp_ok rg \<and> rp_ok ru \<and> list_all (\<lambda>p. \<not> job_op (fst p)) before
     \<and> list_all (\<lambda>p. \<not> root_op (fst p)) after)"

lemma separated_append:
  assumes "separated t" and "list_all (\<lambda>p. \<not> root_op (fst p)) u"
  shows "separated (t @ u)"
proof -
  obtain before rg ru after where "t = before @ [(Dv_Setgid 100, rg), (Dv_Setuid 1000, ru)] @ after"
    "rp_ok rg" "rp_ok ru" "list_all (\<lambda>p. \<not> job_op (fst p)) before"
    "list_all (\<lambda>p. \<not> root_op (fst p)) after"
    using assms(1) unfolding separated_def by blast
  with assms(2) show ?thesis
    unfolding separated_def
    by (intro exI [of _ before] exI [of _ rg] exI [of _ ru] exI [of _ "after @ u"]) simp
qed

lemma separated_prepend:
  assumes "list_all (\<lambda>p. \<not> job_op (fst p)) t" and "separated u"
  shows "separated (t @ u)"
proof -
  obtain before rg ru after where "u = before @ [(Dv_Setgid 100, rg), (Dv_Setuid 1000, ru)] @ after"
    "rp_ok rg" "rp_ok ru" "list_all (\<lambda>p. \<not> job_op (fst p)) before"
    "list_all (\<lambda>p. \<not> root_op (fst p)) after"
    using assms(2) unfolding separated_def by blast
  with assms(1) show ?thesis
    unfolding separated_def
    by (intro exI [of _ "t @ before"] exI [of _ rg] exI [of _ ru] exI [of _ after]) simp
qed

definition job_part :: "bool \<Rightarrow> (driver_op \<times> driver_reply) list \<Rightarrow> bool" where
  "job_part b t \<longleftrightarrow> list_all (\<lambda>p. \<not> root_op (fst p) \<and> fst p \<noteq> Dv_Halt) t \<and> checked_out t = b"

lemma job_part_prefix:
  assumes "emits_only (\<lambda>op. \<not> root_op op \<and> op \<noteq> Dv_Halt \<and> op \<noteq> Dv_Main_Worktree) m"
    and "\<And>a. emits job_part (f a)"
  shows "emits job_part (and_then m f)"
  by (rule emits_and_then [OF assms]) (auto simp: job_part_def list_all_iff list_ex_iff)

lemma clone_repository_emits: "emits job_part (clone_repository config d)"
  unfolding clone_repository_def default_cert_def
  by (intro job_part_prefix emits_mono [OF dv_do_emits [of Dv_Main_Worktree]])
    (auto simp: job_part_def intro!: driver_intros split: option.splits)

definition root_part :: "bool \<Rightarrow> (driver_op \<times> driver_reply) list \<Rightarrow> bool" where
  "root_part b t \<longleftrightarrow> list_all (\<lambda>p. fst p \<noteq> Dv_Halt \<and> \<not> job_op (fst p)) t \<and> (b \<longrightarrow> separated t)"

lemma drop_privileges_emits: "emits root_part drop_privileges"
  unfolding drop_privileges_def
proof (rule emits_and_then [OF dv_do_emits dv_do_emits])
  show "root_part b (t @ u)" if "\<exists>r. t = [(Dv_Setgid 100, r)] \<and> rp_ok r = True"
      "\<exists>r. u = [(Dv_Setuid 1000, r)] \<and> rp_ok r = b" for b t u
    using that by (auto simp: root_part_def separated_def intro!: exI [of _ "[]"])
qed (auto simp: root_part_def)

definition setup_part :: "bool \<Rightarrow> (driver_op \<times> driver_reply) list \<Rightarrow> bool" where
  "setup_part b t \<longleftrightarrow> \<not> halts t \<and> checked_out t = b \<and> (b \<longrightarrow> separated t)
     \<and> (list_ex (\<lambda>p. job_op (fst p)) t \<longrightarrow> separated t)"

definition guest_setup :: "(nat \<Rightarrow> bool) \<Rightarrow> string option \<Rightarrow> job_config \<Rightarrow> unit drv" where
  "guest_setup probe cmd config =
     and_then (and_then (prepare_nix probe cmd) (\<lambda>_. drop_privileges))
       (\<lambda>_. and_then create_project_dir (\<lambda>_. clone_repository config PROJECT_DIR))"

lemma guest_setup_emits: "emits setup_part (guest_setup probe cmd config)"
proof -
  have root: "emits root_part (and_then (prepare_nix probe cmd) (\<lambda>_. drop_privileges))"
    by (rule emits_and_then [OF prepare_nix_only drop_privileges_emits])
      (auto simp: root_part_def list_all_iff intro: separated_prepend)
  have "emits job_part (and_then create_project_dir (\<lambda>_. clone_repository config PROJECT_DIR))"
    by (rule job_part_prefix [OF emits_mono [OF create_project_dir_only] clone_repository_emits])
      (auto simp: list_all_iff)
  from root this show ?thesis
    unfolding guest_setup_def
  proof (rule emits_and_then)
    show "setup_part b (t @ u)" if "root_part True t" "job_part b u" for b t u
      using that by (auto simp: root_part_def job_part_def setup_part_def list_all_iff list_ex_iff
          intro!: separated_append)
  qed (auto simp: root_part_def setup_part_def list_all_iff list_ex_iff)
qed
text \<open>The system part of a run.\<close>

lemma on_sys_and_then: "on_sys (and_then m f) = and_then (on_sys m) (\<lambda>a. on_sys (f a))"
  by (rule ext) (simp add: on_sys_def and_then_def split: prod.splits sum.splits)

lemma driver_main_stages:
  "driver_main from_slice to_vec attempts probe cmd =
     and_then (on_sys (dv_do ''Failed to initialize PID 1 handling'' Dv_Pid1_Launch))
       (\<lambda>_. and_then (receive_job from_slice to_vec attempts)
         (\<lambda>config. and_then (on_sys (guest_setup probe cmd config))
           (\<lambda>_. and_then (attempt (on_sys (run_devenv config PROJECT_DIR)))
             (\<lambda>job_result. and_then (report_job to_vec (is_ok job_result))
               (\<lambda>_. and_then (on_sys halt_system) (\<lambda>_. from_result job_result))))))"
  by (simp only: driver_main_def guest_setup_def on_sys_and_then and_then_assoc)

lemma halt_system_emits:
  "emits (\<lambda>b t. b \<and> (\<exists>r s. t = [(Dv_Sync, r), (Dv_Halt, s)])) halt_system"
  by (simp add: emits_def halt_system_def and_then_def ret_def answered_perform fst_perform
      case_prod_beta)

definition driver_new :: "(nat \<Rightarrow> driver_op \<Rightarrow> driver_reply) \<Rightarrow> driver" where
  "driver_new reply = \<lparr>dw_sys = ext_new reply, dw_reporter = None\<rparr>"

text \<open>
  Every run is one of two: it stopped before the job ran, or the job ran and its outcome was
  reported before the machine was halted.
\<close>

lemma on_sys_emitsE:
  assumes "emits R m" and "on_sys m w = (r, w')"
  obtains t where "answered (dw_sys w') = answered (dw_sys w) @ t" and "R (is_ok r) t"
    and "dw_reporter w' = dw_reporter w"
proof -
  obtain s where "m (dw_sys w) = (r, s)" and w': "w' = w\<lparr>dw_sys := s\<rparr>"
    using assms(2) by (auto simp: on_sys_def split: prod.splits)
  with that show ?thesis using emitsE [OF assms(1)] by simp blast
qed

definition stopped :: "(string + unit) \<Rightarrow> driver \<Rightarrow> bool" where
  "stopped r w \<longleftrightarrow> \<not> is_ok r \<and> \<not> halts (answered (dw_sys w)) \<and> \<not> checked_out (answered (dw_sys w))
     \<and> (list_ex (\<lambda>p. job_op (fst p)) (answered (dw_sys w)) \<longrightarrow> separated (answered (dw_sys w)))"

definition ran :: "(vsock_guest_message \<Rightarrow> u8 list option) \<Rightarrow> job_reporter
    \<Rightarrow> (string + unit) \<Rightarrow> driver \<Rightarrow> bool" where
  "ran to_vec reporter r w \<longleftrightarrow> halts (answered (dw_sys w)) \<and> checked_out (answered (dw_sys w))
     \<and> separated (answered (dw_sys w))
     \<and> dw_reporter w = Some (snd (report_complete to_vec (is_ok r) reporter))"

lemma run_after_setup:
  assumes "setup_part True (answered (dw_sys w))" and "dw_reporter w = Some reporter"
    and "and_then (attempt (on_sys (run_devenv config PROJECT_DIR)))
           (\<lambda>job_result. and_then (report_job to_vec (is_ok job_result))
             (\<lambda>_. and_then (on_sys halt_system) (\<lambda>_. from_result job_result))) w = (r, w')"
  shows "ran to_vec reporter r w'"
proof -
  obtain r1 w1 where d: "on_sys (run_devenv config PROJECT_DIR) w = (r1, w1)"
    by (cases "on_sys (run_devenv config PROJECT_DIR) w")
  define w2 where "w2 = w1\<lparr>dw_reporter := map_option (\<lambda>r. snd (report_complete to_vec (is_ok r1) r)) (dw_reporter w1)\<rparr>"
  obtain r3 w3 where h: "on_sys halt_system w2 = (r3, w3)" by (cases "on_sys halt_system w2")
  obtain t where t: "answered (dw_sys w1) = answered (dw_sys w) @ t" "dw_reporter w1 = dw_reporter w"
    "list_all (\<lambda>p. \<not> root_op (fst p) \<and> fst p \<noteq> Dv_Halt \<and> fst p \<noteq> Dv_Main_Worktree) t"
    using on_sys_emitsE [OF run_devenv_only d] by blast
  obtain u where u: "answered (dw_sys w3) = answered (dw_sys w2) @ u" "dw_reporter w3 = dw_reporter w2"
    "is_ok r3" "\<exists>x y. u = [(Dv_Sync, x), (Dv_Halt, y)]"
    using on_sys_emitsE [OF halt_system_emits h] by blast
  have "(r, w') = (r1, w3)"
    using assms(3) h u(3) unfolding w2_def
    by (auto simp: and_then_def attempt_def d report_job_def modify_def from_result_def split: sum.splits)
  moreover have "separated (answered (dw_sys w) @ t @ u)"
    using assms(1) t(3) u(4) by (auto simp: setup_part_def list_all_iff intro!: separated_append)
  ultimately show ?thesis
    using assms(1,2) t u(1,2,4) by (auto simp: ran_def w2_def setup_part_def)
qed

lemma driver_main_cases:
  assumes "driver_main from_slice to_vec attempts probe cmd (driver_new reply) = (r, w)"
  shows "stopped r w \<and> (dw_reporter w = None \<or>
           (\<exists>config reporter. receive_config_from_host from_slice to_vec attempts = Ok (config, reporter)
              \<and> dw_reporter w = Some reporter)) \<or>
         (\<exists>config reporter. receive_config_from_host from_slice to_vec attempts = Ok (config, reporter)
            \<and> ran to_vec reporter r w)"
proof -
  obtain r1 w1 where p: "on_sys (dv_do ''Failed to initialize PID 1 handling'' Dv_Pid1_Launch)
      (driver_new reply) = (r1, w1)" by fastforce
  obtain a where a: "answered (dw_sys w1) = [(Dv_Pid1_Launch, a)]" "dw_reporter w1 = None"
    using on_sys_emitsE [OF dv_do_emits p] by (auto simp: driver_new_def)
  show ?thesis
  proof (cases "is_ok r1 \<and> is_ok (receive_config_from_host from_slice to_vec attempts)")
    case False
    then have "\<not> is_ok r \<and> w = w1"
      using assms unfolding driver_main_stages
      by (auto simp: and_then_def p receive_job_def is_ok_def split: sum.splits)
    then show ?thesis using a by (simp add: stopped_def)
  next
    case True
    then obtain config reporter where
      c: "receive_config_from_host from_slice to_vec attempts = Ok (config, reporter)"
      by (cases "receive_config_from_host from_slice to_vec attempts") auto
    define w2 where "w2 = w1\<lparr>dw_reporter := Some reporter\<rparr>"
    obtain u where r1: "r1 = Ok u" using True by (cases r1) auto
    have rc: "receive_job from_slice to_vec attempts w1 = (Ok config, w2)"
      by (simp add: receive_job_def c w2_def)
    obtain r3 w3 where g: "on_sys (guest_setup probe cmd config) w2 = (r3, w3)"
      by (cases "on_sys (guest_setup probe cmd config) w2")
    obtain t where t: "answered (dw_sys w3) = (Dv_Pid1_Launch, a) # t"
      "dw_reporter w3 = Some reporter" "setup_part (is_ok r3) t"
      using on_sys_emitsE [OF guest_setup_emits g] a by (auto simp: w2_def)
    have s: "setup_part (is_ok r3) (answered (dw_sys w3))"
      using t(3) separated_prepend [of "[(Dv_Pid1_Launch, a)]" t]
      unfolding t(1) setup_part_def by simp
    show ?thesis
    proof (cases r3)
      case (Inl e)
      then have "r = Err e \<and> w = w3"
        using assms unfolding driver_main_stages
        by (simp add: and_then_def [of _ _ "driver_new reply"] and_then_def [of _ _ w1]
            and_then_def [of _ _ w2] p r1 rc g Inl)
      then show ?thesis using s t(2) c Inl by (simp add: stopped_def setup_part_def)
    next
      case (Inr b)
      then have "and_then (attempt (on_sys (run_devenv config PROJECT_DIR)))
          (\<lambda>job_result. and_then (report_job to_vec (is_ok job_result))
             (\<lambda>_. and_then (on_sys halt_system) (\<lambda>_. from_result job_result))) w3 = (r, w)"
        using assms unfolding driver_main_stages
        by (simp add: and_then_def [of _ _ "driver_new reply"] and_then_def [of _ _ w1]
            and_then_def [of _ _ w2] p r1 rc g Inr)
      with s t(2) c Inr show ?thesis by (auto dest: run_after_setup)
    qed
  qed
qed
section \<open>Properties\<close>

text \<open>A run in which everything succeeds, and one in which the repository cannot be fetched.\<close>

definition demo_reply :: "(driver_op \<Rightarrow> bool) \<Rightarrow> nat \<Rightarrow> driver_op \<Rightarrow> driver_reply" where
  "demo_reply good n op = \<lparr>rp_ok = good op, rp_text = ''/nix/store/nix'',
     rp_output = \<lparr>co_success = True, co_stdout = [], co_stderr = []\<rparr>\<rparr>"

fun no_fetch :: "driver_op \<Rightarrow> bool" where
  "no_fetch (Dv_Fetch _ _ _ _) = False"
| "no_fetch _ = True"

definition demo_attempts :: "stream option list" where
  "demo_attempts = [Some (empty_stream\<lparr>st_in := frames demo_host_to_vec [Host_Job_Config demo_job]\<rparr>)]"

definition demo_driver :: "(driver_op \<Rightarrow> bool) \<Rightarrow> (string + unit) \<times> driver" where
  "demo_driver good = driver_main demo_host_from_slice demo_to_vec demo_attempts (\<lambda>_. True) None
     (driver_new (demo_reply good))"

text \<open>Every stage succeeds when the world does.\<close>

definition good_world :: "driver_sys \<Rightarrow> bool" where
  "good_world w \<longleftrightarrow> (\<forall>n op. rp_ok (ext_reply w n op) \<and> co_success (rp_output (ext_reply w n op)))"

definition succeeds :: "'a drv \<Rightarrow> bool" where
  "succeeds m \<longleftrightarrow> (\<forall>w. good_world w \<longrightarrow> is_ok (fst (m w)) \<and> good_world (snd (m w)))"

lemma succeeds_and_then: "succeeds m \<Longrightarrow> (\<And>a. succeeds (f a)) \<Longrightarrow> succeeds (and_then m f)"
  by (fastforce simp: succeeds_def and_then_def split: prod.splits sum.splits)

lemma succeeds_basic:
  "succeeds (ret a)" "succeeds (perform op)" "succeeds (dv_call c op)" "succeeds (dv_do c op)"
  by (simp_all add: succeeds_def good_world_def io_defs perform_def dv_call_def dv_do_def)

lemma succeeds_test:
  assumes "succeeds (f True)"
  shows "succeeds (and_then (dv_test op) f)"
  using assms by (simp add: succeeds_def good_world_def io_defs perform_def dv_test_def)

lemma succeeds_for_each: "(\<And>x. succeeds (f x)) \<Longrightarrow> succeeds (for_each f xs)"
  by (induction xs) (simp_all add: succeeds_and_then succeeds_basic)

lemma succeeds_dv_shell:
  assumes "\<And>w. all_succeed w \<Longrightarrow> is_ok (fst (m w))"
  shows "succeeds (dv_shell m)"
  unfolding succeeds_def
proof (intro allI impI)
  fix w
  assume w: "good_world w"
  define inner where "inner = ext_new (\<lambda>n c. if rp_ok (ext_reply w (length (ext_log w) + n) (Dv_Shell c))
    then Some (rp_output (ext_reply w (length (ext_log w) + n) (Dv_Shell c))) else None)"
  have "all_succeed inner"
    using w by (simp add: all_succeed_def inner_def ext_new_def good_world_def)
  from assms [OF this] obtain a s where "m inner = (Ok a, s)"
    by (cases "m inner"; cases "fst (m inner)") auto
  then have "dv_shell m w = (Ok a, w\<lparr>ext_log := ext_log w @ map Dv_Shell (ext_log s)\<rparr>)"
    unfolding dv_shell_def Let_def inner_def [symmetric] by simp
  with w show "is_ok (fst (dv_shell m w)) \<and> good_world (snd (dv_shell m w))"
    by (simp add: good_world_def)
qed

lemma succeeds_checked_command: "all_succeed w \<Longrightarrow> is_ok (fst (checked_command c e argv i w))"
  unfolding checked_command_def
  by (subst run_command_succeeds [where r = "(Ok (), logged [Command argv i] w)"])
    (simp_all add: fail_unless_def ret_def)

lemma configure_network_succeeds:
  assumes "all_succeed w"
  shows "is_ok (fst (configure_network (\<lambda>_. True) None w))"
proof -
  have "parse_ip_from_cmdline [] = None" by code_simp
  moreover have "wait_for_network_interface (\<lambda>_. True) = Ok ''eth0''"
    by (simp add: wait_for_network_interface_spec exI [of _ 0])
  ultimately show ?thesis
    using assms
    by (simp add: configure_network_def from_result_def and_then_def [of "from_result _"]
        bring_up_succeeds test_dns_succeeds)
qed

lemma demo_received:
  "\<exists>reporter. receive_config_from_host demo_host_from_slice demo_to_vec demo_attempts = Ok (demo_job, reporter)"
  using read_message_codec [OF demo_codec(1), of "[]"] write_message_codec [OF demo_codec(2), of empty_stream]
  by (simp add: receive_config_from_host_def demo_attempts_def empty_stream_def demo_job_def)

lemma default_cert_succeeds: "succeeds (default_cert v)"
  unfolding default_cert_def by (rule succeeds_test) (simp add: succeeds_basic)

lemma read_nix_path_succeeds: "succeeds read_nix_path"
  unfolding read_nix_path_def
  by (rule succeeds_test) (simp add: succeeds_basic succeeds_and_then)

lemma chown_nix_succeeds: "succeeds (chown_nix c e)"
  unfolding chown_nix_def by (intro succeeds_dv_shell succeeds_checked_command)

lemma load_nix_db_succeeds: "succeeds (load_nix_db p)"
  unfolding load_nix_db_def
  by (intro succeeds_and_then succeeds_basic succeeds_dv_shell succeeds_checked_command)

lemma prepare_nix_succeeds: "succeeds (prepare_nix (\<lambda>_. True) None)"
  unfolding prepare_nix_def
  by (intro succeeds_and_then succeeds_basic succeeds_for_each chown_nix_succeeds load_nix_db_succeeds
      read_nix_path_succeeds succeeds_dv_shell configure_network_succeeds)

lemma clone_repository_succeeds: "succeeds (clone_repository config d)"
  unfolding clone_repository_def
  by (intro succeeds_and_then default_cert_succeeds)
    (simp_all add: succeeds_basic split: option.splits)

lemma run_devenv_succeeds: "succeeds (run_devenv config d)"
  unfolding run_devenv_def canonical_dir_def
  by (intro succeeds_and_then succeeds_basic)

lemma guest_setup_succeeds: "succeeds (guest_setup (\<lambda>_. True) None config)"
  unfolding guest_setup_def drop_privileges_def create_project_dir_def
  by (intro succeeds_and_then succeeds_basic prepare_nix_succeeds clone_repository_succeeds)

lemma on_sys_succeeds:
  assumes "succeeds m" and "good_world (dw_sys w)"
  obtains a w' where "on_sys m w = (Ok a, w')" and "good_world (dw_sys w')"
proof (cases "m (dw_sys w)")
  case (Pair r s)
  with assms have "is_ok r" "good_world s" by (force simp: succeeds_def)+
  then show ?thesis using that Pair by (cases r) (auto simp: on_sys_def)
qed

text \<open>In a good world the driver succeeds, and so has run the job.\<close>

lemma demo_driver_succeeds: "is_ok (fst (demo_driver (\<lambda>_. True)))"
proof -
  let ?w = "driver_new (demo_reply (\<lambda>_. True))"
  obtain reporter where c:
    "receive_config_from_host demo_host_from_slice demo_to_vec demo_attempts = Ok (demo_job, reporter)"
    using demo_received by blast
  have "good_world (dw_sys ?w)"
    by (simp add: good_world_def driver_new_def ext_new_def demo_reply_def)
  from on_sys_succeeds [OF succeeds_basic(4) this] obtain a1 w1 where
    1: "on_sys (dv_do ''Failed to initialize PID 1 handling'' Dv_Pid1_Launch) ?w = (Ok a1, w1)"
    "good_world (dw_sys w1)" .
  let ?w2 = "w1\<lparr>dw_reporter := Some reporter\<rparr>"
  from 1(2) have "good_world (dw_sys ?w2)" by simp
  from on_sys_succeeds [OF guest_setup_succeeds this] obtain a3 w3 where
    3: "on_sys (guest_setup (\<lambda>_. True) None demo_job) ?w2 = (Ok a3, w3)" "good_world (dw_sys w3)" .
  from on_sys_succeeds [OF run_devenv_succeeds this(2)] obtain a4 w4 where
    4: "on_sys (run_devenv demo_job PROJECT_DIR) w3 = (Ok a4, w4)" .
  let ?w5 = "w4\<lparr>dw_reporter := map_option (\<lambda>r. snd (report_complete demo_to_vec True r)) (dw_reporter w4)\<rparr>"
  obtain w6 where h5: "on_sys halt_system ?w5 = (Ok (), w6)"
    by (simp add: halt_system_def on_sys_def perform_def ret_def and_then_def)
  have r: "receive_job demo_host_from_slice demo_to_vec demo_attempts w1 = (Ok demo_job, ?w2)"
    by (simp add: receive_job_def c)
  show ?thesis
    unfolding demo_driver_def driver_main_stages
    by (simp add: and_then_def [of _ _ ?w] and_then_def [of _ _ w1] and_then_def [of _ _ ?w2] 1 3 r)
      (simp add: and_then_def attempt_def 4 report_job_def modify_def from_result_def h5)
qed

lemma demo_driver_checked_out: "checked_out (answered (dw_sys (snd (demo_driver (\<lambda>_. True)))))"
  using demo_driver_succeeds driver_main_cases [OF surjective_pairing, of demo_host_from_slice demo_to_vec]
  unfolding demo_driver_def by (fastforce simp: stopped_def ran_def)

text \<open>The answers of the world do not change during a run.\<close>

abbreviation keeps :: "'a drv \<Rightarrow> bool" where
  "keeps m \<equiv> \<forall>f. preserves (\<lambda>w. ext_reply w = f) m"

lemma keeps_basic: "keeps (perform op)" "keeps (dv_shell m)"
  by (auto simp: preserves_def perform_def dv_shell_def Let_def split: prod.splits)

lemma keeps_dv: "keeps (dv_call c op)" "keeps (dv_do c op)" "keeps (dv_test op)"
  unfolding dv_call_def dv_do_def dv_test_def by (auto intro!: preserves_and_then simp: keeps_basic)

lemma keeps_stages:
  "keeps (guest_setup probe cmd config)" "keeps (run_devenv config d)" "keeps halt_system"
  unfolding guest_setup_def prepare_nix_def read_nix_path_def chown_nix_def load_nix_db_def
    drop_privileges_def create_project_dir_def clone_repository_def default_cert_def
    run_devenv_def canonical_dir_def halt_system_def
  by (auto intro!: preserves_and_then preserves_for_each simp: keeps_basic keeps_dv split: option.splits)

lemma keeps_on_sys: "keeps m \<Longrightarrow> preserves (\<lambda>w. ext_reply (dw_sys w) = f) (on_sys m)"
  by (simp add: preserves_def on_sys_def case_prod_beta)

lemma keeps_reply:
  "preserves (\<lambda>w. ext_reply (dw_sys w) = f) (driver_main from_slice to_vec attempts probe cmd)"
proof -
  have "preserves (\<lambda>w. ext_reply (dw_sys w) = f) (receive_job from_slice to_vec attempts)"
    by (auto simp: preserves_def receive_job_def split: sum.splits)
  then show ?thesis
    unfolding driver_main_stages report_job_def
    by (auto intro!: preserves_and_then keeps_on_sys keeps_stages keeps_dv preserves_attempt
        preserves_modify)
qed

lemma demo_driver_refused:
  "\<not> checked_out (answered (dw_sys (snd (demo_driver (\<lambda>op. op \<noteq> Dv_Main_Worktree)))))"
proof -
  let ?r = "demo_reply (\<lambda>op. op \<noteq> Dv_Main_Worktree)"
  have "ext_reply (dw_sys (snd (demo_driver (\<lambda>op. op \<noteq> Dv_Main_Worktree)))) = ?r"
    unfolding demo_driver_def by (rule preservesD [OF keeps_reply]) (simp add: driver_new_def ext_new_def)
  then show ?thesis by (auto simp: list_ex_iff answered_def demo_reply_def)
qed

text \<open>
  C26. Nothing of the job (cloning, loading its configuration, building its environment) happens
  with root's privileges: whenever the run contains such an operation, group and user were
  successfully changed before it, and no operation that needs root comes after the change.
\<close>

theorem job_runs_unprivileged:
  assumes "driver_main from_slice to_vec attempts probe cmd (driver_new reply) = (r, w)"
    and "list_ex (\<lambda>p. job_op (fst p)) (answered (dw_sys w))"
  shows "separated (answered (dw_sys w))"
  using driver_main_cases [OF assms(1)] assms(2) by (auto simp: stopped_def ran_def)

theorem job_runs_unprivileged_witness:
  "separated (answered (dw_sys (snd (demo_driver (\<lambda>_. True)))))"
  unfolding demo_driver_def
proof (rule job_runs_unprivileged [OF surjective_pairing])
  show "list_ex (\<lambda>p. job_op (fst p)) (answered (dw_sys (snd (driver_main demo_host_from_slice
      demo_to_vec demo_attempts (\<lambda>_. True) None (driver_new (demo_reply (\<lambda>_. True)))))))"
    using demo_driver_checked_out unfolding demo_driver_def by (auto simp: list_ex_iff) force
qed



text \<open>
  A driver that fails before the repository is checked out (the clone itself included) ends
  with an error, reports no outcome and does not halt the machine.
\<close>

theorem failed_checkout_is_silent:
  assumes "driver_main from_slice to_vec attempts probe cmd (driver_new reply) = (r, w)"
    and "\<not> checked_out (answered (dw_sys w))"
  shows "\<not> is_ok r \<and> \<not> halts (answered (dw_sys w)) \<and> (dw_reporter w = None
    \<or> (\<exists>config reporter. receive_config_from_host from_slice to_vec attempts = Ok (config, reporter)
         \<and> dw_reporter w = Some reporter))"
  using driver_main_cases [OF assms(1)] assms(2) by (auto simp: stopped_def ran_def)

theorem failed_checkout_is_silent_witness:
  "\<not> halts (answered (dw_sys (snd (demo_driver (\<lambda>op. op \<noteq> Dv_Main_Worktree)))))"
  using failed_checkout_is_silent [OF surjective_pairing] demo_driver_refused
  unfolding demo_driver_def by blast

end
