(* ===== verification/Resource_Runs.thy ===== *)
theory Resource_Runs
  imports Resources
begin

section \<open>The resource manager with its guards and release tasks\<close>

text \<open>
  The life of a resource manager: jobs allocate, guards are dropped or taken, the spawned release
  tasks run in any order, and the runner may release a job directly. The invariant says where
  every address and every registered job is; its consequence is that nothing leaks.
\<close>

record resource_world =
  rw_rm :: resource_manager
  rw_guards :: "resource_guard list"
  rw_ips :: "ip_guard list"
  rw_cids :: "cid_guard list"
  rw_tasks :: "release_task list"
  rw_taken_jobs :: "uuid list"
  rw_taken_ips :: "ipv4 list"

datatype resource_event =
    Ev_Allocate uuid vm
  | Ev_Drop_Guard nat
  | Ev_Take_Guard nat
  | Ev_Ip_New
  | Ev_Ip_Drop nat
  | Ev_Ip_Take nat
  | Ev_Cid_New
  | Ev_Cid_Drop nat
  | Ev_Run_Task nat
  | Ev_Release_Job uuid

definition resource_world_new :: "resource_limits \<Rightarrow> resource_world" where
  "resource_world_new limits =
     \<lparr>rw_rm = resource_manager_new limits, rw_guards = [], rw_ips = [], rw_cids = [],
      rw_tasks = [], rw_taken_jobs = [], rw_taken_ips = []\<rparr>"

fun resource_step :: "resource_event \<Rightarrow> resource_world \<Rightarrow> resource_world" where
  "resource_step (Ev_Allocate i v) w =
     (case allocate_resources i v (rw_rm w) of
        (Inl _, rm) \<Rightarrow> w\<lparr>rw_rm := rm\<rparr>
      | (Inr g, rm) \<Rightarrow> w\<lparr>rw_rm := rm, rw_guards := rw_guards w @ [g]\<rparr>)"
| "resource_step (Ev_Drop_Guard n) w =
     (if n < length (rw_guards w)
      then w\<lparr>rw_guards := remove_nth n (rw_guards w),
             rw_tasks := rw_tasks w @ resource_guard_drop (rw_guards w ! n)\<rparr>
      else w)"
| "resource_step (Ev_Take_Guard n) w =
     (if n < length (rw_guards w)
      then case resource_guard_take (rw_guards w ! n) of (r, g) \<Rightarrow>
             w\<lparr>rw_guards := remove_nth n (rw_guards w),
               rw_tasks := rw_tasks w @ resource_guard_drop g,
               rw_taken_jobs := rw_taken_jobs w @ (case r of Some (i, v) \<Rightarrow> [i] | None \<Rightarrow> [])\<rparr>
      else w)"
| "resource_step Ev_Ip_New w =
     (case ip_guard_new (rw_rm w) of
        (None, rm) \<Rightarrow> w\<lparr>rw_rm := rm\<rparr>
      | (Some g, rm) \<Rightarrow> w\<lparr>rw_rm := rm, rw_ips := rw_ips w @ [g]\<rparr>)"
| "resource_step (Ev_Ip_Drop n) w =
     (if n < length (rw_ips w)
      then w\<lparr>rw_ips := remove_nth n (rw_ips w),
             rw_tasks := rw_tasks w @ ip_guard_drop (rw_ips w ! n)\<rparr>
      else w)"
| "resource_step (Ev_Ip_Take n) w =
     (if n < length (rw_ips w)
      then case ip_guard_take (rw_ips w ! n) of (r, g) \<Rightarrow>
             w\<lparr>rw_ips := remove_nth n (rw_ips w),
               rw_tasks := rw_tasks w @ ip_guard_drop g,
               rw_taken_ips := rw_taken_ips w @ (case r of Some i \<Rightarrow> [i] | None \<Rightarrow> [])\<rparr>
      else w)"
| "resource_step Ev_Cid_New w =
     (case cid_guard_new (rw_rm w) of
        (None, rm) \<Rightarrow> w\<lparr>rw_rm := rm\<rparr>
      | (Some g, rm) \<Rightarrow> w\<lparr>rw_rm := rm, rw_cids := rw_cids w @ [g]\<rparr>)"
| "resource_step (Ev_Cid_Drop n) w =
     (if n < length (rw_cids w)
      then w\<lparr>rw_cids := remove_nth n (rw_cids w),
             rw_tasks := rw_tasks w @ cid_guard_drop (rw_cids w ! n)\<rparr>
      else w)"
| "resource_step (Ev_Run_Task n) w =
     (if n < length (rw_tasks w)
      then w\<lparr>rw_rm := run_release (rw_tasks w ! n) (rw_rm w),
             rw_tasks := remove_nth n (rw_tasks w)\<rparr>
      else w)"
| "resource_step (Ev_Release_Job i) w = w\<lparr>rw_rm := snd (release_job i (rw_rm w))\<rparr>"

subsection \<open>Where everything is\<close>

definition opt_list :: "'a option \<Rightarrow> 'a list" where
  "opt_list x = (case x of None \<Rightarrow> [] | Some a \<Rightarrow> [a])"

fun task_ip :: "release_task \<Rightarrow> ipv4 list" where
  "task_ip (Release_Ip i) = [i]"
| "task_ip _ = []"

fun task_cid :: "release_task \<Rightarrow> u32 list" where
  "task_cid (Release_Cid c) = [c]"
| "task_cid _ = []"

fun task_job :: "release_task \<Rightarrow> uuid list" where
  "task_job (Release_Job i) = [i]"
| "task_job _ = []"

definition all_ips :: "resource_world \<Rightarrow> ipv4 multiset" where
  "all_ips w = mset (rm_free_ips (rw_rm w)) + mset (gather opt_list (rw_ips w))
               + mset (gather task_ip (rw_tasks w)) + mset (rw_taken_ips w)"

definition all_cids :: "resource_world \<Rightarrow> u32 multiset" where
  "all_cids w = mset (rm_free_cids (rw_rm w)) + mset (gather opt_list (rw_cids w))
                + mset (gather task_cid (rw_tasks w))"

definition held_jobs :: "resource_world \<Rightarrow> uuid multiset" where
  "held_jobs w = mset (gather (\<lambda>g. opt_list (rg_job_id g)) (rw_guards w))
                 + mset (gather task_job (rw_tasks w)) + mset (rw_taken_jobs w)"

definition guards_whole :: "resource_world \<Rightarrow> bool" where
  "guards_whole w = (\<forall>g \<in> set (rw_guards w). \<exists>i v. g = resource_guard_new i v)"

definition registered :: "resource_world \<Rightarrow> uuid set" where
  "registered w = fst ` set (alloc_jobs (rm_allocation (rw_rm w)))"

definition resource_inv :: "resource_world \<Rightarrow> bool" where
  "resource_inv w =
     (accounting (rw_rm w) \<and> all_ips w = mset initial_ips \<and> all_cids w = mset initial_cids
      \<and> (\<forall>i. count (held_jobs w) i \<le> 1) \<and> registered w \<subseteq> set_mset (held_jobs w)
      \<and> guards_whole w)"

text \<open>A job identifier is allocated only when nothing holds it (the runner draws a new UUID).\<close>

fun resource_fresh :: "resource_event \<Rightarrow> resource_world \<Rightarrow> bool" where
  "resource_fresh (Ev_Allocate i v) w = (i \<notin># held_jobs w)"
| "resource_fresh _ w = True"

lemma resource_inv_new: "resource_inv (resource_world_new limits)"
  by (simp add: resource_inv_def resource_world_new_def accounting_new all_ips_def all_cids_def
      held_jobs_def registered_def guards_whole_def resource_manager_new_def resource_state_new_def)
    (use accounting_new [of limits] in
      \<open>simp add: resource_manager_new_def resource_state_new_def\<close>)


lemmas step_defs = ip_guard_new_def allocate_ip_def cid_guard_new_def allocate_cid_def
  opt_list_def ip_guard_drop_def cid_guard_drop_def resource_guard_drop_def ip_guard_take_def
  resource_guard_take_def
lemma all_ips_step: "all_ips (resource_step e w) = all_ips w"
proof (cases e)
  case (Ev_Allocate i v)
  then show ?thesis
    using allocate_frame [of i v "rw_rm w"] by (auto simp: all_ips_def split: prod.splits sum.splits)
next
  case (Ev_Run_Task n)
  then show ?thesis
  proof (cases "n < length (rw_tasks w)")
    case True
    then show ?thesis
      using Ev_Run_Task gather_remove_nth [OF True, of task_ip]
      by (cases "rw_tasks w ! n")
        (simp_all add: all_ips_def release_ip_def release_cid_def frame_simps)
  qed simp
qed (auto simp: all_ips_def frame_simps step_defs gather_remove_nth
    split: prod.splits sum.splits list.splits option.splits)

lemma all_cids_step: "all_cids (resource_step e w) = all_cids w"
proof (cases e)
  case (Ev_Allocate i v)
  then show ?thesis
    using allocate_frame [of i v "rw_rm w"] by (auto simp: all_cids_def split: prod.splits sum.splits)
next
  case (Ev_Run_Task n)
  then show ?thesis
  proof (cases "n < length (rw_tasks w)")
    case True
    then show ?thesis
      using Ev_Run_Task gather_remove_nth [OF True, of task_cid]
      by (cases "rw_tasks w ! n")
        (simp_all add: all_cids_def release_ip_def release_cid_def frame_simps)
  qed simp
qed (auto simp: all_cids_def frame_simps step_defs gather_remove_nth
    split: prod.splits sum.splits list.splits option.splits)

lemma allocate_Ok_guard: "allocate_resources i v rm = (Ok g, rm') \<Longrightarrow> g = resource_guard_new i v"
  by (auto simp: allocate_resources_def Let_def split: option.splits)

lemma guards_whole_step: "guards_whole w \<Longrightarrow> guards_whole (resource_step e w)"
  by (cases e) (auto simp: guards_whole_def step_defs
     dest: subsetD [OF set_remove_nth] dest!: allocate_Ok_guard
     split: prod.splits sum.splits option.splits)

lemma resource_guard_new_simps [simp]:
  "rg_job_id (resource_guard_new i v) = Some i" "rg_vm (resource_guard_new i v) = Some v"
  by (simp_all add: resource_guard_new_def)

text \<open>What holds the identifiers changes only by a fresh allocation or a completed release.\<close>

lemma held_jobs_step:
  assumes "guards_whole w"
  shows "held_jobs (resource_step e w) =
    (case e of
       Ev_Allocate i v \<Rightarrow> (if is_ok (fst (allocate_resources i v (rw_rm w)))
                          then add_mset i (held_jobs w) else held_jobs w)
     | Ev_Run_Task n \<Rightarrow> (if n < length (rw_tasks w)
                         then held_jobs w - mset (task_job (rw_tasks w ! n)) else held_jobs w)
     | _ \<Rightarrow> held_jobs w)"
proof (cases e)
  case (Ev_Allocate i v)
  then show ?thesis
    by (auto simp: held_jobs_def opt_list_def dest: allocate_Ok_guard split: prod.splits sum.splits)
next
  case (Ev_Run_Task n)
  then show ?thesis
  proof (cases "n < length (rw_tasks w)")
    case True
    then show ?thesis
      using Ev_Run_Task gather_remove_nth [OF True, of task_job]
      by (simp add: held_jobs_def)
  qed simp
next
  case (Ev_Take_Guard n)
  show ?thesis
  proof (cases "n < length (rw_guards w)")
    case True
    obtain i v where "rw_guards w ! n = resource_guard_new i v"
      using assms True nth_mem unfolding guards_whole_def by blast
    then show ?thesis
      using Ev_Take_Guard True by (simp add: held_jobs_def step_defs gather_remove_nth)
  qed (simp add: Ev_Take_Guard)
qed (auto simp: held_jobs_def step_defs gather_remove_nth
    split: prod.splits sum.splits list.splits option.splits)

lemma registered_step:
  "registered (resource_step e w) \<subseteq>
    (case e of
       Ev_Allocate i v \<Rightarrow> (if is_ok (fst (allocate_resources i v (rw_rm w)))
                          then insert i (registered w) else registered w)
     | Ev_Run_Task n \<Rightarrow> (if n < length (rw_tasks w)
                         then registered w - set (task_job (rw_tasks w ! n)) else registered w)
     | _ \<Rightarrow> registered w)"
proof (cases e)
  case (Ev_Allocate i v)
  then show ?thesis
    by (auto simp: registered_def allocate_resources_def Let_def
        split: option.splits if_splits)
next
  case (Ev_Run_Task n)
  then show ?thesis
    by (cases "rw_tasks w ! n")
      (auto simp: registered_def release_ip_def release_cid_def release_job_def Let_def
        hm_get_None split: option.splits if_splits)
next
  case (Ev_Release_Job i)
  then show ?thesis
    by (auto simp: registered_def release_job_def Let_def split: option.splits)
qed (auto simp: registered_def step_defs frame_simps
    split: prod.splits sum.splits list.splits option.splits if_splits)

lemma accounting_step:
  assumes "accounting (rw_rm w)" and "registered w \<subseteq> set_mset (held_jobs w)" and "resource_fresh e w"
  shows "accounting (rw_rm (resource_step e w))"
proof (cases e)
  case (Ev_Allocate i v)
  with assms have "hm_get (alloc_jobs (rm_allocation (rw_rm w))) i = None"
    by (auto simp: hm_get_None registered_def)
  from accounting_allocate [OF assms(1) this, of v] show ?thesis
    using Ev_Allocate by (auto split: prod.splits sum.splits)
next
  case (Ev_Release_Job i)
  then show ?thesis using accounting_release [OF assms(1), of i] by simp
qed (use assms(1) in \<open>auto simp: step_defs accounting_run_release
    split: prod.splits sum.splits list.splits option.splits\<close>)

lemma resource_inv_step [inv_intros]:
  assumes inv: "resource_inv w" and fresh: "resource_fresh e w"
  shows "resource_inv (resource_step e w)"
proof -
  have le: "count (held_jobs w) i \<le> 1" for i using inv by (simp add: resource_inv_def)
  have whole: "guards_whole w" using inv by (simp add: resource_inv_def)
  have sub: "registered w \<subseteq> set_mset (held_jobs w)" using inv by (simp add: resource_inv_def)
  have "\<forall>i. count (held_jobs (resource_step e w)) i \<le> 1"
    unfolding held_jobs_step [OF whole]
    using le fresh by (cases e) (auto simp: not_in_iff intro: le_trans [OF diff_le_self])
  moreover have "registered (resource_step e w) \<subseteq> set_mset (held_jobs (resource_step e w))"
    unfolding held_jobs_step [OF whole] using sub
    by (cases e; intro subset_trans [OF registered_step])
      (auto simp: in_diff_count count_mset_0_iff [THEN iffD2] split: if_splits)
  ultimately show ?thesis
    using inv accounting_step [OF _ sub fresh] guards_whole_step [OF whole, of e]
    by (simp add: resource_inv_def all_ips_step all_cids_step)
qed

interpretation resource_runs: machine resource_step resource_fresh resource_inv
  by unfold_locales (rule resource_inv_step)

lemma addresses_run:
  "all_ips (fold resource_step es w) = all_ips w" "all_cids (fold resource_step es w) = all_cids w"
  by (induction es arbitrary: w) (simp_all add: all_ips_step all_cids_step)

lemma inj_on_of_nat_word: "inj_on (of_nat :: nat \<Rightarrow> 'a::len word) {..<2 ^ LENGTH('a)}"
  by (rule inj_onI) (simp add: word_of_nat_eq_iff take_bit_nat_eq_self)

lemma distinct_initial_ips: "distinct initial_ips"
proof -
  have "inj_on (\<lambda>i. Ipv4 10 0 0 (of_nat i)) {2..<255}"
    using inj_on_subset [OF inj_on_of_nat_word [where 'a = 8], of "{2..<255}"]
    by (simp add: inj_on_def subset_iff del: upt_rec_numeral)
  then show ?thesis by (simp only: initial_ips_def distinct_map distinct_upt set_upt simp_thms)
qed

lemma distinct_initial_cids: "distinct initial_cids"
proof -
  have "inj_on (of_nat :: nat \<Rightarrow> u32) {3..<1025}"
    by (rule inj_on_subset [OF inj_on_of_nat_word]) auto
  then show ?thesis by (simp only: initial_cids_def distinct_map distinct_upt set_upt simp_thms)
qed

lemma limits_step [frame_simps]: "rm_limits (rw_rm (resource_step e w)) = rm_limits (rw_rm w)"
proof (cases e)
  case (Ev_Allocate i v)
  then show ?thesis
    using allocate_frame(1) [of i v "rw_rm w"] by (auto split: prod.splits sum.splits)
qed (auto simp: step_defs frame_simps split: prod.splits sum.splits list.splits option.splits)

lemma limits_run: "rm_limits (rw_rm (fold resource_step es (resource_world_new l))) = l"
proof -
  have "rm_limits (rw_rm (fold resource_step es w)) = rm_limits (rw_rm w)" for w
    by (induction es arbitrary: w) (simp_all add: frame_simps)
  then show ?thesis by (simp add: resource_world_new_def resource_manager_new_def)
qed

lemma resource_run_inv:
  "resource_runs.guarded es (resource_world_new l)
   \<Longrightarrow> resource_inv (fold resource_step es (resource_world_new l))"
  using resource_runs.run_inv resource_inv_new by blast

definition demo_vm :: vm where
  "demo_vm = \<lparr>vm_cpu_count = 2, vm_memory_size_mb = 512, vm_platform = X86_64Linux\<rparr>"

definition demo_limits :: resource_limits where
  "demo_limits = \<lparr>max_cpus = 4, max_memory_bytes = 1073741824, max_instances = None\<rparr>"

definition demo_run :: "resource_event list" where
  "demo_run = [Ev_Allocate 1 demo_vm, Ev_Allocate 2 demo_vm, Ev_Drop_Guard 0, Ev_Run_Task 0]"

lemma demo_run_guarded: "resource_runs.guarded demo_run (resource_world_new demo_limits)"
  by (simp add: demo_run_def demo_limits_def demo_vm_def resource_world_new_def
      resource_manager_new_def resource_state_new_def allocate_resources_def check_limits_def
      memory_bytes_def saturating_sub_def hm_insert_def hm_len_def held_jobs_def opt_list_def
      resource_guard_new_def)

section \<open>Properties\<close>

text \<open>
  C1. After every run of the resource manager, whatever jobs were allocated, guards dropped or
  taken, release tasks run and jobs released directly, the two counters are the totals over the
  registered jobs (nothing wrapped around), one CPU and 100 MiB of the limits are left as soon as
  something is allocated, and the instance limit is respected. A job identifier is allocated
  afresh each time, as the runner does.
\<close>

theorem accounting_after_every_run:
  assumes "resource_runs.guarded es (resource_world_new l)"
  shows "let rm = rw_rm (fold resource_step es (resource_world_new l)); a = rm_allocation rm
         in unat (allocated_cpus a) = cpu_total a \<and> unat (allocated_memory a) = mem_total a
            \<and> (cpu_total a = 0 \<or> cpu_total a + 1 \<le> unat (max_cpus l))
            \<and> (mem_total a = 0 \<or> mem_total a + mib100 \<le> unat (max_memory_bytes l))
            \<and> (case max_instances l of None \<Rightarrow> True
               | Some m \<Rightarrow> hm_len (alloc_jobs a) \<le> unat m)"
  using resource_run_inv [OF assms] limits_run [of es l]
  by (simp add: resource_inv_def accounting_def Let_def)

theorem accounting_after_every_run_witness:
  "unat (allocated_cpus (rm_allocation
     (rw_rm (fold resource_step demo_run (resource_world_new demo_limits)))))
   = cpu_total (rm_allocation (rw_rm (fold resource_step demo_run (resource_world_new demo_limits))))"
  using accounting_after_every_run [OF demo_run_guarded] by (simp add: Let_def)

text \<open>A runner on macOS, whose limits are the platform's, never has two jobs registered.\<close>

lemma macos_runs_one_job:
  assumes "l = limits_with_platform_defaults Macos cpus mem"
    and "resource_runs.guarded es (resource_world_new l)"
  shows "hm_len (alloc_jobs (rm_allocation (rw_rm (fold resource_step es (resource_world_new l))))) \<le> 1"
  using resource_run_inv [OF assms(2)] limits_run [of es l]
  by (simp add: assms(1) platform_defaults_are_system_resources resource_inv_def accounting_def Let_def)

text \<open>
  No address is lost or duplicated: after every run each of the 253 IP addresses and each of
  the 1022 context identifiers is in exactly one place, the pool, a live guard, a release task
  not yet run, or (for an IP) with whoever took it out of its guard.
\<close>

theorem addresses_conserved:
  "all_ips (fold resource_step es (resource_world_new l)) = mset initial_ips
   \<and> all_cids (fold resource_step es (resource_world_new l)) = mset initial_cids
   \<and> distinct initial_ips \<and> distinct initial_cids"
  using resource_inv_new [of l]
  by (simp add: addresses_run distinct_initial_ips distinct_initial_cids resource_inv_def)

text \<open>
  C8. Nothing leaks: when, after any run, no guard is alive, no release task is pending and nothing
  was taken out of its guard, both counters are zero, no job is registered, and the address pools
  hold exactly what they started with.
\<close>

theorem nothing_leaks:
  assumes run: "resource_runs.guarded es (resource_world_new l)"
    and w: "w = fold resource_step es (resource_world_new l)"
    and quiet: "rw_guards w = []" "rw_ips w = []" "rw_cids w = []" "rw_tasks w = []"
      "rw_taken_jobs w = []" "rw_taken_ips w = []"
  shows "rm_allocation (rw_rm w) = resource_state_new
         \<and> mset (rm_free_ips (rw_rm w)) = mset initial_ips
         \<and> mset (rm_free_cids (rw_rm w)) = mset initial_cids"
proof -
  have inv: "resource_inv w" using resource_run_inv [OF run] w by simp
  then have jobs: "alloc_jobs (rm_allocation (rw_rm w)) = []"
    using quiet by (auto simp: resource_inv_def registered_def held_jobs_def)
  then have "unat (allocated_cpus (rm_allocation (rw_rm w))) = 0"
    and "unat (allocated_memory (rm_allocation (rw_rm w))) = 0"
    using inv by (simp_all add: resource_inv_def accounting_def Let_def cpu_total_def mem_total_def)
  then have "rm_allocation (rw_rm w) = resource_state_new"
    using jobs by (simp add: resource_state_new_def unat_eq_0)
  then show ?thesis
    using inv quiet by (simp add: resource_inv_def all_ips_def all_cids_def)
qed

definition demo_quiet_run :: "resource_event list" where
  "demo_quiet_run = [Ev_Allocate 1 demo_vm, Ev_Drop_Guard 0, Ev_Run_Task 0]"

theorem nothing_leaks_witness:
  "rm_allocation (rw_rm (fold resource_step demo_quiet_run (resource_world_new demo_limits)))
   = resource_state_new"
proof -
  have "resource_runs.guarded demo_quiet_run (resource_world_new demo_limits)"
    using demo_run_guarded by (simp add: demo_quiet_run_def demo_run_def del: resource_step.simps)
  moreover have "resource_step (Ev_Run_Task 0) (resource_step (Ev_Drop_Guard 0)
      (resource_step (Ev_Allocate 1 demo_vm) (resource_world_new demo_limits)))
      = resource_world_new demo_limits"
    by (simp add: resource_world_new_def allocate_resources_def demo_vm_def demo_limits_def
       resource_manager_new_def resource_state_new_def check_limits_def memory_bytes_def
       saturating_sub_def hm_insert_def hm_len_def resource_guard_new_def remove_nth_def
       resource_guard_drop_def release_job_def hm_get_def hm_remove_def)
  ultimately show ?thesis
    using nothing_leaks [OF _ refl, of demo_quiet_run demo_limits]
    by (simp add: demo_quiet_run_def resource_world_new_def del: resource_step.simps)
qed

text \<open>
  The capacity check is exact: after every run, \<open>can_allocate\<close> accepts a request precisely when,
  computed without wrap-around, the request and the reserved CPU and 100 MiB fit beside what is in
  use and the instance limit is not reached. A request for zero CPUs (or bytes) ignores that buffer.
\<close>

theorem can_allocate_exact:
  assumes "resource_runs.guarded es (resource_world_new l)"
    and "a = rm_allocation (rw_rm (fold resource_step es (resource_world_new l)))"
  shows "can_allocate cpus mb (rw_rm (fold resource_step es (resource_world_new l)))
         \<longleftrightarrow> fits l (hm_len (alloc_jobs a)) (cpu_total a) (mem_total a)
               (unat cpus) (unat (mb * 1024 * 1024))"
  using check_limits_fits [of "rw_rm (fold resource_step es (resource_world_new l))"]
    resource_run_inv [OF assms(1)] limits_run [of es l] assms(2)
  by (simp add: resource_inv_def can_allocate_def)

theorem can_allocate_exact_witness:
  "can_allocate 1 100 (rw_rm (fold resource_step [] (resource_world_new demo_limits)))
   \<longleftrightarrow> fits demo_limits 0 0 0 1 104857600"
  using can_allocate_exact [of "[]" demo_limits "resource_state_new" 1 100]
  by (simp add: resource_world_new_def resource_manager_new_def resource_state_new_def hm_len_def
      cpu_total_def mem_total_def)

end
