(* ===== verification/Job_Manager.thy ===== *)
theory Job_Manager
  imports Protocol
begin

section \<open>Job life cycle on the runner: runner/src/job_manager.rs\<close>

text \<open>
  The table of the jobs a runner knows, their allowed status transitions, and the bounded channel
  on which every change is announced to the main loop. The write lock is held while the event is
  sent, so an operation that finds the channel full keeps the lock until the main loop receives:
  \<open>jm_waiting\<close> is the event of that operation, and every operation that starts meanwhile waits.
\<close>

record status_event =
  se_job_id :: uuid
  se_status :: job_status

record job_info =
  ji_id :: uuid
  ji_config :: job_config
  ji_status :: job_status

definition job_info_new :: "uuid \<Rightarrow> job_config \<Rightarrow> job_info" where
  "job_info_new i c = \<lparr>ji_id = i, ji_config = c, ji_status = Queued\<rparr>"

record job_manager =
  jm_jobs :: "(uuid, job_info) hmap"
  jm_status :: "status_event chan"
  jm_waiting :: "status_event option"

datatype 'a poll = Ready 'a | Pending

datatype job_error = Job_Not_Found uuid

definition job_manager_new :: "status_event chan \<Rightarrow> job_manager" where
  "job_manager_new c = \<lparr>jm_jobs = [], jm_status = c, jm_waiting = None\<rparr>"

text \<open>
  \<open>self.status_tx.send(event).await\<close>: a closed channel is logged and the operation succeeds; a
  full one leaves the operation waiting, with the lock.
\<close>

definition emit :: "status_event \<Rightarrow> job_manager \<Rightarrow> (job_error + unit) poll \<times> job_manager" where
  "emit ev jm =
     (case chan_send ev (jm_status jm) of
        (Would_Block, c) \<Rightarrow> (Pending, jm\<lparr>jm_waiting := Some ev\<rparr>)
      | (_, c) \<Rightarrow> (Ready (Ok ()), jm\<lparr>jm_status := c\<rparr>))"

definition register_job ::
    "uuid \<Rightarrow> job_config \<Rightarrow> job_manager \<Rightarrow> (job_error + unit) poll \<times> job_manager" where
  "register_job i config jm =
     (if jm_waiting jm \<noteq> None then (Pending, jm)
      else emit \<lparr>se_job_id = i, se_status = Queued\<rparr>
             (jm\<lparr>jm_jobs := hm_insert i (job_info_new i config) (jm_jobs jm)\<rparr>))"

fun transition_allowed :: "job_status \<Rightarrow> job_status \<Rightarrow> bool" where
  "transition_allowed Queued Running = True"
| "transition_allowed Queued (Complete Cancelled) = True"
| "transition_allowed Running (Complete c) = True"
| "transition_allowed _ _ = False"

definition update_job_status ::
    "uuid \<Rightarrow> job_status \<Rightarrow> job_manager \<Rightarrow> (job_error + unit) poll \<times> job_manager" where
  "update_job_status i status jm =
     (if jm_waiting jm \<noteq> None then (Pending, jm)
      else case hm_get (jm_jobs jm) i of
             None \<Rightarrow> (Ready (Err (Job_Not_Found i)), jm)
           | Some job \<Rightarrow>
               if ji_status job = status then (Ready (Ok ()), jm)
               else if \<not> transition_allowed (ji_status job) status then (Ready (Ok ()), jm)
               else emit \<lparr>se_job_id = i, se_status = status\<rparr>
                      (jm\<lparr>jm_jobs := hm_insert i (job\<lparr>ji_status := status\<rparr>) (jm_jobs jm)\<rparr>))"

definition set_job_running :: "uuid \<Rightarrow> job_manager \<Rightarrow> (job_error + unit) poll \<times> job_manager" where
  "set_job_running i = update_job_status i Running"

definition complete_job ::
    "uuid \<Rightarrow> completion_status \<Rightarrow> job_manager \<Rightarrow> (job_error + unit) poll \<times> job_manager" where
  "complete_job i c = update_job_status i (Complete c)"

text \<open>The waiting send finishes once there is room (or the receiver is gone); the lock is released.\<close>

definition jm_resume :: "job_manager \<Rightarrow> job_manager" where
  "jm_resume jm =
     (case jm_waiting jm of
        None \<Rightarrow> jm
      | Some ev \<Rightarrow>
          (case chan_send ev (jm_status jm) of
             (Would_Block, c) \<Rightarrow> jm
           | (_, c) \<Rightarrow> jm\<lparr>jm_status := c, jm_waiting := None\<rparr>))"

text \<open>The main loop's \<open>status_rx.recv()\<close>, which takes no lock.\<close>

definition jm_receive :: "job_manager \<Rightarrow> status_event option \<times> job_manager" where
  "jm_receive jm = (case chan_recv (jm_status jm) of (r, c) \<Rightarrow> (r, jm\<lparr>jm_status := c\<rparr>))"

text \<open>Reads take the read lock, which waits for the writer.\<close>

definition with_read_lock :: "(job_manager \<Rightarrow> 'a) \<Rightarrow> job_manager \<Rightarrow> 'a poll" where
  "with_read_lock f jm = (if jm_waiting jm = None then Ready (f jm) else Pending)"

definition get_job :: "uuid \<Rightarrow> job_manager \<Rightarrow> job_info option poll" where
  "get_job i = with_read_lock (\<lambda>jm. hm_get (jm_jobs jm) i)"

definition job_exists :: "uuid \<Rightarrow> job_manager \<Rightarrow> bool poll" where
  "job_exists i = with_read_lock (\<lambda>jm. hm_contains (jm_jobs jm) i)"

definition job_count :: "job_manager \<Rightarrow> nat poll" where
  "job_count = with_read_lock (\<lambda>jm. hm_len (jm_jobs jm))"

definition active_job_count :: "job_manager \<Rightarrow> nat poll" where
  "active_job_count =
     with_read_lock (\<lambda>jm. length (filter (\<lambda>j. \<not> is_complete (ji_status j)) (hm_values (jm_jobs jm))))"

text \<open>The loop of \<open>get_job_counts\<close>: active, queued and running jobs.\<close>

fun count_job :: "job_info \<Rightarrow> nat \<times> nat \<times> nat \<Rightarrow> nat \<times> nat \<times> nat" where
  "count_job job (active, queued, running) =
     (case ji_status job of
        Queued \<Rightarrow> (active + 1, queued + 1, running)
      | Running \<Rightarrow> (active + 1, queued, running + 1)
      | Complete _ \<Rightarrow> (active, queued, running))"

definition get_job_counts :: "job_manager \<Rightarrow> (nat \<times> nat \<times> nat) poll" where
  "get_job_counts = with_read_lock (\<lambda>jm. fold count_job (hm_values (jm_jobs jm)) (0, 0, 0))"

subsection \<open>Runs\<close>

text \<open>The jobs of a runner over time, with every event the main loop has received.\<close>

record jobs_world =
  jw_jm :: job_manager
  jw_received :: "status_event list"

datatype jobs_event =
    Je_Register uuid job_config
  | Je_Update uuid job_status
  | Je_Resume
  | Je_Receive

fun jobs_step :: "jobs_event \<Rightarrow> jobs_world \<Rightarrow> jobs_world" where
  "jobs_step (Je_Register i c) w = w\<lparr>jw_jm := snd (register_job i c (jw_jm w))\<rparr>"
| "jobs_step (Je_Update i s) w = w\<lparr>jw_jm := snd (update_job_status i s (jw_jm w))\<rparr>"
| "jobs_step Je_Resume w = w\<lparr>jw_jm := jm_resume (jw_jm w)\<rparr>"
| "jobs_step Je_Receive w =
     (case jm_receive (jw_jm w) of
        (None, jm) \<Rightarrow> w\<lparr>jw_jm := jm\<rparr>
      | (Some ev, jm) \<Rightarrow> w\<lparr>jw_jm := jm, jw_received := jw_received w @ [ev]\<rparr>)"

definition jobs_world_new :: "nat \<Rightarrow> jobs_world" where
  "jobs_world_new cap =
     \<lparr>jw_jm = job_manager_new \<lparr>ch_queue = [], ch_cap = Some cap, ch_open = True\<rparr>, jw_received = []\<rparr>"

text \<open>A job is registered once, as the runner does on \<open>JobClaimed\<close>.\<close>

fun jobs_guard :: "jobs_event \<Rightarrow> jobs_world \<Rightarrow> bool" where
  "jobs_guard (Je_Register i c) w = (hm_get (jm_jobs (jw_jm w)) i = None)"
| "jobs_guard _ w = True"

definition announced :: "jobs_world \<Rightarrow> status_event list" where
  "announced w = jw_received w @ ch_queue (jm_status (jw_jm w))
     @ (case jm_waiting (jw_jm w) of None \<Rightarrow> [] | Some ev \<Rightarrow> [ev])"

definition history :: "uuid \<Rightarrow> jobs_world \<Rightarrow> job_status list" where
  "history i w = map se_status (filter (\<lambda>ev. se_job_id ev = i) (announced w))"

text \<open>The histories the life cycle allows: one step per transition, starting with \<open>Queued\<close>.\<close>

fun legal_history :: "job_status list \<Rightarrow> bool" where
  "legal_history [] = True"
| "legal_history [s] = (s = Queued)"
| "legal_history (s # t # rest) = (s = Queued \<and>
     (case rest of
        [] \<Rightarrow> t = Running \<or> t = Complete Cancelled
      | [u] \<Rightarrow> t = Running \<and> is_complete u
      | _ \<Rightarrow> False))"

definition current_status :: "uuid \<Rightarrow> jobs_world \<Rightarrow> job_status option" where
  "current_status i w = map_option ji_status (hm_get (jm_jobs (jw_jm w)) i)"

definition jobs_inv :: "jobs_world \<Rightarrow> bool" where
  "jobs_inv w =
     (hm_wf (jm_jobs (jw_jm w)) \<and> ch_open (jm_status (jw_jm w)) \<and> chan_wf (jm_status (jw_jm w))
      \<and> (\<forall>i. legal_history (history i w)
           \<and> current_status i w = (if history i w = [] then None else Some (last (history i w)))))"

lemma legal_history_snoc:
  "legal_history h \<Longrightarrow> h \<noteq> [] \<Longrightarrow> transition_allowed (last h) s \<Longrightarrow> legal_history (h @ [s])"
  by (cases h rule: legal_history.cases; cases s)
    (auto elim!: transition_allowed.elims split: list.splits)

lemma emit_spec:
  assumes "ch_open (jm_status jm)" and "jm_waiting jm = None"
  shows "jm_jobs (snd (emit ev jm)) = jm_jobs jm"
    and "ch_open (jm_status (snd (emit ev jm)))"
    and "chan_wf (jm_status jm) \<Longrightarrow> chan_wf (jm_status (snd (emit ev jm)))"
    and "ch_queue (jm_status (snd (emit ev jm)))
           @ (case jm_waiting (snd (emit ev jm)) of None \<Rightarrow> [] | Some e \<Rightarrow> [e])
         = ch_queue (jm_status jm) @ [ev]"
  using assms chan_wf_send [of "jm_status jm" ev]
  by (auto simp: emit_def chan_send_def split: if_splits)

lemma jobs_inv_new: "jobs_inv (jobs_world_new cap)"
  by (simp add: jobs_inv_def jobs_world_new_def job_manager_new_def history_def announced_def
      chan_wf_def hm_wf_def current_status_def hm_get_def)

lemma jobs_inv_emit:
  assumes inv: "jobs_inv w" and free: "jm_waiting (jw_jm w) = None"
    and legal: "if hm_get (jm_jobs (jw_jm w)) i = None then s = Queued
      else transition_allowed (the (current_status i w)) s"
    and job: "ji_status job = s"
  shows "jobs_inv (w\<lparr>jw_jm := snd (emit \<lparr>se_job_id = i, se_status = s\<rparr>
           ((jw_jm w)\<lparr>jm_jobs := hm_insert i job (jm_jobs (jw_jm w))\<rparr>))\<rparr>)"
    (is "jobs_inv ?w'")
proof -
  let ?jm = "(jw_jm w)\<lparr>jm_jobs := hm_insert i job (jm_jobs (jw_jm w))\<rparr>"
  have op: "ch_open (jm_status ?jm)" "jm_waiting ?jm = None" "chan_wf (jm_status ?jm)"
    using inv free by (simp_all add: jobs_inv_def)
  note e = emit_spec [OF op(1,2), of "\<lparr>se_job_id = i, se_status = s\<rparr>"]
  have hist: "history j ?w' = (if j = i then history j w @ [s] else history j w)" for j
    using e(4) free by (simp add: history_def announced_def)
  have cur: "current_status j ?w' = (if j = i then Some s else current_status j w)" for j
    using e(1) job by (simp add: current_status_def hm_get_insert)
  have old: "legal_history (history j w)"
    "current_status j w = (if history j w = [] then None else Some (last (history j w)))" for j
    using inv by (simp_all add: jobs_inv_def)
  have "legal_history (history i w @ [s])"
  proof (cases "hm_get (jm_jobs (jw_jm w)) i")
    case None
    then have "history i w = []" using old(2) [of i] by (simp add: current_status_def split: if_splits)
    then show ?thesis using legal None by simp
  next
    case (Some j)
    then have "history i w \<noteq> []" and "the (current_status i w) = last (history i w)"
      using old(2) [of i] by (auto simp: current_status_def split: if_splits)
    then show ?thesis using legal Some old(1) [of i] legal_history_snoc by simp
  qed
  then show ?thesis
    using inv e old op(3) by (simp add: jobs_inv_def hist cur)
qed

lemma jobs_inv_cong:
  assumes "jobs_inv w" and "announced w' = announced w" and "jm_jobs (jw_jm w') = jm_jobs (jw_jm w)"
    and "ch_open (jm_status (jw_jm w'))" and "chan_wf (jm_status (jw_jm w'))"
  shows "jobs_inv w'"
  using assms by (simp add: jobs_inv_def history_def current_status_def)

lemma jobs_inv_step [inv_intros]:
  assumes inv: "jobs_inv w" and g: "jobs_guard e w"
  shows "jobs_inv (jobs_step e w)"
proof (cases e)
  case (Je_Register i c)
  show ?thesis
  proof (cases "jm_waiting (jw_jm w)")
    case None
    then show ?thesis
      using jobs_inv_emit [OF inv None, of i Queued "job_info_new i c"] g Je_Register
      by (simp add: register_job_def job_info_new_def)
  qed (use inv Je_Register in \<open>simp add: register_job_def\<close>)
next
  case (Je_Update i s)
  show ?thesis
  proof (cases "jm_waiting (jw_jm w) = None \<and> (\<exists>job. hm_get (jm_jobs (jw_jm w)) i = Some job
      \<and> transition_allowed (ji_status job) s \<and> ji_status job \<noteq> s)")
    case True
    then obtain job where job: "jm_waiting (jw_jm w) = None" "hm_get (jm_jobs (jw_jm w)) i = Some job"
      "transition_allowed (ji_status job) s" "ji_status job \<noteq> s" by blast
    then show ?thesis
      using jobs_inv_emit [OF inv job(1), of i s "job\<lparr>ji_status := s\<rparr>"] Je_Update
      by (simp add: update_job_status_def current_status_def)
  next
    case False
    then have "snd (update_job_status i s (jw_jm w)) = jw_jm w"
      by (auto simp: update_job_status_def split: option.splits)
    then show ?thesis using inv Je_Update by simp
  qed
next
  case Je_Resume
  show ?thesis
    by (rule jobs_inv_cong [OF inv])
      (use inv chan_wf_send [of "jm_status (jw_jm w)"] in
        \<open>auto simp: Je_Resume jm_resume_def chan_send_def announced_def jobs_inv_def
          split: option.splits if_splits\<close>)
next
  case Je_Receive
  show ?thesis
    by (rule jobs_inv_cong [OF inv])
      (use inv chan_wf_recv [of "jm_status (jw_jm w)"] in
        \<open>auto simp: Je_Receive jm_receive_def chan_recv_def announced_def jobs_inv_def
          split: list.splits\<close>)
qed

interpretation jobs_runs: machine jobs_step jobs_guard jobs_inv
  by unfold_locales (rule jobs_inv_step)

lemma jobs_run_inv:
  "jobs_runs.guarded es (jobs_world_new cap) \<Longrightarrow> jobs_inv (fold jobs_step es (jobs_world_new cap))"
  using jobs_runs.run_inv jobs_inv_new by blast

lemma complete_step:
  assumes "current_status i w = Some (Complete c)" and "jobs_guard e w"
  shows "current_status i (jobs_step e w) = Some (Complete c)"
proof -
  have emit: "jm_jobs (snd (emit ev jm)) = jm_jobs jm" for ev jm
    by (simp add: emit_def split: prod.splits send_outcome.splits)
  show ?thesis
    using assms
    by (cases e)
      (auto simp: current_status_def register_job_def update_job_status_def emit hm_get_insert
        jm_resume_def jm_receive_def split: option.splits prod.splits send_outcome.splits)
qed

lemma fold_count_job:
  "fold count_job js (a, q, r) =
     (a + length (filter (\<lambda>j. \<not> is_complete (ji_status j)) js),
      q + length (filter (\<lambda>j. ji_status j = Queued) js),
      r + length (filter (\<lambda>j. ji_status j = Running) js))"
  by (induction js arbitrary: a q r) (auto split: job_status.splits)

lemma active_split:
  "length (filter (\<lambda>j. \<not> is_complete (ji_status j)) js)
   = length (filter (\<lambda>j. ji_status j = Queued) js) + length (filter (\<lambda>j. ji_status j = Running) js)"
proof (induction js)
  case (Cons j js)
  then show ?case by (cases "ji_status j") simp_all
qed simp

lemma stuck_step:
  assumes "jm_waiting (jw_jm w) = Some ev" and "ch_open (jm_status (jw_jm w))"
    and "chan_full (jm_status (jw_jm w))" and "e \<noteq> Je_Receive"
  shows "jobs_step e w = w"
  using assms
  by (cases e) (simp_all add: register_job_def update_job_status_def jm_resume_def chan_send_def)

definition demo_config :: job_config where
  "demo_config = \<lparr>jc_id = 7, jc_project_url = ''u'', jc_git_ref = None, jc_tasks = [],
     jc_cachix_push = False, jc_clone_depth = None\<rparr>"

lemmas jobs_eval = jobs_world_new_def job_manager_new_def register_job_def update_job_status_def
  emit_def chan_send_def chan_full_def hm_insert_def hm_get_def job_info_new_def jm_receive_def
  chan_recv_def jm_resume_def current_status_def

section \<open>Properties\<close>

text \<open>
  C6. The events announced for a job, received by the main loop or still on their way, always form
  one of the legal histories (\<open>Queued\<close>, then \<open>Running\<close> and a completion, or a cancellation from the
  queue), in order and without repetition, and the job's stored status is the last of them. The
  main loop therefore sees every transition exactly once, in every interleaving, also when the
  channel was full.
\<close>

theorem job_history_is_legal:
  assumes "jobs_runs.guarded es (jobs_world_new cap)"
    and "w = fold jobs_step es (jobs_world_new cap)"
  shows "legal_history (history i w)
         \<and> current_status i w = (if history i w = [] then None else Some (last (history i w)))"
  using jobs_run_inv [OF assms(1)] assms(2) by (simp add: jobs_inv_def)

theorem job_history_is_legal_witness:
  "legal_history (history 7 (fold jobs_step
     [Je_Register 7 demo_config, Je_Update 7 Running, Je_Receive, Je_Update 7 (Complete Success)]
     (jobs_world_new 1)))"
proof -
  have "jobs_runs.guarded
      [Je_Register 7 demo_config, Je_Update 7 Running, Je_Receive, Je_Update 7 (Complete Success)]
      (jobs_world_new 1)"
    by (simp add: jobs_eval)
  from job_history_is_legal [OF this refl] show ?thesis by blast
qed

text \<open>
  A completed job stays completed with the same result, whatever registrations of other jobs,
  updates and deliveries follow: a late status from a virtual machine or a cancellation cannot
  change it.
\<close>

theorem completion_is_final:
  assumes "current_status i w = Some (Complete c)" and "jobs_runs.guarded es w"
  shows "current_status i (fold jobs_step es w) = Some (Complete c)"
  using assms by (induction es arbitrary: w) (simp_all add: complete_step)

theorem completion_is_final_witness:
  "current_status 7 (fold jobs_step [Je_Update 7 (Complete Cancelled)]
     (fold jobs_step [Je_Register 7 demo_config, Je_Update 7 Running, Je_Update 7 (Complete Success)]
       (jobs_world_new 100))) = Some (Complete Success)"
  by (rule completion_is_final) (simp_all add: jobs_eval)

text \<open>
  The three counters of \<open>get_job_counts\<close> are the numbers of jobs in each state: active is queued
  plus running, and agrees with \<open>active_job_count\<close>, which decides when a stopping runner may exit.
\<close>

theorem job_counts_consistent:
  assumes "get_job_counts jm = Ready (active, queued, running)"
  shows "active = queued + running \<and> active_job_count jm = Ready active
         \<and> queued = length (filter (\<lambda>j. ji_status j = Queued) (hm_values (jm_jobs jm)))
         \<and> running = length (filter (\<lambda>j. ji_status j = Running) (hm_values (jm_jobs jm)))"
  using assms active_split [of "hm_values (jm_jobs jm)"]
  by (simp add: get_job_counts_def active_job_count_def with_read_lock_def fold_count_job
      split: if_splits)

theorem job_counts_consistent_witness:
  "active_job_count (jw_jm (fold jobs_step [Je_Register 7 demo_config] (jobs_world_new 1))) = Ready 1"
proof -
  have "get_job_counts (jw_jm (fold jobs_step [Je_Register 7 demo_config] (jobs_world_new 1)))
        = Ready (1, 1, 0)"
    by (simp add: jobs_eval get_job_counts_def with_read_lock_def hm_values_def)
  from job_counts_consistent [OF this] show ?thesis by blast
qed

text \<open>
  While an announcement waits on the full status channel it holds the write lock: no
  registration, update or retried send changes anything, every read waits, and one receive by the
  main loop followed by the retried send delivers it and frees the lock. The main loop is the only
  receiver, so it must not itself call the job manager with the channel full.
\<close>

theorem full_channel_blocks_all_but_receive:
  assumes waiting: "jm_waiting (jw_jm w) = Some ev" and opn: "ch_open (jm_status (jw_jm w))"
    and full: "ch_cap (jm_status (jw_jm w)) = Some n" "length (ch_queue (jm_status (jw_jm w))) = n"
      "0 < n"
  shows "(Je_Receive \<notin> set es \<longrightarrow> fold jobs_step es w = w)
         \<and> get_job_counts (jw_jm w) = Pending
         \<and> jm_waiting (jw_jm (fold jobs_step [Je_Receive, Je_Resume] w)) = None
         \<and> announced (fold jobs_step [Je_Receive, Je_Resume] w) = announced w"
proof -
  have cf: "chan_full (jm_status (jw_jm w))" using full by (simp add: chan_full_def)
  have "Je_Receive \<notin> set es \<Longrightarrow> fold jobs_step es w = w"
    by (induction es) (auto simp: stuck_step [OF waiting opn cf])
  moreover obtain x xs where "ch_queue (jm_status (jw_jm w)) = x # xs"
    using full by (cases "ch_queue (jm_status (jw_jm w))") auto
  ultimately show ?thesis
    using waiting opn full
    by (auto simp: get_job_counts_def with_read_lock_def jm_receive_def chan_recv_def jm_resume_def
        chan_send_def chan_full_def announced_def)
qed

theorem full_channel_blocks_all_but_receive_witness:
  "get_job_counts (jw_jm (fold jobs_step [Je_Register 7 demo_config, Je_Update 7 Running]
     (jobs_world_new 1))) = Pending"
  using full_channel_blocks_all_but_receive [of
      "fold jobs_step [Je_Register 7 demo_config, Je_Update 7 Running] (jobs_world_new 1)"
      "\<lparr>se_job_id = 7, se_status = Running\<rparr>" 1 "[]"]
  by (simp add: jobs_eval)

end
