(* ===== verification/Serde.thy ===== *)
theory Serde
  imports Json "HOL-Library.Monad_Syntax" "HOL-Library.Word"
begin

section \<open>Derived serialization\<close>

text \<open>
  What \<open>#[derive(Serialize, Deserialize)]\<close> generates, as combinators over JSON values. A struct is
  written as an object of its fields, an optional field that is \<open>None\<close> is left out
  (\<open>skip_serializing_if\<close>). It is read from an object, in which unknown keys are ignored, a repeated key
  and a missing required one are errors, and an optional field may be missing or null; or from an
  array of exactly the fields in their order. The contract of a type's two functions is the
  locale \<open>codec\<close>.
\<close>

subsection \<open>Numbers\<close>

definition int_text :: "int \<Rightarrow> string" where
  "int_text i = (if i < 0 then CHR ''-'' # dec_digits (nat (- i)) else dec_digits (nat i))"

text \<open>
  The integer a JSON number stands for. A number with a fraction or an exponent is a floating-point
  number, and so is \<open>-0\<close>; no integer type accepts those.
\<close>

definition int_of_text :: "string \<Rightarrow> int option" where
  "int_of_text s =
     (case s of
        [] \<Rightarrow> None
      | c # cs \<Rightarrow>
          if c = CHR ''-''
          then (case (if cs = [] then None else parse_dec 0 cs) of
                  Some n \<Rightarrow> if n = 0 then None else Some (- int n)
                | None \<Rightarrow> None)
          else map_option int (parse_dec 0 s))"

lemma int_of_text_int_text [simp]: "int_of_text (int_text i) = Some i"
proof (cases "i < 0")
  case True
  define n where "n = nat (- i)"
  have n: "n \<noteq> 0" "i = - int n" "nat (- i) = n" using True by (simp_all add: n_def)
  then have "int_text i = CHR ''-'' # dec_digits n" using True by (simp add: int_text_def)
  then show ?thesis
    using n by (simp add: int_of_text_def parse_dec_digits)
next
  case False
  obtain c cs where d: "dec_digits (nat i) = c # cs"
    by (cases "dec_digits (nat i)") simp_all
  then have "is_digit c" using dec_digits_digits [of c "nat i"] by simp
  then have "c \<noteq> CHR ''-''" by (auto simp: is_digit_def)
  moreover have "parse_dec 0 (c # cs) = Some (nat i)"
    using parse_dec_digits [of "nat i"] unfolding d .
  ultimately show ?thesis
    using False unfolding int_of_text_def int_text_def by (simp add: d del: parse_dec.simps)
qed

subsection \<open>The contract of a serialized type\<close>

locale codec =
  fixes enc :: "'a \<Rightarrow> json" and dec :: "json \<Rightarrow> 'a option"
  assumes dec_enc: "dec (enc a) = Some a"
begin

lemma enc_inj: "enc a = enc b \<longleftrightarrow> a = b"
  by (metis dec_enc option.inject)

end

text \<open>A type whose values are never written as null can be the type of an optional field.\<close>

locale solid_codec = codec +
  assumes enc_not_null: "enc a \<noteq> JNull"

named_theorems codecs \<open>the codecs of the basic types and of the structs\<close>

subsection \<open>Basic types\<close>

definition bool_of_json :: "json \<Rightarrow> bool option" where
  "bool_of_json = as_bool"

definition string_of_json :: "json \<Rightarrow> string option" where
  "string_of_json = as_str"

definition signed_to_json :: "'a::len word \<Rightarrow> json" where
  "signed_to_json w = JNumber (int_text (sint w))"

definition signed_of_json :: "json \<Rightarrow> 'a::len word option" where
  "signed_of_json j =
     (case j of
        JNumber s \<Rightarrow>
          (case int_of_text s of
             Some i \<Rightarrow> if - (2 ^ (LENGTH('a) - 1)) \<le> i \<and> i < 2 ^ (LENGTH('a) - 1)
                       then Some (word_of_int i) else None
           | None \<Rightarrow> None)
      | _ \<Rightarrow> None)"

definition unit_of_json :: "json \<Rightarrow> unit option" where
  "unit_of_json j = (if j = JNull then Some () else None)"

interpretation bool_codec: solid_codec JBool bool_of_json
  by unfold_locales (simp_all add: bool_of_json_def)

interpretation string_codec: solid_codec JString string_of_json
  by unfold_locales (simp_all add: string_of_json_def)

interpretation signed_codec: solid_codec "signed_to_json :: 'a::len word \<Rightarrow> json" signed_of_json
  using sint_greater_eq sint_lt
  by unfold_locales (auto simp: signed_to_json_def signed_of_json_def)

interpretation value_codec: codec "\<lambda>j. j" Some
  by unfold_locales simp

lemmas [codecs] = bool_codec.solid_codec_axioms string_codec.solid_codec_axioms
  signed_codec.solid_codec_axioms value_codec.codec_axioms

subsection \<open>Vectors, maps and enumerations\<close>

definition list_to_json :: "('a \<Rightarrow> json) \<Rightarrow> 'a list \<Rightarrow> json" where
  "list_to_json enc as = JArray (map enc as)"

fun decode_all :: "('b \<Rightarrow> 'a option) \<Rightarrow> 'b list \<Rightarrow> 'a list option" where
  "decode_all dec [] = Some []"
| "decode_all dec (j # js) = do { a \<leftarrow> dec j; as \<leftarrow> decode_all dec js; Some (a # as) }"

definition list_of_json :: "(json \<Rightarrow> 'a option) \<Rightarrow> json \<Rightarrow> 'a list option" where
  "list_of_json dec j = Option.bind (as_array j) (decode_all dec)"

text \<open>A hash map is a list of entries in its iteration order; a repeated key replaces the value.\<close>

definition map_to_json :: "('a \<Rightarrow> json) \<Rightarrow> (string \<times> 'a) list \<Rightarrow> json" where
  "map_to_json enc m = JObject (map (\<lambda>(k, v). (k, enc v)) m)"

definition map_of_json :: "(json \<Rightarrow> 'a option) \<Rightarrow> json \<Rightarrow> (string \<times> 'a) list option" where
  "map_of_json dec j = do {
     kvs \<leftarrow> as_object j;
     m \<leftarrow> decode_all (\<lambda>(k, v). map_option (Pair k) (dec v)) kvs;
     Some (fold (\<lambda>(k, v). AList.update k v) m []) }"

text \<open>A unit variant is its name; serde also reads an object with that key and null.\<close>

definition variant_of_json :: "(string \<times> 'a) list \<Rightarrow> json \<Rightarrow> 'a option" where
  "variant_of_json variants j =
     (case j of
        JString s \<Rightarrow> map_of variants s
      | JObject [(s, JNull)] \<Rightarrow> map_of variants s
      | _ \<Rightarrow> None)"

lemma solid_codec_list [codecs]:
  assumes "codec enc dec" shows "solid_codec (list_to_json enc) (list_of_json dec)"
proof
  fix as
  have "decode_all dec (map enc as) = Some as"
    using codec.dec_enc [OF assms] by (induction as) simp_all
  then show "list_of_json dec (list_to_json enc as) = Some as"
    by (simp add: list_to_json_def list_of_json_def)
qed (simp add: list_to_json_def)

lemma codec_of_solid [codecs]: "solid_codec enc dec \<Longrightarrow> codec enc dec"
  by (rule solid_codec.axioms)

lemma map_update_new: "k \<notin> fst ` set m \<Longrightarrow> AList.update k v m = m @ [(k, v)]"
  by (induction m) auto

lemma fold_update_distinct:
  "distinct (map fst (m' @ m)) \<Longrightarrow> fold (\<lambda>(k, v). AList.update k v) m m' = m' @ m"
  by (induction m arbitrary: m') (auto simp: map_update_new)

text \<open>A map comes back when its keys are distinct, as those of a hash map are.\<close>

lemma map_of_json_map_to_json:
  assumes "codec enc dec" and "distinct (map fst m)"
  shows "map_of_json dec (map_to_json enc m) = Some m"
proof -
  have "decode_all (\<lambda>(k, v). map_option (Pair k) (dec v)) (map (\<lambda>(k, v). (k, enc v)) m) = Some m"
    using codec.dec_enc [OF assms(1)] by (induction m) auto
  then show ?thesis
    using fold_update_distinct [of "[]" m] assms(2) by (simp add: map_of_json_def map_to_json_def)
qed

subsection \<open>Structs\<close>

definition required :: "string \<Rightarrow> json \<Rightarrow> (string \<times> json) list" where
  "required n j = [(n, j)]"

definition skip_none :: "string \<Rightarrow> ('a \<Rightarrow> json) \<Rightarrow> 'a option \<Rightarrow> (string \<times> json) list" where
  "skip_none n enc v = (case v of None \<Rightarrow> [] | Some a \<Rightarrow> [(n, enc a)])"

definition fields_of :: "string list \<Rightarrow> json \<Rightarrow> (string \<times> json) list option" where
  "fields_of names j =
     (case j of
        JObject kvs \<Rightarrow> Some kvs
      | JArray js \<Rightarrow> if length js = length names then Some (zip names js) else None
      | _ \<Rightarrow> None)"

definition values_of :: "string \<Rightarrow> (string \<times> json) list \<Rightarrow> json list" where
  "values_of n kvs = map snd (filter (\<lambda>kv. fst kv = n) kvs)"

fun one_value :: "(json \<Rightarrow> 'a option) \<Rightarrow> json list \<Rightarrow> 'a option" where
  "one_value dec [j] = dec j"
| "one_value dec _ = None"

fun optional_value :: "(json \<Rightarrow> 'a option) \<Rightarrow> json list \<Rightarrow> 'a option option" where
  "optional_value dec [] = Some None"
| "optional_value dec [j] = (if j = JNull then Some None else map_option Some (dec j))"
| "optional_value dec _ = None"

definition get_field :: "(json \<Rightarrow> 'a option) \<Rightarrow> string \<Rightarrow> (string \<times> json) list \<Rightarrow> 'a option" where
  "get_field dec n kvs = one_value dec (values_of n kvs)"

definition get_option :: "(json \<Rightarrow> 'a option) \<Rightarrow> string \<Rightarrow> (string \<times> json) list \<Rightarrow> 'a option option" where
  "get_option dec n kvs = optional_value dec (values_of n kvs)"

definition present :: "('a \<Rightarrow> json) \<Rightarrow> 'a option \<Rightarrow> json list" where
  "present enc v = (case v of None \<Rightarrow> [] | Some a \<Rightarrow> [enc a])"

lemma values_of_fields:
  "values_of n [] = []"
  "values_of n (xs @ ys) = values_of n xs @ values_of n ys"
  "values_of n (required m j) = (if m = n then [j] else [])"
  "values_of n (skip_none m enc v) = (if m = n then present enc v else [])"
  by (simp_all add: values_of_def required_def skip_none_def present_def split: option.split)

lemma fields_of_object [simp]: "fields_of names (JObject kvs) = Some kvs"
  by (simp add: fields_of_def)

context codec
begin

lemma one_value_enc: "one_value dec [enc a] = Some a"
  by (simp add: dec_enc)

end

context solid_codec
begin

lemma optional_value_present: "optional_value dec (present enc v) = Some v"
  by (cases v) (simp_all add: present_def dec_enc enc_not_null)

end

declare one_value.simps [simp del] optional_value.simps [simp del]

lemmas struct_simps = get_field_def get_option_def values_of_fields
  solid_codec.optional_value_present codec.one_value_enc

text \<open>
  The order of the fields and unknown keys do not matter: a key that occurs at most once has the same
  values wherever the entries stand and whatever other keys there are.
\<close>

lemma length_present: "length (present enc v) \<le> 1"
  by (simp add: present_def split: option.split)

lemma values_of_reordered:
  assumes m: "mset kvs' = mset kvs + mset extra" and n: "n \<notin> fst ` set extra"
    and one: "length (values_of n kvs) \<le> 1"
  shows "values_of n kvs' = values_of n kvs"
proof -
  have none: "filter (\<lambda>kv. fst kv = n) extra = []"
    using n by (auto simp: filter_empty_conv)
  have "mset (values_of n kvs') = mset (values_of n kvs)"
    using arg_cong [OF m, of "\<lambda>M. image_mset snd {#kv \<in># M. fst kv = n#}"]
    unfolding values_of_def by (simp add: none flip: mset_filter)
  then show ?thesis
    using one by (cases "values_of n kvs" rule: list.exhaust; cases "tl (values_of n kvs)") auto
qed

end
