(* ===== verification/Ch_Devices.thy ===== *)
theory Ch_Devices
  imports Serde Prelude
begin

section \<open>The configuration of a machine's parts: cloud-hypervisor-client/src/models\<close>

text \<open>
  One record for every struct a machine configuration is made of, with its constructor and what serde
  derives for it. A boxed value is the value. Every codec is an interpretation of \<open>solid_codec\<close>.
\<close>

datatype console_mode = Cm_Off | Cm_Pty | Cm_Tty | Cm_File | Cm_Socket | Cm_Null

fun console_mode_to_json :: "console_mode \<Rightarrow> json" where
  "console_mode_to_json Cm_Off = JString ''Off''"
| "console_mode_to_json Cm_Pty = JString ''Pty''"
| "console_mode_to_json Cm_Tty = JString ''Tty''"
| "console_mode_to_json Cm_File = JString ''File''"
| "console_mode_to_json Cm_Socket = JString ''Socket''"
| "console_mode_to_json Cm_Null = JString ''Null''"

definition console_mode_of_json :: "json \<Rightarrow> console_mode option" where
  "console_mode_of_json = variant_of_json
     [(''Off'', Cm_Off), (''Pty'', Cm_Pty), (''Tty'', Cm_Tty),
      (''File'', Cm_File), (''Socket'', Cm_Socket), (''Null'', Cm_Null)]"

interpretation console_mode: solid_codec console_mode_to_json console_mode_of_json
proof
  fix m
  show "console_mode_of_json (console_mode_to_json m) = Some m"
    by (cases m) (simp_all add: console_mode_of_json_def variant_of_json_def)
  show "console_mode_to_json m \<noteq> JNull" by (cases m) simp_all
qed

lemmas [codecs] = console_mode.solid_codec_axioms

datatype debug_mode = Dm_Off | Dm_Pty | Dm_Tty | Dm_File | Dm_Null

fun debug_mode_to_json :: "debug_mode \<Rightarrow> json" where
  "debug_mode_to_json Dm_Off = JString ''Off''"
| "debug_mode_to_json Dm_Pty = JString ''Pty''"
| "debug_mode_to_json Dm_Tty = JString ''Tty''"
| "debug_mode_to_json Dm_File = JString ''File''"
| "debug_mode_to_json Dm_Null = JString ''Null''"

definition debug_mode_of_json :: "json \<Rightarrow> debug_mode option" where
  "debug_mode_of_json = variant_of_json
     [(''Off'', Dm_Off), (''Pty'', Dm_Pty), (''Tty'', Dm_Tty),
      (''File'', Dm_File), (''Null'', Dm_Null)]"

interpretation debug_mode: solid_codec debug_mode_to_json debug_mode_of_json
proof
  fix m
  show "debug_mode_of_json (debug_mode_to_json m) = Some m"
    by (cases m) (simp_all add: debug_mode_of_json_def variant_of_json_def)
  show "debug_mode_to_json m \<noteq> JNull" by (cases m) simp_all
qed

lemmas [codecs] = debug_mode.solid_codec_axioms

subsection \<open>\<open>BalloonConfig\<close>\<close>

record balloon_config =
  balloon_size :: i64
  balloon_deflate_on_oom :: "bool option"
  balloon_free_page_reporting :: "bool option"

definition balloon_config_new :: "i64 \<Rightarrow> balloon_config" where
  "balloon_config_new size' = \<lparr>balloon_size = size', balloon_deflate_on_oom = None,
     balloon_free_page_reporting = None\<rparr>"

definition balloon_config_to_json :: "balloon_config \<Rightarrow> json" where
  "balloon_config_to_json r = JObject (
     required ''size'' (signed_to_json (balloon_size r)) @
     skip_none ''deflate_on_oom'' JBool (balloon_deflate_on_oom r) @
     skip_none ''free_page_reporting'' JBool (balloon_free_page_reporting r))"

definition balloon_config_of_json :: "json \<Rightarrow> balloon_config option" where
  "balloon_config_of_json j = do {
     kvs \<leftarrow> fields_of [''size'', ''deflate_on_oom'', ''free_page_reporting''] j;
     size' \<leftarrow> get_field signed_of_json ''size'' kvs;
     deflate_on_oom \<leftarrow> get_option bool_of_json ''deflate_on_oom'' kvs;
     free_page_reporting \<leftarrow> get_option bool_of_json ''free_page_reporting'' kvs;
     Some \<lparr>balloon_size = size', balloon_deflate_on_oom = deflate_on_oom,
        balloon_free_page_reporting = free_page_reporting\<rparr> }"

interpretation balloon_config: solid_codec balloon_config_to_json balloon_config_of_json
  by unfold_locales
    (simp_all add: balloon_config_to_json_def balloon_config_of_json_def struct_simps codecs)

lemmas [codecs] = balloon_config.solid_codec_axioms

subsection \<open>\<open>ConsoleConfig\<close>\<close>

record console_config =
  console_file :: "string option"
  console_socket :: "string option"
  console_mode :: console_mode
  console_iommu :: "bool option"

definition console_config_new :: "console_mode \<Rightarrow> console_config" where
  "console_config_new mode = \<lparr>console_file = None, console_socket = None,
     console_mode = mode, console_iommu = None\<rparr>"

definition console_config_to_json :: "console_config \<Rightarrow> json" where
  "console_config_to_json r = JObject (
     skip_none ''file'' JString (console_file r) @
     skip_none ''socket'' JString (console_socket r) @
     required ''mode'' (console_mode_to_json (console_mode r)) @
     skip_none ''iommu'' JBool (console_iommu r))"

definition console_config_of_json :: "json \<Rightarrow> console_config option" where
  "console_config_of_json j = do {
     kvs \<leftarrow> fields_of [''file'', ''socket'', ''mode'', ''iommu''] j;
     file \<leftarrow> get_option string_of_json ''file'' kvs;
     socket \<leftarrow> get_option string_of_json ''socket'' kvs;
     mode \<leftarrow> get_field console_mode_of_json ''mode'' kvs;
     iommu \<leftarrow> get_option bool_of_json ''iommu'' kvs;
     Some \<lparr>console_file = file, console_socket = socket, console_mode = mode,
        console_iommu = iommu\<rparr> }"

interpretation console_config: solid_codec console_config_to_json console_config_of_json
  by unfold_locales
    (simp_all add: console_config_to_json_def console_config_of_json_def struct_simps codecs)

lemmas [codecs] = console_config.solid_codec_axioms

subsection \<open>\<open>CpuAffinity\<close>\<close>

record cpu_affinity =
  cpu_affinity_vcpu :: i32
  cpu_affinity_host_cpus :: "i32 list"

definition cpu_affinity_new :: "i32 \<Rightarrow> i32 list \<Rightarrow> cpu_affinity" where
  "cpu_affinity_new vcpu host_cpus = \<lparr>cpu_affinity_vcpu = vcpu,
     cpu_affinity_host_cpus = host_cpus\<rparr>"

definition cpu_affinity_to_json :: "cpu_affinity \<Rightarrow> json" where
  "cpu_affinity_to_json r = JObject (
     required ''vcpu'' (signed_to_json (cpu_affinity_vcpu r)) @
     required ''host_cpus'' ((list_to_json signed_to_json) (cpu_affinity_host_cpus r)))"

definition cpu_affinity_of_json :: "json \<Rightarrow> cpu_affinity option" where
  "cpu_affinity_of_json j = do {
     kvs \<leftarrow> fields_of [''vcpu'', ''host_cpus''] j;
     vcpu \<leftarrow> get_field signed_of_json ''vcpu'' kvs;
     host_cpus \<leftarrow> get_field (list_of_json signed_of_json) ''host_cpus'' kvs;
     Some \<lparr>cpu_affinity_vcpu = vcpu, cpu_affinity_host_cpus = host_cpus\<rparr> }"

interpretation cpu_affinity: solid_codec cpu_affinity_to_json cpu_affinity_of_json
  by unfold_locales
    (simp_all add: cpu_affinity_to_json_def cpu_affinity_of_json_def struct_simps codecs)

lemmas [codecs] = cpu_affinity.solid_codec_axioms

subsection \<open>\<open>CpuFeatures\<close>\<close>

record cpu_features =
  cpu_features_amx :: "bool option"

definition cpu_features_new :: "cpu_features" where
  "cpu_features_new = \<lparr>cpu_features_amx = None\<rparr>"

definition cpu_features_to_json :: "cpu_features \<Rightarrow> json" where
  "cpu_features_to_json r = JObject (
     skip_none ''amx'' JBool (cpu_features_amx r))"

definition cpu_features_of_json :: "json \<Rightarrow> cpu_features option" where
  "cpu_features_of_json j = do {
     kvs \<leftarrow> fields_of [''amx''] j;
     amx \<leftarrow> get_option bool_of_json ''amx'' kvs;
     Some \<lparr>cpu_features_amx = amx\<rparr> }"

interpretation cpu_features: solid_codec cpu_features_to_json cpu_features_of_json
  by unfold_locales
    (simp_all add: cpu_features_to_json_def cpu_features_of_json_def struct_simps codecs)

lemmas [codecs] = cpu_features.solid_codec_axioms

subsection \<open>\<open>CpuTopology\<close>\<close>

record cpu_topology =
  cpu_topology_threads_per_core :: "i32 option"
  cpu_topology_cores_per_die :: "i32 option"
  cpu_topology_dies_per_package :: "i32 option"
  cpu_topology_packages :: "i32 option"

definition cpu_topology_new :: "cpu_topology" where
  "cpu_topology_new = \<lparr>cpu_topology_threads_per_core = None,
     cpu_topology_cores_per_die = None, cpu_topology_dies_per_package = None,
     cpu_topology_packages = None\<rparr>"

definition cpu_topology_to_json :: "cpu_topology \<Rightarrow> json" where
  "cpu_topology_to_json r = JObject (
     skip_none ''threads_per_core'' signed_to_json (cpu_topology_threads_per_core r) @
     skip_none ''cores_per_die'' signed_to_json (cpu_topology_cores_per_die r) @
     skip_none ''dies_per_package'' signed_to_json (cpu_topology_dies_per_package r) @
     skip_none ''packages'' signed_to_json (cpu_topology_packages r))"

definition cpu_topology_of_json :: "json \<Rightarrow> cpu_topology option" where
  "cpu_topology_of_json j = do {
     kvs \<leftarrow> fields_of [''threads_per_core'', ''cores_per_die'', ''dies_per_package'',
        ''packages''] j;
     threads_per_core \<leftarrow> get_option signed_of_json ''threads_per_core'' kvs;
     cores_per_die \<leftarrow> get_option signed_of_json ''cores_per_die'' kvs;
     dies_per_package \<leftarrow> get_option signed_of_json ''dies_per_package'' kvs;
     packages \<leftarrow> get_option signed_of_json ''packages'' kvs;
     Some \<lparr>cpu_topology_threads_per_core = threads_per_core,
        cpu_topology_cores_per_die = cores_per_die,
        cpu_topology_dies_per_package = dies_per_package, cpu_topology_packages = packages\<rparr> }"

interpretation cpu_topology: solid_codec cpu_topology_to_json cpu_topology_of_json
  by unfold_locales
    (simp_all add: cpu_topology_to_json_def cpu_topology_of_json_def struct_simps codecs)

lemmas [codecs] = cpu_topology.solid_codec_axioms

subsection \<open>\<open>CpusConfig\<close>\<close>

record cpus_config =
  cpus_boot_vcpus :: i32
  cpus_max_vcpus :: i32
  cpus_topology :: "cpu_topology option"
  cpus_kvm_hyperv :: "bool option"
  cpus_max_phys_bits :: "i32 option"
  cpus_affinity :: "cpu_affinity list option"
  cpus_features :: "cpu_features option"

definition cpus_config_new :: "i32 \<Rightarrow> i32 \<Rightarrow> cpus_config" where
  "cpus_config_new boot_vcpus max_vcpus = \<lparr>cpus_boot_vcpus = boot_vcpus,
     cpus_max_vcpus = max_vcpus, cpus_topology = None, cpus_kvm_hyperv = None,
     cpus_max_phys_bits = None, cpus_affinity = None, cpus_features = None\<rparr>"

definition cpus_config_to_json :: "cpus_config \<Rightarrow> json" where
  "cpus_config_to_json r = JObject (
     required ''boot_vcpus'' (signed_to_json (cpus_boot_vcpus r)) @
     required ''max_vcpus'' (signed_to_json (cpus_max_vcpus r)) @
     skip_none ''topology'' cpu_topology_to_json (cpus_topology r) @
     skip_none ''kvm_hyperv'' JBool (cpus_kvm_hyperv r) @
     skip_none ''max_phys_bits'' signed_to_json (cpus_max_phys_bits r) @
     skip_none ''affinity'' (list_to_json cpu_affinity_to_json) (cpus_affinity r) @
     skip_none ''features'' cpu_features_to_json (cpus_features r))"

definition cpus_config_of_json :: "json \<Rightarrow> cpus_config option" where
  "cpus_config_of_json j = do {
     kvs \<leftarrow> fields_of [''boot_vcpus'', ''max_vcpus'', ''topology'', ''kvm_hyperv'',
        ''max_phys_bits'', ''affinity'', ''features''] j;
     boot_vcpus \<leftarrow> get_field signed_of_json ''boot_vcpus'' kvs;
     max_vcpus \<leftarrow> get_field signed_of_json ''max_vcpus'' kvs;
     topology \<leftarrow> get_option cpu_topology_of_json ''topology'' kvs;
     kvm_hyperv \<leftarrow> get_option bool_of_json ''kvm_hyperv'' kvs;
     max_phys_bits \<leftarrow> get_option signed_of_json ''max_phys_bits'' kvs;
     affinity \<leftarrow> get_option (list_of_json cpu_affinity_of_json) ''affinity'' kvs;
     features \<leftarrow> get_option cpu_features_of_json ''features'' kvs;
     Some \<lparr>cpus_boot_vcpus = boot_vcpus, cpus_max_vcpus = max_vcpus,
        cpus_topology = topology, cpus_kvm_hyperv = kvm_hyperv,
        cpus_max_phys_bits = max_phys_bits, cpus_affinity = affinity, cpus_features = features\<rparr> }"

interpretation cpus_config: solid_codec cpus_config_to_json cpus_config_of_json
  by unfold_locales
    (simp_all add: cpus_config_to_json_def cpus_config_of_json_def struct_simps codecs)

lemmas [codecs] = cpus_config.solid_codec_axioms

subsection \<open>\<open>DebugConsoleConfig\<close>\<close>

record debug_console_config =
  debug_console_file :: "string option"
  debug_console_mode :: debug_mode
  debug_console_iobase :: "i32 option"

definition debug_console_config_new :: "debug_mode \<Rightarrow> debug_console_config" where
  "debug_console_config_new mode = \<lparr>debug_console_file = None, debug_console_mode = mode,
     debug_console_iobase = None\<rparr>"

definition debug_console_config_to_json :: "debug_console_config \<Rightarrow> json" where
  "debug_console_config_to_json r = JObject (
     skip_none ''file'' JString (debug_console_file r) @
     required ''mode'' (debug_mode_to_json (debug_console_mode r)) @
     skip_none ''iobase'' signed_to_json (debug_console_iobase r))"

definition debug_console_config_of_json :: "json \<Rightarrow> debug_console_config option" where
  "debug_console_config_of_json j = do {
     kvs \<leftarrow> fields_of [''file'', ''mode'', ''iobase''] j;
     file \<leftarrow> get_option string_of_json ''file'' kvs;
     mode \<leftarrow> get_field debug_mode_of_json ''mode'' kvs;
     iobase \<leftarrow> get_option signed_of_json ''iobase'' kvs;
     Some \<lparr>debug_console_file = file, debug_console_mode = mode,
        debug_console_iobase = iobase\<rparr> }"

interpretation debug_console_config: solid_codec debug_console_config_to_json debug_console_config_of_json
  by unfold_locales
    (simp_all add: debug_console_config_to_json_def debug_console_config_of_json_def struct_simps codecs)

lemmas [codecs] = debug_console_config.solid_codec_axioms

subsection \<open>\<open>DeviceConfig\<close>\<close>

record device_config =
  device_path :: string
  device_iommu :: "bool option"
  device_pci_segment :: "i32 option"
  device_id :: "string option"
  device_x_nv_gpudirect_clique :: "i32 option"

definition device_config_new :: "string \<Rightarrow> device_config" where
  "device_config_new path = \<lparr>device_path = path, device_iommu = None,
     device_pci_segment = None, device_id = None, device_x_nv_gpudirect_clique = None\<rparr>"

definition device_config_to_json :: "device_config \<Rightarrow> json" where
  "device_config_to_json r = JObject (
     required ''path'' (JString (device_path r)) @
     skip_none ''iommu'' JBool (device_iommu r) @
     skip_none ''pci_segment'' signed_to_json (device_pci_segment r) @
     skip_none ''id'' JString (device_id r) @
     skip_none ''x_nv_gpudirect_clique'' signed_to_json (device_x_nv_gpudirect_clique r))"

definition device_config_of_json :: "json \<Rightarrow> device_config option" where
  "device_config_of_json j = do {
     kvs \<leftarrow> fields_of [''path'', ''iommu'', ''pci_segment'', ''id'',
        ''x_nv_gpudirect_clique''] j;
     path \<leftarrow> get_field string_of_json ''path'' kvs;
     iommu \<leftarrow> get_option bool_of_json ''iommu'' kvs;
     pci_segment \<leftarrow> get_option signed_of_json ''pci_segment'' kvs;
     id' \<leftarrow> get_option string_of_json ''id'' kvs;
     x_nv_gpudirect_clique \<leftarrow> get_option signed_of_json ''x_nv_gpudirect_clique'' kvs;
     Some \<lparr>device_path = path, device_iommu = iommu, device_pci_segment = pci_segment,
        device_id = id', device_x_nv_gpudirect_clique = x_nv_gpudirect_clique\<rparr> }"

interpretation device_config: solid_codec device_config_to_json device_config_of_json
  by unfold_locales
    (simp_all add: device_config_to_json_def device_config_of_json_def struct_simps codecs)

lemmas [codecs] = device_config.solid_codec_axioms

subsection \<open>\<open>TokenBucket\<close>\<close>

record token_bucket =
  token_bucket_size :: i64
  token_bucket_one_time_burst :: "i64 option"
  token_bucket_refill_time :: i64

definition token_bucket_new :: "i64 \<Rightarrow> i64 \<Rightarrow> token_bucket" where
  "token_bucket_new size' refill_time = \<lparr>token_bucket_size = size',
     token_bucket_one_time_burst = None, token_bucket_refill_time = refill_time\<rparr>"

definition token_bucket_to_json :: "token_bucket \<Rightarrow> json" where
  "token_bucket_to_json r = JObject (
     required ''size'' (signed_to_json (token_bucket_size r)) @
     skip_none ''one_time_burst'' signed_to_json (token_bucket_one_time_burst r) @
     required ''refill_time'' (signed_to_json (token_bucket_refill_time r)))"

definition token_bucket_of_json :: "json \<Rightarrow> token_bucket option" where
  "token_bucket_of_json j = do {
     kvs \<leftarrow> fields_of [''size'', ''one_time_burst'', ''refill_time''] j;
     size' \<leftarrow> get_field signed_of_json ''size'' kvs;
     one_time_burst \<leftarrow> get_option signed_of_json ''one_time_burst'' kvs;
     refill_time \<leftarrow> get_field signed_of_json ''refill_time'' kvs;
     Some \<lparr>token_bucket_size = size', token_bucket_one_time_burst = one_time_burst,
        token_bucket_refill_time = refill_time\<rparr> }"

interpretation token_bucket: solid_codec token_bucket_to_json token_bucket_of_json
  by unfold_locales
    (simp_all add: token_bucket_to_json_def token_bucket_of_json_def struct_simps codecs)

lemmas [codecs] = token_bucket.solid_codec_axioms

subsection \<open>\<open>RateLimiterConfig\<close>\<close>

record rate_limiter_config =
  rate_limiter_bandwidth :: "token_bucket option"
  rate_limiter_ops :: "token_bucket option"

definition rate_limiter_config_new :: "rate_limiter_config" where
  "rate_limiter_config_new = \<lparr>rate_limiter_bandwidth = None, rate_limiter_ops = None\<rparr>"

definition rate_limiter_config_to_json :: "rate_limiter_config \<Rightarrow> json" where
  "rate_limiter_config_to_json r = JObject (
     skip_none ''bandwidth'' token_bucket_to_json (rate_limiter_bandwidth r) @
     skip_none ''ops'' token_bucket_to_json (rate_limiter_ops r))"

definition rate_limiter_config_of_json :: "json \<Rightarrow> rate_limiter_config option" where
  "rate_limiter_config_of_json j = do {
     kvs \<leftarrow> fields_of [''bandwidth'', ''ops''] j;
     bandwidth \<leftarrow> get_option token_bucket_of_json ''bandwidth'' kvs;
     ops \<leftarrow> get_option token_bucket_of_json ''ops'' kvs;
     Some \<lparr>rate_limiter_bandwidth = bandwidth, rate_limiter_ops = ops\<rparr> }"

interpretation rate_limiter_config: solid_codec rate_limiter_config_to_json rate_limiter_config_of_json
  by unfold_locales
    (simp_all add: rate_limiter_config_to_json_def rate_limiter_config_of_json_def struct_simps codecs)

lemmas [codecs] = rate_limiter_config.solid_codec_axioms

subsection \<open>\<open>VirtQueueAffinity\<close>\<close>

record virt_queue_affinity =
  virt_queue_affinity_queue_index :: i32
  virt_queue_affinity_host_cpus :: "i32 list"

definition virt_queue_affinity_new :: "i32 \<Rightarrow> i32 list \<Rightarrow> virt_queue_affinity" where
  "virt_queue_affinity_new queue_index host_cpus = \<lparr>
     virt_queue_affinity_queue_index = queue_index, virt_queue_affinity_host_cpus = host_cpus\<rparr>"

definition virt_queue_affinity_to_json :: "virt_queue_affinity \<Rightarrow> json" where
  "virt_queue_affinity_to_json r = JObject (
     required ''queue_index'' (signed_to_json (virt_queue_affinity_queue_index r)) @
     required ''host_cpus'' ((list_to_json signed_to_json) (virt_queue_affinity_host_cpus r)))"

definition virt_queue_affinity_of_json :: "json \<Rightarrow> virt_queue_affinity option" where
  "virt_queue_affinity_of_json j = do {
     kvs \<leftarrow> fields_of [''queue_index'', ''host_cpus''] j;
     queue_index \<leftarrow> get_field signed_of_json ''queue_index'' kvs;
     host_cpus \<leftarrow> get_field (list_of_json signed_of_json) ''host_cpus'' kvs;
     Some \<lparr>virt_queue_affinity_queue_index = queue_index,
        virt_queue_affinity_host_cpus = host_cpus\<rparr> }"

interpretation virt_queue_affinity: solid_codec virt_queue_affinity_to_json virt_queue_affinity_of_json
  by unfold_locales
    (simp_all add: virt_queue_affinity_to_json_def virt_queue_affinity_of_json_def struct_simps codecs)

lemmas [codecs] = virt_queue_affinity.solid_codec_axioms

subsection \<open>\<open>DiskConfig\<close>\<close>

record disk_config =
  disk_path :: string
  disk_readonly :: "bool option"
  disk_direct :: "bool option"
  disk_iommu :: "bool option"
  disk_num_queues :: "i32 option"
  disk_queue_size :: "i32 option"
  disk_vhost_user :: "bool option"
  disk_vhost_socket :: "string option"
  disk_rate_limiter_config :: "rate_limiter_config option"
  disk_pci_segment :: "i32 option"
  disk_id :: "string option"
  disk_serial :: "string option"
  disk_rate_limit_group :: "string option"
  disk_queue_affinity :: "virt_queue_affinity list option"

definition disk_config_new :: "string \<Rightarrow> disk_config" where
  "disk_config_new path = \<lparr>disk_path = path, disk_readonly = None, disk_direct = None,
     disk_iommu = None, disk_num_queues = None, disk_queue_size = None, disk_vhost_user = None,
     disk_vhost_socket = None, disk_rate_limiter_config = None, disk_pci_segment = None,
     disk_id = None, disk_serial = None, disk_rate_limit_group = None,
     disk_queue_affinity = None\<rparr>"

definition disk_config_to_json :: "disk_config \<Rightarrow> json" where
  "disk_config_to_json r = JObject (
     required ''path'' (JString (disk_path r)) @
     skip_none ''readonly'' JBool (disk_readonly r) @
     skip_none ''direct'' JBool (disk_direct r) @
     skip_none ''iommu'' JBool (disk_iommu r) @
     skip_none ''num_queues'' signed_to_json (disk_num_queues r) @
     skip_none ''queue_size'' signed_to_json (disk_queue_size r) @
     skip_none ''vhost_user'' JBool (disk_vhost_user r) @
     skip_none ''vhost_socket'' JString (disk_vhost_socket r) @
     skip_none ''rate_limiter_config'' rate_limiter_config_to_json (disk_rate_limiter_config r) @
     skip_none ''pci_segment'' signed_to_json (disk_pci_segment r) @
     skip_none ''id'' JString (disk_id r) @
     skip_none ''serial'' JString (disk_serial r) @
     skip_none ''rate_limit_group'' JString (disk_rate_limit_group r) @
     skip_none ''queue_affinity'' (list_to_json virt_queue_affinity_to_json) (disk_queue_affinity r))"

definition disk_config_of_json :: "json \<Rightarrow> disk_config option" where
  "disk_config_of_json j = do {
     kvs \<leftarrow> fields_of [''path'', ''readonly'', ''direct'', ''iommu'', ''num_queues'',
        ''queue_size'', ''vhost_user'', ''vhost_socket'', ''rate_limiter_config'',
        ''pci_segment'', ''id'', ''serial'', ''rate_limit_group'', ''queue_affinity''] j;
     path \<leftarrow> get_field string_of_json ''path'' kvs;
     readonly \<leftarrow> get_option bool_of_json ''readonly'' kvs;
     direct \<leftarrow> get_option bool_of_json ''direct'' kvs;
     iommu \<leftarrow> get_option bool_of_json ''iommu'' kvs;
     num_queues \<leftarrow> get_option signed_of_json ''num_queues'' kvs;
     queue_size \<leftarrow> get_option signed_of_json ''queue_size'' kvs;
     vhost_user \<leftarrow> get_option bool_of_json ''vhost_user'' kvs;
     vhost_socket \<leftarrow> get_option string_of_json ''vhost_socket'' kvs;
     rate_limiter_config \<leftarrow> get_option rate_limiter_config_of_json ''rate_limiter_config'' kvs;
     pci_segment \<leftarrow> get_option signed_of_json ''pci_segment'' kvs;
     id' \<leftarrow> get_option string_of_json ''id'' kvs;
     serial \<leftarrow> get_option string_of_json ''serial'' kvs;
     rate_limit_group \<leftarrow> get_option string_of_json ''rate_limit_group'' kvs;
     queue_affinity \<leftarrow> get_option (list_of_json virt_queue_affinity_of_json) ''queue_affinity'' kvs;
     Some \<lparr>disk_path = path, disk_readonly = readonly, disk_direct = direct,
        disk_iommu = iommu, disk_num_queues = num_queues, disk_queue_size = queue_size,
        disk_vhost_user = vhost_user, disk_vhost_socket = vhost_socket,
        disk_rate_limiter_config = rate_limiter_config, disk_pci_segment = pci_segment,
        disk_id = id', disk_serial = serial, disk_rate_limit_group = rate_limit_group,
        disk_queue_affinity = queue_affinity\<rparr> }"

interpretation disk_config: solid_codec disk_config_to_json disk_config_of_json
  by unfold_locales
    (simp_all add: disk_config_to_json_def disk_config_of_json_def struct_simps codecs)

lemmas [codecs] = disk_config.solid_codec_axioms

subsection \<open>\<open>FsConfig\<close>\<close>

record fs_config =
  fs_tag :: string
  fs_socket :: string
  fs_num_queues :: i32
  fs_queue_size :: i32
  fs_pci_segment :: "i32 option"
  fs_id :: "string option"

definition fs_config_new :: "string \<Rightarrow> string \<Rightarrow> i32 \<Rightarrow> i32 \<Rightarrow> fs_config" where
  "fs_config_new tag socket num_queues queue_size = \<lparr>fs_tag = tag, fs_socket = socket,
     fs_num_queues = num_queues, fs_queue_size = queue_size, fs_pci_segment = None, fs_id = None\<rparr>"

definition fs_config_to_json :: "fs_config \<Rightarrow> json" where
  "fs_config_to_json r = JObject (
     required ''tag'' (JString (fs_tag r)) @
     required ''socket'' (JString (fs_socket r)) @
     required ''num_queues'' (signed_to_json (fs_num_queues r)) @
     required ''queue_size'' (signed_to_json (fs_queue_size r)) @
     skip_none ''pci_segment'' signed_to_json (fs_pci_segment r) @
     skip_none ''id'' JString (fs_id r))"

definition fs_config_of_json :: "json \<Rightarrow> fs_config option" where
  "fs_config_of_json j = do {
     kvs \<leftarrow> fields_of [''tag'', ''socket'', ''num_queues'', ''queue_size'',
        ''pci_segment'', ''id''] j;
     tag \<leftarrow> get_field string_of_json ''tag'' kvs;
     socket \<leftarrow> get_field string_of_json ''socket'' kvs;
     num_queues \<leftarrow> get_field signed_of_json ''num_queues'' kvs;
     queue_size \<leftarrow> get_field signed_of_json ''queue_size'' kvs;
     pci_segment \<leftarrow> get_option signed_of_json ''pci_segment'' kvs;
     id' \<leftarrow> get_option string_of_json ''id'' kvs;
     Some \<lparr>fs_tag = tag, fs_socket = socket, fs_num_queues = num_queues,
        fs_queue_size = queue_size, fs_pci_segment = pci_segment, fs_id = id'\<rparr> }"

interpretation fs_config: solid_codec fs_config_to_json fs_config_of_json
  by unfold_locales
    (simp_all add: fs_config_to_json_def fs_config_of_json_def struct_simps codecs)

lemmas [codecs] = fs_config.solid_codec_axioms

subsection \<open>\<open>LandlockConfig\<close>\<close>

record landlock_config =
  landlock_path :: string
  landlock_access :: string

definition landlock_config_new :: "string \<Rightarrow> string \<Rightarrow> landlock_config" where
  "landlock_config_new path access = \<lparr>landlock_path = path, landlock_access = access\<rparr>"

definition landlock_config_to_json :: "landlock_config \<Rightarrow> json" where
  "landlock_config_to_json r = JObject (
     required ''path'' (JString (landlock_path r)) @
     required ''access'' (JString (landlock_access r)))"

definition landlock_config_of_json :: "json \<Rightarrow> landlock_config option" where
  "landlock_config_of_json j = do {
     kvs \<leftarrow> fields_of [''path'', ''access''] j;
     path \<leftarrow> get_field string_of_json ''path'' kvs;
     access \<leftarrow> get_field string_of_json ''access'' kvs;
     Some \<lparr>landlock_path = path, landlock_access = access\<rparr> }"

interpretation landlock_config: solid_codec landlock_config_to_json landlock_config_of_json
  by unfold_locales
    (simp_all add: landlock_config_to_json_def landlock_config_of_json_def struct_simps codecs)

lemmas [codecs] = landlock_config.solid_codec_axioms

subsection \<open>\<open>MemoryZoneConfig\<close>\<close>

record memory_zone_config =
  memory_zone_id :: string
  memory_zone_size :: i64
  memory_zone_file :: "string option"
  memory_zone_mergeable :: "bool option"
  memory_zone_shared :: "bool option"
  memory_zone_hugepages :: "bool option"
  memory_zone_hugepage_size :: "i64 option"
  memory_zone_host_numa_node :: "i32 option"
  memory_zone_hotplug_size :: "i64 option"
  memory_zone_hotplugged_size :: "i64 option"
  memory_zone_prefault :: "bool option"

definition memory_zone_config_new :: "string \<Rightarrow> i64 \<Rightarrow> memory_zone_config" where
  "memory_zone_config_new id' size' = \<lparr>memory_zone_id = id', memory_zone_size = size',
     memory_zone_file = None, memory_zone_mergeable = None, memory_zone_shared = None,
     memory_zone_hugepages = None, memory_zone_hugepage_size = None,
     memory_zone_host_numa_node = None, memory_zone_hotplug_size = None,
     memory_zone_hotplugged_size = None, memory_zone_prefault = None\<rparr>"

definition memory_zone_config_to_json :: "memory_zone_config \<Rightarrow> json" where
  "memory_zone_config_to_json r = JObject (
     required ''id'' (JString (memory_zone_id r)) @
     required ''size'' (signed_to_json (memory_zone_size r)) @
     skip_none ''file'' JString (memory_zone_file r) @
     skip_none ''mergeable'' JBool (memory_zone_mergeable r) @
     skip_none ''shared'' JBool (memory_zone_shared r) @
     skip_none ''hugepages'' JBool (memory_zone_hugepages r) @
     skip_none ''hugepage_size'' signed_to_json (memory_zone_hugepage_size r) @
     skip_none ''host_numa_node'' signed_to_json (memory_zone_host_numa_node r) @
     skip_none ''hotplug_size'' signed_to_json (memory_zone_hotplug_size r) @
     skip_none ''hotplugged_size'' signed_to_json (memory_zone_hotplugged_size r) @
     skip_none ''prefault'' JBool (memory_zone_prefault r))"

definition memory_zone_config_of_json :: "json \<Rightarrow> memory_zone_config option" where
  "memory_zone_config_of_json j = do {
     kvs \<leftarrow> fields_of [''id'', ''size'', ''file'', ''mergeable'', ''shared'',
        ''hugepages'', ''hugepage_size'', ''host_numa_node'', ''hotplug_size'',
        ''hotplugged_size'', ''prefault''] j;
     id' \<leftarrow> get_field string_of_json ''id'' kvs;
     size' \<leftarrow> get_field signed_of_json ''size'' kvs;
     file \<leftarrow> get_option string_of_json ''file'' kvs;
     mergeable \<leftarrow> get_option bool_of_json ''mergeable'' kvs;
     shared \<leftarrow> get_option bool_of_json ''shared'' kvs;
     hugepages \<leftarrow> get_option bool_of_json ''hugepages'' kvs;
     hugepage_size \<leftarrow> get_option signed_of_json ''hugepage_size'' kvs;
     host_numa_node \<leftarrow> get_option signed_of_json ''host_numa_node'' kvs;
     hotplug_size \<leftarrow> get_option signed_of_json ''hotplug_size'' kvs;
     hotplugged_size \<leftarrow> get_option signed_of_json ''hotplugged_size'' kvs;
     prefault \<leftarrow> get_option bool_of_json ''prefault'' kvs;
     Some \<lparr>memory_zone_id = id', memory_zone_size = size', memory_zone_file = file,
        memory_zone_mergeable = mergeable, memory_zone_shared = shared,
        memory_zone_hugepages = hugepages, memory_zone_hugepage_size = hugepage_size,
        memory_zone_host_numa_node = host_numa_node, memory_zone_hotplug_size = hotplug_size,
        memory_zone_hotplugged_size = hotplugged_size, memory_zone_prefault = prefault\<rparr> }"

interpretation memory_zone_config: solid_codec memory_zone_config_to_json memory_zone_config_of_json
  by unfold_locales
    (simp_all add: memory_zone_config_to_json_def memory_zone_config_of_json_def struct_simps codecs)

lemmas [codecs] = memory_zone_config.solid_codec_axioms

subsection \<open>\<open>MemoryConfig\<close>\<close>

record memory_config =
  memory_size :: i64
  memory_hotplug_size :: "i64 option"
  memory_hotplugged_size :: "i64 option"
  memory_mergeable :: "bool option"
  memory_hotplug_method :: "string option"
  memory_shared :: "bool option"
  memory_hugepages :: "bool option"
  memory_hugepage_size :: "i64 option"
  memory_prefault :: "bool option"
  memory_thp :: "bool option"
  memory_zones :: "memory_zone_config list option"

definition memory_config_new :: "i64 \<Rightarrow> memory_config" where
  "memory_config_new size' = \<lparr>memory_size = size', memory_hotplug_size = None,
     memory_hotplugged_size = None, memory_mergeable = None, memory_hotplug_method = None,
     memory_shared = None, memory_hugepages = None, memory_hugepage_size = None,
     memory_prefault = None, memory_thp = None, memory_zones = None\<rparr>"

definition memory_config_to_json :: "memory_config \<Rightarrow> json" where
  "memory_config_to_json r = JObject (
     required ''size'' (signed_to_json (memory_size r)) @
     skip_none ''hotplug_size'' signed_to_json (memory_hotplug_size r) @
     skip_none ''hotplugged_size'' signed_to_json (memory_hotplugged_size r) @
     skip_none ''mergeable'' JBool (memory_mergeable r) @
     skip_none ''hotplug_method'' JString (memory_hotplug_method r) @
     skip_none ''shared'' JBool (memory_shared r) @
     skip_none ''hugepages'' JBool (memory_hugepages r) @
     skip_none ''hugepage_size'' signed_to_json (memory_hugepage_size r) @
     skip_none ''prefault'' JBool (memory_prefault r) @
     skip_none ''thp'' JBool (memory_thp r) @
     skip_none ''zones'' (list_to_json memory_zone_config_to_json) (memory_zones r))"

definition memory_config_of_json :: "json \<Rightarrow> memory_config option" where
  "memory_config_of_json j = do {
     kvs \<leftarrow> fields_of [''size'', ''hotplug_size'', ''hotplugged_size'', ''mergeable'',
        ''hotplug_method'', ''shared'', ''hugepages'', ''hugepage_size'', ''prefault'', ''thp'',
        ''zones''] j;
     size' \<leftarrow> get_field signed_of_json ''size'' kvs;
     hotplug_size \<leftarrow> get_option signed_of_json ''hotplug_size'' kvs;
     hotplugged_size \<leftarrow> get_option signed_of_json ''hotplugged_size'' kvs;
     mergeable \<leftarrow> get_option bool_of_json ''mergeable'' kvs;
     hotplug_method \<leftarrow> get_option string_of_json ''hotplug_method'' kvs;
     shared \<leftarrow> get_option bool_of_json ''shared'' kvs;
     hugepages \<leftarrow> get_option bool_of_json ''hugepages'' kvs;
     hugepage_size \<leftarrow> get_option signed_of_json ''hugepage_size'' kvs;
     prefault \<leftarrow> get_option bool_of_json ''prefault'' kvs;
     thp \<leftarrow> get_option bool_of_json ''thp'' kvs;
     zones \<leftarrow> get_option (list_of_json memory_zone_config_of_json) ''zones'' kvs;
     Some \<lparr>memory_size = size', memory_hotplug_size = hotplug_size,
        memory_hotplugged_size = hotplugged_size, memory_mergeable = mergeable,
        memory_hotplug_method = hotplug_method, memory_shared = shared,
        memory_hugepages = hugepages, memory_hugepage_size = hugepage_size,
        memory_prefault = prefault, memory_thp = thp, memory_zones = zones\<rparr> }"

interpretation memory_config: solid_codec memory_config_to_json memory_config_of_json
  by unfold_locales
    (simp_all add: memory_config_to_json_def memory_config_of_json_def struct_simps codecs)

lemmas [codecs] = memory_config.solid_codec_axioms

subsection \<open>\<open>NetConfig\<close>\<close>

record net_config =
  net_tap :: "string option"
  net_ip :: "string option"
  net_mask :: "string option"
  net_mac :: "string option"
  net_host_mac :: "string option"
  net_mtu :: "i32 option"
  net_iommu :: "bool option"
  net_num_queues :: "i32 option"
  net_queue_size :: "i32 option"
  net_vhost_user :: "bool option"
  net_vhost_socket :: "string option"
  net_vhost_mode :: "string option"
  net_id :: "string option"
  net_pci_segment :: "i32 option"
  net_rate_limiter_config :: "rate_limiter_config option"

definition net_config_new :: "net_config" where
  "net_config_new = \<lparr>net_tap = None, net_ip = None, net_mask = None, net_mac = None,
     net_host_mac = None, net_mtu = None, net_iommu = None, net_num_queues = None,
     net_queue_size = None, net_vhost_user = None, net_vhost_socket = None,
     net_vhost_mode = None, net_id = None, net_pci_segment = None,
     net_rate_limiter_config = None\<rparr>"

definition net_config_to_json :: "net_config \<Rightarrow> json" where
  "net_config_to_json r = JObject (
     skip_none ''tap'' JString (net_tap r) @
     skip_none ''ip'' JString (net_ip r) @
     skip_none ''mask'' JString (net_mask r) @
     skip_none ''mac'' JString (net_mac r) @
     skip_none ''host_mac'' JString (net_host_mac r) @
     skip_none ''mtu'' signed_to_json (net_mtu r) @
     skip_none ''iommu'' JBool (net_iommu r) @
     skip_none ''num_queues'' signed_to_json (net_num_queues r) @
     skip_none ''queue_size'' signed_to_json (net_queue_size r) @
     skip_none ''vhost_user'' JBool (net_vhost_user r) @
     skip_none ''vhost_socket'' JString (net_vhost_socket r) @
     skip_none ''vhost_mode'' JString (net_vhost_mode r) @
     skip_none ''id'' JString (net_id r) @
     skip_none ''pci_segment'' signed_to_json (net_pci_segment r) @
     skip_none ''rate_limiter_config'' rate_limiter_config_to_json (net_rate_limiter_config r))"

definition net_config_of_json :: "json \<Rightarrow> net_config option" where
  "net_config_of_json j = do {
     kvs \<leftarrow> fields_of [''tap'', ''ip'', ''mask'', ''mac'', ''host_mac'', ''mtu'',
        ''iommu'', ''num_queues'', ''queue_size'', ''vhost_user'', ''vhost_socket'',
        ''vhost_mode'', ''id'', ''pci_segment'', ''rate_limiter_config''] j;
     tap \<leftarrow> get_option string_of_json ''tap'' kvs;
     ip \<leftarrow> get_option string_of_json ''ip'' kvs;
     mask \<leftarrow> get_option string_of_json ''mask'' kvs;
     mac \<leftarrow> get_option string_of_json ''mac'' kvs;
     host_mac \<leftarrow> get_option string_of_json ''host_mac'' kvs;
     mtu \<leftarrow> get_option signed_of_json ''mtu'' kvs;
     iommu \<leftarrow> get_option bool_of_json ''iommu'' kvs;
     num_queues \<leftarrow> get_option signed_of_json ''num_queues'' kvs;
     queue_size \<leftarrow> get_option signed_of_json ''queue_size'' kvs;
     vhost_user \<leftarrow> get_option bool_of_json ''vhost_user'' kvs;
     vhost_socket \<leftarrow> get_option string_of_json ''vhost_socket'' kvs;
     vhost_mode \<leftarrow> get_option string_of_json ''vhost_mode'' kvs;
     id' \<leftarrow> get_option string_of_json ''id'' kvs;
     pci_segment \<leftarrow> get_option signed_of_json ''pci_segment'' kvs;
     rate_limiter_config \<leftarrow> get_option rate_limiter_config_of_json ''rate_limiter_config'' kvs;
     Some \<lparr>net_tap = tap, net_ip = ip, net_mask = mask, net_mac = mac,
        net_host_mac = host_mac, net_mtu = mtu, net_iommu = iommu, net_num_queues = num_queues,
        net_queue_size = queue_size, net_vhost_user = vhost_user,
        net_vhost_socket = vhost_socket, net_vhost_mode = vhost_mode, net_id = id',
        net_pci_segment = pci_segment, net_rate_limiter_config = rate_limiter_config\<rparr> }"

interpretation net_config: solid_codec net_config_to_json net_config_of_json
  by unfold_locales
    (simp_all add: net_config_to_json_def net_config_of_json_def struct_simps codecs)

lemmas [codecs] = net_config.solid_codec_axioms

subsection \<open>\<open>NumaDistance\<close>\<close>

record numa_distance =
  numa_distance_destination :: i32
  numa_distance_distance :: i32

definition numa_distance_new :: "i32 \<Rightarrow> i32 \<Rightarrow> numa_distance" where
  "numa_distance_new destination distance = \<lparr>numa_distance_destination = destination,
     numa_distance_distance = distance\<rparr>"

definition numa_distance_to_json :: "numa_distance \<Rightarrow> json" where
  "numa_distance_to_json r = JObject (
     required ''destination'' (signed_to_json (numa_distance_destination r)) @
     required ''distance'' (signed_to_json (numa_distance_distance r)))"

definition numa_distance_of_json :: "json \<Rightarrow> numa_distance option" where
  "numa_distance_of_json j = do {
     kvs \<leftarrow> fields_of [''destination'', ''distance''] j;
     destination \<leftarrow> get_field signed_of_json ''destination'' kvs;
     distance \<leftarrow> get_field signed_of_json ''distance'' kvs;
     Some \<lparr>numa_distance_destination = destination, numa_distance_distance = distance\<rparr> }"

interpretation numa_distance: solid_codec numa_distance_to_json numa_distance_of_json
  by unfold_locales
    (simp_all add: numa_distance_to_json_def numa_distance_of_json_def struct_simps codecs)

lemmas [codecs] = numa_distance.solid_codec_axioms

subsection \<open>\<open>NumaConfig\<close>\<close>

record numa_config =
  numa_guest_numa_id :: i32
  numa_cpus :: "i32 list option"
  numa_distances :: "numa_distance list option"
  numa_memory_zones :: "string list option"
  numa_sgx_epc_sections :: "string list option"
  numa_pci_segments :: "i32 list option"

definition numa_config_new :: "i32 \<Rightarrow> numa_config" where
  "numa_config_new guest_numa_id = \<lparr>numa_guest_numa_id = guest_numa_id, numa_cpus = None,
     numa_distances = None, numa_memory_zones = None, numa_sgx_epc_sections = None,
     numa_pci_segments = None\<rparr>"

definition numa_config_to_json :: "numa_config \<Rightarrow> json" where
  "numa_config_to_json r = JObject (
     required ''guest_numa_id'' (signed_to_json (numa_guest_numa_id r)) @
     skip_none ''cpus'' (list_to_json signed_to_json) (numa_cpus r) @
     skip_none ''distances'' (list_to_json numa_distance_to_json) (numa_distances r) @
     skip_none ''memory_zones'' (list_to_json JString) (numa_memory_zones r) @
     skip_none ''sgx_epc_sections'' (list_to_json JString) (numa_sgx_epc_sections r) @
     skip_none ''pci_segments'' (list_to_json signed_to_json) (numa_pci_segments r))"

definition numa_config_of_json :: "json \<Rightarrow> numa_config option" where
  "numa_config_of_json j = do {
     kvs \<leftarrow> fields_of [''guest_numa_id'', ''cpus'', ''distances'', ''memory_zones'',
        ''sgx_epc_sections'', ''pci_segments''] j;
     guest_numa_id \<leftarrow> get_field signed_of_json ''guest_numa_id'' kvs;
     cpus \<leftarrow> get_option (list_of_json signed_of_json) ''cpus'' kvs;
     distances \<leftarrow> get_option (list_of_json numa_distance_of_json) ''distances'' kvs;
     memory_zones \<leftarrow> get_option (list_of_json string_of_json) ''memory_zones'' kvs;
     sgx_epc_sections \<leftarrow> get_option (list_of_json string_of_json) ''sgx_epc_sections'' kvs;
     pci_segments \<leftarrow> get_option (list_of_json signed_of_json) ''pci_segments'' kvs;
     Some \<lparr>numa_guest_numa_id = guest_numa_id, numa_cpus = cpus,
        numa_distances = distances, numa_memory_zones = memory_zones,
        numa_sgx_epc_sections = sgx_epc_sections, numa_pci_segments = pci_segments\<rparr> }"

interpretation numa_config: solid_codec numa_config_to_json numa_config_of_json
  by unfold_locales
    (simp_all add: numa_config_to_json_def numa_config_of_json_def struct_simps codecs)

lemmas [codecs] = numa_config.solid_codec_axioms

subsection \<open>\<open>PayloadConfig\<close>\<close>

record payload_config =
  payload_firmware :: "string option"
  payload_kernel :: "string option"
  payload_cmdline :: "string option"
  payload_initramfs :: "string option"

definition payload_config_new :: "payload_config" where
  "payload_config_new = \<lparr>payload_firmware = None, payload_kernel = None,
     payload_cmdline = None, payload_initramfs = None\<rparr>"

definition payload_config_to_json :: "payload_config \<Rightarrow> json" where
  "payload_config_to_json r = JObject (
     skip_none ''firmware'' JString (payload_firmware r) @
     skip_none ''kernel'' JString (payload_kernel r) @
     skip_none ''cmdline'' JString (payload_cmdline r) @
     skip_none ''initramfs'' JString (payload_initramfs r))"

definition payload_config_of_json :: "json \<Rightarrow> payload_config option" where
  "payload_config_of_json j = do {
     kvs \<leftarrow> fields_of [''firmware'', ''kernel'', ''cmdline'', ''initramfs''] j;
     firmware \<leftarrow> get_option string_of_json ''firmware'' kvs;
     kernel \<leftarrow> get_option string_of_json ''kernel'' kvs;
     cmdline \<leftarrow> get_option string_of_json ''cmdline'' kvs;
     initramfs \<leftarrow> get_option string_of_json ''initramfs'' kvs;
     Some \<lparr>payload_firmware = firmware, payload_kernel = kernel,
        payload_cmdline = cmdline, payload_initramfs = initramfs\<rparr> }"

interpretation payload_config: solid_codec payload_config_to_json payload_config_of_json
  by unfold_locales
    (simp_all add: payload_config_to_json_def payload_config_of_json_def struct_simps codecs)

lemmas [codecs] = payload_config.solid_codec_axioms

subsection \<open>\<open>PciSegmentConfig\<close>\<close>

record pci_segment_config =
  pci_segment_pci_segment :: i32
  pci_segment_mmio32_aperture_weight :: "i32 option"
  pci_segment_mmio64_aperture_weight :: "i32 option"

definition pci_segment_config_new :: "i32 \<Rightarrow> pci_segment_config" where
  "pci_segment_config_new pci_segment = \<lparr>pci_segment_pci_segment = pci_segment,
     pci_segment_mmio32_aperture_weight = None, pci_segment_mmio64_aperture_weight = None\<rparr>"

definition pci_segment_config_to_json :: "pci_segment_config \<Rightarrow> json" where
  "pci_segment_config_to_json r = JObject (
     required ''pci_segment'' (signed_to_json (pci_segment_pci_segment r)) @
     skip_none ''mmio32_aperture_weight'' signed_to_json (pci_segment_mmio32_aperture_weight r) @
     skip_none ''mmio64_aperture_weight'' signed_to_json (pci_segment_mmio64_aperture_weight r))"

definition pci_segment_config_of_json :: "json \<Rightarrow> pci_segment_config option" where
  "pci_segment_config_of_json j = do {
     kvs \<leftarrow> fields_of [''pci_segment'', ''mmio32_aperture_weight'',
        ''mmio64_aperture_weight''] j;
     pci_segment \<leftarrow> get_field signed_of_json ''pci_segment'' kvs;
     mmio32_aperture_weight \<leftarrow> get_option signed_of_json ''mmio32_aperture_weight'' kvs;
     mmio64_aperture_weight \<leftarrow> get_option signed_of_json ''mmio64_aperture_weight'' kvs;
     Some \<lparr>pci_segment_pci_segment = pci_segment,
        pci_segment_mmio32_aperture_weight = mmio32_aperture_weight,
        pci_segment_mmio64_aperture_weight = mmio64_aperture_weight\<rparr> }"

interpretation pci_segment_config: solid_codec pci_segment_config_to_json pci_segment_config_of_json
  by unfold_locales
    (simp_all add: pci_segment_config_to_json_def pci_segment_config_of_json_def struct_simps codecs)

lemmas [codecs] = pci_segment_config.solid_codec_axioms

subsection \<open>\<open>PlatformConfig\<close>\<close>

record ch_platform_config =
  platform_num_pci_segments :: "i32 option"
  platform_iommu_segments :: "i32 list option"
  platform_serial_number :: "string option"
  platform_uuid :: "string option"
  platform_oem_strings :: "string list option"
  platform_tdx :: "bool option"

definition ch_platform_config_new :: "ch_platform_config" where
  "ch_platform_config_new = \<lparr>platform_num_pci_segments = None,
     platform_iommu_segments = None, platform_serial_number = None, platform_uuid = None,
     platform_oem_strings = None, platform_tdx = None\<rparr>"

definition ch_platform_config_to_json :: "ch_platform_config \<Rightarrow> json" where
  "ch_platform_config_to_json r = JObject (
     skip_none ''num_pci_segments'' signed_to_json (platform_num_pci_segments r) @
     skip_none ''iommu_segments'' (list_to_json signed_to_json) (platform_iommu_segments r) @
     skip_none ''serial_number'' JString (platform_serial_number r) @
     skip_none ''uuid'' JString (platform_uuid r) @
     skip_none ''oem_strings'' (list_to_json JString) (platform_oem_strings r) @
     skip_none ''tdx'' JBool (platform_tdx r))"

definition ch_platform_config_of_json :: "json \<Rightarrow> ch_platform_config option" where
  "ch_platform_config_of_json j = do {
     kvs \<leftarrow> fields_of [''num_pci_segments'', ''iommu_segments'', ''serial_number'',
        ''uuid'', ''oem_strings'', ''tdx''] j;
     num_pci_segments \<leftarrow> get_option signed_of_json ''num_pci_segments'' kvs;
     iommu_segments \<leftarrow> get_option (list_of_json signed_of_json) ''iommu_segments'' kvs;
     serial_number \<leftarrow> get_option string_of_json ''serial_number'' kvs;
     uuid \<leftarrow> get_option string_of_json ''uuid'' kvs;
     oem_strings \<leftarrow> get_option (list_of_json string_of_json) ''oem_strings'' kvs;
     tdx \<leftarrow> get_option bool_of_json ''tdx'' kvs;
     Some \<lparr>platform_num_pci_segments = num_pci_segments,
        platform_iommu_segments = iommu_segments, platform_serial_number = serial_number,
        platform_uuid = uuid, platform_oem_strings = oem_strings, platform_tdx = tdx\<rparr> }"

interpretation ch_platform_config: solid_codec ch_platform_config_to_json ch_platform_config_of_json
  by unfold_locales
    (simp_all add: ch_platform_config_to_json_def ch_platform_config_of_json_def struct_simps codecs)

lemmas [codecs] = ch_platform_config.solid_codec_axioms

subsection \<open>\<open>PmemConfig\<close>\<close>

record pmem_config =
  pmem_file :: string
  pmem_size :: "i64 option"
  pmem_iommu :: "bool option"
  pmem_discard_writes :: "bool option"
  pmem_pci_segment :: "i32 option"
  pmem_id :: "string option"

definition pmem_config_new :: "string \<Rightarrow> pmem_config" where
  "pmem_config_new file = \<lparr>pmem_file = file, pmem_size = None, pmem_iommu = None,
     pmem_discard_writes = None, pmem_pci_segment = None, pmem_id = None\<rparr>"

definition pmem_config_to_json :: "pmem_config \<Rightarrow> json" where
  "pmem_config_to_json r = JObject (
     required ''file'' (JString (pmem_file r)) @
     skip_none ''size'' signed_to_json (pmem_size r) @
     skip_none ''iommu'' JBool (pmem_iommu r) @
     skip_none ''discard_writes'' JBool (pmem_discard_writes r) @
     skip_none ''pci_segment'' signed_to_json (pmem_pci_segment r) @
     skip_none ''id'' JString (pmem_id r))"

definition pmem_config_of_json :: "json \<Rightarrow> pmem_config option" where
  "pmem_config_of_json j = do {
     kvs \<leftarrow> fields_of [''file'', ''size'', ''iommu'', ''discard_writes'',
        ''pci_segment'', ''id''] j;
     file \<leftarrow> get_field string_of_json ''file'' kvs;
     size' \<leftarrow> get_option signed_of_json ''size'' kvs;
     iommu \<leftarrow> get_option bool_of_json ''iommu'' kvs;
     discard_writes \<leftarrow> get_option bool_of_json ''discard_writes'' kvs;
     pci_segment \<leftarrow> get_option signed_of_json ''pci_segment'' kvs;
     id' \<leftarrow> get_option string_of_json ''id'' kvs;
     Some \<lparr>pmem_file = file, pmem_size = size', pmem_iommu = iommu,
        pmem_discard_writes = discard_writes, pmem_pci_segment = pci_segment, pmem_id = id'\<rparr> }"

interpretation pmem_config: solid_codec pmem_config_to_json pmem_config_of_json
  by unfold_locales
    (simp_all add: pmem_config_to_json_def pmem_config_of_json_def struct_simps codecs)

lemmas [codecs] = pmem_config.solid_codec_axioms

subsection \<open>\<open>RateLimitGroupConfig\<close>\<close>

record rate_limit_group_config =
  rate_limit_group_id :: string
  rate_limit_group_rate_limiter_config :: rate_limiter_config

definition rate_limit_group_config_new :: "string \<Rightarrow> rate_limiter_config \<Rightarrow> rate_limit_group_config" where
  "rate_limit_group_config_new id' rate_limiter_config = \<lparr>rate_limit_group_id = id',
     rate_limit_group_rate_limiter_config = rate_limiter_config\<rparr>"

definition rate_limit_group_config_to_json :: "rate_limit_group_config \<Rightarrow> json" where
  "rate_limit_group_config_to_json r = JObject (
     required ''id'' (JString (rate_limit_group_id r)) @
     required ''rate_limiter_config'' (rate_limiter_config_to_json (rate_limit_group_rate_limiter_config r)))"

definition rate_limit_group_config_of_json :: "json \<Rightarrow> rate_limit_group_config option" where
  "rate_limit_group_config_of_json j = do {
     kvs \<leftarrow> fields_of [''id'', ''rate_limiter_config''] j;
     id' \<leftarrow> get_field string_of_json ''id'' kvs;
     rate_limiter_config \<leftarrow> get_field rate_limiter_config_of_json ''rate_limiter_config'' kvs;
     Some \<lparr>rate_limit_group_id = id',
        rate_limit_group_rate_limiter_config = rate_limiter_config\<rparr> }"

interpretation rate_limit_group_config: solid_codec rate_limit_group_config_to_json rate_limit_group_config_of_json
  by unfold_locales
    (simp_all add: rate_limit_group_config_to_json_def rate_limit_group_config_of_json_def struct_simps codecs)

lemmas [codecs] = rate_limit_group_config.solid_codec_axioms

subsection \<open>\<open>RngConfig\<close>\<close>

record rng_config =
  rng_src :: string
  rng_iommu :: "bool option"

definition rng_config_new :: "string \<Rightarrow> rng_config" where
  "rng_config_new src = \<lparr>rng_src = src, rng_iommu = None\<rparr>"

definition rng_config_to_json :: "rng_config \<Rightarrow> json" where
  "rng_config_to_json r = JObject (
     required ''src'' (JString (rng_src r)) @
     skip_none ''iommu'' JBool (rng_iommu r))"

definition rng_config_of_json :: "json \<Rightarrow> rng_config option" where
  "rng_config_of_json j = do {
     kvs \<leftarrow> fields_of [''src'', ''iommu''] j;
     src \<leftarrow> get_field string_of_json ''src'' kvs;
     iommu \<leftarrow> get_option bool_of_json ''iommu'' kvs;
     Some \<lparr>rng_src = src, rng_iommu = iommu\<rparr> }"

interpretation rng_config: solid_codec rng_config_to_json rng_config_of_json
  by unfold_locales
    (simp_all add: rng_config_to_json_def rng_config_of_json_def struct_simps codecs)

lemmas [codecs] = rng_config.solid_codec_axioms

subsection \<open>\<open>SgxEpcConfig\<close>\<close>

record sgx_epc_config =
  sgx_epc_id :: string
  sgx_epc_size :: i64
  sgx_epc_prefault :: "bool option"

definition sgx_epc_config_new :: "string \<Rightarrow> i64 \<Rightarrow> sgx_epc_config" where
  "sgx_epc_config_new id' size' = \<lparr>sgx_epc_id = id', sgx_epc_size = size',
     sgx_epc_prefault = None\<rparr>"

definition sgx_epc_config_to_json :: "sgx_epc_config \<Rightarrow> json" where
  "sgx_epc_config_to_json r = JObject (
     required ''id'' (JString (sgx_epc_id r)) @
     required ''size'' (signed_to_json (sgx_epc_size r)) @
     skip_none ''prefault'' JBool (sgx_epc_prefault r))"

definition sgx_epc_config_of_json :: "json \<Rightarrow> sgx_epc_config option" where
  "sgx_epc_config_of_json j = do {
     kvs \<leftarrow> fields_of [''id'', ''size'', ''prefault''] j;
     id' \<leftarrow> get_field string_of_json ''id'' kvs;
     size' \<leftarrow> get_field signed_of_json ''size'' kvs;
     prefault \<leftarrow> get_option bool_of_json ''prefault'' kvs;
     Some \<lparr>sgx_epc_id = id', sgx_epc_size = size', sgx_epc_prefault = prefault\<rparr> }"

interpretation sgx_epc_config: solid_codec sgx_epc_config_to_json sgx_epc_config_of_json
  by unfold_locales
    (simp_all add: sgx_epc_config_to_json_def sgx_epc_config_of_json_def struct_simps codecs)

lemmas [codecs] = sgx_epc_config.solid_codec_axioms

subsection \<open>\<open>TpmConfig\<close>\<close>

record tpm_config =
  tpm_socket :: string

definition tpm_config_new :: "string \<Rightarrow> tpm_config" where
  "tpm_config_new socket = \<lparr>tpm_socket = socket\<rparr>"

definition tpm_config_to_json :: "tpm_config \<Rightarrow> json" where
  "tpm_config_to_json r = JObject (
     required ''socket'' (JString (tpm_socket r)))"

definition tpm_config_of_json :: "json \<Rightarrow> tpm_config option" where
  "tpm_config_of_json j = do {
     kvs \<leftarrow> fields_of [''socket''] j;
     socket \<leftarrow> get_field string_of_json ''socket'' kvs;
     Some \<lparr>tpm_socket = socket\<rparr> }"

interpretation tpm_config: solid_codec tpm_config_to_json tpm_config_of_json
  by unfold_locales
    (simp_all add: tpm_config_to_json_def tpm_config_of_json_def struct_simps codecs)

lemmas [codecs] = tpm_config.solid_codec_axioms

subsection \<open>\<open>VdpaConfig\<close>\<close>

record vdpa_config =
  vdpa_path :: string
  vdpa_num_queues :: i32
  vdpa_iommu :: "bool option"
  vdpa_pci_segment :: "i32 option"
  vdpa_id :: "string option"

definition vdpa_config_new :: "string \<Rightarrow> i32 \<Rightarrow> vdpa_config" where
  "vdpa_config_new path num_queues = \<lparr>vdpa_path = path, vdpa_num_queues = num_queues,
     vdpa_iommu = None, vdpa_pci_segment = None, vdpa_id = None\<rparr>"

definition vdpa_config_to_json :: "vdpa_config \<Rightarrow> json" where
  "vdpa_config_to_json r = JObject (
     required ''path'' (JString (vdpa_path r)) @
     required ''num_queues'' (signed_to_json (vdpa_num_queues r)) @
     skip_none ''iommu'' JBool (vdpa_iommu r) @
     skip_none ''pci_segment'' signed_to_json (vdpa_pci_segment r) @
     skip_none ''id'' JString (vdpa_id r))"

definition vdpa_config_of_json :: "json \<Rightarrow> vdpa_config option" where
  "vdpa_config_of_json j = do {
     kvs \<leftarrow> fields_of [''path'', ''num_queues'', ''iommu'', ''pci_segment'', ''id''] j;
     path \<leftarrow> get_field string_of_json ''path'' kvs;
     num_queues \<leftarrow> get_field signed_of_json ''num_queues'' kvs;
     iommu \<leftarrow> get_option bool_of_json ''iommu'' kvs;
     pci_segment \<leftarrow> get_option signed_of_json ''pci_segment'' kvs;
     id' \<leftarrow> get_option string_of_json ''id'' kvs;
     Some \<lparr>vdpa_path = path, vdpa_num_queues = num_queues, vdpa_iommu = iommu,
        vdpa_pci_segment = pci_segment, vdpa_id = id'\<rparr> }"

interpretation vdpa_config: solid_codec vdpa_config_to_json vdpa_config_of_json
  by unfold_locales
    (simp_all add: vdpa_config_to_json_def vdpa_config_of_json_def struct_simps codecs)

lemmas [codecs] = vdpa_config.solid_codec_axioms

subsection \<open>\<open>VsockConfig\<close>\<close>

record vsock_config =
  vsock_cid :: i64
  vsock_socket :: string
  vsock_iommu :: "bool option"
  vsock_pci_segment :: "i32 option"
  vsock_id :: "string option"

definition vsock_config_new :: "i64 \<Rightarrow> string \<Rightarrow> vsock_config" where
  "vsock_config_new cid socket = \<lparr>vsock_cid = cid, vsock_socket = socket,
     vsock_iommu = None, vsock_pci_segment = None, vsock_id = None\<rparr>"

definition vsock_config_to_json :: "vsock_config \<Rightarrow> json" where
  "vsock_config_to_json r = JObject (
     required ''cid'' (signed_to_json (vsock_cid r)) @
     required ''socket'' (JString (vsock_socket r)) @
     skip_none ''iommu'' JBool (vsock_iommu r) @
     skip_none ''pci_segment'' signed_to_json (vsock_pci_segment r) @
     skip_none ''id'' JString (vsock_id r))"

definition vsock_config_of_json :: "json \<Rightarrow> vsock_config option" where
  "vsock_config_of_json j = do {
     kvs \<leftarrow> fields_of [''cid'', ''socket'', ''iommu'', ''pci_segment'', ''id''] j;
     cid \<leftarrow> get_field signed_of_json ''cid'' kvs;
     socket \<leftarrow> get_field string_of_json ''socket'' kvs;
     iommu \<leftarrow> get_option bool_of_json ''iommu'' kvs;
     pci_segment \<leftarrow> get_option signed_of_json ''pci_segment'' kvs;
     id' \<leftarrow> get_option string_of_json ''id'' kvs;
     Some \<lparr>vsock_cid = cid, vsock_socket = socket, vsock_iommu = iommu,
        vsock_pci_segment = pci_segment, vsock_id = id'\<rparr> }"

interpretation vsock_config: solid_codec vsock_config_to_json vsock_config_of_json
  by unfold_locales
    (simp_all add: vsock_config_to_json_def vsock_config_of_json_def struct_simps codecs)

lemmas [codecs] = vsock_config.solid_codec_axioms

end
