(* ===== verification/Ch_Models.thy ===== *)
theory Ch_Models
  imports Ch_Devices
begin

section \<open>Machine configurations, requests and answers: cloud-hypervisor-client/src/models\<close>

text \<open>
  The machine configuration itself, the bodies of the other requests, and the answers of the
  hypervisor.
\<close>

datatype vm_state = Vs_State_Created | Vs_State_Running | Vs_State_Shutdown | Vs_State_Paused

fun vm_state_to_json :: "vm_state \<Rightarrow> json" where
  "vm_state_to_json Vs_State_Created = JString ''Created''"
| "vm_state_to_json Vs_State_Running = JString ''Running''"
| "vm_state_to_json Vs_State_Shutdown = JString ''Shutdown''"
| "vm_state_to_json Vs_State_Paused = JString ''Paused''"

definition vm_state_of_json :: "json \<Rightarrow> vm_state option" where
  "vm_state_of_json = variant_of_json
     [(''Created'', Vs_State_Created), (''Running'', Vs_State_Running), (''Shutdown'', Vs_State_Shutdown),
      (''Paused'', Vs_State_Paused)]"

interpretation vm_state: solid_codec vm_state_to_json vm_state_of_json
proof
  fix m
  show "vm_state_of_json (vm_state_to_json m) = Some m"
    by (cases m) (simp_all add: vm_state_of_json_def variant_of_json_def)
  show "vm_state_to_json m \<noteq> JNull" by (cases m) simp_all
qed

lemmas [codecs] = vm_state.solid_codec_axioms

subsection \<open>\<open>VmConfig\<close>\<close>

record vm_config =
  vmc_cpus :: "cpus_config option"
  vmc_memory :: "memory_config option"
  vmc_payload :: payload_config
  vmc_rate_limit_groups :: "rate_limit_group_config list option"
  vmc_disks :: "disk_config list option"
  vmc_net :: "net_config list option"
  vmc_rng :: "rng_config option"
  vmc_balloon :: "balloon_config option"
  vmc_fs :: "fs_config list option"
  vmc_pmem :: "pmem_config list option"
  vmc_serial :: "console_config option"
  vmc_console :: "console_config option"
  vmc_debug_console :: "debug_console_config option"
  vmc_devices :: "device_config list option"
  vmc_vdpa :: "vdpa_config list option"
  vmc_vsock :: "vsock_config option"
  vmc_sgx_epc :: "sgx_epc_config list option"
  vmc_numa :: "numa_config list option"
  vmc_iommu :: "bool option"
  vmc_watchdog :: "bool option"
  vmc_pvpanic :: "bool option"
  vmc_pci_segments :: "pci_segment_config list option"
  vmc_platform :: "ch_platform_config option"
  vmc_tpm :: "tpm_config option"
  vmc_landlock_enable :: "bool option"
  vmc_landlock_rules :: "landlock_config list option"

definition vm_config_new :: "payload_config \<Rightarrow> vm_config" where
  "vm_config_new payload = \<lparr>vmc_cpus = None, vmc_memory = None, vmc_payload = payload,
     vmc_rate_limit_groups = None, vmc_disks = None, vmc_net = None, vmc_rng = None,
     vmc_balloon = None, vmc_fs = None, vmc_pmem = None, vmc_serial = None, vmc_console = None,
     vmc_debug_console = None, vmc_devices = None, vmc_vdpa = None, vmc_vsock = None,
     vmc_sgx_epc = None, vmc_numa = None, vmc_iommu = None, vmc_watchdog = None,
     vmc_pvpanic = None, vmc_pci_segments = None, vmc_platform = None, vmc_tpm = None,
     vmc_landlock_enable = None, vmc_landlock_rules = None\<rparr>"

definition vm_config_to_json :: "vm_config \<Rightarrow> json" where
  "vm_config_to_json r = JObject (
     skip_none ''cpus'' cpus_config_to_json (vmc_cpus r) @
     skip_none ''memory'' memory_config_to_json (vmc_memory r) @
     required ''payload'' (payload_config_to_json (vmc_payload r)) @
     skip_none ''rate_limit_groups'' (list_to_json rate_limit_group_config_to_json) (vmc_rate_limit_groups r) @
     skip_none ''disks'' (list_to_json disk_config_to_json) (vmc_disks r) @
     skip_none ''net'' (list_to_json net_config_to_json) (vmc_net r) @
     skip_none ''rng'' rng_config_to_json (vmc_rng r) @
     skip_none ''balloon'' balloon_config_to_json (vmc_balloon r) @
     skip_none ''fs'' (list_to_json fs_config_to_json) (vmc_fs r) @
     skip_none ''pmem'' (list_to_json pmem_config_to_json) (vmc_pmem r) @
     skip_none ''serial'' console_config_to_json (vmc_serial r) @
     skip_none ''console'' console_config_to_json (vmc_console r) @
     skip_none ''debug_console'' debug_console_config_to_json (vmc_debug_console r) @
     skip_none ''devices'' (list_to_json device_config_to_json) (vmc_devices r) @
     skip_none ''vdpa'' (list_to_json vdpa_config_to_json) (vmc_vdpa r) @
     skip_none ''vsock'' vsock_config_to_json (vmc_vsock r) @
     skip_none ''sgx_epc'' (list_to_json sgx_epc_config_to_json) (vmc_sgx_epc r) @
     skip_none ''numa'' (list_to_json numa_config_to_json) (vmc_numa r) @
     skip_none ''iommu'' JBool (vmc_iommu r) @
     skip_none ''watchdog'' JBool (vmc_watchdog r) @
     skip_none ''pvpanic'' JBool (vmc_pvpanic r) @
     skip_none ''pci_segments'' (list_to_json pci_segment_config_to_json) (vmc_pci_segments r) @
     skip_none ''platform'' ch_platform_config_to_json (vmc_platform r) @
     skip_none ''tpm'' tpm_config_to_json (vmc_tpm r) @
     skip_none ''landlock_enable'' JBool (vmc_landlock_enable r) @
     skip_none ''landlock_rules'' (list_to_json landlock_config_to_json) (vmc_landlock_rules r))"

definition vm_config_of_json :: "json \<Rightarrow> vm_config option" where
  "vm_config_of_json j = do {
     kvs \<leftarrow> fields_of [''cpus'', ''memory'', ''payload'', ''rate_limit_groups'',
        ''disks'', ''net'', ''rng'', ''balloon'', ''fs'', ''pmem'', ''serial'', ''console'',
        ''debug_console'', ''devices'', ''vdpa'', ''vsock'', ''sgx_epc'', ''numa'', ''iommu'',
        ''watchdog'', ''pvpanic'', ''pci_segments'', ''platform'', ''tpm'', ''landlock_enable'',
        ''landlock_rules''] j;
     cpus \<leftarrow> get_option cpus_config_of_json ''cpus'' kvs;
     memory \<leftarrow> get_option memory_config_of_json ''memory'' kvs;
     payload \<leftarrow> get_field payload_config_of_json ''payload'' kvs;
     rate_limit_groups \<leftarrow> get_option (list_of_json rate_limit_group_config_of_json) ''rate_limit_groups'' kvs;
     disks \<leftarrow> get_option (list_of_json disk_config_of_json) ''disks'' kvs;
     net \<leftarrow> get_option (list_of_json net_config_of_json) ''net'' kvs;
     rng \<leftarrow> get_option rng_config_of_json ''rng'' kvs;
     balloon \<leftarrow> get_option balloon_config_of_json ''balloon'' kvs;
     fs \<leftarrow> get_option (list_of_json fs_config_of_json) ''fs'' kvs;
     pmem \<leftarrow> get_option (list_of_json pmem_config_of_json) ''pmem'' kvs;
     serial \<leftarrow> get_option console_config_of_json ''serial'' kvs;
     console \<leftarrow> get_option console_config_of_json ''console'' kvs;
     debug_console \<leftarrow> get_option debug_console_config_of_json ''debug_console'' kvs;
     devices \<leftarrow> get_option (list_of_json device_config_of_json) ''devices'' kvs;
     vdpa \<leftarrow> get_option (list_of_json vdpa_config_of_json) ''vdpa'' kvs;
     vsock \<leftarrow> get_option vsock_config_of_json ''vsock'' kvs;
     sgx_epc \<leftarrow> get_option (list_of_json sgx_epc_config_of_json) ''sgx_epc'' kvs;
     numa \<leftarrow> get_option (list_of_json numa_config_of_json) ''numa'' kvs;
     iommu \<leftarrow> get_option bool_of_json ''iommu'' kvs;
     watchdog \<leftarrow> get_option bool_of_json ''watchdog'' kvs;
     pvpanic \<leftarrow> get_option bool_of_json ''pvpanic'' kvs;
     pci_segments \<leftarrow> get_option (list_of_json pci_segment_config_of_json) ''pci_segments'' kvs;
     platform \<leftarrow> get_option ch_platform_config_of_json ''platform'' kvs;
     tpm \<leftarrow> get_option tpm_config_of_json ''tpm'' kvs;
     landlock_enable \<leftarrow> get_option bool_of_json ''landlock_enable'' kvs;
     landlock_rules \<leftarrow> get_option (list_of_json landlock_config_of_json) ''landlock_rules'' kvs;
     Some \<lparr>vmc_cpus = cpus, vmc_memory = memory, vmc_payload = payload,
        vmc_rate_limit_groups = rate_limit_groups, vmc_disks = disks, vmc_net = net,
        vmc_rng = rng, vmc_balloon = balloon, vmc_fs = fs, vmc_pmem = pmem, vmc_serial = serial,
        vmc_console = console, vmc_debug_console = debug_console, vmc_devices = devices,
        vmc_vdpa = vdpa, vmc_vsock = vsock, vmc_sgx_epc = sgx_epc, vmc_numa = numa,
        vmc_iommu = iommu, vmc_watchdog = watchdog, vmc_pvpanic = pvpanic,
        vmc_pci_segments = pci_segments, vmc_platform = platform, vmc_tpm = tpm,
        vmc_landlock_enable = landlock_enable, vmc_landlock_rules = landlock_rules\<rparr> }"

interpretation vm_config: solid_codec vm_config_to_json vm_config_of_json
  by unfold_locales
    (simp_all add: vm_config_to_json_def vm_config_of_json_def struct_simps codecs)

lemmas [codecs] = vm_config.solid_codec_axioms

subsection \<open>\<open>DeviceNode\<close>\<close>

record device_node =
  device_node_id :: "string option"
  device_node_resources :: "json list option"
  device_node_children :: "string list option"
  device_node_pci_bdf :: "string option"

definition device_node_new :: "device_node" where
  "device_node_new = \<lparr>device_node_id = None, device_node_resources = None,
     device_node_children = None, device_node_pci_bdf = None\<rparr>"

definition device_node_to_json :: "device_node \<Rightarrow> json" where
  "device_node_to_json r = JObject (
     skip_none ''id'' JString (device_node_id r) @
     skip_none ''resources'' (list_to_json (\<lambda>j. j)) (device_node_resources r) @
     skip_none ''children'' (list_to_json JString) (device_node_children r) @
     skip_none ''pci_bdf'' JString (device_node_pci_bdf r))"

definition device_node_of_json :: "json \<Rightarrow> device_node option" where
  "device_node_of_json j = do {
     kvs \<leftarrow> fields_of [''id'', ''resources'', ''children'', ''pci_bdf''] j;
     id' \<leftarrow> get_option string_of_json ''id'' kvs;
     resources \<leftarrow> get_option (list_of_json Some) ''resources'' kvs;
     children \<leftarrow> get_option (list_of_json string_of_json) ''children'' kvs;
     pci_bdf \<leftarrow> get_option string_of_json ''pci_bdf'' kvs;
     Some \<lparr>device_node_id = id', device_node_resources = resources,
        device_node_children = children, device_node_pci_bdf = pci_bdf\<rparr> }"

interpretation device_node: solid_codec device_node_to_json device_node_of_json
  by unfold_locales
    (simp_all add: device_node_to_json_def device_node_of_json_def struct_simps codecs)

lemmas [codecs] = device_node.solid_codec_axioms

subsection \<open>\<open>PciDeviceInfo\<close>\<close>

record pci_device_info =
  pci_device_info_id :: string
  pci_device_info_bdf :: string

definition pci_device_info_new :: "string \<Rightarrow> string \<Rightarrow> pci_device_info" where
  "pci_device_info_new id' bdf = \<lparr>pci_device_info_id = id', pci_device_info_bdf = bdf\<rparr>"

definition pci_device_info_to_json :: "pci_device_info \<Rightarrow> json" where
  "pci_device_info_to_json r = JObject (
     required ''id'' (JString (pci_device_info_id r)) @
     required ''bdf'' (JString (pci_device_info_bdf r)))"

definition pci_device_info_of_json :: "json \<Rightarrow> pci_device_info option" where
  "pci_device_info_of_json j = do {
     kvs \<leftarrow> fields_of [''id'', ''bdf''] j;
     id' \<leftarrow> get_field string_of_json ''id'' kvs;
     bdf \<leftarrow> get_field string_of_json ''bdf'' kvs;
     Some \<lparr>pci_device_info_id = id', pci_device_info_bdf = bdf\<rparr> }"

interpretation pci_device_info: solid_codec pci_device_info_to_json pci_device_info_of_json
  by unfold_locales
    (simp_all add: pci_device_info_to_json_def pci_device_info_of_json_def struct_simps codecs)

lemmas [codecs] = pci_device_info.solid_codec_axioms

subsection \<open>\<open>ReceiveMigrationData\<close>\<close>

record receive_migration_data =
  receive_migration_data_receiver_url :: string

definition receive_migration_data_new :: "string \<Rightarrow> receive_migration_data" where
  "receive_migration_data_new receiver_url = \<lparr>
     receive_migration_data_receiver_url = receiver_url\<rparr>"

definition receive_migration_data_to_json :: "receive_migration_data \<Rightarrow> json" where
  "receive_migration_data_to_json r = JObject (
     required ''receiver_url'' (JString (receive_migration_data_receiver_url r)))"

definition receive_migration_data_of_json :: "json \<Rightarrow> receive_migration_data option" where
  "receive_migration_data_of_json j = do {
     kvs \<leftarrow> fields_of [''receiver_url''] j;
     receiver_url \<leftarrow> get_field string_of_json ''receiver_url'' kvs;
     Some \<lparr>receive_migration_data_receiver_url = receiver_url\<rparr> }"

interpretation receive_migration_data: solid_codec receive_migration_data_to_json receive_migration_data_of_json
  by unfold_locales
    (simp_all add: receive_migration_data_to_json_def receive_migration_data_of_json_def struct_simps codecs)

lemmas [codecs] = receive_migration_data.solid_codec_axioms

subsection \<open>\<open>RestoreConfig\<close>\<close>

record restore_config =
  restore_source_url :: string
  restore_prefault :: "bool option"

definition restore_config_new :: "string \<Rightarrow> restore_config" where
  "restore_config_new source_url = \<lparr>restore_source_url = source_url,
     restore_prefault = None\<rparr>"

definition restore_config_to_json :: "restore_config \<Rightarrow> json" where
  "restore_config_to_json r = JObject (
     required ''source_url'' (JString (restore_source_url r)) @
     skip_none ''prefault'' JBool (restore_prefault r))"

definition restore_config_of_json :: "json \<Rightarrow> restore_config option" where
  "restore_config_of_json j = do {
     kvs \<leftarrow> fields_of [''source_url'', ''prefault''] j;
     source_url \<leftarrow> get_field string_of_json ''source_url'' kvs;
     prefault \<leftarrow> get_option bool_of_json ''prefault'' kvs;
     Some \<lparr>restore_source_url = source_url, restore_prefault = prefault\<rparr> }"

interpretation restore_config: solid_codec restore_config_to_json restore_config_of_json
  by unfold_locales
    (simp_all add: restore_config_to_json_def restore_config_of_json_def struct_simps codecs)

lemmas [codecs] = restore_config.solid_codec_axioms

subsection \<open>\<open>SendMigrationData\<close>\<close>

record send_migration_data =
  send_migration_data_destination_url :: string
  send_migration_data_local :: "bool option"

definition send_migration_data_new :: "string \<Rightarrow> send_migration_data" where
  "send_migration_data_new destination_url = \<lparr>
     send_migration_data_destination_url = destination_url, send_migration_data_local = None\<rparr>"

definition send_migration_data_to_json :: "send_migration_data \<Rightarrow> json" where
  "send_migration_data_to_json r = JObject (
     required ''destination_url'' (JString (send_migration_data_destination_url r)) @
     skip_none ''local'' JBool (send_migration_data_local r))"

definition send_migration_data_of_json :: "json \<Rightarrow> send_migration_data option" where
  "send_migration_data_of_json j = do {
     kvs \<leftarrow> fields_of [''destination_url'', ''local''] j;
     destination_url \<leftarrow> get_field string_of_json ''destination_url'' kvs;
     local' \<leftarrow> get_option bool_of_json ''local'' kvs;
     Some \<lparr>send_migration_data_destination_url = destination_url,
        send_migration_data_local = local'\<rparr> }"

interpretation send_migration_data: solid_codec send_migration_data_to_json send_migration_data_of_json
  by unfold_locales
    (simp_all add: send_migration_data_to_json_def send_migration_data_of_json_def struct_simps codecs)

lemmas [codecs] = send_migration_data.solid_codec_axioms

subsection \<open>\<open>VmAddUserDevice\<close>\<close>

record vm_add_user_device =
  user_device_socket :: string

definition vm_add_user_device_new :: "string \<Rightarrow> vm_add_user_device" where
  "vm_add_user_device_new socket = \<lparr>user_device_socket = socket\<rparr>"

definition vm_add_user_device_to_json :: "vm_add_user_device \<Rightarrow> json" where
  "vm_add_user_device_to_json r = JObject (
     required ''socket'' (JString (user_device_socket r)))"

definition vm_add_user_device_of_json :: "json \<Rightarrow> vm_add_user_device option" where
  "vm_add_user_device_of_json j = do {
     kvs \<leftarrow> fields_of [''socket''] j;
     socket \<leftarrow> get_field string_of_json ''socket'' kvs;
     Some \<lparr>user_device_socket = socket\<rparr> }"

interpretation vm_add_user_device: solid_codec vm_add_user_device_to_json vm_add_user_device_of_json
  by unfold_locales
    (simp_all add: vm_add_user_device_to_json_def vm_add_user_device_of_json_def struct_simps codecs)

lemmas [codecs] = vm_add_user_device.solid_codec_axioms

subsection \<open>\<open>VmCoredumpData\<close>\<close>

record vm_coredump_data =
  coredump_destination_url :: "string option"

definition vm_coredump_data_new :: "vm_coredump_data" where
  "vm_coredump_data_new = \<lparr>coredump_destination_url = None\<rparr>"

definition vm_coredump_data_to_json :: "vm_coredump_data \<Rightarrow> json" where
  "vm_coredump_data_to_json r = JObject (
     skip_none ''destination_url'' JString (coredump_destination_url r))"

definition vm_coredump_data_of_json :: "json \<Rightarrow> vm_coredump_data option" where
  "vm_coredump_data_of_json j = do {
     kvs \<leftarrow> fields_of [''destination_url''] j;
     destination_url \<leftarrow> get_option string_of_json ''destination_url'' kvs;
     Some \<lparr>coredump_destination_url = destination_url\<rparr> }"

interpretation vm_coredump_data: solid_codec vm_coredump_data_to_json vm_coredump_data_of_json
  by unfold_locales
    (simp_all add: vm_coredump_data_to_json_def vm_coredump_data_of_json_def struct_simps codecs)

lemmas [codecs] = vm_coredump_data.solid_codec_axioms

subsection \<open>\<open>VmInfo\<close>\<close>

record vm_info =
  vi_config :: vm_config
  vi_state :: vm_state
  vi_memory_actual_size :: "i64 option"
  vi_device_tree :: "(string \<times> device_node) list option"

definition vm_info_new :: "vm_config \<Rightarrow> vm_state \<Rightarrow> vm_info" where
  "vm_info_new config state = \<lparr>vi_config = config, vi_state = state,
     vi_memory_actual_size = None, vi_device_tree = None\<rparr>"

definition vm_info_to_json :: "vm_info \<Rightarrow> json" where
  "vm_info_to_json r = JObject (
     required ''config'' (vm_config_to_json (vi_config r)) @
     required ''state'' (vm_state_to_json (vi_state r)) @
     skip_none ''memory_actual_size'' signed_to_json (vi_memory_actual_size r) @
     skip_none ''device_tree'' (map_to_json device_node_to_json) (vi_device_tree r))"

definition vm_info_of_json :: "json \<Rightarrow> vm_info option" where
  "vm_info_of_json j = do {
     kvs \<leftarrow> fields_of [''config'', ''state'', ''memory_actual_size'', ''device_tree''] j;
     config \<leftarrow> get_field vm_config_of_json ''config'' kvs;
     state \<leftarrow> get_field vm_state_of_json ''state'' kvs;
     memory_actual_size \<leftarrow> get_option signed_of_json ''memory_actual_size'' kvs;
     device_tree \<leftarrow> get_option (map_of_json device_node_of_json) ''device_tree'' kvs;
     Some \<lparr>vi_config = config, vi_state = state,
        vi_memory_actual_size = memory_actual_size, vi_device_tree = device_tree\<rparr> }"

subsection \<open>\<open>VmRemoveDevice\<close>\<close>

record vm_remove_device =
  remove_device_id :: "string option"

definition vm_remove_device_new :: "vm_remove_device" where
  "vm_remove_device_new = \<lparr>remove_device_id = None\<rparr>"

definition vm_remove_device_to_json :: "vm_remove_device \<Rightarrow> json" where
  "vm_remove_device_to_json r = JObject (
     skip_none ''id'' JString (remove_device_id r))"

definition vm_remove_device_of_json :: "json \<Rightarrow> vm_remove_device option" where
  "vm_remove_device_of_json j = do {
     kvs \<leftarrow> fields_of [''id''] j;
     id' \<leftarrow> get_option string_of_json ''id'' kvs;
     Some \<lparr>remove_device_id = id'\<rparr> }"

interpretation vm_remove_device: solid_codec vm_remove_device_to_json vm_remove_device_of_json
  by unfold_locales
    (simp_all add: vm_remove_device_to_json_def vm_remove_device_of_json_def struct_simps codecs)

lemmas [codecs] = vm_remove_device.solid_codec_axioms

subsection \<open>\<open>VmResize\<close>\<close>

record vm_resize =
  resize_desired_vcpus :: "i32 option"
  resize_desired_ram :: "i64 option"
  resize_desired_balloon :: "i64 option"

definition vm_resize_new :: "vm_resize" where
  "vm_resize_new = \<lparr>resize_desired_vcpus = None, resize_desired_ram = None,
     resize_desired_balloon = None\<rparr>"

definition vm_resize_to_json :: "vm_resize \<Rightarrow> json" where
  "vm_resize_to_json r = JObject (
     skip_none ''desired_vcpus'' signed_to_json (resize_desired_vcpus r) @
     skip_none ''desired_ram'' signed_to_json (resize_desired_ram r) @
     skip_none ''desired_balloon'' signed_to_json (resize_desired_balloon r))"

definition vm_resize_of_json :: "json \<Rightarrow> vm_resize option" where
  "vm_resize_of_json j = do {
     kvs \<leftarrow> fields_of [''desired_vcpus'', ''desired_ram'', ''desired_balloon''] j;
     desired_vcpus \<leftarrow> get_option signed_of_json ''desired_vcpus'' kvs;
     desired_ram \<leftarrow> get_option signed_of_json ''desired_ram'' kvs;
     desired_balloon \<leftarrow> get_option signed_of_json ''desired_balloon'' kvs;
     Some \<lparr>resize_desired_vcpus = desired_vcpus, resize_desired_ram = desired_ram,
        resize_desired_balloon = desired_balloon\<rparr> }"

interpretation vm_resize: solid_codec vm_resize_to_json vm_resize_of_json
  by unfold_locales
    (simp_all add: vm_resize_to_json_def vm_resize_of_json_def struct_simps codecs)

lemmas [codecs] = vm_resize.solid_codec_axioms

subsection \<open>\<open>VmResizeZone\<close>\<close>

record vm_resize_zone =
  resize_zone_id :: "string option"
  resize_zone_desired_ram :: "i64 option"

definition vm_resize_zone_new :: "vm_resize_zone" where
  "vm_resize_zone_new = \<lparr>resize_zone_id = None, resize_zone_desired_ram = None\<rparr>"

definition vm_resize_zone_to_json :: "vm_resize_zone \<Rightarrow> json" where
  "vm_resize_zone_to_json r = JObject (
     skip_none ''id'' JString (resize_zone_id r) @
     skip_none ''desired_ram'' signed_to_json (resize_zone_desired_ram r))"

definition vm_resize_zone_of_json :: "json \<Rightarrow> vm_resize_zone option" where
  "vm_resize_zone_of_json j = do {
     kvs \<leftarrow> fields_of [''id'', ''desired_ram''] j;
     id' \<leftarrow> get_option string_of_json ''id'' kvs;
     desired_ram \<leftarrow> get_option signed_of_json ''desired_ram'' kvs;
     Some \<lparr>resize_zone_id = id', resize_zone_desired_ram = desired_ram\<rparr> }"

interpretation vm_resize_zone: solid_codec vm_resize_zone_to_json vm_resize_zone_of_json
  by unfold_locales
    (simp_all add: vm_resize_zone_to_json_def vm_resize_zone_of_json_def struct_simps codecs)

lemmas [codecs] = vm_resize_zone.solid_codec_axioms

subsection \<open>\<open>VmSnapshotConfig\<close>\<close>

record vm_snapshot_config =
  snapshot_destination_url :: "string option"

definition vm_snapshot_config_new :: "vm_snapshot_config" where
  "vm_snapshot_config_new = \<lparr>snapshot_destination_url = None\<rparr>"

definition vm_snapshot_config_to_json :: "vm_snapshot_config \<Rightarrow> json" where
  "vm_snapshot_config_to_json r = JObject (
     skip_none ''destination_url'' JString (snapshot_destination_url r))"

definition vm_snapshot_config_of_json :: "json \<Rightarrow> vm_snapshot_config option" where
  "vm_snapshot_config_of_json j = do {
     kvs \<leftarrow> fields_of [''destination_url''] j;
     destination_url \<leftarrow> get_option string_of_json ''destination_url'' kvs;
     Some \<lparr>snapshot_destination_url = destination_url\<rparr> }"

interpretation vm_snapshot_config: solid_codec vm_snapshot_config_to_json vm_snapshot_config_of_json
  by unfold_locales
    (simp_all add: vm_snapshot_config_to_json_def vm_snapshot_config_of_json_def struct_simps codecs)

lemmas [codecs] = vm_snapshot_config.solid_codec_axioms

subsection \<open>\<open>VmmPingResponse\<close>\<close>

record vmm_ping_response =
  ping_build_version :: "string option"
  ping_version :: string
  ping_pid :: "i64 option"
  ping_features :: "string list option"

definition vmm_ping_response_new :: "string \<Rightarrow> vmm_ping_response" where
  "vmm_ping_response_new version = \<lparr>ping_build_version = None, ping_version = version,
     ping_pid = None, ping_features = None\<rparr>"

definition vmm_ping_response_to_json :: "vmm_ping_response \<Rightarrow> json" where
  "vmm_ping_response_to_json r = JObject (
     skip_none ''build_version'' JString (ping_build_version r) @
     required ''version'' (JString (ping_version r)) @
     skip_none ''pid'' signed_to_json (ping_pid r) @
     skip_none ''features'' (list_to_json JString) (ping_features r))"

definition vmm_ping_response_of_json :: "json \<Rightarrow> vmm_ping_response option" where
  "vmm_ping_response_of_json j = do {
     kvs \<leftarrow> fields_of [''build_version'', ''version'', ''pid'', ''features''] j;
     build_version \<leftarrow> get_option string_of_json ''build_version'' kvs;
     version \<leftarrow> get_field string_of_json ''version'' kvs;
     pid \<leftarrow> get_option signed_of_json ''pid'' kvs;
     features \<leftarrow> get_option (list_of_json string_of_json) ''features'' kvs;
     Some \<lparr>ping_build_version = build_version, ping_version = version, ping_pid = pid,
        ping_features = features\<rparr> }"

interpretation vmm_ping_response: solid_codec vmm_ping_response_to_json vmm_ping_response_of_json
  by unfold_locales
    (simp_all add: vmm_ping_response_to_json_def vmm_ping_response_of_json_def struct_simps codecs)

lemmas [codecs] = vmm_ping_response.solid_codec_axioms

text \<open>The device tree is a hash map: its keys are distinct.\<close>

lemma vm_info_reads_back:
  assumes "\<forall>t. vi_device_tree i = Some t \<longrightarrow> distinct (map fst t)"
  shows "vm_info_of_json (vm_info_to_json i) = Some i"
proof -
  have "optional_value (map_of_json device_node_of_json)
      (present (map_to_json device_node_to_json) (vi_device_tree i)) = Some (vi_device_tree i)"
    using assms map_of_json_map_to_json [OF codec_of_solid [OF device_node.solid_codec_axioms]]
    by (cases "vi_device_tree i") (simp_all add: present_def optional_value.simps map_to_json_def)
  then show ?thesis
    by (simp add: vm_info_to_json_def vm_info_of_json_def struct_simps codecs)
qed

subsection \<open>Derived defaults\<close>

text \<open>\<open>#[derive(Default)]\<close> of the structs the runner fills: zero, the empty text, no value, \<open>Mode::Off\<close>.\<close>

definition cpus_config_default :: cpus_config where
  "cpus_config_default = cpus_config_new 0 0"

definition memory_config_default :: memory_config where
  "memory_config_default = memory_config_new 0"

definition payload_config_default :: payload_config where
  "payload_config_default = payload_config_new"

definition fs_config_default :: fs_config where
  "fs_config_default = fs_config_new '''' '''' 0 0"

definition net_config_default :: net_config where
  "net_config_default = net_config_new"

definition console_config_default :: console_config where
  "console_config_default = console_config_new Cm_Off"

definition vsock_config_default :: vsock_config where
  "vsock_config_default = vsock_config_new 0 ''''"

definition vm_config_default :: vm_config where
  "vm_config_default = vm_config_new payload_config_default"

section \<open>Properties\<close>

definition vm_config_fields :: "string list" where
  "vm_config_fields =
     [''cpus'', ''memory'', ''payload'', ''rate_limit_groups'', ''disks'', ''net'', ''rng'',
      ''balloon'', ''fs'', ''pmem'', ''serial'', ''console'', ''debug_console'', ''devices'',
      ''vdpa'', ''vsock'', ''sgx_epc'', ''numa'', ''iommu'', ''watchdog'', ''pvpanic'',
      ''pci_segments'', ''platform'', ''tpm'', ''landlock_enable'', ''landlock_rules'']"

lemma vm_config_same_values:
  assumes "\<forall>n \<in> set vm_config_fields. values_of n kvs' = values_of n kvs"
  shows "vm_config_of_json (JObject kvs') = vm_config_of_json (JObject kvs)"
  using assms unfolding vm_config_fields_def
  by (simp add: vm_config_of_json_def get_field_def get_option_def)

lemma vm_config_single_values:
  assumes "vm_config_to_json c = JObject kvs" and "n \<in> set vm_config_fields"
  shows "length (values_of n kvs) \<le> 1"
proof -
  have "\<forall>n \<in> set vm_config_fields. length (values_of n kvs) \<le> 1"
    using assms(1) unfolding vm_config_to_json_def vm_config_fields_def
    by (auto simp: values_of_fields length_present [simplified])
  then show ?thesis using assms(2) by blast
qed

text \<open>
  C28. A machine configuration written as JSON reads back as itself: from the object serde writes,
  which leaves out every field without a value, also with its entries in any other order and with any further keys
  that are not fields, every field of the configuration and of its parts comes back.
\<close>

theorem machine_configuration_reads_back:
  assumes "vm_config_to_json c = JObject kvs" and "mset kvs' = mset kvs + mset extra"
    and "\<forall>n \<in> set vm_config_fields. n \<notin> fst ` set extra"
  shows "vm_config_of_json (JObject kvs') = Some c"
proof -
  have "vm_config_of_json (JObject kvs') = vm_config_of_json (JObject kvs)"
    using values_of_reordered [OF assms(2)] assms(3) vm_config_single_values [OF assms(1)]
    by (intro vm_config_same_values) blast
  then show ?thesis using vm_config.dec_enc [of c] assms(1) by simp
qed

theorem machine_configuration_reads_back_witness:
  "vm_config_of_json (JObject [(''comment'', JNull), (''iommu'', JBool True), (''payload'', JObject [])])
   = Some ((vm_config_new payload_config_new)\<lparr>vmc_iommu := Some True\<rparr>)"
  by (rule machine_configuration_reads_back
      [where kvs = "[(''payload'', JObject []), (''iommu'', JBool True)]" and extra = "[(''comment'', JNull)]"])
    (simp_all add: vm_config_to_json_def vm_config_new_def payload_config_new_def payload_config_to_json_def
      required_def skip_none_def vm_config_fields_def)

end
