(* ===== verification/Vm_Linux.thy ===== *)
theory Vm_Linux
  imports Networking Resource_Runs Job_Manager Ch_Models
begin

section \<open>The Linux virtual machine: runner/src/vm_impl/linux.rs\<close>

text \<open>
  \<open>LinuxVm::new\<close> with every early return, the configuration it hands to cloud-hypervisor, the wait
  loop, shutdown, drop and the clean-up of old directories. The host keeps what a virtual machine
  holds on to: live child processes, root filesystem directories, temporary directories, the
  resource manager and the release tasks spawned by dropped guards. The outcomes of the operating
  system and of cloud-hypervisor are an argument.
\<close>

subsection \<open>The host\<close>

record host =
  h_rm :: resource_manager
  h_tasks :: "release_task list"
  h_procs :: "nat list"
  h_next_pid :: nat
  h_rootfs :: "string list"
  h_tmp :: nat

record vm_paths =
  vp_resources_dir :: string
  vp_state_dir :: string

definition path_join :: "string \<Rightarrow> string \<Rightarrow> string" where
  "path_join p q = p @ ''/'' @ q"

text \<open>
  The outcome of each external step of \<open>LinuxVm::new\<close>, in the order they happen; \<open>vo_cp\<close> is \<open>None\<close>
  when \<open>cp\<close> could not be run, \<open>vo_sockets\<close> tells whether the two sockets ever appear, and
  \<open>vo_create_vm\<close> whether the hypervisor accepts a configuration.
\<close>

record vm_outcomes =
  vo_tempdir :: bool
  vo_storage :: bool
  vo_rootfs_dir :: bool
  vo_copy_rootfs :: bool
  vo_store_dir :: bool
  vo_cp :: "bool option"
  vo_virtiofsd :: bool
  vo_hypervisor :: bool
  vo_sockets :: bool
  vo_create_vm :: "vm_config \<Rightarrow> bool"

datatype vm_error =
    Ve_Tempdir
  | Ve_Resources string rejection_reason
  | Ve_Storage
  | Ve_Rootfs_Dir
  | Ve_Copy_Rootfs
  | Ve_Store_Dir
  | Ve_Cp
  | Ve_Cp_Status
  | Ve_Virtiofsd
  | Ve_Hypervisor
  | Ve_No_Ip string
  | Ve_No_Cid string
  | Ve_Create
  | Ve_Boot
  | Ve_Wait

subsection \<open>The hypervisor configuration\<close>

definition ch_config_of :: "vm \<Rightarrow> vm_paths \<Rightarrow> string \<Rightarrow> ipv4 \<Rightarrow> u32 \<Rightarrow> vm_config" where
  "ch_config_of v paths run_dir guest_ip cid =
     vm_config_default
       \<lparr>vmc_landlock_enable := Some False,
        vmc_cpus := Some (cpus_config_default
          \<lparr>cpus_boot_vcpus := ucast (vm_cpu_count v),
           cpus_max_vcpus := ucast (vm_cpu_count v)\<rparr>),
        vmc_memory := Some (memory_config_default
          \<lparr>memory_size := memory_bytes v,
           memory_shared := Some True,
           memory_hugepages := Some True,
           memory_hugepage_size := Some (2 * 1024 * 1024)\<rparr>),
        vmc_payload := payload_config_default
          \<lparr>payload_kernel := Some (path_join (vp_resources_dir paths) ''vmlinux''),
           payload_initramfs := Some (path_join (vp_resources_dir paths) ''initrd''),
           payload_cmdline := Some (kernel_cmdline guest_ip)\<rparr>,
        vmc_fs := Some [fs_config_default
          \<lparr>fs_tag := ''rootfs'',
           fs_socket := path_join run_dir ''virtiofs.sock'',
           fs_num_queues := 1,
           fs_queue_size := 1024\<rparr>],
        vmc_disks := None,
        vmc_net := Some [net_config_default
          \<lparr>net_tap := None,
           net_ip := Some (ipv4_display VM_GATEWAY_IP),
           net_mask := Some VM_SUBNET_MASK,
           net_mac := None,
           net_num_queues := Some (ucast (vm_cpu_count v)),
           net_queue_size := Some 1024,
           net_iommu := Some False\<rparr>],
        vmc_console := Some (console_config_default\<lparr>console_mode := Cm_Tty\<rparr>),
        vmc_serial := None,
        vmc_vsock := Some (vsock_config_default
          \<lparr>vsock_cid := ucast cid,
           vsock_socket := path_join run_dir ''vm.sock'',
           vsock_iommu := Some False\<rparr>)\<rparr>"

subsection \<open>Creation\<close>

record linux_vm =
  lv_config :: vm
  lv_resource_guard :: resource_guard
  lv_ip_guard :: ip_guard
  lv_cid_guard :: cid_guard
  lv_id :: string
  lv_run_dir :: string
  lv_process :: nat
  lv_virtiofsd :: nat
  lv_job_config :: "job_config option"
  lv_rootfs_dir :: string
  lv_job_result :: "bool option"
  lv_server :: bool
  lv_ch_config :: vm_config

definition spawn :: "host \<Rightarrow> nat \<times> host" where
  "spawn h = (h_next_pid h,
     h\<lparr>h_procs := h_procs h @ [h_next_pid h], h_next_pid := Suc (h_next_pid h)\<rparr>)"

definition kill :: "nat \<Rightarrow> host \<Rightarrow> host" where
  "kill pid h = h\<lparr>h_procs := filter (\<lambda>p. p \<noteq> pid) (h_procs h)\<rparr>"

definition drop_resource_guard :: "resource_guard \<Rightarrow> host \<Rightarrow> host" where
  "drop_resource_guard g h = h\<lparr>h_tasks := h_tasks h @ resource_guard_drop g\<rparr>"

definition drop_ip_guard :: "ip_guard \<Rightarrow> host \<Rightarrow> host" where
  "drop_ip_guard g h = h\<lparr>h_tasks := h_tasks h @ ip_guard_drop g\<rparr>"

definition drop_cid_guard :: "cid_guard \<Rightarrow> host \<Rightarrow> host" where
  "drop_cid_guard g h = h\<lparr>h_tasks := h_tasks h @ cid_guard_drop g\<rparr>"

definition drop_tempdir :: "host \<Rightarrow> host" where
  "drop_tempdir h = h\<lparr>h_tmp := h_tmp h - 1\<rparr>"

text \<open>
  The part of \<open>new\<close> after the processes run: the address guards and the API call. On an early return
  the locals are dropped in reverse order of their declaration; dropping a \<open>Child\<close> does not kill it.
\<close>

definition vm_new_addresses ::
    "vm_outcomes \<Rightarrow> vm \<Rightarrow> string \<Rightarrow> vm_paths \<Rightarrow> string \<Rightarrow> resource_guard \<Rightarrow> nat \<Rightarrow> nat \<Rightarrow> host
     \<Rightarrow> (vm_error + linux_vm) \<times> host" where
  "vm_new_addresses vo v i paths run_dir rg virtiofsd process h =
     (case ip_guard_new (h_rm h) of
        (None, rm) \<Rightarrow>
          (Err (Ve_No_Ip i), drop_tempdir (drop_resource_guard rg (h\<lparr>h_rm := rm\<rparr>)))
      | (Some None, rm1) \<Rightarrow>
          (Err (Ve_No_Ip i), drop_tempdir (drop_resource_guard rg (h\<lparr>h_rm := rm1\<rparr>)))
      | (Some (Some guest_ip), rm1) \<Rightarrow>
          (case cid_guard_new rm1 of
             (None, rm2) \<Rightarrow>
               (Err (Ve_No_Cid i), drop_tempdir (drop_resource_guard rg
                  (drop_ip_guard (Some guest_ip) (h\<lparr>h_rm := rm2\<rparr>))))
           | (Some None, rm2) \<Rightarrow>
               (Err (Ve_No_Cid i), drop_tempdir (drop_resource_guard rg
                  (drop_ip_guard (Some guest_ip) (h\<lparr>h_rm := rm2\<rparr>))))
           | (Some (Some cid), rm2) \<Rightarrow>
               if vo_create_vm vo (ch_config_of v paths run_dir guest_ip cid)
               then (Ok \<lparr>lv_config = v, lv_resource_guard = rg, lv_ip_guard = Some guest_ip,
                         lv_cid_guard = Some cid, lv_id = i, lv_run_dir = run_dir,
                         lv_process = process, lv_virtiofsd = virtiofsd,
                         lv_job_config = None,
                         lv_rootfs_dir = path_join (path_join (vp_state_dir paths) ''vms'') i,
                         lv_job_result = None, lv_server = False,
                         lv_ch_config = ch_config_of v paths run_dir guest_ip cid\<rparr>,
                     h\<lparr>h_rm := rm2\<rparr>)
               else (Err Ve_Create, drop_tempdir (drop_resource_guard rg
                       (drop_ip_guard (Some guest_ip) (drop_cid_guard (Some cid) (h\<lparr>h_rm := rm2\<rparr>)))))))"

text \<open>
  \<open>LinuxVm::new\<close>. \<open>job_id\<close> is the fresh \<open>Uuid::now_v7()\<close> drawn inside, \<open>i\<close> the identifier given by
  the caller. \<open>None\<close>: the sockets never appear and the call does not return.
\<close>

definition linux_vm_new ::
    "vm_outcomes \<Rightarrow> uuid \<Rightarrow> vm \<Rightarrow> string \<Rightarrow> vm_paths \<Rightarrow> string \<Rightarrow> host
     \<Rightarrow> (vm_error + linux_vm) option \<times> host" where
  "linux_vm_new vo job_id v i paths run_dir h =
     (if \<not> vo_tempdir vo then (Some (Err Ve_Tempdir), h)
      else
        let h1 = h\<lparr>h_tmp := Suc (h_tmp h)\<rparr>;
            rootfs = path_join (path_join (vp_state_dir paths) ''vms'') i
        in case allocate_resources job_id v (h_rm h1) of
             (Inl e, rm) \<Rightarrow> (Some (Err (Ve_Resources i e)), drop_tempdir (h1\<lparr>h_rm := rm\<rparr>))
           | (Inr rg, rm) \<Rightarrow>
               let h2 = h1\<lparr>h_rm := rm\<rparr>;
                   fail = (\<lambda>e hh. (Some (Err e), drop_tempdir (drop_resource_guard rg hh)));
                   h3 = h2\<lparr>h_rootfs := List.insert rootfs (h_rootfs h2)\<rparr>
               in if \<not> vo_storage vo then fail Ve_Storage h2
                  else if \<not> vo_rootfs_dir vo then fail Ve_Rootfs_Dir h2
                  else if \<not> vo_copy_rootfs vo then fail Ve_Copy_Rootfs h3
                  else if \<not> vo_store_dir vo then fail Ve_Store_Dir h3
                  else if vo_cp vo = None then fail Ve_Cp h3
                  else if vo_cp vo = Some False then fail Ve_Cp_Status h3
                  else if \<not> vo_virtiofsd vo then fail Ve_Virtiofsd h3
                  else
                    (case spawn h3 of
                       (virtiofsd, h4) \<Rightarrow>
                         if \<not> vo_hypervisor vo then fail Ve_Hypervisor h4
                         else
                           (case spawn h4 of
                              (process, h5) \<Rightarrow>
                                if \<not> vo_sockets vo then (None, h5)
                                else
                                  (case vm_new_addresses vo v i paths run_dir rg virtiofsd process h5 of
                                     (r, h6) \<Rightarrow> (Some r, h6)))))"

subsection \<open>Start, wait, shutdown, drop\<close>

definition linux_vm_start :: "bool \<Rightarrow> linux_vm \<Rightarrow> vm_error + unit" where
  "linux_vm_start boot_ok vm = (if boot_ok then Ok () else Err Ve_Boot)"

text \<open>\<open>shutdown\<close>: it stops the server, asks the hypervisor, then kills both processes regardless.\<close>

definition linux_vm_shutdown :: "linux_vm \<Rightarrow> host \<Rightarrow> linux_vm \<times> host" where
  "linux_vm_shutdown vm h = (vm\<lparr>lv_server := False\<rparr>, kill (lv_virtiofsd vm) (kill (lv_process vm) h))"

datatype try_wait = Exited "int option" | Still_Running | Wait_Failed

text \<open>
  The wait loop: each turn reads the shared job result and, when there is none, asks for the
  process status. The polls list what those two see; \<open>None\<close>: the list ran out, still waiting.
\<close>

fun linux_wait ::
    "(bool option \<times> try_wait) list \<Rightarrow> linux_vm \<Rightarrow> host
     \<Rightarrow> (vm_error + vm_exit_status) option \<times> linux_vm \<times> host" where
  "linux_wait [] vm h = (None, vm, h)"
| "linux_wait ((job_result, status) # polls) vm h =
     (case job_result of
        Some success \<Rightarrow>
          (case linux_vm_shutdown vm h of
             (vm', h') \<Rightarrow> (Some (Ok (if success then Exit_Success else Exit_Failure)), vm', h'))
      | None \<Rightarrow>
          (case status of
             Exited code \<Rightarrow>
               let exit_code = unwrap_or code 1;
                   exit_status = (case job_result of
                                    Some True \<Rightarrow> Exit_Success
                                  | Some False \<Rightarrow> Exit_Failure
                                  | None \<Rightarrow> if exit_code = 0 then Exit_Success else Exit_Failure)
               in (Some (Ok exit_status), vm, h)
           | Still_Running \<Rightarrow> linux_wait polls vm h
           | Wait_Failed \<Rightarrow> (Some (Err Ve_Wait), vm, h)))"

definition linux_set_job_config :: "job_config \<Rightarrow> linux_vm \<Rightarrow> linux_vm" where
  "linux_set_job_config c vm = vm\<lparr>lv_job_config := Some c, lv_server := True\<rparr>"

text \<open>
  Dropping the machine: its own \<open>Drop\<close> first, then its fields in order. \<open>rm_ok\<close> is the outcome of
  removing its root filesystem directory.
\<close>

definition linux_vm_drop :: "bool \<Rightarrow> linux_vm \<Rightarrow> host \<Rightarrow> host" where
  "linux_vm_drop rm_ok vm h =
     (let h1 = kill (lv_virtiofsd vm) (kill (lv_process vm) h);
          h2 = (if rm_ok then h1\<lparr>h_rootfs := removeAll (lv_rootfs_dir vm) (h_rootfs h1)\<rparr> else h1)
      in drop_tempdir (drop_cid_guard (lv_cid_guard vm)
           (drop_ip_guard (lv_ip_guard vm) (drop_resource_guard (lv_resource_guard vm) h2))))"

subsection \<open>Clean-up at startup and shutdown\<close>

text \<open>
  \<open>cleanup_vm_template\<close> over the entries of the storage directory. An entry is an error, a file, or a
  directory with the outcomes of running \<open>chmod\<close> and of removing it. The result says which paths
  were removed.
\<close>

datatype dir_entry = Entry_Error | Entry_File string | Entry_Dir string bool bool

datatype cleanup_error = Ce_Read_Dir | Ce_Entry | Ce_Chmod

fun cleanup_entries :: "dir_entry list \<Rightarrow> string list \<Rightarrow> (cleanup_error + unit) \<times> string list" where
  "cleanup_entries [] removed = (Ok (), removed)"
| "cleanup_entries (Entry_Error # es) removed = (Err Ce_Entry, removed)"
| "cleanup_entries (Entry_File p # es) removed = cleanup_entries es removed"
| "cleanup_entries (Entry_Dir p chmod_runs remove_ok # es) removed =
     (if \<not> chmod_runs then (Err Ce_Chmod, removed)
      else cleanup_entries es (if remove_ok then removed @ [p] else removed))"

definition cleanup_vm_template ::
    "bool \<Rightarrow> dir_entry list option \<Rightarrow> (cleanup_error + unit) \<times> string list" where
  "cleanup_vm_template storage_exists entries =
     (if \<not> storage_exists then (Ok (), [])
      else case entries of None \<Rightarrow> (Err Ce_Read_Dir, []) | Some es \<Rightarrow> cleanup_entries es [])"

subsection \<open>What release tasks give back\<close>

lemma fold_run_release:
  "rm_free_ips (fold run_release ts rm) = rm_free_ips rm @ gather task_ip ts"
  "rm_free_cids (fold run_release ts rm) = rm_free_cids rm @ gather task_cid ts"
  "rm_limits (fold run_release ts rm) = rm_limits rm"
proof (induction ts arbitrary: rm)
  case (Cons t ts)
  { case 1 then show ?case by (cases t) (simp_all add: Cons release_ip_def release_cid_def frame_simps) }
  { case 2 then show ?case by (cases t) (simp_all add: Cons release_ip_def release_cid_def frame_simps) }
  { case 3 then show ?case by (simp add: Cons frame_simps) }
qed simp_all

definition release_alloc :: "uuid \<Rightarrow> resource_state \<Rightarrow> resource_state" where
  "release_alloc j a =
     (case hm_get (alloc_jobs a) j of
        None \<Rightarrow> a
      | Some v \<Rightarrow> a\<lparr>allocated_cpus := saturating_sub (allocated_cpus a) (vm_cpu_count v),
                    allocated_memory := saturating_sub (allocated_memory a) (memory_bytes v),
                    alloc_jobs := hm_remove j (alloc_jobs a)\<rparr>)"

lemma rm_allocation_release_job:
  "rm_allocation (snd (release_job j rm)) = release_alloc j (rm_allocation rm)"
  by (simp add: release_job_def release_alloc_def Let_def split: option.splits)

lemma fold_run_release_allocation:
  "rm_allocation (fold run_release ts rm) = fold release_alloc (gather task_job ts) (rm_allocation rm)"
proof (induction ts arbitrary: rm)
  case (Cons t ts)
  then show ?case
    by (cases t) (simp_all add: release_ip_def release_cid_def rm_allocation_release_job)
qed simp

lemma gather_mset: "mset ts = mset ts' \<Longrightarrow> mset (gather f ts) = mset (gather f ts')"
proof -
  assume "mset ts = mset ts'"
  moreover have "mset (gather f xs) = (\<Sum>x \<in># mset xs. mset (f x))" for xs
    by (induction xs) simp_all
  ultimately show ?thesis by metis
qed

text \<open>
  The tasks that hold job \<open>j\<close> and some addresses undo an allocation, in whatever order they run.
\<close>

definition gives_back ::
    "resource_manager \<Rightarrow> resource_manager \<Rightarrow> release_task list \<Rightarrow> bool" where
  "gives_back rm0 rm ts =
     (\<forall>ts'. mset ts' = mset ts \<longrightarrow>
        rm_allocation (fold run_release ts' rm) = rm_allocation rm0
        \<and> mset (rm_free_ips (fold run_release ts' rm)) = mset (rm_free_ips rm0)
        \<and> mset (rm_free_cids (fold run_release ts' rm)) = mset (rm_free_cids rm0))"

lemma gives_backI:
  assumes "gather task_job ts = js" and "length js \<le> 1"
    and "fold release_alloc js (rm_allocation rm) = rm_allocation rm0"
    and "mset (rm_free_ips rm) + mset (gather task_ip ts) = mset (rm_free_ips rm0)"
    and "mset (rm_free_cids rm) + mset (gather task_cid ts) = mset (rm_free_cids rm0)"
  shows "gives_back rm0 rm ts"
proof -
  have "gather task_job ts' = js" if m: "mset ts' = mset ts" for ts'
  proof -
    have "mset (gather task_job ts') = mset js" using gather_mset [OF m, of task_job] assms(1) by simp
    then show ?thesis using assms(2) by (cases js) auto
  qed
  then show ?thesis
    unfolding gives_back_def fold_run_release fold_run_release_allocation
    using assms(3-5) by (metis gather_mset mset_append)
qed

lemma allocated_release:
  assumes acc: "accounting rm" and fresh: "hm_get (alloc_jobs (rm_allocation rm)) j = None"
    and a: "allocate_resources j v rm = (Ok rg, rm')"
  shows "release_alloc j (rm_allocation rm') = rm_allocation rm"
    and "rm_free_ips rm' = rm_free_ips rm" and "rm_free_cids rm' = rm_free_cids rm"
    and "resource_guard_drop rg = [Release_Job j]"
  using allocate_release_roundtrip [OF acc fresh a] rm_allocation_release_job [of j rm']
    allocate_frame [of j v rm] a allocate_Ok_guard [OF a]
  by (simp_all add: resource_guard_drop_def)

lemmas vm_new_defs = drop_tempdir_def drop_resource_guard_def drop_ip_guard_def drop_cid_guard_def
  spawn_def ip_guard_new_def cid_guard_new_def allocate_ip_def allocate_cid_def
  ip_guard_drop_def cid_guard_drop_def

lemma vm_new_addresses_cases:
  assumes acc: "accounting rm0" and fresh: "hm_get (alloc_jobs (rm_allocation rm0)) j = None"
    and a: "allocate_resources j v rm0 = (Ok rg, h_rm h)"
    and r: "vm_new_addresses vo v i paths run_dir rg vd pr h = (r, h')"
  shows "h_procs h' = h_procs h" and "h_next_pid h' = h_next_pid h" and "h_rootfs h' = h_rootfs h"
    and "case r of
       Inl e \<Rightarrow> h_tmp h' = h_tmp h - 1
          \<and> (\<exists>ts. h_tasks h' = h_tasks h @ ts \<and> gives_back rm0 (h_rm h') ts)
     | Inr m \<Rightarrow> h_tmp h' = h_tmp h \<and> h_tasks h' = h_tasks h \<and> lv_process m = pr
          \<and> lv_virtiofsd m = vd \<and> lv_rootfs_dir m = path_join (path_join (vp_state_dir paths) ''vms'') i
          \<and> gives_back rm0 (h_rm h') (resource_guard_drop (lv_resource_guard m)
               @ ip_guard_drop (lv_ip_guard m) @ cid_guard_drop (lv_cid_guard m))"
proof -
  note b = allocated_release [OF acc fresh a]
  show "h_procs h' = h_procs h" "h_next_pid h' = h_next_pid h" "h_rootfs h' = h_rootfs h"
    using r by (auto simp: vm_new_addresses_def vm_new_defs split: list.splits if_splits)
  show "case r of
       Inl e \<Rightarrow> h_tmp h' = h_tmp h - 1
          \<and> (\<exists>ts. h_tasks h' = h_tasks h @ ts \<and> gives_back rm0 (h_rm h') ts)
     | Inr m \<Rightarrow> h_tmp h' = h_tmp h \<and> h_tasks h' = h_tasks h \<and> lv_process m = pr
          \<and> lv_virtiofsd m = vd \<and> lv_rootfs_dir m = path_join (path_join (vp_state_dir paths) ''vms'') i
          \<and> gives_back rm0 (h_rm h') (resource_guard_drop (lv_resource_guard m)
               @ ip_guard_drop (lv_ip_guard m) @ cid_guard_drop (lv_cid_guard m))"
    using r b
    by (auto simp: vm_new_addresses_def vm_new_defs split: list.splits if_splits
        intro!: exI gives_backI [of _ "[j]"])
qed

text \<open>How many child processes a failed creation leaves running.\<close>

fun leaked_processes :: "vm_error \<Rightarrow> nat" where
  "leaked_processes Ve_Hypervisor = 1"
| "leaked_processes (Ve_No_Ip _) = 2"
| "leaked_processes (Ve_No_Cid _) = 2"
| "leaked_processes Ve_Create = 2"
| "leaked_processes _ = 0"

lemma vm_new_addresses_error:
  "vm_new_addresses vo v i paths run_dir rg vd pr h = (Inl e, h') \<Longrightarrow> leaked_processes e = 2"
  by (auto simp: vm_new_addresses_def split: prod.splits option.splits if_splits)

lemma linux_vm_new_cases:
  assumes acc: "accounting (h_rm h)"
    and fresh: "hm_get (alloc_jobs (rm_allocation (h_rm h))) j = None"
    and r: "linux_vm_new vo j v i paths run_dir h = (Some r, h')"
  shows "case r of
       Inl e \<Rightarrow> h_tmp h' = h_tmp h
          \<and> h_procs h' = h_procs h @ [h_next_pid h..<h_next_pid h + leaked_processes e]
          \<and> (\<exists>ts. h_tasks h' = h_tasks h @ ts \<and> gives_back (h_rm h) (h_rm h') ts)
     | Inr m \<Rightarrow> h_tmp h' = Suc (h_tmp h) \<and> h_tasks h' = h_tasks h
          \<and> h_procs h' = h_procs h @ [lv_virtiofsd m, lv_process m]
          \<and> lv_virtiofsd m = h_next_pid h \<and> lv_process m = Suc (h_next_pid h)
          \<and> h_rootfs h' = List.insert (lv_rootfs_dir m) (h_rootfs h)
          \<and> gives_back (h_rm h) (h_rm h') (resource_guard_drop (lv_resource_guard m)
               @ ip_guard_drop (lv_ip_guard m) @ cid_guard_drop (lv_cid_guard m))"
proof (cases "vo_tempdir vo")
  case False
  then show ?thesis
    using r by (auto simp: linux_vm_new_def gives_back_def intro!: exI [of _ "[]"])
next
  case tmp: True
  show ?thesis
  proof (cases "allocate_resources j v (h_rm h)")
    case (Pair ar rm)
    show ?thesis
    proof (cases ar)
      case (Inl e)
      then have "rm = h_rm h"
        using Pair by (auto simp: allocate_resources_def Let_def split: option.splits)
      then show ?thesis
        using r tmp Pair Inl
        by (auto simp: linux_vm_new_def Let_def drop_tempdir_def gives_back_def
            intro!: exI [of _ "[]"])
    next
      case (Inr rg)
      note a = Pair [unfolded Inr]
      note b = allocated_release [OF acc fresh a]
      have early: "gives_back (h_rm h) rm [Release_Job j]"
        using b by (intro gives_backI [of _ "[j]"]) simp_all
      let ?h5 = "h\<lparr>h_tmp := Suc (h_tmp h), h_rm := rm,
        h_rootfs := List.insert (path_join (path_join (vp_state_dir paths) ''vms'') i) (h_rootfs h),
        h_procs := h_procs h @ [h_next_pid h, Suc (h_next_pid h)],
        h_next_pid := Suc (Suc (h_next_pid h))\<rparr>"
      show ?thesis
      proof (cases "vo_storage vo \<and> vo_rootfs_dir vo \<and> vo_copy_rootfs vo \<and> vo_store_dir vo
          \<and> vo_cp vo = Some True \<and> vo_virtiofsd vo \<and> vo_hypervisor vo")
        case False
        then show ?thesis
          using r tmp a b(4) early
          by (auto simp: linux_vm_new_def Let_def vm_new_defs split: if_splits
              intro!: exI [of _ "[Release_Job j]"])
      next
        case True
        then have sock: "vo_sockets vo"
          and n: "vm_new_addresses vo v i paths run_dir rg (h_next_pid h) (Suc (h_next_pid h)) ?h5
            = (r, h')"
          using r tmp a by (auto simp: linux_vm_new_def Let_def spawn_def split: if_splits prod.splits)
        have "allocate_resources j v (h_rm h) = (Ok rg, h_rm ?h5)" using a by simp
        note c = vm_new_addresses_cases [OF acc fresh this n]
        show ?thesis
        proof (cases r)
          case (Inl e)
          then show ?thesis
            using c n vm_new_addresses_error [of vo v i paths run_dir rg] by (auto simp: upt_rec)
        next
          case (Inr m)
          then show ?thesis using c by simp
        qed
      qed
    qed
  qed
qed

definition demo_host :: host where
  "demo_host = \<lparr>h_rm = resource_manager_new demo_limits, h_tasks = [], h_procs = [],
     h_next_pid = 100, h_rootfs = [], h_tmp = 0\<rparr>"

definition demo_outcomes :: vm_outcomes where
  "demo_outcomes = \<lparr>vo_tempdir = True, vo_storage = True, vo_rootfs_dir = True,
     vo_copy_rootfs = True, vo_store_dir = True, vo_cp = Some True, vo_virtiofsd = True,
     vo_hypervisor = True, vo_sockets = True, vo_create_vm = \<lambda>c. True\<rparr>"

definition demo_paths :: vm_paths where
  "demo_paths = \<lparr>vp_resources_dir = ''/r'', vp_state_dir = ''/s''\<rparr>"

lemma demo_host_ok: "accounting (h_rm demo_host)"
  "hm_get (alloc_jobs (rm_allocation (h_rm demo_host))) 1 = None"
  using accounting_new by (simp_all add: demo_host_def resource_manager_new_def
      resource_state_new_def hm_get_def)

lemma initial_ips_front: "\<exists>i is. initial_ips = i # is"
  unfolding initial_ips_def by (subst upt_conv_Cons) simp_all

lemma initial_cids_front: "\<exists>c cs. initial_cids = c # cs"
  unfolding initial_cids_def by (subst upt_conv_Cons) simp_all

lemma demo_alloc:
  obtains rm i is' c cs where "allocate_resources 1 demo_vm (h_rm demo_host) = (Ok (resource_guard_new 1 demo_vm), rm)"
    and "rm_free_ips rm = i # is'" and "rm_free_cids rm = c # cs"
proof -
  let ?rm = "snd (allocate_resources 1 demo_vm (h_rm demo_host))"
  have "allocate_resources 1 demo_vm (h_rm demo_host) = (Ok (resource_guard_new 1 demo_vm), ?rm)"
    by (simp add: demo_host_def demo_vm_def demo_limits_def allocate_resources_def check_limits_def
      resource_manager_new_def resource_state_new_def memory_bytes_def saturating_sub_def hm_len_def)
  moreover obtain i is' where "rm_free_ips ?rm = i # is'"
    using initial_ips_front by (auto simp: frame_simps demo_host_def resource_manager_new_def)
  moreover obtain c cs where "rm_free_cids ?rm = c # cs"
    using initial_cids_front by (auto simp: frame_simps demo_host_def resource_manager_new_def)
  ultimately show ?thesis by (rule that)
qed

lemma demo_new:
  "\<exists>m. linux_vm_new (demo_outcomes\<lparr>vo_create_vm := \<lambda>c. False\<rparr>) 1 demo_vm ''a'' demo_paths ''/t'' demo_host
     = (Some (Err Ve_Create), m)"
  "\<exists>m m'. linux_vm_new demo_outcomes 1 demo_vm ''a'' demo_paths ''/t'' demo_host = (Some (Ok m), m')"
  by (rule demo_alloc; simp add: linux_vm_new_def demo_outcomes_def Let_def spawn_def
      vm_new_addresses_def ip_guard_new_def cid_guard_new_def allocate_ip_def allocate_cid_def)+

lemma drop_after_shutdown:
  "(case linux_vm_shutdown m h of (m', h') \<Rightarrow> linux_vm_drop rm_ok m' h') = linux_vm_drop rm_ok m h"
  by (simp add: linux_vm_shutdown_def linux_vm_drop_def kill_def Let_def conj_commute conj_left_commute
      cong: conj_cong)

lemma linux_wait_skip:
  "linux_wait (replicate n (None, Still_Running) @ ps) vm h = linux_wait ps vm h"
  by (induction n) simp_all

section \<open>Properties\<close>

text \<open>
  A failed creation gives everything it had allocated back: whatever step of \<open>LinuxVm::new\<close>
  fails, once the spawned release tasks have run, in any order, the accounting is what it was
  before and every address is back in its pool; the temporary directory is gone. The identifier
  drawn inside is not yet registered.
\<close>

theorem failed_creation_gives_resources_back:
  assumes "accounting (h_rm h)" and "hm_get (alloc_jobs (rm_allocation (h_rm h))) j = None"
    and "linux_vm_new vo j v i paths run_dir h = (Some (Err e), h')"
  shows "h_tmp h' = h_tmp h
         \<and> (\<exists>ts. h_tasks h' = h_tasks h @ ts \<and> gives_back (h_rm h) (h_rm h') ts)"
  using linux_vm_new_cases [OF assms] by simp

theorem failed_creation_gives_resources_back_witness:
  "\<exists>h'. linux_vm_new (demo_outcomes\<lparr>vo_create_vm := \<lambda>c. False\<rparr>) 1 demo_vm ''a'' demo_paths ''/t'' demo_host
       = (Some (Err Ve_Create), h') \<and> (\<exists>ts. h_tasks h' = ts \<and> gives_back (h_rm demo_host) (h_rm h') ts)"
proof -
  obtain h' where h': "linux_vm_new (demo_outcomes\<lparr>vo_create_vm := \<lambda>c. False\<rparr>) 1 demo_vm ''a''
      demo_paths ''/t'' demo_host = (Some (Err Ve_Create), h')"
    using demo_new(1) by blast
  from failed_creation_gives_resources_back [OF demo_host_ok h'] h' show ?thesis
    by (simp add: demo_host_def)
qed

text \<open>
  A failed creation does not stop the child processes it had started: when cloud-hypervisor
  cannot be spawned the file server it spawned before stays alive, and when no address is free or
  the API call fails both processes do; no value that could stop them is left.
\<close>

theorem failed_creation_leaves_processes:
  assumes "accounting (h_rm h)" and "hm_get (alloc_jobs (rm_allocation (h_rm h))) j = None"
    and "linux_vm_new vo j v i paths run_dir h = (Some (Err e), h')"
  shows "h_procs h' = h_procs h @ [h_next_pid h..<h_next_pid h + leaked_processes e]"
  using linux_vm_new_cases [OF assms] by simp

theorem failed_creation_leaves_processes_witness:
  "\<exists>h'. linux_vm_new (demo_outcomes\<lparr>vo_create_vm := \<lambda>c. False\<rparr>) 1 demo_vm ''a'' demo_paths ''/t'' demo_host
       = (Some (Err Ve_Create), h') \<and> h_procs h' = [100, 101]"
proof -
  obtain h' where h': "linux_vm_new (demo_outcomes\<lparr>vo_create_vm := \<lambda>c. False\<rparr>) 1 demo_vm ''a''
      demo_paths ''/t'' demo_host = (Some (Err Ve_Create), h')"
    using demo_new(1) by blast
  from failed_creation_leaves_processes [OF demo_host_ok h'] h' show ?thesis
    by (simp add: demo_host_def)
qed



text \<open>
  The first poll that sees a job result or an ended process decides \<open>wait\<close>: a job result gives
  its status and shuts the machine down; a process that ended by itself gives success exactly on
  exit code 0 (a signal counts as 1), without a job result and without a shutdown; a failing status
  query is an error.
\<close>

theorem wait_is_decided_by_first_event:
  assumes "polls = replicate n (None, Still_Running) @ (job_result, status) # rest"
    and "job_result \<noteq> None \<or> status \<noteq> Still_Running"
  shows "linux_wait polls vm h =
    (case (job_result, status) of
       (Some success, _) \<Rightarrow>
         (Some (Ok (if success then Exit_Success else Exit_Failure)), linux_vm_shutdown vm h)
     | (None, Exited code) \<Rightarrow>
         (Some (Ok (if code = Some 0 then Exit_Success else Exit_Failure)), vm, h)
     | (None, _) \<Rightarrow> (Some (Err Ve_Wait), vm, h))"
proof -
  have code: "unwrap_or code 1 = (0::int) \<longleftrightarrow> code = Some 0" for code
    by (cases code) simp_all
  show ?thesis
    unfolding assms(1) linux_wait_skip using assms(2)
    by (cases job_result; cases status) (simp_all add: code Let_def split: prod.splits)
qed

theorem wait_is_decided_by_first_event_witness:
  "\<forall>vm h. fst (linux_wait [(None, Still_Running), (Some False, Exited (Some 0))] vm h)
   = Some (Ok Exit_Failure)"
proof (intro allI)
  show "fst (linux_wait [(None, Still_Running), (Some False, Exited (Some 0))] vm h) = Some (Ok Exit_Failure)"
    for vm h
    using wait_is_decided_by_first_event [of _ 1 "Some False" "Exited (Some 0)" "[]" vm h]
    by (simp add: linux_vm_shutdown_def)
qed

end
