(* ===== verification/Vm_Manager.thy ===== *)
theory Vm_Manager
  imports Vm_Linux
begin

section \<open>Virtual machine tasks: runner/src/vm_manager.rs\<close>

text \<open>
  One task per launched job: it creates and starts the machine, waits for its exit or a shutdown
  command, reports the completion and removes its control channel. The step relation interleaves
  the steps of all tasks with launches and shutdown requests. A task is known by its position;
  \<open>vmm_channels\<close> maps a job to the task whose control channel it holds. \<open>vmm_reported\<close> records every
  completion event ever sent.
\<close>

datatype vm_command = Shutdown

record completion_event =
  ce_job_id :: uuid
  ce_status :: vm_exit_status

datatype task_phase =
    T_Starting
  | T_Waiting
  | T_Stopping
  | T_Reporting vm_exit_status
  | T_Cleaning
  | T_Finished

record vm_task =
  tk_job :: uuid
  tk_phase :: task_phase
  tk_control :: "vm_command chan"

record vm_manager =
  vmm_channels :: "(uuid, nat) hmap"
  vmm_tasks :: "vm_task list"
  vmm_completion :: "completion_event chan"
  vmm_reported :: "completion_event list"

definition vm_manager_new :: "completion_event chan \<Rightarrow> vm_manager" where
  "vm_manager_new c =
     \<lparr>vmm_channels = [], vmm_tasks = [], vmm_completion = c, vmm_reported = []\<rparr>"

text \<open>\<open>launch_vm\<close>: the control channel holds ten commands; the task starts in the background.\<close>

definition vm_task_new :: "uuid \<Rightarrow> vm_task" where
  "vm_task_new j = \<lparr>tk_job = j, tk_phase = T_Starting,
     tk_control = \<lparr>ch_queue = [], ch_cap = Some 10, ch_open = True\<rparr>\<rparr>"

definition launch_vm :: "uuid \<Rightarrow> vm_manager \<Rightarrow> vm_manager" where
  "launch_vm j m =
     m\<lparr>vmm_channels := hm_insert j (length (vmm_tasks m)) (vmm_channels m),
       vmm_tasks := vmm_tasks m @ [vm_task_new j]\<rparr>"

datatype shutdown_result = Not_Running | Command_Sent | Send_Failed | Send_Waits

definition shutdown_vm :: "uuid \<Rightarrow> vm_manager \<Rightarrow> shutdown_result \<times> vm_manager" where
  "shutdown_vm j m =
     (case hm_get (vmm_channels m) j of
        None \<Rightarrow> (Not_Running, m)
      | Some n \<Rightarrow>
          (case chan_send Shutdown (tk_control (vmm_tasks m ! n)) of
             (Sent, c) \<Rightarrow>
               (Command_Sent,
                m\<lparr>vmm_tasks := (vmm_tasks m)[n := (vmm_tasks m ! n)\<lparr>tk_control := c\<rparr>]\<rparr>)
           | (Closed, _) \<Rightarrow> (Send_Failed, m)
           | (Would_Block, _) \<Rightarrow> (Send_Waits, m)))"

definition is_vm_running :: "uuid \<Rightarrow> vm_manager \<Rightarrow> bool" where
  "is_vm_running j m = hm_contains (vmm_channels m) j"

definition set_phase :: "nat \<Rightarrow> task_phase \<Rightarrow> vm_manager \<Rightarrow> vm_manager" where
  "set_phase n p m =
     m\<lparr>vmm_tasks := (vmm_tasks m)[n := (vmm_tasks m ! n)\<lparr>tk_phase := p\<rparr>]\<rparr>"

text \<open>The exit status after waiting: an error counts as a failure.\<close>

fun exit_of_wait :: "'e + vm_exit_status \<Rightarrow> vm_exit_status" where
  "exit_of_wait (Inr s) = s"
| "exit_of_wait (Inl e) = Exit_Failure"

text \<open>
  The steps of \<open>vm_task_impl\<close> for the task at position \<open>n\<close>. \<open>wait\<close>'s result is a value of the rule:
  any result can occur.
\<close>

inductive task_step :: "nat \<Rightarrow> vm_manager \<Rightarrow> vm_manager \<Rightarrow> bool" where
  started: "n < length (vmm_tasks m) \<Longrightarrow> tk_phase (vmm_tasks m ! n) = T_Starting
    \<Longrightarrow> task_step n m (set_phase n T_Waiting m)"
| start_failed: "n < length (vmm_tasks m) \<Longrightarrow> tk_phase (vmm_tasks m ! n) = T_Starting
    \<Longrightarrow> task_step n m (set_phase n (T_Reporting Exit_Failure) m)"
| exited: "n < length (vmm_tasks m) \<Longrightarrow> tk_phase (vmm_tasks m ! n) = T_Waiting
    \<Longrightarrow> task_step n m (set_phase n (T_Reporting (exit_of_wait (r :: unit + vm_exit_status))) m)"
| commanded: "n < length (vmm_tasks m) \<Longrightarrow> tk_phase (vmm_tasks m ! n) = T_Waiting
    \<Longrightarrow> chan_recv (tk_control (vmm_tasks m ! n)) = (Some Shutdown, c)
    \<Longrightarrow> task_step n m (m\<lparr>vmm_tasks := (vmm_tasks m)
          [n := (vmm_tasks m ! n)\<lparr>tk_phase := T_Stopping, tk_control := c\<rparr>]\<rparr>)"
| stopped: "n < length (vmm_tasks m) \<Longrightarrow> tk_phase (vmm_tasks m ! n) = T_Stopping
    \<Longrightarrow> task_step n m (set_phase n (T_Reporting (exit_of_wait (r :: unit + vm_exit_status))) m)"
| reported: "n < length (vmm_tasks m) \<Longrightarrow> tk_phase (vmm_tasks m ! n) = T_Reporting s
    \<Longrightarrow> ev = \<lparr>ce_job_id = tk_job (vmm_tasks m ! n), ce_status = s\<rparr>
    \<Longrightarrow> chan_send ev (vmm_completion m) = (Sent, c)
    \<Longrightarrow> task_step n m ((set_phase n T_Cleaning m)
          \<lparr>vmm_completion := c, vmm_reported := vmm_reported m @ [ev]\<rparr>)"
| unreported: "n < length (vmm_tasks m) \<Longrightarrow> tk_phase (vmm_tasks m ! n) = T_Reporting s
    \<Longrightarrow> \<not> ch_open (vmm_completion m)
    \<Longrightarrow> task_step n m (set_phase n T_Cleaning m)"
| cleaned: "n < length (vmm_tasks m) \<Longrightarrow> tk_phase (vmm_tasks m ! n) = T_Cleaning
    \<Longrightarrow> task_step n m (m\<lparr>vmm_channels := hm_remove (tk_job (vmm_tasks m ! n)) (vmm_channels m),
          vmm_tasks := (vmm_tasks m)[n := (vmm_tasks m ! n)\<lparr>tk_phase := T_Finished,
             tk_control := (tk_control (vmm_tasks m ! n))\<lparr>ch_open := False\<rparr>\<rparr>]\<rparr>)"

inductive_cases task_stepE: "task_step n m m'"

text \<open>
  The whole manager: task steps, launches of jobs not launched before, shutdown requests, and the
  runner taking completion events.
\<close>

inductive vmm_step :: "vm_manager \<Rightarrow> vm_manager \<Rightarrow> bool" where
  task: "task_step n m m' \<Longrightarrow> vmm_step m m'"
| launch: "j \<notin> tk_job ` set (vmm_tasks m) \<Longrightarrow> vmm_step m (launch_vm j m)"
| shutdown: "vmm_step m (snd (shutdown_vm j m))"
| receive: "vmm_step m (m\<lparr>vmm_completion := snd (chan_recv (vmm_completion m))\<rparr>)"

inductive_cases vmm_stepE: "vmm_step m m'"

text \<open>How far a task is; every step of a task brings it closer to the end.\<close>

fun phase_rank :: "task_phase \<Rightarrow> nat" where
  "phase_rank T_Starting = 5"
| "phase_rank T_Waiting = 4"
| "phase_rank T_Stopping = 3"
| "phase_rank (T_Reporting s) = 2"
| "phase_rank T_Cleaning = 1"
| "phase_rank T_Finished = 0"

definition reports_of :: "uuid \<Rightarrow> vm_manager \<Rightarrow> nat" where
  "reports_of j m = length (filter (\<lambda>ev. ce_job_id ev = j) (vmm_reported m))"

definition vmm_inv :: "vm_manager \<Rightarrow> bool" where
  "vmm_inv m =
     (hm_wf (vmm_channels m) \<and> ch_open (vmm_completion m) \<and> chan_wf (vmm_completion m)
      \<and> distinct (map tk_job (vmm_tasks m))
      \<and> (\<forall>n < length (vmm_tasks m).
           (hm_get (vmm_channels m) (tk_job (vmm_tasks m ! n)) =
              (if tk_phase (vmm_tasks m ! n) = T_Finished then None else Some n))
           \<and> (ch_open (tk_control (vmm_tasks m ! n)) \<longleftrightarrow> tk_phase (vmm_tasks m ! n) \<noteq> T_Finished)
           \<and> reports_of (tk_job (vmm_tasks m ! n)) m =
               (if phase_rank (tk_phase (vmm_tasks m ! n)) \<le> 1 then 1 else 0))
      \<and> (\<forall>j. j \<notin> tk_job ` set (vmm_tasks m) \<longrightarrow>
           hm_get (vmm_channels m) j = None \<and> reports_of j m = 0))"

lemma vmm_inv_new:
  "ch_open c \<Longrightarrow> chan_wf c \<Longrightarrow> vmm_inv (vm_manager_new c)"
  by (simp add: vmm_inv_def vm_manager_new_def hm_wf_def hm_get_def reports_of_def)

lemma jobs_update:
  "n < length ts \<Longrightarrow> tk_job t = tk_job (ts ! n) \<Longrightarrow> map tk_job (ts[n := t]) = map tk_job ts"
  by (simp add: map_update list_update_same_conv)

lemma jobs_update_set:
  "n < length ts \<Longrightarrow> tk_job t = tk_job (ts ! n) \<Longrightarrow> tk_job ` set (ts[n := t]) = tk_job ` set ts"
  using jobs_update [of n ts t] by (metis list.set_map)

lemma distinct_job:
  "distinct (map tk_job ts) \<Longrightarrow> n < length ts \<Longrightarrow> k < length ts \<Longrightarrow> tk_job (ts ! n) = tk_job (ts ! k)
   \<Longrightarrow> n = k"
  by (metis length_map nth_eq_iff_index_eq nth_map)

text \<open>Replacing one task by another of the same job, with channels and reports to match.\<close>

lemma vmm_inv_update:
  assumes inv: "vmm_inv m" and n: "n < length (vmm_tasks m)"
    and t: "tk_job t = tk_job (vmm_tasks m ! n)" "vmm_tasks m' = (vmm_tasks m)[n := t]"
    and c: "ch_open (vmm_completion m')" "chan_wf (vmm_completion m')" "hm_wf (vmm_channels m')"
    and other: "\<And>j. j \<noteq> tk_job t \<Longrightarrow> hm_get (vmm_channels m') j = hm_get (vmm_channels m) j
      \<and> reports_of j m' = reports_of j m"
    and own: "hm_get (vmm_channels m') (tk_job t) = (if tk_phase t = T_Finished then None else Some n)"
      "ch_open (tk_control t) \<longleftrightarrow> tk_phase t \<noteq> T_Finished"
      "reports_of (tk_job t) m' = (if phase_rank (tk_phase t) \<le> 1 then 1 else 0)"
  shows "vmm_inv m'"
proof -
  have d: "distinct (map tk_job (vmm_tasks m))" using inv by (simp add: vmm_inv_def)
  have ne: "tk_job (vmm_tasks m ! k) \<noteq> tk_job t" if "k < length (vmm_tasks m)" "k \<noteq> n" for k
    using distinct_job [OF d n that(1)] that(2) t(1) by auto
  have row: "hm_get (vmm_channels m') (tk_job (vmm_tasks m' ! k)) =
        (if tk_phase (vmm_tasks m' ! k) = T_Finished then None else Some k)
      \<and> (ch_open (tk_control (vmm_tasks m' ! k)) \<longleftrightarrow> tk_phase (vmm_tasks m' ! k) \<noteq> T_Finished)
      \<and> reports_of (tk_job (vmm_tasks m' ! k)) m' =
          (if phase_rank (tk_phase (vmm_tasks m' ! k)) \<le> 1 then 1 else 0)"
    if k: "k < length (vmm_tasks m)" for k
  proof (cases "k = n")
    case True
    then show ?thesis using own n by (simp add: t(2))
  next
    case False
    then have "vmm_tasks m' ! k = vmm_tasks m ! k" by (simp add: t(2))
    then show ?thesis using inv other [OF ne [OF k False]] k by (simp add: vmm_inv_def)
  qed
  have out: "hm_get (vmm_channels m') j = None \<and> reports_of j m' = 0"
    if "j \<notin> tk_job ` set (vmm_tasks m)" for j
  proof -
    have "j \<noteq> tk_job t" using that n t(1) by auto
    then show ?thesis using other [of j] inv that by (simp add: vmm_inv_def)
  qed
  have jobs: "map tk_job (vmm_tasks m') = map tk_job (vmm_tasks m)"
    "tk_job ` set (vmm_tasks m') = tk_job ` set (vmm_tasks m)"
    "length (vmm_tasks m') = length (vmm_tasks m)"
    using jobs_update [OF n t(1)] jobs_update_set [OF n t(1)] by (simp_all add: t(2))
  show ?thesis
    using c d row out by (simp add: vmm_inv_def jobs)
qed

lemma vmm_invD:
  assumes "vmm_inv m"
  shows "ch_open (vmm_completion m)" "chan_wf (vmm_completion m)" "hm_wf (vmm_channels m)"
  using assms by (simp_all add: vmm_inv_def)

lemma vmm_rowD:
  assumes "vmm_inv m" and "n < length (vmm_tasks m)"
  shows "hm_get (vmm_channels m) (tk_job (vmm_tasks m ! n)) =
      (if tk_phase (vmm_tasks m ! n) = T_Finished then None else Some n)"
    and "ch_open (tk_control (vmm_tasks m ! n)) = (tk_phase (vmm_tasks m ! n) \<noteq> T_Finished)"
    and "reports_of (tk_job (vmm_tasks m ! n)) m =
      (if phase_rank (tk_phase (vmm_tasks m ! n)) \<le> 1 then 1 else 0)"
  using assms by (simp_all add: vmm_inv_def)

text \<open>A change of phase that touches neither channels nor reports.\<close>

lemma vmm_inv_phase:
  assumes inv: "vmm_inv m" and n: "n < length (vmm_tasks m)"
    and p: "2 \<le> phase_rank (tk_phase (vmm_tasks m ! n))" "2 \<le> phase_rank p"
    and c: "ch_open c = ch_open (tk_control (vmm_tasks m ! n))"
  shows "vmm_inv (m\<lparr>vmm_tasks := (vmm_tasks m)
    [n := (vmm_tasks m ! n)\<lparr>tk_phase := p, tk_control := c\<rparr>]\<rparr>)"
proof -
  have "tk_phase (vmm_tasks m ! n) \<noteq> T_Finished" "p \<noteq> T_Finished" using p by auto
  then show ?thesis
    using vmm_invD [OF inv] vmm_rowD [OF inv n] n p c
    by (intro vmm_inv_update [OF inv n,
          where t = "(vmm_tasks m ! n)\<lparr>tk_phase := p, tk_control := c\<rparr>"])
      (simp_all add: reports_of_def)
qed

lemma vmm_inv_set_phase:
  assumes "vmm_inv m" "n < length (vmm_tasks m)" "2 \<le> phase_rank (tk_phase (vmm_tasks m ! n))"
    "2 \<le> phase_rank p"
  shows "vmm_inv (set_phase n p m)"
  using vmm_inv_phase [OF assms, of "tk_control (vmm_tasks m ! n)"] by (simp add: set_phase_def)

lemma vmm_inv_task: "task_step n m m' \<Longrightarrow> vmm_inv m \<Longrightarrow> vmm_inv m'"
proof (induction rule: task_step.induct)
  case (commanded n m c)
  then show ?case
    by (intro vmm_inv_phase) (auto simp: chan_recv_def split: list.splits)
next
  case (reported n m s ev c)
  have c: "ch_open c" "chan_wf c"
    using reported(4) vmm_invD(1,2) [OF reported(5)] chan_wf_send [of "vmm_completion m" ev]
    by (auto simp: chan_send_def split: if_splits)
  show ?case
    using c vmm_invD [OF reported(5)] vmm_rowD [OF reported(5,1)] reported(1-3)
    by (intro vmm_inv_update [OF reported(5,1),
          where t = "(vmm_tasks m ! n)\<lparr>tk_phase := T_Cleaning\<rparr>"])
      (simp_all add: set_phase_def reports_of_def)
next
  case (unreported n m s)
  then show ?case using vmm_invD(1) by blast
next
  case (cleaned n m)
  then show ?case
    using vmm_invD [OF cleaned(3)] vmm_rowD [OF cleaned(3,1)] cleaned(1,2)
    by (intro vmm_inv_update [OF cleaned(3,1), where t = "(vmm_tasks m ! n)\<lparr>tk_phase := T_Finished,
          tk_control := (tk_control (vmm_tasks m ! n))\<lparr>ch_open := False\<rparr>\<rparr>"])
      (simp_all add: reports_of_def hm_get_remove)
qed (simp_all add: vmm_inv_set_phase)

lemma vmm_inv_shutdown: "vmm_inv m \<Longrightarrow> vmm_inv (snd (shutdown_vm j m))"
proof (cases "hm_get (vmm_channels m) j")
  case (Some n)
  assume inv: "vmm_inv m"
  have n: "n < length (vmm_tasks m)" and job: "tk_job (vmm_tasks m ! n) = j"
  proof -
    have "j \<in> tk_job ` set (vmm_tasks m)" using inv Some by (auto simp: vmm_inv_def)
    then obtain k where "k < length (vmm_tasks m)" "tk_job (vmm_tasks m ! k) = j"
      by (auto simp: in_set_conv_nth)
    then show "n < length (vmm_tasks m)" "tk_job (vmm_tasks m ! n) = j"
      using vmm_rowD(1) [OF inv, of k] Some by (auto split: if_splits)
  qed
  then have ph: "tk_phase (vmm_tasks m ! n) \<noteq> T_Finished"
    using vmm_rowD(1) [OF inv n] Some by auto
  let ?t = "vmm_tasks m ! n" and ?c = "snd (chan_send Shutdown (tk_control (vmm_tasks m ! n)))"
  have "vmm_inv (m\<lparr>vmm_tasks := (vmm_tasks m)[n := ?t\<lparr>tk_control := ?c\<rparr>]\<rparr>)"
    using vmm_invD [OF inv] vmm_rowD [OF inv n] ph
    by (intro vmm_inv_update [OF inv n, where t = "?t\<lparr>tk_control := ?c\<rparr>"])
      (simp_all add: reports_of_def chan_send_def)
  then show ?thesis
    using Some inv by (auto simp: shutdown_vm_def split: prod.splits send_outcome.splits)
qed (simp add: shutdown_vm_def)

lemma vmm_inv_launch:
  assumes inv: "vmm_inv m" and j: "j \<notin> tk_job ` set (vmm_tasks m)"
  shows "vmm_inv (launch_vm j m)"
proof -
  have old: "tk_job (vmm_tasks m ! n) \<noteq> j" if "n < length (vmm_tasks m)" for n
    using j that by auto
  have new: "hm_get (vmm_channels m) j = None" "reports_of j m = 0"
    using inv j by (auto simp: vmm_inv_def)
  have r: "reports_of i (launch_vm j m) = reports_of i m" for i
    by (simp add: reports_of_def launch_vm_def)
  show ?thesis
    unfolding vmm_inv_def r using inv j old new
    by (simp add: launch_vm_def vm_task_new_def vmm_inv_def hm_get_insert nth_append less_Suc_eq)
qed

lemma vmm_inv_step: "vmm_step m m' \<Longrightarrow> vmm_inv m \<Longrightarrow> vmm_inv m'"
proof (induction rule: vmm_step.induct)
  case (receive m)
  then show ?case
    using chan_wf_recv [of "vmm_completion m"]
    by (auto simp: vmm_inv_def chan_recv_def reports_of_def split: list.splits)
qed (simp_all add: vmm_inv_task vmm_inv_shutdown vmm_inv_launch)

definition vmm_init :: "vm_manager \<Rightarrow> bool" where
  "vmm_init m = (\<exists>cap. m = vm_manager_new \<lparr>ch_queue = [], ch_cap = Some cap, ch_open = True\<rparr>)"

interpretation vmm: transition_system vmm_init vmm_step vmm_inv
  by unfold_locales (auto simp: vmm_init_def chan_wf_def intro: vmm_inv_new vmm_inv_step)

definition demo_vmm :: vm_manager where
  "demo_vmm = vm_manager_new \<lparr>ch_queue = [], ch_cap = Some 100, ch_open = True\<rparr>"

lemma demo_launched: "vmm_init demo_vmm" "vmm_step\<^sup>*\<^sup>* demo_vmm (launch_vm 7 demo_vmm)"
  by (auto simp: vmm_init_def demo_vmm_def vm_manager_new_def intro!: r_into_rtranclp vmm_step.launch)

section \<open>Properties\<close>

text \<open>
  C11. Exactly one completion event is sent for every launched job, whatever interleaving of task
  steps, launches and shutdown requests occurs: none before its task reports, one ever after. The
  job counts as running exactly until its task has finished, so a finished job keeps no channel.
\<close>

theorem one_completion_per_job:
  assumes "vmm_init m0" and "vmm_step\<^sup>*\<^sup>* m0 m" and "t \<in> set (vmm_tasks m)"
  shows "reports_of (tk_job t) m = (if tk_phase t \<in> {T_Cleaning, T_Finished} then 1 else 0)
         \<and> is_vm_running (tk_job t) m = (tk_phase t \<noteq> T_Finished)"
proof -
  have inv: "vmm_inv m" by (rule vmm.reachable_inv [OF assms(1,2)])
  obtain n where n: "n < length (vmm_tasks m)" "t = vmm_tasks m ! n"
    using assms(3) by (auto simp: in_set_conv_nth)
  have "phase_rank p \<le> 1 \<longleftrightarrow> p \<in> {T_Cleaning, T_Finished}" for p
    by (cases p) simp_all
  then show ?thesis
    using vmm_rowD [OF inv n(1)] n(2) by (simp add: is_vm_running_def hm_contains_def)
qed

theorem one_completion_per_job_witness:
  "reports_of 7 (launch_vm 7 demo_vmm) = 0 \<and> is_vm_running 7 (launch_vm 7 demo_vmm)"
  using one_completion_per_job [OF demo_launched, of "vm_task_new 7"]
  by (simp add: launch_vm_def vm_task_new_def)



end
