(* ===== verification/Runner_Loop.thy ===== *)
theory Runner_Loop
  imports Resource_Runs Vsock Vm_Manager "HOL-Library.Sublist"
begin

section \<open>The runner: runner/src/bin/runner.rs and runner/src/client.rs\<close>

text \<open>
  The main loop of a runner with everything it drives: the resource manager, the job manager, the
  virtual machine tasks and the websocket to the backend. A step is one turn of the main loop, one
  event handled by the completion task, one step of a machine's task, or a waiting send of the job
  manager that finds room. The handler of a claimed job is two steps, because the machine's task
  and the completion task run between its launch and \<open>set_job_running\<close>. Whether each send on the
  websocket succeeds is an argument.
\<close>

subsection \<open>State\<close>

datatype loop_state = Looping | Exited_Normally | Panicked | Stuck

record runner =
  rn_platform :: platform
  rn_rm :: resource_manager
  rn_jm :: job_manager
  rn_vmm :: vm_manager
  rn_shutting_down :: bool
  rn_loop :: loop_state
  rn_starting :: "uuid option"
  rn_sent :: "client_message list"
  rn_sends :: nat
  rn_send_ok :: "nat \<Rightarrow> bool"
  rn_received :: "status_event list"
  rn_log_streams :: "(uuid \<times> string) list"

text \<open>
  What ends a handler early: a failed send, an error of the job manager, or a call that does not
  return because the main loop itself would have to make room for it.
\<close>

datatype run_error = Re_Send | Re_Job job_error | Re_Blocked

type_synonym 'a run = "(runner, run_error, 'a) io"

text \<open>\<open>WebSocketClient::send_message\<close>: the attempt is counted, the message recorded if it went out.\<close>

definition send_message :: "client_message \<Rightarrow> unit run" where
  "send_message msg r =
     (if rn_send_ok r (rn_sends r)
      then (Ok (), r\<lparr>rn_sends := Suc (rn_sends r), rn_sent := rn_sent r @ [msg]\<rparr>)
      else (Err Re_Send, r\<lparr>rn_sends := Suc (rn_sends r)\<rparr>))"

definition call_jm ::
    "(job_manager \<Rightarrow> (job_error + 'a) poll \<times> job_manager) \<Rightarrow> 'a run" where
  "call_jm f r =
     (case f (rn_jm r) of
        (Ready res, jm) \<Rightarrow>
          ((case res of Inl e \<Rightarrow> Err (Re_Job e) | Inr a \<Rightarrow> Ok a), r\<lparr>rn_jm := jm\<rparr>)
      | (Pending, jm) \<Rightarrow> (Err Re_Blocked, r\<lparr>rn_jm := jm\<rparr>))"

text \<open>\<open>if let Err(e) = ...\<close> with only a log line: errors are dropped, a call that hangs still hangs.\<close>

definition logged_only :: "unit run \<Rightarrow> unit run" where
  "logged_only m r =
     (case m r of
        (Inl Re_Blocked, r') \<Rightarrow> (Err Re_Blocked, r')
      | (_, r') \<Rightarrow> (Ok (), r'))"

subsection \<open>Operations\<close>

definition check_capacity_and_request_job :: "unit run" where
  "check_capacity_and_request_job r =
     (if has_minimal_capacity (rn_rm r) then send_message RequestJob r else (Ok (), r))"

definition runner_job_config :: "uuid \<Rightarrow> job_config" where
  "runner_job_config i =
     \<lparr>jc_id = i, jc_project_url = ''https://github.com/cachix/devenv'', jc_git_ref = None,
      jc_tasks = [''build'', ''test''], jc_cachix_push = False, jc_clone_depth = None\<rparr>"

definition call_shutdown_vm :: "uuid \<Rightarrow> runner \<Rightarrow> shutdown_result \<times> runner" where
  "call_shutdown_vm i r = (case shutdown_vm i (rn_vmm r) of (s, m) \<Rightarrow> (s, r\<lparr>rn_vmm := m\<rparr>))"

text \<open>
  \<open>handle_server_message\<close>. For a claimed job it ends with the launch: \<open>rn_starting\<close> holds the job for
  which \<open>set_job_running\<close> comes next. \<open>launch_vm\<close> always succeeds, so the branch of the source that
  handles its error is never taken.
\<close>

definition handle_server_message :: "server_message \<Rightarrow> unit run" where
  "handle_server_message msg r =
     (case msg of
        NewJobAvailable i v \<Rightarrow>
          if rn_shutting_down r then (Ok (), r)
          else if can_allocate (vm_cpu_count v) (vm_memory_size_mb v) (rn_rm r)
          then send_message (ClaimJob i v) r
          else (Ok (), r)
      | JobClaimed i v log_url \<Rightarrow>
          if rn_shutting_down r then (Ok (), r)
          else and_then (call_jm (register_job i (runner_job_config i)))
                 (\<lambda>_. modify (\<lambda>r. r\<lparr>rn_log_streams := rn_log_streams r @ [(i, log_url)],
                                    rn_vmm := launch_vm i (rn_vmm r), rn_starting := Some i\<rparr>)) r
      | JobTimedOut i \<Rightarrow>
          and_then (logged_only (call_jm (complete_job i TimedOut)))
            (\<lambda>_ r. case call_shutdown_vm i r of
                     (Send_Waits, r') \<Rightarrow> (Err Re_Blocked, r')
                   | (_, r') \<Rightarrow> (Ok (), r')) r
      | JobCancelled i \<Rightarrow>
          and_then (logged_only (call_jm (complete_job i Cancelled)))
            (\<lambda>_ r. case call_shutdown_vm i r of
                     (Send_Waits, r') \<Rightarrow> (Err Re_Blocked, r')
                   | (Send_Failed, r') \<Rightarrow> (Ok (), r'\<lparr>rn_rm := snd (release_job i (rn_rm r'))\<rparr>)
                   | (_, r') \<Rightarrow> (Ok (), r')) r)"

text \<open>\<open>collect_metrics\<close>; it reads the job manager, so it waits while a send holds its lock.\<close>

definition collect_metrics :: "runner \<Rightarrow> runner_metrics poll" where
  "collect_metrics r =
     (case get_job_counts (rn_jm r) of
        Pending \<Rightarrow> Pending
      | Ready (active, queued, running) \<Rightarrow>
          (case get_usage_stats (rn_rm r) of
             (used_cpu, used_mb) \<Rightarrow>
               let total_cpus = max_cpus (rm_limits (rn_rm r));
                   total_mb = max_memory_bytes (rm_limits (rn_rm r)) div (1024 * 1024)
               in Ready
                 \<lparr>rmx_platform = rn_platform r,
                  rmx_cpu_count = total_cpus,
                  rmx_memory_size_mb = total_mb,
                  rmx_used_cpu_count = used_cpu,
                  rmx_used_memory_mb = used_mb,
                  rmx_cpu_utilization_percent =
                    (if 0 < total_cpus
                     then F_Mul (F_Div (F_Of_Usize used_cpu) (F_Of_Usize total_cpus)) F_Hundred
                     else F_Zero),
                  rmx_memory_utilization_percent =
                    (if 0 < total_mb
                     then F_Mul (F_Div (F_Of_U64 used_mb) (F_Of_U64 total_mb)) F_Hundred
                     else F_Zero),
                  rmx_active_jobs = of_nat active,
                  rmx_queued_jobs = of_nat queued,
                  rmx_running_jobs = of_nat running,
                  rmx_max_instances = max_instances (rm_limits (rn_rm r))\<rparr>))"

subsection \<open>The main loop\<close>

text \<open>What the \<open>select!\<close> of a turn yields. A closed websocket comes with the outcome of reconnecting.\<close>

datatype loop_event =
    Le_Shutdown_Signal
  | Le_Status
  | Le_Ws_Message server_message
  | Le_Ws_Error
  | Le_Ws_Closed bool
  | Le_Metrics

text \<open>\<open>.await.unwrap()\<close>: an error of the handler panics the task of the main loop.\<close>

definition unwrap_run :: "unit run \<Rightarrow> runner \<Rightarrow> runner" where
  "unwrap_run m r =
     (case m r of
        (Inr _, r') \<Rightarrow> r'
      | (Inl Re_Blocked, r') \<Rightarrow> r'\<lparr>rn_loop := Stuck\<rparr>
      | (Inl _, r') \<Rightarrow> r'\<lparr>rn_loop := Panicked\<rparr>)"

definition run_logged :: "unit run \<Rightarrow> runner \<Rightarrow> runner" where
  "run_logged m r =
     (case m r of (Inl Re_Blocked, r') \<Rightarrow> r'\<lparr>rn_loop := Stuck\<rparr> | (_, r') \<Rightarrow> r')"

definition handle_status :: "status_event \<Rightarrow> runner \<Rightarrow> runner" where
  "handle_status ev r =
     (case se_status ev of
        Complete status \<Rightarrow>
          let r1 = run_logged (send_message (UpdateJobStatus (se_job_id ev) (Complete status))) r
          in if rn_shutting_down r1 then r1 else run_logged check_capacity_and_request_job r1
      | Running \<Rightarrow> r
      | Queued \<Rightarrow> r)"

text \<open>The check at the top of the loop; it waits for the job manager's lock like every read.\<close>

definition loop_top :: "runner \<Rightarrow> runner" where
  "loop_top r =
     (if rn_shutting_down r
      then case active_job_count (rn_jm r) of
             Pending \<Rightarrow> r\<lparr>rn_loop := Stuck\<rparr>
           | Ready n \<Rightarrow> if n = 0 then r\<lparr>rn_loop := Exited_Normally\<rparr> else r
      else r)"

fun loop_select :: "loop_event \<Rightarrow> runner \<Rightarrow> runner" where
  "loop_select Le_Shutdown_Signal r =
     (if rn_shutting_down r then r
      else case active_job_count (rn_jm r) of
             Pending \<Rightarrow> r\<lparr>rn_loop := Stuck\<rparr>
           | Ready _ \<Rightarrow> r\<lparr>rn_shutting_down := True\<rparr>)"
| "loop_select Le_Status r =
     (case jm_receive (rn_jm r) of
        (None, _) \<Rightarrow> r
      | (Some ev, jm) \<Rightarrow>
          handle_status ev (r\<lparr>rn_jm := jm, rn_received := rn_received r @ [ev]\<rparr>))"
| "loop_select (Le_Ws_Message msg) r =
     (if rn_shutting_down r then r else unwrap_run (handle_server_message msg) r)"
| "loop_select Le_Ws_Error r = r"
| "loop_select (Le_Ws_Closed reconnected) r =
     (if rn_shutting_down r then r
      else if reconnected
      then unwrap_run check_capacity_and_request_job r
      else r\<lparr>rn_loop := Exited_Normally\<rparr>)"
| "loop_select Le_Metrics r =
     (case collect_metrics r of
        Pending \<Rightarrow> r\<lparr>rn_loop := Stuck\<rparr>
      | Ready metrics \<Rightarrow> run_logged (send_message (ReportMetrics metrics)) r)"

text \<open>
  One turn: the rest of a claimed job's handler if it is not finished, otherwise the check at the
  top and then the selected event.
\<close>

definition loop_turn :: "loop_event \<Rightarrow> runner \<Rightarrow> runner" where
  "loop_turn ev r =
     (if rn_loop r \<noteq> Looping then r
      else case rn_starting r of
             Some i \<Rightarrow> run_logged (call_jm (set_job_running i)) (r\<lparr>rn_starting := None\<rparr>)
           | None \<Rightarrow>
               let r1 = loop_top r
               in if rn_loop r1 = Looping then loop_select ev r1 else r1)"

subsection \<open>The other tasks\<close>

text \<open>
  The completion task takes one event when it can have the job manager's lock; a full status
  channel leaves its announcement waiting (\<open>jm_waiting\<close>) until \<open>jm_resume\<close>.
\<close>

definition completion_turn :: "runner \<Rightarrow> runner" where
  "completion_turn r =
     (if jm_waiting (rn_jm r) \<noteq> None then r
      else case chan_recv (vmm_completion (rn_vmm r)) of
             (None, _) \<Rightarrow> r
           | (Some ev, c) \<Rightarrow>
               r\<lparr>rn_vmm := (rn_vmm r)\<lparr>vmm_completion := c\<rparr>,
                 rn_jm := snd (complete_job (ce_job_id ev) (completion_of_exit (ce_status ev))
                               (rn_jm r))\<rparr>)"

text \<open>The backend hands a job to a runner at most once, so a claimed job is not yet registered.\<close>

fun fresh_claim :: "loop_event \<Rightarrow> runner \<Rightarrow> bool" where
  "fresh_claim (Le_Ws_Message (JobClaimed i v u)) r = (hm_get (jm_jobs (rn_jm r)) i = None)"
| "fresh_claim _ r = True"

text \<open>All interleavings of the runner's tasks.\<close>

inductive runner_step :: "runner \<Rightarrow> runner \<Rightarrow> bool" where
  turn: "fresh_claim ev r \<Longrightarrow> runner_step r (loop_turn ev r)"
| completion: "runner_step r (completion_turn r)"
| resume: "runner_step r (r\<lparr>rn_jm := jm_resume (rn_jm r)\<rparr>)"
| machine: "task_step n (rn_vmm r) m \<Longrightarrow> runner_step r (r\<lparr>rn_vmm := m\<rparr>)"
| resources: "runner_step r (r\<lparr>rn_rm := rm\<rparr>)"

inductive_cases runner_stepE: "runner_step r r'"

definition runner_new ::
    "platform \<Rightarrow> resource_manager \<Rightarrow> (nat \<Rightarrow> bool) \<Rightarrow> runner" where
  "runner_new p rm ok =
     \<lparr>rn_platform = p, rn_rm = rm,
      rn_jm = job_manager_new \<lparr>ch_queue = [], ch_cap = Some 100, ch_open = True\<rparr>,
      rn_vmm = vm_manager_new \<lparr>ch_queue = [], ch_cap = Some 100, ch_open = True\<rparr>,
      rn_shutting_down = False, rn_loop = Looping, rn_starting = None, rn_sent = [],
      rn_sends = 0, rn_send_ok = ok, rn_received = [], rn_log_streams = []\<rparr>"

text \<open>\<open>main\<close> up to the loop: connected, it asks for a first job; a failure of that ends it.\<close>

definition runner_start :: "platform \<Rightarrow> resource_manager \<Rightarrow> (nat \<Rightarrow> bool) \<Rightarrow> run_error + runner" where
  "runner_start p rm ok =
     (case check_capacity_and_request_job (runner_new p rm ok) of
        (Inl e, _) \<Rightarrow> Err e
      | (Inr _, r) \<Rightarrow> Ok r)"

text \<open>The websocket address \<open>main\<close> builds from the host argument.\<close>

definition ws_uri_of_host :: "string \<Rightarrow> string" where
  "ws_uri_of_host base =
     (if ends_with base ''/'' then base @ ''api/v1/runner/ws'' else base @ ''/api/v1/runner/ws'')"

subsection \<open>What reaches the backend\<close>

definition jobs_of :: "runner \<Rightarrow> jobs_world" where
  "jobs_of r = \<lparr>jw_jm = rn_jm r, jw_received = rn_received r\<rparr>"

fun update_for :: "uuid \<Rightarrow> client_message \<Rightarrow> job_status list" where
  "update_for j (UpdateJobStatus i s) = (if i = j then [s] else [])"
| "update_for j _ = []"

definition updates_of :: "uuid \<Rightarrow> runner \<Rightarrow> job_status list" where
  "updates_of j r = gather (update_for j) (rn_sent r)"

definition completes_of :: "uuid \<Rightarrow> runner \<Rightarrow> job_status list" where
  "completes_of j r = filter is_complete (map se_status (filter (\<lambda>ev. se_job_id ev = j) (rn_received r)))"

definition runner_inv :: "runner \<Rightarrow> bool" where
  "runner_inv r = (jobs_inv (jobs_of r) \<and> (\<forall>j. subseq (updates_of j r) (completes_of j r)))"

fun is_update :: "client_message \<Rightarrow> bool" where
  "is_update (UpdateJobStatus i s) = True"
| "is_update _ = False"

lemma update_for_other [simp]: "\<not> is_update msg \<Longrightarrow> update_for j msg = []"
  by (cases msg) simp_all

lemma runner_inv_frame [simp]:
  "runner_inv (r\<lparr>rn_rm := rm\<rparr>) = runner_inv r" "runner_inv (r\<lparr>rn_vmm := m\<rparr>) = runner_inv r"
  "runner_inv (r\<lparr>rn_loop := l\<rparr>) = runner_inv r" "runner_inv (r\<lparr>rn_starting := i\<rparr>) = runner_inv r"
  "runner_inv (r\<lparr>rn_shutting_down := b\<rparr>) = runner_inv r" "runner_inv (r\<lparr>rn_sends := n\<rparr>) = runner_inv r"
  "runner_inv (r\<lparr>rn_log_streams := ls\<rparr>) = runner_inv r"
  by (simp_all add: runner_inv_def jobs_of_def updates_of_def completes_of_def)

lemma runner_inv_jobs:
  assumes "runner_inv r" and "jobs_guard e (jobs_of r)" and "e \<noteq> Je_Receive"
  shows "runner_inv (r\<lparr>rn_jm := jw_jm (jobs_step e (jobs_of r))\<rparr>)"
proof -
  have "jobs_step e (jobs_of r) = \<lparr>jw_jm = jw_jm (jobs_step e (jobs_of r)), jw_received = rn_received r\<rparr>"
    using assms(3) by (cases e) (simp_all add: jobs_of_def)
  then show ?thesis
    using assms(1) jobs_inv_step [OF _ assms(2)]
    by (simp add: runner_inv_def jobs_of_def updates_of_def completes_of_def)
qed

lemma runner_inv_update: "runner_inv r \<Longrightarrow> runner_inv (r\<lparr>rn_jm := snd (update_job_status i s (rn_jm r))\<rparr>)"
  using runner_inv_jobs [of r "Je_Update i s"] by (simp add: jobs_of_def)

lemma preserves_send: "\<not> is_update msg \<Longrightarrow> preserves runner_inv (send_message msg)"
  by (rule preservesI) (simp add: send_message_def runner_inv_def jobs_of_def updates_of_def completes_of_def)

lemma preserves_call_update:
  "preserves runner_inv (call_jm (update_job_status i s))"
  by (rule preservesI)
    (auto simp: call_jm_def split: prod.splits poll.splits dest: runner_inv_update [of _ i s])

lemma preserves_logged_only: "preserves runner_inv m \<Longrightarrow> preserves runner_inv (logged_only m)"
  by (auto simp: preserves_def logged_only_def case_prod_unfold split: sum.splits run_error.splits)

lemma preserves_request: "preserves runner_inv check_capacity_and_request_job"
  using preserves_send [of RequestJob]
  by (auto simp: preserves_def check_capacity_and_request_job_def)

lemma preserves_unwrap:
  "preserves runner_inv m \<Longrightarrow> runner_inv r \<Longrightarrow> runner_inv (unwrap_run m r)"
  "preserves runner_inv m \<Longrightarrow> runner_inv r \<Longrightarrow> runner_inv (run_logged m r)"
  by (auto simp: preserves_def unwrap_run_def run_logged_def case_prod_unfold
      split: sum.splits run_error.splits)

lemma handle_message_inv:
  assumes inv: "runner_inv r" and fresh: "fresh_claim (Le_Ws_Message msg) r"
  shows "runner_inv (snd (handle_server_message msg r))"
proof (cases msg)
  case (NewJobAvailable i v)
  then show ?thesis
    using inv preservesD [OF preserves_send [of "ClaimJob i v"] inv]
    by (simp add: handle_server_message_def)
next
  case (JobClaimed i v u)
  then have "runner_inv (r\<lparr>rn_jm := snd (register_job i (runner_job_config i) (rn_jm r))\<rparr>)"
    using inv fresh runner_inv_jobs [of r "Je_Register i (runner_job_config i)"]
    by (simp add: jobs_of_def)
  then show ?thesis
    using inv JobClaimed
    by (auto simp: handle_server_message_def and_then_def call_jm_def modify_def
        split: prod.splits sum.splits poll.splits)
next
  case (JobTimedOut i)
  have "runner_inv (snd (logged_only (call_jm (complete_job i TimedOut)) r))"
    using preservesD [OF preserves_logged_only [OF preserves_call_update] inv] by (simp add: complete_job_def)
  then show ?thesis
    using JobTimedOut
    by (auto simp: handle_server_message_def and_then_def call_shutdown_vm_def
        split: prod.splits sum.splits shutdown_result.splits)
next
  case (JobCancelled i)
  have "runner_inv (snd (logged_only (call_jm (complete_job i Cancelled)) r))"
    using preservesD [OF preserves_logged_only [OF preserves_call_update] inv] by (simp add: complete_job_def)
  then show ?thesis
    using JobCancelled
    by (auto simp: handle_server_message_def and_then_def call_shutdown_vm_def
        split: prod.splits sum.splits shutdown_result.splits)
qed

lemma subseq_append_right: "subseq xs ys \<Longrightarrow> subseq xs (ys @ zs)"
  using list_emb_append_mono [of "(=)" xs ys "[]" zs] by simp

lemma subseq_snoc: "subseq xs ys \<Longrightarrow> subseq (xs @ [x]) (ys @ [x])"
  using list_emb_append_mono [of "(=)" xs ys "[x]" "[x]"] by simp

lemma status_inv:
  assumes inv: "runner_inv r" and recv: "jm_receive (rn_jm r) = (Some ev, jm)"
  shows "runner_inv (handle_status ev (r\<lparr>rn_jm := jm, rn_received := rn_received r @ [ev]\<rparr>))"
proof -
  let ?r = "r\<lparr>rn_jm := jm, rn_received := rn_received r @ [ev]\<rparr>"
  have "jobs_inv (jobs_step Je_Receive (jobs_of r))"
    using inv by (intro jobs_inv_step) (simp_all add: runner_inv_def)
  then have jobs: "jobs_inv (jobs_of ?r)" using recv by (simp add: jobs_of_def)
  have sub: "subseq (updates_of j r) (completes_of j r)" for j
    using inv by (simp add: runner_inv_def)
  have comp: "completes_of j ?r = completes_of j r
      @ (if se_job_id ev = j \<and> is_complete (se_status ev) then [se_status ev] else [])" for j
    by (simp add: completes_of_def)
  have "runner_inv ?r"
    using jobs sub by (simp add: runner_inv_def comp updates_of_def subseq_append_right)
  moreover have "runner_inv (run_logged (send_message (UpdateJobStatus (se_job_id ev) (Complete c))) ?r)"
    if "se_status ev = Complete c" for c
    using jobs sub that
    by (auto simp: run_logged_def send_message_def runner_inv_def jobs_of_def updates_of_def
        comp [unfolded completes_of_def] completes_of_def intro: subseq_append_right subseq_snoc)
  ultimately show ?thesis
    using preserves_unwrap(2) [OF preserves_request]
    by (simp add: handle_status_def Let_def split: job_status.splits)
qed

lemma loop_turn_inv:
  assumes inv: "runner_inv r" and fresh: "fresh_claim ev r"
  shows "runner_inv (loop_turn ev r)"
proof -
  have top: "runner_inv (loop_top r)"
    using inv by (simp add: loop_top_def split: poll.splits)
  have sel: "runner_inv (loop_select ev r')" if r': "runner_inv r'" "fresh_claim ev r'" for r'
  proof (cases ev)
    case Le_Status
    then show ?thesis
      using r' status_inv [OF r'(1)] by (auto split: prod.splits option.splits)
  next
    case (Le_Ws_Message msg)
    then show ?thesis
      using r' handle_message_inv [OF r'(1)]
      by (auto simp: unwrap_run_def case_prod_unfold split: sum.splits run_error.splits)
  next
    case (Le_Ws_Closed b)
    then show ?thesis using r' preserves_unwrap(1) [OF preserves_request r'(1)] by simp
  next
    case Le_Metrics
    then show ?thesis
      using r' preserves_unwrap(2) [OF preserves_send r'(1)] by (simp split: poll.splits)
  qed (use r' in \<open>simp_all split: poll.splits\<close>)
  have "fresh_claim ev (loop_top r)"
    using fresh by (cases ev; simp add: loop_top_def split: poll.splits server_message.splits)
      (case_tac x3; simp)
  then show ?thesis
    using inv top sel preserves_unwrap(2) [OF preserves_call_update, of "r\<lparr>rn_starting := None\<rparr>"]
    by (auto simp: loop_turn_def Let_def set_job_running_def split: option.splits)
qed

lemma completion_inv: "runner_inv r \<Longrightarrow> runner_inv (completion_turn r)"
proof -
  assume "runner_inv r"
  then have "runner_inv (r\<lparr>rn_vmm := m\<rparr>)" for m by simp
  from runner_inv_update [OF this] \<open>runner_inv r\<close> show ?thesis
    by (auto simp: completion_turn_def complete_job_def split: prod.splits option.splits)
qed

lemma runner_inv_step: "runner_step r r' \<Longrightarrow> runner_inv r \<Longrightarrow> runner_inv r'"
proof (induction rule: runner_step.induct)
  case (resume r)
  then show ?case using runner_inv_jobs [of r Je_Resume] by (simp add: jobs_of_def)
qed (simp_all add: loop_turn_inv completion_inv)

lemma runner_inv_new: "runner_inv (runner_new p rm sends)"
  using jobs_inv_new [of 100]
  by (simp add: runner_inv_def runner_new_def jobs_of_def jobs_world_new_def updates_of_def)

definition runner_init :: "runner \<Rightarrow> bool" where
  "runner_init r = (\<exists>p rm sends. runner_start p rm sends = Ok r)"

lemma runner_inv_start: "runner_init r \<Longrightarrow> runner_inv r"
proof -
  assume "runner_init r"
  then obtain p rm sends where "runner_start p rm sends = Ok r"
    by (auto simp: runner_init_def)
  then have "r = snd (check_capacity_and_request_job (runner_new p rm sends))"
    by (cases "check_capacity_and_request_job (runner_new p rm sends)")
      (auto simp: runner_start_def split: sum.splits)
  with preservesD [OF preserves_request runner_inv_new, of p rm sends] show ?thesis by simp
qed

interpretation runner: transition_system runner_init runner_step runner_inv
  by unfold_locales (auto intro: runner_inv_start runner_inv_step)

lemma legal_completes: "legal_history h \<Longrightarrow> filter is_complete h \<noteq> [] \<Longrightarrow> filter is_complete h = [last h]"
  by (cases h rule: legal_history.cases) (auto split: list.splits if_splits)

lemma updates_final:
  assumes inv: "runner_inv r" and u: "updates_of j r \<noteq> []"
  shows "\<exists>c. updates_of j r = [Complete c] \<and> current_status j (jobs_of r) = Some (Complete c)"
proof -
  have jobs: "jobs_inv (jobs_of r)" and sub: "subseq (updates_of j r) (completes_of j r)"
    using inv by (simp_all add: runner_inv_def)
  let ?h = "history j (jobs_of r)"
  have h: "legal_history ?h"
    "current_status j (jobs_of r) = (if ?h = [] then None else Some (last ?h))"
    using jobs by (simp_all add: jobs_inv_def)
  obtain rest where r: "?h = map se_status (filter (\<lambda>ev. se_job_id ev = j) (rn_received r)) @ rest"
    by (simp add: history_def announced_def jobs_of_def)
  then have "subseq (completes_of j r) (filter is_complete ?h)"
    by (simp add: completes_of_def subseq_append_right)
  with sub have sub': "subseq (updates_of j r) (filter is_complete ?h)"
    using subseq_order.trans by blast
  then have ne: "filter is_complete ?h \<noteq> []" using u by auto
  then have last: "filter is_complete ?h = [last ?h]" using legal_completes [OF h(1)] by simp
  with sub' u have "updates_of j r = [last ?h]"
    by (cases "updates_of j r") (auto split: if_splits)
  moreover have "is_complete (last ?h)"
  proof -
    have "last ?h \<in> set (filter is_complete ?h)" by (simp only: last) simp
    then show ?thesis by simp
  qed
  moreover have "?h \<noteq> []" using ne by auto
  ultimately show ?thesis using h(2) by (auto simp: is_complete_iff)
qed

subsection \<open>Stopping\<close>

text \<open>Messages that take on or ask for work.\<close>

fun takes_work :: "client_message \<Rightarrow> bool" where
  "takes_work (ClaimJob i v) = True"
| "takes_work RequestJob = True"
| "takes_work _ = False"

definition only_idle :: "runner \<Rightarrow> runner \<Rightarrow> bool" where
  "only_idle r r' = (rn_shutting_down r' = rn_shutting_down r \<and>
     (\<exists>ms. rn_sent r' = rn_sent r @ ms \<and> (\<forall>m \<in> set ms. \<not> takes_work m)))"

lemma only_idle_refl [simp]: "only_idle r r"
  by (simp add: only_idle_def)

lemma only_idle_trans: "only_idle r r' \<Longrightarrow> only_idle r' r'' \<Longrightarrow> only_idle r r''"
  by (fastforce simp: only_idle_def)

lemma only_idle_same: "rn_sent r' = rn_sent r \<Longrightarrow> rn_shutting_down r' = rn_shutting_down r \<Longrightarrow> only_idle r r'"
  by (simp add: only_idle_def)

lemma only_idle_send: "\<not> takes_work m \<Longrightarrow> only_idle r (run_logged (send_message m) r)"
  by (auto simp: run_logged_def send_message_def only_idle_def)

lemma only_idle_status:
  assumes "rn_shutting_down r" shows "only_idle r (handle_status ev r)"
proof (cases "se_status ev")
  case (Complete c)
  have "only_idle r (run_logged (send_message (UpdateJobStatus (se_job_id ev) (Complete c))) r)"
    by (rule only_idle_send) simp
  then show ?thesis
    using assms Complete by (auto simp: handle_status_def Let_def only_idle_def)
qed (simp_all add: handle_status_def)

lemma call_jm_frame:
  "rn_sent (snd (call_jm f r)) = rn_sent r" "rn_shutting_down (snd (call_jm f r)) = rn_shutting_down r"
  by (simp_all add: call_jm_def split: prod.splits poll.splits)

lemma only_idle_call_jm: "only_idle r (run_logged (call_jm f) r)"
  using call_jm_frame [of f r]
  by (intro only_idle_same) (auto simp: run_logged_def split: prod.splits sum.splits run_error.splits)

lemma only_idle_turn:
  assumes "rn_shutting_down r" shows "only_idle r (loop_turn ev r)"
proof -
  have top: "only_idle r (loop_top r)" "rn_shutting_down (loop_top r)"
    using assms by (auto simp: loop_top_def only_idle_def split: poll.splits)
  have sel: "only_idle s (loop_select ev s)" if "rn_shutting_down s" for s
  proof (cases ev)
    case Le_Status
    show ?thesis
    proof (cases "jm_receive (rn_jm s)")
      case (Pair e jm)
      have "only_idle s (handle_status x (s\<lparr>rn_jm := jm, rn_received := es\<rparr>))" for x es
        by (rule only_idle_trans [OF only_idle_same only_idle_status]) (use that in simp_all)
      with Pair show ?thesis unfolding Le_Status by (cases e) simp_all
    qed
  next
    case Le_Metrics
    then show ?thesis
      using that only_idle_send by (auto split: poll.splits intro: only_idle_same)
  qed (use that in \<open>simp_all\<close>)
  have start: "only_idle r (run_logged (call_jm f) (r\<lparr>rn_starting := None\<rparr>))" for f
    by (rule only_idle_trans [OF only_idle_same only_idle_call_jm]) simp_all
  have both: "only_idle r (loop_select ev (loop_top r))"
    by (rule only_idle_trans [OF top(1) sel [OF top(2)]])
  show ?thesis
    unfolding loop_turn_def Let_def
    by (cases "rn_starting r") (simp_all add: top(1) both start set_job_running_def)
qed

lemma only_idle_step: "runner_step r r' \<Longrightarrow> rn_shutting_down r \<Longrightarrow> only_idle r r'"
  by (induction rule: runner_step.induct)
    (auto simp: only_idle_turn completion_turn_def intro: only_idle_same
      split: prod.splits option.splits)

subsection \<open>A lost completion\<close>

text \<open>Job \<open>j\<close> counts as running although its machine's task has ended and nothing will report it.\<close>

definition hung :: "uuid \<Rightarrow> runner \<Rightarrow> bool" where
  "hung j r =
     (rn_shutting_down r \<and> rn_starting r = None \<and> rn_loop r \<noteq> Exited_Normally
      \<and> map_option ji_status (hm_get (jm_jobs (rn_jm r)) j) = Some Running
      \<and> j \<notin> ce_job_id ` set (ch_queue (vmm_completion (rn_vmm r)))
      \<and> (\<forall>t \<in> set (vmm_tasks (rn_vmm r)). tk_job t = j \<longrightarrow> tk_phase t = T_Finished))"

lemma running_is_active:
  assumes "map_option ji_status (hm_get m j) = Some Running"
  shows "filter (\<lambda>job. \<not> is_complete (ji_status job)) (hm_values m) \<noteq> []"
  using assms hm_get_Some_in [of m j] by (force simp: hm_values_def filter_empty_conv)

lemma hung_top: "hung j r \<Longrightarrow> hung j (loop_top r)"
  using running_is_active [of "jm_jobs (rn_jm r)" j]
  by (auto simp: hung_def loop_top_def active_job_count_def with_read_lock_def)

lemma hung_frame [simp]:
  "hung j (r\<lparr>rn_rm := rm\<rparr>) = hung j r" "hung j (r\<lparr>rn_sends := n\<rparr>) = hung j r"
  "hung j (r\<lparr>rn_sent := ms\<rparr>) = hung j r" "hung j (r\<lparr>rn_received := es\<rparr>) = hung j r"
  by (simp_all add: hung_def)

lemma hung_stuck: "hung j r \<Longrightarrow> hung j (r\<lparr>rn_loop := Stuck\<rparr>)"
  by (simp add: hung_def)

lemma hung_send: "hung j r \<Longrightarrow> hung j (run_logged (send_message m) r)"
  by (auto simp: run_logged_def send_message_def)

lemma hung_status: "hung j r \<Longrightarrow> hung j (handle_status ev r)"
proof -
  assume h: "hung j r"
  have "hung j (run_logged (send_message m) r)" for m by (rule hung_send [OF h])
  moreover from this have "rn_shutting_down (run_logged (send_message m) r)" for m
    by (simp add: hung_def)
  ultimately show ?thesis using h by (cases "se_status ev") (simp_all add: handle_status_def Let_def)
qed

lemma hung_turn:
  assumes h: "hung j r" shows "hung j (loop_turn ev r)"
proof -
  have sel: "hung j (loop_select ev s)" if s: "hung j s" for s
  proof (cases ev)
    case Le_Status
    show ?thesis
    proof (cases "jm_receive (rn_jm s)")
      case (Pair e jm)
      have "hung j (s\<lparr>rn_jm := jm, rn_received := es\<rparr>)" for es
        using s Pair by (auto simp: hung_def jm_receive_def split: prod.splits)
      with Pair s show ?thesis unfolding Le_Status by (cases e) (simp_all add: hung_status)
    qed
  next
    case Le_Metrics
    then show ?thesis using s hung_send hung_stuck by (auto split: poll.splits)
  qed (use s in \<open>auto simp: hung_def\<close>)
  show ?thesis
    using h sel [OF hung_top [OF h]] hung_top [OF h]
    by (auto simp: loop_turn_def Let_def hung_def split: option.splits)
qed

lemma hung_completion: "hung j r \<Longrightarrow> hung j (completion_turn r)"
proof (cases "chan_recv (vmm_completion (rn_vmm r))")
  case (Pair e c)
  assume h: "hung j r"
  show ?thesis
  proof (cases e)
    case None
    with Pair h show ?thesis by (simp add: completion_turn_def)
  next
    case (Some ev)
    have q: "ce_job_id ev \<noteq> j" "set (ch_queue c) \<subseteq> set (ch_queue (vmm_completion (rn_vmm r)))"
      using h Pair Some by (auto simp: hung_def chan_recv_def split: list.splits)
    have "hm_get (jm_jobs (snd (update_job_status i s jm))) j = hm_get (jm_jobs jm) j"
      if "i \<noteq> j" for i s jm
      using that by (auto simp: update_job_status_def emit_def hm_get_insert
          split: option.splits prod.splits send_outcome.splits)
    then show ?thesis
      using h q Pair Some by (auto simp: completion_turn_def complete_job_def hung_def)
  qed
qed

lemma hung_task:
  assumes t: "task_step n m m'"
    and q: "j \<notin> ce_job_id ` set (ch_queue (vmm_completion m))"
    and f: "\<forall>t \<in> set (vmm_tasks m). tk_job t = j \<longrightarrow> tk_phase t = T_Finished"
  shows "j \<notin> ce_job_id ` set (ch_queue (vmm_completion m'))
    \<and> (\<forall>t \<in> set (vmm_tasks m'). tk_job t = j \<longrightarrow> tk_phase t = T_Finished)"
proof -
  have n: "n < length (vmm_tasks m)" "tk_phase (vmm_tasks m ! n) \<noteq> T_Finished"
    using t by (cases rule: task_step.cases; simp)+
  then have nj: "tk_job (vmm_tasks m ! n) \<noteq> j" using f nth_mem by blast
  have upd: "\<forall>t \<in> set ((vmm_tasks m)[n := x]). tk_job t = j \<longrightarrow> tk_phase t = T_Finished"
    if "tk_job x = tk_job (vmm_tasks m ! n)" for x
    using f nj that by (auto dest!: subsetD [OF set_update_subset_insert])
  show ?thesis
    using t q nj
    by (cases rule: task_step.cases)
      (auto simp: set_phase_def chan_send_def upd split: if_splits dest!: upd [rule_format, rotated])
qed

lemma hung_step: "runner_step r r' \<Longrightarrow> hung j r \<Longrightarrow> hung j r'"
proof (induction rule: runner_step.induct)
  case (resume r)
  then show ?case
    by (auto simp: hung_def jm_resume_def split: option.splits prod.splits send_outcome.splits)
next
  case (machine n r m)
  then show ?case using hung_task [OF machine(1), of j] by (simp add: hung_def)
qed (simp_all add: hung_turn hung_completion)

interpretation lost: transition_system "hung j" runner_step "hung j"
  by unfold_locales (auto intro: hung_step)

subsection \<open>Example runs\<close>

definition demo_runner :: runner where
  "demo_runner = (runner_new X86_64Linux (resource_manager_new demo_limits) (\<lambda>_. True))
     \<lparr>rn_sends := 1, rn_sent := [RequestJob]\<rparr>"

lemma demo_runner_init: "runner_init demo_runner"
  unfolding runner_init_def
  by (intro exI [of _ X86_64Linux] exI [of _ "resource_manager_new demo_limits"] exI [of _ "\<lambda>_. True"])
    (simp add: runner_start_def check_capacity_and_request_job_def has_minimal_capacity_def
      can_allocate_def check_limits_def resource_manager_new_def resource_state_new_def demo_limits_def
      saturating_sub_def demo_runner_def runner_new_def send_message_def)

text \<open>A machine that fails before \<open>set_job_running\<close>: the states of that run, one per step.\<close>

definition claimed :: runner where
  "claimed = loop_turn (Le_Ws_Message (JobClaimed 7 demo_vm ''u'')) demo_runner"

definition failed_machine :: vm_manager where
  "failed_machine = (let m = set_phase 0 (T_Reporting Exit_Failure) (rn_vmm claimed)
     in (set_phase 0 T_Cleaning m)
          \<lparr>vmm_completion := snd (chan_send \<lparr>ce_job_id = 7, ce_status = Exit_Failure\<rparr> (vmm_completion m)),
            vmm_reported := [\<lparr>ce_job_id = 7, ce_status = Exit_Failure\<rparr>]\<rparr>)"

definition rejected :: runner where
  "rejected = completion_turn (claimed\<lparr>rn_vmm := failed_machine\<rparr>)"

definition finished_machine :: runner where
  "finished_machine = rejected\<lparr>rn_vmm := (rn_vmm rejected)
     \<lparr>vmm_channels := hm_remove 7 (vmm_channels (rn_vmm rejected)),
       vmm_tasks := [(vmm_tasks (rn_vmm rejected) ! 0)\<lparr>tk_phase := T_Finished,
          tk_control := (tk_control (vmm_tasks (rn_vmm rejected) ! 0))\<lparr>ch_open := False\<rparr>\<rparr>]\<rparr>\<rparr>"

definition marked_running :: runner where
  "marked_running = loop_turn Le_Status finished_machine"

definition hung_runner :: runner where
  "hung_runner = loop_turn Le_Shutdown_Signal marked_running"

lemmas run_eval = claimed_def demo_runner_def runner_new_def job_manager_new_def vm_manager_new_def
  loop_turn_def loop_top_def unwrap_run_def handle_server_message_def call_jm_def register_job_def
  emit_def chan_send_def chan_full_def hm_insert_def job_info_new_def modify_def and_then_def
  launch_vm_def vm_task_new_def

lemma claimed_eval:
  "rn_vmm claimed = launch_vm 7 (vm_manager_new \<lparr>ch_queue = [], ch_cap = Some 100, ch_open = True\<rparr>)"
  "rn_starting claimed = Some 7" "rn_loop claimed = Looping" "\<not> rn_shutting_down claimed"
  "jm_waiting (rn_jm claimed) = None" "jm_jobs (rn_jm claimed) = [(7, job_info_new 7 (runner_job_config 7))]"
  "jm_status (rn_jm claimed) = \<lparr>ch_queue = [\<lparr>se_job_id = 7, se_status = Queued\<rparr>], ch_cap = Some 100,
     ch_open = True\<rparr>"
  by (simp_all add: run_eval Let_def)

lemma machine_steps:
  "runner_step\<^sup>*\<^sup>* claimed (claimed\<lparr>rn_vmm := failed_machine\<rparr>)"
proof -
  let ?m1 = "set_phase 0 (T_Reporting Exit_Failure) (rn_vmm claimed)"
  have t: "vmm_tasks (rn_vmm claimed) = [vm_task_new 7]"
    by (simp add: claimed_eval launch_vm_def vm_manager_new_def)
  have 1: "task_step 0 (rn_vmm claimed) ?m1"
    by (rule task_step.start_failed) (simp_all add: t vm_task_new_def)
  have 2: "task_step 0 ?m1 failed_machine"
    unfolding failed_machine_def Let_def
    by (rule task_step.reported [where s = Exit_Failure, THEN back_subst [of "task_step 0 ?m1"], OF _ _ refl])
      (simp_all add: t vm_task_new_def set_phase_def claimed_eval launch_vm_def vm_manager_new_def
        chan_send_def chan_full_def)
  have "runner_step claimed (claimed\<lparr>rn_vmm := ?m1\<rparr>)"
    by (rule runner_step.machine [OF 1])
  moreover have "runner_step (claimed\<lparr>rn_vmm := ?m1\<rparr>) (claimed\<lparr>rn_vmm := failed_machine\<rparr>)"
    using runner_step.machine [of 0 "claimed\<lparr>rn_vmm := ?m1\<rparr>" failed_machine] 2 by simp
  ultimately show ?thesis by (meson r_into_rtranclp rtranclp.rtrancl_into_rtrancl)
qed

lemma failed_machine_eval:
  "vmm_tasks failed_machine = [(vm_task_new 7)\<lparr>tk_phase := T_Cleaning\<rparr>]"
  "vmm_completion failed_machine = \<lparr>ch_queue = [\<lparr>ce_job_id = 7, ce_status = Exit_Failure\<rparr>],
     ch_cap = Some 100, ch_open = True\<rparr>"
  by (simp_all add: failed_machine_def Let_def set_phase_def claimed_eval launch_vm_def
      vm_manager_new_def vm_task_new_def chan_send_def chan_full_def)

lemma rejected_eval:
  "rn_vmm rejected = failed_machine\<lparr>vmm_completion := \<lparr>ch_queue = [], ch_cap = Some 100, ch_open = True\<rparr>\<rparr>"
  "rn_jm rejected = rn_jm claimed" "rn_starting rejected = Some 7" "rn_loop rejected = Looping"
  "\<not> rn_shutting_down rejected"
  by (simp_all add: rejected_def completion_turn_def claimed_eval failed_machine_eval chan_recv_def
      complete_job_def update_job_status_def hm_get_def job_info_new_def)

lemma marked_eval:
  "map_option ji_status (hm_get (jm_jobs (rn_jm marked_running)) 7) = Some Running"
  "rn_starting marked_running = None" "rn_loop marked_running = Looping"
  "\<not> rn_shutting_down marked_running" "jm_waiting (rn_jm marked_running) = None"
  "rn_vmm marked_running = rn_vmm finished_machine"
  by (simp_all add: marked_running_def loop_turn_def finished_machine_def rejected_eval run_logged_def
      call_jm_def set_job_running_def update_job_status_def claimed_eval hm_get_def job_info_new_def
      emit_def chan_send_def chan_full_def hm_insert_def)

lemma hung_runner_hung: "hung 7 hung_runner"
  using marked_eval
  by (simp add: hung_def hung_runner_def loop_turn_def loop_top_def Let_def active_job_count_def
      with_read_lock_def)
    (simp add: finished_machine_def rejected_eval failed_machine_eval)

lemma hung_runner_reachable: "runner_step\<^sup>*\<^sup>* demo_runner hung_runner"
proof -
  have "runner_step demo_runner claimed"
    unfolding claimed_def by (rule runner_step.turn)
      (simp add: demo_runner_def runner_new_def job_manager_new_def hm_get_def)
  also note machine_steps
  also have "runner_step (claimed\<lparr>rn_vmm := failed_machine\<rparr>) rejected"
    unfolding rejected_def by (rule runner_step.completion)
  also have "runner_step rejected finished_machine"
  proof -
    have "task_step 0 (rn_vmm rejected) (rn_vmm finished_machine)"
      by (rule task_step.cleaned [where n = 0, THEN back_subst [of "task_step 0 (rn_vmm rejected)"]])
        (simp_all add: finished_machine_def rejected_eval failed_machine_eval vm_task_new_def)
    from runner_step.machine [OF this] show ?thesis by (simp add: finished_machine_def)
  qed
  also have "runner_step finished_machine marked_running"
    unfolding marked_running_def by (rule runner_step.turn) simp
  also have "runner_step marked_running hung_runner"
    unfolding hung_runner_def by (rule runner_step.turn) simp
  finally show ?thesis .
qed

section \<open>Properties\<close>

text \<open>
  C12. The backend hears at most once how a job ended, and hears the truth: in every reachable state
  of the runner, over all interleavings of its main loop, completion task and machines, the status
  updates sent for a job are none or one completion, and that one is the status the runner holds
  for the job. No update that is not a completion is ever sent.
\<close>

theorem backend_gets_one_final_status:
  assumes "runner_init r0" and "runner_step\<^sup>*\<^sup>* r0 r"
  shows "updates_of j r = []
         \<or> (\<exists>c. updates_of j r = [Complete c] \<and> current_status j (jobs_of r) = Some (Complete c))"
  using updates_final [OF runner.reachable_inv [OF assms]] by blast

theorem backend_gets_one_final_status_witness:
  "updates_of 7 hung_runner = []
   \<or> (\<exists>c. updates_of 7 hung_runner = [Complete c])"
  using backend_gets_one_final_status [OF demo_runner_init hung_runner_reachable, of 7] by blast

text \<open>
  C17. A stopping runner takes no new work: from the moment it is shutting down, whatever happens,
  it stays so and every message it still sends is a status update or a metrics report, never a
  claim or a request for a job.
\<close>

theorem stopping_runner_takes_no_work:
  assumes "runner_step\<^sup>*\<^sup>* r r'" and "rn_shutting_down r"
  shows "rn_shutting_down r'
         \<and> (\<exists>ms. rn_sent r' = rn_sent r @ ms \<and> (\<forall>m \<in> set ms. \<not> takes_work m))"
proof -
  have "only_idle r r'"
    using assms
  proof (induction rule: rtranclp_induct)
    case (step y z)
    then have "rn_shutting_down y" by (simp add: only_idle_def)
    then show ?case using step only_idle_step only_idle_trans by blast
  qed simp
  then show ?thesis using assms(2) by (simp add: only_idle_def)
qed

theorem stopping_runner_takes_no_work_witness:
  "\<exists>ms. rn_sent (loop_turn Le_Status hung_runner) = rn_sent hung_runner @ ms
     \<and> (\<forall>m \<in> set ms. \<not> takes_work m)"
proof -
  have "runner_step\<^sup>*\<^sup>* hung_runner (loop_turn Le_Status hung_runner)"
    by (intro r_into_rtranclp runner_step.turn) simp
  then show ?thesis
    using stopping_runner_takes_no_work hung_runner_hung unfolding hung_def by blast
qed

text \<open>
  On a job offer the runner does one thing: it claims the job exactly when it is not stopping
  and the machine fits into its free resources, it sends nothing otherwise, and it changes nothing
  but the sending.
\<close>

theorem offer_is_claimed_iff_it_fits:
  assumes "handle_server_message (NewJobAvailable i v) r = (res, r')"
  shows "r' = r\<lparr>rn_sends := rn_sends r', rn_sent := rn_sent r'\<rparr>
         \<and> rn_sent r' = rn_sent r @
             (if \<not> rn_shutting_down r \<and> can_allocate (vm_cpu_count v) (vm_memory_size_mb v) (rn_rm r)
                 \<and> rn_send_ok r (rn_sends r) then [ClaimJob i v] else [])
         \<and> (res = Ok () \<or> res = Err Re_Send \<and> \<not> rn_send_ok r (rn_sends r))"
  using assms
  by (auto simp: handle_server_message_def send_message_def split: if_splits)

theorem offer_is_claimed_iff_it_fits_witness:
  "rn_sent (snd (handle_server_message (NewJobAvailable 9 demo_vm) demo_runner))
   = [RequestJob, ClaimJob 9 demo_vm]"
proof -
  have "can_allocate (vm_cpu_count demo_vm) (vm_memory_size_mb demo_vm) (rn_rm demo_runner)"
    by (simp add: can_allocate_def check_limits_def demo_vm_def demo_runner_def runner_new_def
        resource_manager_new_def resource_state_new_def demo_limits_def saturating_sub_def)
  moreover obtain res r' where "handle_server_message (NewJobAvailable 9 demo_vm) demo_runner = (res, r')"
    by (cases "handle_server_message (NewJobAvailable 9 demo_vm) demo_runner")
  ultimately show ?thesis
    using offer_is_claimed_iff_it_fits [of 9 demo_vm demo_runner res r']
    by (simp add: demo_runner_def runner_new_def)
qed



text \<open>
  One failed send of a claim ends the main loop in a panic, with the jobs it is running: the
  handler returns the send error and the loop unwraps it.
\<close>

theorem failed_claim_send_panics:
  assumes "rn_loop r = Looping" "rn_starting r = None" "\<not> rn_shutting_down r"
    and "can_allocate (vm_cpu_count v) (vm_memory_size_mb v) (rn_rm r)"
    and "\<not> rn_send_ok r (rn_sends r)"
  shows "rn_loop (loop_turn (Le_Ws_Message (NewJobAvailable i v)) r) = Panicked"
  using assms by (simp add: loop_turn_def loop_top_def Let_def unwrap_run_def
      handle_server_message_def send_message_def)

theorem failed_claim_send_panics_witness:
  "rn_loop (loop_turn (Le_Ws_Message (NewJobAvailable 9 demo_vm))
     (demo_runner\<lparr>rn_send_ok := \<lambda>_. False\<rparr>)) = Panicked"
  by (rule failed_claim_send_panics)
    (simp_all add: can_allocate_def check_limits_def demo_vm_def demo_runner_def runner_new_def
        resource_manager_new_def resource_state_new_def demo_limits_def saturating_sub_def)

end
