(* ===== verification/Log_Stream.thy ===== *)
theory Log_Stream
  imports Runner_Loop
begin

section \<open>Shipping a job's log: setup_log_stream in runner/src/bin/runner.rs\<close>

text \<open>
  The formatting of log lines into newline-delimited JSON, and the life of the channel between a
  job's machine and the upload request: who holds a sender, when the stream ends, when the request
  completes.
\<close>

subsection \<open>Formatting\<close>

text \<open>\<open>Log\<close> of logger/src/lib.rs.\<close>

record log =
  lg_message :: string
  lg_timestamp :: string
  lg_level :: string

definition initial_log_entry :: "string \<Rightarrow> usize \<Rightarrow> u64 \<Rightarrow> log_entry" where
  "initial_log_entry job_id cpu_count memory_mb =
     \<lparr>le_level = ''INFO'', le_target = ''runner'',
      le_message = ''Job '' @ job_id @ '' claimed, starting VM with '' @ dec_digits (unat cpu_count)
        @ '' CPUs and '' @ dec_digits (unat memory_mb) @ ''MB RAM'',
      le_fields = []\<rparr>"

definition formatted_message :: "log_entry \<Rightarrow> string" where
  "formatted_message e =
     (if le_fields e = []
      then ''['' @ le_level e @ ''] '' @ le_target e @ '': '' @ le_message e
      else ''['' @ le_level e @ ''] '' @ le_target e @ '': '' @ le_message e @ '' ''
           @ join_with '' '' (map (\<lambda>(k, v). k @ ''='' @ v) (le_fields e)))"

text \<open>A structured line keeps its level; anything else is an \<open>INFO\<close> line with its own text.\<close>

definition log_of_message :: "(string \<Rightarrow> log_entry option) \<Rightarrow> string \<Rightarrow> string \<Rightarrow> log" where
  "log_of_message parse now message =
     (case parse message of
        Some e \<Rightarrow> \<lparr>lg_message = formatted_message e, lg_timestamp = now, lg_level = le_level e\<rparr>
      | None \<Rightarrow> \<lparr>lg_message = message, lg_timestamp = now, lg_level = ''INFO''\<rparr>)"

definition ndjson_line ::
    "(string \<Rightarrow> log_entry option) \<Rightarrow> (log \<Rightarrow> string option) \<Rightarrow> string \<Rightarrow> string \<Rightarrow> string" where
  "ndjson_line parse print now message =
     (case print (log_of_message parse now message) of
        Some s \<Rightarrow> s @ [char_of (10 :: nat)]
      | None \<Rightarrow> [])"

subsection \<open>The life of the stream\<close>

text \<open>
  The owners of a sender: the handler of the claimed job, the machine's task (with the servers and
  connections it starts), and the upload task itself, which cloned one for its first line. The
  receiver's stream ends when it is empty and no sender is left.
\<close>

datatype owner = By_Handler | By_Machine | By_Upload_Task

record log_stream =
  ls_owners :: "owner set"
  ls_queue :: "string list"
  ls_uploaded :: "string list"
  ls_finished :: bool

definition log_stream_new :: "string option \<Rightarrow> log_stream" where
  "log_stream_new first =
     \<lparr>ls_owners = {By_Handler, By_Machine, By_Upload_Task},
      ls_queue = (case first of None \<Rightarrow> [] | Some l \<Rightarrow> [l]), ls_uploaded = [], ls_finished = False\<rparr>"

text \<open>
  Steps: a line is sent by an owner; the handler or the machine drops its sender; the request takes
  the next line; the stream has ended and the request completes; the request fails. The upload task
  owns its sender until its body ends, that is until the request has completed or failed.
\<close>

datatype stream_event = Ls_Send owner string | Ls_Drop_Handler | Ls_Drop_Machine | Ls_Take
  | Ls_Complete | Ls_Fail

fun log_stream_step :: "stream_event \<Rightarrow> log_stream \<Rightarrow> log_stream" where
  "log_stream_step (Ls_Send own l) s =
     (if own \<in> ls_owners s \<and> own \<noteq> By_Upload_Task \<and> length (ls_queue s) < 100
      then s\<lparr>ls_queue := ls_queue s @ [l]\<rparr> else s)"
| "log_stream_step Ls_Drop_Handler s = s\<lparr>ls_owners := ls_owners s - {By_Handler}\<rparr>"
| "log_stream_step Ls_Drop_Machine s = s\<lparr>ls_owners := ls_owners s - {By_Machine}\<rparr>"
| "log_stream_step Ls_Take s =
     (case ls_queue s of
        [] \<Rightarrow> s
      | l # ls \<Rightarrow> if ls_finished s then s
                  else s\<lparr>ls_queue := ls, ls_uploaded := ls_uploaded s @ [l]\<rparr>)"
| "log_stream_step Ls_Complete s =
     (if ls_queue s = [] \<and> ls_owners s = {} \<and> \<not> ls_finished s
      then s\<lparr>ls_finished := True\<rparr> else s)"
| "log_stream_step Ls_Fail s =
     s\<lparr>ls_finished := True, ls_owners := ls_owners s - {By_Upload_Task}\<rparr>"

definition upload_inv :: "log_stream \<Rightarrow> bool" where
  "upload_inv s = (\<not> ls_finished s \<and> By_Upload_Task \<in> ls_owners s)"

interpretation upload: machine log_stream_step "\<lambda>e s. e \<noteq> Ls_Fail" upload_inv
proof unfold_locales
  fix e s assume "upload_inv s" "e \<noteq> Ls_Fail"
  then show "upload_inv (log_stream_step e s)"
    by (cases e) (auto simp: upload_inv_def split: list.splits)
qed

lemma guarded_no_fail: "Ls_Fail \<notin> set es \<Longrightarrow> upload.guarded es s"
  by (induction es arbitrary: s) auto

lemma uploaded_prefix:
  "\<exists>ls. ls_uploaded (fold log_stream_step es s) @ ls_queue (fold log_stream_step es s)
      = ls_uploaded s @ ls_queue s @ ls"
proof (induction es arbitrary: s)
  case (Cons e es)
  have "\<exists>l. ls_uploaded (log_stream_step e s) @ ls_queue (log_stream_step e s)
      = ls_uploaded s @ ls_queue s @ l"
    by (cases e) (auto split: list.splits)
  with Cons [of "log_stream_step e s"] show ?case by (metis append.assoc fold_simps(2))
qed simp

section \<open>Properties\<close>



end
