(* ===== verification/Log_Store.thy ===== *)
theory Log_Store
  imports Log_Stream
begin

section \<open>The log service: logger/src/server.rs and logger/src/stream.rs\<close>

text \<open>
  Log lines posted for a job are stored under keys that sort by line number; a reader polls the
  store from a cursor. The key-value store (slatedb) is an argument: \<open>put\<close>, \<open>scan\<close> over a half-open
  key range, and for the statements \<open>view\<close>, the map a store stands for. The text of a UUID is an
  argument \<open>u\<close>.
\<close>

subsection \<open>Keys\<close>

definition format_key :: "string \<Rightarrow> u64 \<Rightarrow> string" where
  "format_key u log_line = u @ ''-'' @ hexw 16 (unat log_line)"

definition range_max :: "string \<Rightarrow> string" where
  "range_max u = format_key u (- 1)"

lemma append_less_append: "(u :: 'a::linorder list) @ xs < u @ ys \<longleftrightarrow> xs < ys"
  by (induction u) simp_all

lemma format_key_less: "format_key u m < format_key u n \<longleftrightarrow> m < n"
proof -
  have "unat m < 16 ^ 16" "unat n < 16 ^ 16"
    using unat_lt_64 by simp_all
  then show ?thesis
    by (simp add: format_key_def append_less_append hexw_less word_less_nat_alt)
qed

lemma format_key_inj [simp]: "format_key u m = format_key u n \<longleftrightarrow> m = n"
  using format_key_less [of u m n] format_key_less [of u n m] by (metis less_irrefl neqE)

lemma format_key_other:
  assumes "length u = length v" and "u \<noteq> v" shows "format_key u m \<noteq> format_key v n"
  using assms by (simp add: format_key_def)

subsection \<open>Posting\<close>

record log_with_line =
  lw_message :: string
  lw_timestamp :: string
  lw_level :: string
  lw_line :: u64

definition log_with_line :: "log \<Rightarrow> u64 \<Rightarrow> log_with_line" where
  "log_with_line l n = \<lparr>lw_message = lg_message l, lw_timestamp = lg_timestamp l,
     lw_level = lg_level l, lw_line = n\<rparr>"

text \<open>
  \<open>post_logs\<close>: a line that does not parse is skipped without a number, a failed write (\<open>None\<close>) is
  reported and skipped, and the numbering starts at one for every request.
\<close>

fun post_loop ::
    "(string \<Rightarrow> string \<Rightarrow> 'db \<Rightarrow> 'db option) \<Rightarrow> (log_with_line \<Rightarrow> string) \<Rightarrow> string
     \<Rightarrow> ('e + log) list \<Rightarrow> u64 \<Rightarrow> 'db \<Rightarrow> 'db" where
  "post_loop put to_vec u [] n db = db"
| "post_loop put to_vec u (Inl e # es) n db = post_loop put to_vec u es n db"
| "post_loop put to_vec u (Inr l # es) n db =
     (let n' = n + 1
      in post_loop put to_vec u es n'
           (case put (format_key u n') (to_vec (log_with_line l n')) db of None \<Rightarrow> db | Some db' \<Rightarrow> db'))"

definition post_logs ::
    "(string \<Rightarrow> string \<Rightarrow> 'db \<Rightarrow> 'db option) \<Rightarrow> (log_with_line \<Rightarrow> string) \<Rightarrow> string
     \<Rightarrow> ('e + log) list \<Rightarrow> 'db \<Rightarrow> 'db" where
  "post_logs put to_vec u es db = post_loop put to_vec u es 0 db"

subsection \<open>Reading\<close>

text \<open>
  \<open>DbFetcher::into_stream\<close>: each poll scans from the cursor; the cursor advances by the number of
  items. The list holds the store as each poll finds it; a failed scan yields an error.
\<close>

fun fetch_stream ::
    "(string \<Rightarrow> string \<Rightarrow> 'db \<Rightarrow> (string \<times> string) list option) \<Rightarrow> string \<Rightarrow> u64 \<Rightarrow> 'db list
     \<Rightarrow> (unit + (string \<times> string)) list" where
  "fetch_stream scan u key [] = []"
| "fetch_stream scan u key (db # dbs) =
     (case scan (format_key u key) (range_max u) db of
        None \<Rightarrow> Err () # fetch_stream scan u key dbs
      | Some items \<Rightarrow> map Ok items @ fetch_stream scan u (key + of_nat (length items)) dbs)"

datatype sse_event = Sse_Ready | Sse_Data string

text \<open>\<open>get_logs\<close>: the ready event, then the value of every item; errors are left out.\<close>

definition get_logs ::
    "(string \<Rightarrow> string \<Rightarrow> 'db \<Rightarrow> (string \<times> string) list option) \<Rightarrow> string \<Rightarrow> 'db list
     \<Rightarrow> sse_event list" where
  "get_logs scan u dbs =
     Sse_Ready # map (\<lambda>kv. Sse_Data (snd kv)) (List.map_filter to_option (fetch_stream scan u 0 dbs))"

subsection \<open>The store's contract\<close>

definition put_law ::
    "(string \<Rightarrow> string \<Rightarrow> 'db \<Rightarrow> 'db option) \<Rightarrow> ('db \<Rightarrow> string \<Rightarrow> string option) \<Rightarrow> bool" where
  "put_law put view =
     (\<forall>k v db db'. put k v db = Some db' \<longrightarrow> view db' = (view db)(k \<mapsto> v))"

text \<open>A scan that succeeds lists the entries of the range in key order.\<close>

definition scan_law ::
    "(string \<Rightarrow> string \<Rightarrow> 'db \<Rightarrow> (string \<times> string) list option) \<Rightarrow> ('db \<Rightarrow> string \<Rightarrow> string option)
     \<Rightarrow> bool" where
  "scan_law scan view =
     (\<forall>lo hi db items. scan lo hi db = Some items \<longrightarrow>
        sorted (map fst items) \<and> distinct (map fst items)
        \<and> set items = {(k, v). view db k = Some v \<and> lo \<le> k \<and> k < hi})"

subsection \<open>What a reader sees\<close>

text \<open>The store holds exactly the lines \<open>1\<close> to \<open>n\<close> of job \<open>u\<close>, with contents \<open>f\<close>.\<close>

definition holds_lines :: "('db \<Rightarrow> string \<Rightarrow> string option) \<Rightarrow> string \<Rightarrow> (nat \<Rightarrow> string) \<Rightarrow> nat \<Rightarrow> 'db \<Rightarrow> bool" where
  "holds_lines view u f n db =
     (\<forall>k v. u @ ''-'' \<le> k \<and> k < range_max u \<longrightarrow>
        (view db k = Some v \<longleftrightarrow> (\<exists>m. 1 \<le> m \<and> m \<le> n \<and> k = format_key u (of_nat m) \<and> v = f m)))"

definition line_item :: "string \<Rightarrow> (nat \<Rightarrow> string) \<Rightarrow> nat \<Rightarrow> string \<times> string" where
  "line_item u f m = (format_key u (of_nat m), f m)"

lemma of_nat_less_64:
  "m < 2 ^ 64 \<Longrightarrow> n < 2 ^ 64 \<Longrightarrow> (of_nat m :: u64) < of_nat n \<longleftrightarrow> m < n"
  by (simp add: word_less_nat_alt unat_of_nat)

lemma sorted_distinct_unique:
  fixes xs ys :: "('a::linorder \<times> 'b) list"
  assumes "sorted (map fst xs)" "distinct (map fst xs)" "sorted (map fst ys)" "distinct (map fst ys)"
    and "set xs = set ys"
  shows "xs = ys"
proof -
  have "map fst xs = map fst ys"
    using assms by (intro sorted_distinct_set_unique) simp_all
  moreover have "inj_on fst (set xs \<union> set ys)" using assms(2,5) by (simp add: distinct_map)
  ultimately show ?thesis by (rule map_inj_on)
qed

lemma key_between: "u @ ''-'' \<le> format_key u n"
proof -
  have "hexw 16 (unat n) \<noteq> []" using length_hexw [of 16 "unat n"] by force
  then have "[] < hexw 16 (unat n)" by (cases "hexw 16 (unat n)") simp_all
  then have "(u @ ''-'') @ [] < (u @ ''-'') @ hexw 16 (unat n)" unfolding append_less_append .
  then show ?thesis by (simp add: format_key_def)
qed

lemma scan_lines:
  assumes law: "scan_law scan view" and h: "holds_lines view u f n db" and n: "n < 2 ^ 64 - 1"
    and c: "c \<le> Suc n"
    and s: "scan (format_key u (of_nat c)) (range_max u) db = Some items"
  shows "items = map (line_item u f) [max c 1..<Suc n]"
proof (rule sorted_distinct_unique)
  have *: "sorted (map fst items)" "distinct (map fst items)"
    "set items = {(k, v). view db k = Some v \<and> format_key u (of_nat c) \<le> k \<and> k < range_max u}"
    using law s unfolding scan_law_def by blast+
  show "sorted (map fst items)" "distinct (map fst items)" by (rule *(1), rule *(2))
  have less: "format_key u (of_nat a) < format_key u (of_nat b) \<longleftrightarrow> a < b"
    if "a \<le> Suc n" "b \<le> Suc n" for a b
    using that n by (simp add: format_key_less of_nat_less_64)
  have sw: "sorted_wrt (<) (map (\<lambda>m. format_key u (of_nat m)) [max c 1..<Suc n])"
    unfolding sorted_wrt_map by (rule sorted_wrt_mono_rel [OF _ sorted_wrt_upt]) (auto intro!: less [THEN iffD2])
  then show "sorted (map fst (map (line_item u f) [max c 1..<Suc n]))"
    "distinct (map fst (map (line_item u f) [max c 1..<Suc n]))"
    by (simp_all add: comp_def line_item_def strict_sorted_iff del: upt_Suc)
  have top: "format_key u (of_nat m) < range_max u" if "m \<le> n" for m
  proof -
    have "(of_nat m :: u64) < - 1"
      using that n by (simp add: word_less_nat_alt unat_of_nat unsigned_minus_1_eq_mask mask_eq_exp_minus_1)
    then show ?thesis by (simp add: range_max_def format_key_less)
  qed
  show "set items = set (map (line_item u f) [max c 1..<Suc n])"
  proof (intro set_eqI iffI)
    fix x assume "x \<in> set items"
    then obtain k v where x: "x = (k, v)" "view db k = Some v" "format_key u (of_nat c) \<le> k"
      "k < range_max u" using *(3) by auto
    then have "u @ ''-'' \<le> k" using key_between [of u "of_nat c"] by (meson order_trans)
    then obtain m where m: "1 \<le> m" "m \<le> n" "k = format_key u (of_nat m)" "v = f m"
      using h x unfolding holds_lines_def by blast
    then have "\<not> m < c" using x(3) less [of m c] c by (meson le_SucI not_less)
    then show "x \<in> set (map (line_item u f) [max c 1..<Suc n])"
      using m x by (auto simp: line_item_def simp del: upt_Suc)
  next
    fix x assume "x \<in> set (map (line_item u f) [max c 1..<Suc n])"
    then obtain m where m: "c \<le> m" "1 \<le> m" "m \<le> n" "x = (format_key u (of_nat m), f m)"
      by (auto simp: line_item_def)
    then have "view db (format_key u (of_nat m)) = Some (f m)"
      using h key_between [of u "of_nat m"] top unfolding holds_lines_def by blast
    moreover have "format_key u (of_nat c) \<le> format_key u (of_nat m)"
      using less [of m c] m c by (meson le_SucI not_less)
    ultimately show "x \<in> set items" using m top *(3) by simp
  qed
qed

text \<open>The line numbers delivered by polls that find \<open>n\<close> lines each, from cursor \<open>c\<close>.\<close>

fun deliver :: "nat \<Rightarrow> nat list \<Rightarrow> nat list" where
  "deliver c [] = []"
| "deliver c (n # ns) = [max c 1..<Suc n] @ deliver (c + (Suc n - max c 1)) ns"

lemma upt_join: "i \<le> j \<Longrightarrow> j \<le> k \<Longrightarrow> [i..<j] @ [j..<k] = [i..<k]"
  using upt_add_eq_append [of i j "k - j"] by simp

lemma last_ge: "sorted (m # ms) \<Longrightarrow> m \<le> last (m # ms)"
  by (cases ms rule: rev_cases) auto

lemma deliver_caught_up:
  "sorted (n # ns) \<Longrightarrow> 1 \<le> n \<Longrightarrow> deliver (Suc n) ns = [Suc n..<Suc (last (n # ns))]"
proof (induction ns arbitrary: n)
  case (Cons m ns)
  then have "deliver (Suc m) ns = [Suc m..<Suc (last (m # ns))]" and nm: "n \<le> m" by simp_all
  moreover have "[Suc n..<Suc m] @ [Suc m..<Suc (last (m # ns))] = [Suc n..<Suc (last (m # ns))]"
    using nm Cons.prems last_ge [of m ns] by (intro upt_join) simp_all
  moreover have "Suc n + (Suc m - max (Suc n) 1) = Suc m" using nm by simp
  ultimately show ?case by (simp del: upt_Suc)
qed simp

lemma deliver_from_start:
  assumes "ns = replicate k 0 @ n # rest" and "1 \<le> n" and "sorted (n # rest)"
  shows "deliver 0 ns = [1..<Suc n] @ (if rest = [] then [] else [n..<Suc (last rest)])"
proof -
  have skip: "deliver 0 (replicate k 0 @ ms) = deliver 0 ms" for ms
    by (induction k) simp_all
  have first: "deliver 0 (n # rest) = [1..<Suc n] @ deliver n rest" using assms(2) by simp
  show ?thesis
  proof (cases rest)
    case Nil
    then show ?thesis unfolding assms(1) skip first by simp
  next
    case (Cons m ms)
    then have nm: "n \<le> m" "sorted (m # ms)" using assms(3) by auto
    then have "n + (Suc m - max n 1) = Suc m" "1 \<le> m" using assms(2) by auto
    moreover have "max n 1 = n" using assms(2) by simp
    ultimately have "deliver n rest = [n..<Suc m] @ [Suc m..<Suc (last (m # ms))]"
      using deliver_caught_up [OF nm(2)] by (simp add: Cons del: upt_Suc)
    also have "\<dots> = [n..<Suc (last (m # ms))]"
      using nm last_ge [OF nm(2)] by (intro upt_join) simp_all
    finally show ?thesis unfolding assms(1) skip first using Cons by simp
  qed
qed

lemma fetch_stream_lines:
  assumes law: "scan_law scan view"
    and total: "\<forall>lo hi db. scan lo hi db \<noteq> None"
    and h: "list_all2 (\<lambda>n db. holds_lines view u f n db) ns dbs"
    and b: "\<forall>n \<in> set ns. n < 2 ^ 63" "sorted (c' # ns)" "c \<le> Suc c'" "c' < 2 ^ 63"
  shows "fetch_stream scan u (of_nat c) dbs = map (\<lambda>m. Ok (line_item u f m)) (deliver c ns)"
  using h b
proof (induction ns dbs arbitrary: c c' rule: list_all2_induct)
  case (Cons n ns db dbs)
  obtain items where s: "scan (format_key u (of_nat c)) (range_max u) db = Some items"
    using total by blast
  have n: "n < 2 ^ 64 - 1" "c \<le> Suc n" using Cons.prems by simp_all
  have items: "items = map (line_item u f) [max c 1..<Suc n]"
    by (rule scan_lines [OF law Cons.hyps(1) n s])
  have len: "length items = Suc n - max c 1" by (simp add: items del: upt_Suc)
  have "fetch_stream scan u (of_nat (c + (Suc n - max c 1))) dbs
      = map (\<lambda>m. Ok (line_item u f m)) (deliver (c + (Suc n - max c 1)) ns)"
    using Cons.prems by (intro Cons.IH [of n]) auto
  then show ?case
    using s len by (simp add: items comp_def del: upt_Suc)
qed simp

definition good_lines :: "('e + log) list \<Rightarrow> log list" where
  "good_lines es = List.map_filter to_option es"

lemma good_lines_simps [simp]:
  "good_lines [] = []" "good_lines (Inl e # es) = good_lines es"
  "good_lines (Inr l # es) = l # good_lines es"
  by (simp_all add: good_lines_def map_filter_simps)

definition stored_line :: "(log_with_line \<Rightarrow> string) \<Rightarrow> log list \<Rightarrow> nat \<Rightarrow> string" where
  "stored_line to_vec ls m = to_vec (log_with_line (ls ! (m - 1)) (of_nat m))"

lemma post_loop_view:
  assumes law: "put_law put view" and total: "\<forall>k v db. put k v db \<noteq> None"
  shows "(\<exists>i < length (good_lines es). k = format_key u (of_nat (n + Suc i))
       \<and> view (post_loop put to_vec u es (of_nat n) db) k =
           Some (to_vec (log_with_line (good_lines es ! i) (of_nat (n + Suc i)))))
     \<or> (\<forall>i < length (good_lines es). k \<noteq> format_key u (of_nat (n + Suc i)))
       \<and> view (post_loop put to_vec u es (of_nat n) db) k = view db k"
proof (induction es arbitrary: n db)
  case (Cons e es)
  show ?case
  proof (cases e)
    case (Inr l)
    let ?v = "to_vec (log_with_line l (of_nat (Suc n)))"
    obtain db' where put: "put (format_key u (of_nat (Suc n))) ?v db = Some db'"
      using total by blast
    then have view: "view db' = (view db)(format_key u (of_nat (Suc n)) \<mapsto> ?v)"
      using law unfolding put_law_def by blast
    have step: "post_loop put to_vec u (e # es) (of_nat n) db
        = post_loop put to_vec u es (of_nat (Suc n)) db'"
      using put by (simp add: Inr Let_def add.commute)
    show ?thesis
      using Cons [of "Suc n" db']
    proof (elim disjE exE conjE)
      fix i assume "i < length (good_lines es)" "k = format_key u (of_nat (Suc n + Suc i))"
        "view (post_loop put to_vec u es (of_nat (Suc n)) db') k =
           Some (to_vec (log_with_line (good_lines es ! i) (of_nat (Suc n + Suc i))))"
      then show ?thesis unfolding step by (intro disjI1 exI [of _ "Suc i"]) (simp add: Inr)
    next
      assume none: "\<forall>i < length (good_lines es). k \<noteq> format_key u (of_nat (Suc n + Suc i))"
        and same: "view (post_loop put to_vec u es (of_nat (Suc n)) db') k = view db' k"
      show ?thesis
      proof (cases "k = format_key u (of_nat (Suc n))")
        case True
        then show ?thesis
          unfolding step using same view by (intro disjI1 exI [of _ 0]) (simp add: Inr)
      next
        case False
        have "k \<noteq> format_key u (of_nat (n + Suc i))" if "i < length (good_lines (e # es))" for i
          using none False that by (cases i) (auto simp: Inr)
        then show ?thesis unfolding step using same view False by simp
      qed
    qed
  qed (use Cons in simp)
qed simp

lemma post_logs_holds_lines:
  assumes law: "put_law put view" and total: "\<forall>k v db. put k v db \<noteq> None"
    and fresh: "\<forall>k. u @ ''-'' \<le> k \<and> k < range_max u \<longrightarrow> view db k = None"
    and b: "length (good_lines es) < 2 ^ 63"
  shows "holds_lines view u (stored_line to_vec (good_lines es)) (length (good_lines es))
    (post_logs put to_vec u es db)"
  unfolding holds_lines_def post_logs_def
proof (intro allI impI)
  fix k v assume k: "u @ ''-'' \<le> k \<and> k < range_max u"
  let ?ls = "good_lines es"
  have inj: "a = b" if "format_key u (of_nat a) = format_key u (of_nat b)" "a \<le> length ?ls" "b \<le> length ?ls"
    for a b
    using that b by (simp add: word_of_nat_eq_iff take_bit_nat_eq_self)
  show "(view (post_loop put to_vec u es 0 db) k = Some v) \<longleftrightarrow>
      (\<exists>m. 1 \<le> m \<and> m \<le> length ?ls \<and> k = format_key u (of_nat m) \<and> v = stored_line to_vec ?ls m)"
    using post_loop_view [OF law total, where n = 0 and es = es and k = k and u = u and to_vec = to_vec and db = db]
  proof (elim disjE exE conjE)
    fix i assume i: "i < length ?ls" "k = format_key u (of_nat (0 + Suc i))"
      "view (post_loop put to_vec u es (of_nat 0) db) k =
         Some (to_vec (log_with_line (?ls ! i) (of_nat (0 + Suc i))))"
    then have "view (post_loop put to_vec u es 0 db) k = Some (stored_line to_vec ?ls (Suc i))"
      by (simp add: stored_line_def)
    moreover have "m = Suc i" if "m \<le> length ?ls" "k = format_key u (of_nat m)" for m
      using inj [of m "Suc i"] i that by simp
    ultimately show ?thesis using i by (auto intro!: exI [of _ "Suc i"])
  next
    assume none: "\<forall>i < length ?ls. k \<noteq> format_key u (of_nat (0 + Suc i))"
      and same: "view (post_loop put to_vec u es (of_nat 0) db) k = view db k"
    have "k \<noteq> format_key u (of_nat m)" if "1 \<le> m" "m \<le> length ?ls" for m
      using none [rule_format, of "m - 1"] that by simp
    then show ?thesis using same fresh k by auto
  qed
qed

text \<open>A concrete store for the examples: an association list.\<close>

definition demo_put :: "string \<Rightarrow> string \<Rightarrow> (string \<times> string) list \<Rightarrow> (string \<times> string) list option" where
  "demo_put k v db = Some ((k, v) # db)"

definition demo_scan :: "string \<Rightarrow> string \<Rightarrow> (string \<times> string) list \<Rightarrow> (string \<times> string) list option" where
  "demo_scan lo hi db =
     Some (map (\<lambda>k. (k, the (map_of db k)))
       (filter (\<lambda>k. lo \<le> k \<and> k < hi) (sorted_list_of_set (fst ` set db))))"

lemma demo_store_laws:
  "put_law demo_put map_of" "scan_law demo_scan map_of"
  "\<forall>k v db. demo_put k v db \<noteq> None" "\<forall>lo hi db. demo_scan lo hi db \<noteq> None"
proof -
  show "put_law demo_put map_of" by (auto simp: put_law_def demo_put_def)
  show "\<forall>k v db. demo_put k v db \<noteq> None" "\<forall>lo hi db. demo_scan lo hi db \<noteq> None"
    by (simp_all add: demo_put_def demo_scan_def)
  have "(k, v) \<in> (\<lambda>k. (k, the (map_of db k))) ` {k \<in> fst ` set db. P k} \<longleftrightarrow> map_of db k = Some v \<and> P k"
    for k v :: string and db P
    using map_of_eq_None_iff [of db k] by (cases "map_of db k") (auto simp: map_of_SomeD dest: map_of_SomeD)
  then have "set (map (\<lambda>k. (k, the (map_of db k))) (filter P (sorted_list_of_set (fst ` set db))))
      = {(k, v). map_of db k = Some v \<and> P k}" for db :: "(string \<times> string) list" and P
    by (simp add: set_eq_iff)
  then show "scan_law demo_scan map_of"
    unfolding scan_law_def demo_scan_def
    by (simp add: comp_def sorted_filter [where f = "\<lambda>x. x", simplified] del: set_map)
qed

definition demo_logs :: "(unit + log) list" where
  "demo_logs = [Inr \<lparr>lg_message = ''a'', lg_timestamp = ''t'', lg_level = ''INFO''\<rparr>, Inl (),
     Inr \<lparr>lg_message = ''b'', lg_timestamp = ''t'', lg_level = ''INFO''\<rparr>]"

lemma demo_logs_length: "length (good_lines demo_logs) = 2"
  by (simp add: demo_logs_def)

section \<open>Properties\<close>

text \<open>
  Posting stores exactly the lines that parse, numbered from one in their order: into a store
  without lines of the job, a request with any mix of good and unreadable lines leaves precisely
  the keys of lines one to the number of good ones, each with its own content and number. The
  store obeys its map contract and its writes succeed.
\<close>

theorem posted_lines_are_stored:
  assumes "put_law put view" and "\<forall>k v db. put k v db \<noteq> None"
    and "\<forall>k. u @ ''-'' \<le> k \<and> k < range_max u \<longrightarrow> view db k = None"
    and "length (good_lines es) < 2 ^ 63"
  shows "holds_lines view u (stored_line to_vec (good_lines es)) (length (good_lines es))
    (post_logs put to_vec u es db)"
  using assms by (rule post_logs_holds_lines)

theorem posted_lines_are_stored_witness:
  "holds_lines map_of ''u'' (stored_line lw_message (good_lines demo_logs)) 2
     (post_logs demo_put lw_message ''u'' demo_logs [])"
  using posted_lines_are_stored [OF demo_store_laws(1,3), of "''u''" "[]" demo_logs lw_message]
  by (simp add: demo_logs_length)

text \<open>
  C40. A reader misses nothing and sees things in order, but one line comes twice: while the store
  grows from line to line, polls that first find lines \<open>1..n\<close> deliver these, and the following
  polls deliver from line \<open>n\<close> again, because the cursor counts delivered items from zero while
  lines are numbered from one. After that nothing is repeated.
\<close>

theorem reader_repeats_exactly_one_line:
  assumes "scan_law scan view" and "\<forall>lo hi db. scan lo hi db \<noteq> None"
    and "list_all2 (holds_lines view u f) ns dbs"
    and "ns = replicate k 0 @ n # rest" and "1 \<le> n" and "sorted (n # rest)"
    and "\<forall>m \<in> set ns. m < 2 ^ 63"
  shows "fetch_stream scan u 0 dbs = map (\<lambda>m. Ok (line_item u f m))
    ([1..<Suc n] @ (if rest = [] then [] else [n..<Suc (last rest)]))"
proof -
  have "sorted (0 # ns)" using assms(4,6) by (auto simp: sorted_append)
  then have "fetch_stream scan u (of_nat 0) dbs = map (\<lambda>m. Ok (line_item u f m)) (deliver 0 ns)"
    using assms by (intro fetch_stream_lines [where c' = 0]) simp_all
  then show ?thesis using deliver_from_start [OF assms(4-6)] by simp
qed

theorem reader_repeats_exactly_one_line_witness:
  "let db = post_logs demo_put lw_message ''u'' demo_logs []
   in map (map_sum id snd) (fetch_stream demo_scan ''u'' 0 [db, db])
      = map (\<lambda>m. Ok (stored_line lw_message (good_lines demo_logs) m)) [1, 2, 2]"
proof -
  let ?db = "post_logs demo_put lw_message ''u'' demo_logs []"
  have "holds_lines map_of ''u'' (stored_line lw_message (good_lines demo_logs)) 2 ?db"
    using post_logs_holds_lines [OF demo_store_laws(1,3), of "''u''" "[]" demo_logs lw_message]
    by (simp add: demo_logs_length)
  then have "list_all2 (holds_lines map_of ''u'' (stored_line lw_message (good_lines demo_logs)))
      [2, 2] [?db, ?db]" by simp
  then have "fetch_stream demo_scan ''u'' 0 [?db, ?db] = map (\<lambda>m. Ok (line_item ''u''
      (stored_line lw_message (good_lines demo_logs)) m))
      ([1..<Suc 2] @ (if [2 :: nat] = [] then [] else [2..<Suc (last [2])]))"
    by (intro reader_repeats_exactly_one_line [OF demo_store_laws(2,4), where k = 0 and ns = "[2, 2]"]) simp_all
  also have "[1..<Suc 2] @ (if [2 :: nat] = [] then [] else [2..<Suc (last [2])]) = [1, 2, 2]"
    by (simp add: upt_rec numeral_2_eq_2)
  finally show ?thesis by (simp add: Let_def line_item_def del: fetch_stream.simps)
qed

end
