(* ===== verification/Log_Path.thy ===== *)
theory Log_Path
  imports Log_Store Vsock
begin

section \<open>The path of a log line\<close>

text \<open>
  A line the guest logs is framed onto the vsock, read by the host's connection handler, printed as
  JSON into the channel of the upload task, formatted there as one line of the request's body, and
  read from that body by the log service, which stores it. This theory composes the theories that
  model these parts. The reader of the body (\<open>axum_extra::json_lines\<close>) and the JSON codec are
  arguments.
\<close>

text \<open>
  The body of the upload: one formatted line for every message taken from the channel, each with
  the time at which it was taken.
\<close>

definition upload_body ::
    "(string \<Rightarrow> log_entry option) \<Rightarrow> (log \<Rightarrow> string option) \<Rightarrow> string list \<Rightarrow> string list \<Rightarrow> string" where
  "upload_body parse print ts ms = concat (map2 (ndjson_line parse print) ts ms)"

text \<open>The messages of the channel: the claim line first, then the machine's lines.\<close>

definition channel_messages ::
    "(log_entry \<Rightarrow> string option) \<Rightarrow> log_entry \<Rightarrow> string list \<Rightarrow> string list" where
  "channel_messages to_string first logs =
     (case to_string first of Some s \<Rightarrow> s # logs | None \<Rightarrow> logs)"

subsection \<open>Contracts\<close>

text \<open>
  JSON has an entry read back with the same level, target and message, and the same fields in some
  order (they are a hash map).
\<close>

definition same_entry :: "log_entry \<Rightarrow> log_entry \<Rightarrow> bool" where
  "same_entry e e' =
     (le_level e' = le_level e \<and> le_target e' = le_target e \<and> le_message e' = le_message e
      \<and> mset (le_fields e') = mset (le_fields e))"

definition reads_back ::
    "(string \<Rightarrow> log_entry option) \<Rightarrow> (log_entry \<Rightarrow> string option) \<Rightarrow> log_entry \<Rightarrow> bool" where
  "reads_back parse to_string e =
     (case to_string e of
        Some s \<Rightarrow> (case parse s of Some e' \<Rightarrow> same_entry e e' | None \<Rightarrow> False)
      | None \<Rightarrow> False)"

text \<open>The reader of the body yields the printed objects, one for each line.\<close>

definition json_lines_law ::
    "(string \<Rightarrow> ('e + log) list) \<Rightarrow> (log \<Rightarrow> string option) \<Rightarrow> bool" where
  "json_lines_law read_lines print =
     (\<forall>ls. (\<forall>l \<in> set ls. print l \<noteq> None) \<longrightarrow>
        read_lines (concat (map (\<lambda>l. the (print l) @ [char_of (10 :: nat)]) ls)) = map Inr ls)"

subsection \<open>The lines of the body\<close>

definition entry_log :: "string \<Rightarrow> log_entry \<Rightarrow> log" where
  "entry_log now e = \<lparr>lg_message = formatted_message e, lg_timestamp = now, lg_level = le_level e\<rparr>"

lemma log_of_message_entry:
  "parse s = Some e \<Longrightarrow> log_of_message parse now s = entry_log now e"
  by (simp add: log_of_message_def entry_log_def)

lemma good_lines_Inr [simp]: "good_lines (map Inr ls) = ls"
  by (induction ls) simp_all

lemma upload_body_lines:
  "\<lbrakk>length ts = length es'; \<forall>l \<in> set (map2 entry_log ts es'). print l \<noteq> None;
    list_all2 (\<lambda>s e. parse s = Some e) ms es'\<rbrakk> \<Longrightarrow>
   upload_body parse print ts ms
     = concat (map (\<lambda>l. the (print l) @ [char_of (10 :: nat)]) (map2 entry_log ts es'))"
proof (induction ts es' arbitrary: ms rule: list_induct2)
  case (Cons t ts e es')
  then obtain s ms' where "ms = s # ms'" "parse s = Some e" "list_all2 (\<lambda>s e. parse s = Some e) ms' es'"
    by (auto simp: list_all2_Cons2)
  with Cons show ?case
    by (auto simp: upload_body_def ndjson_line_def log_of_message_entry)
qed (simp add: upload_body_def)

lemma holds_lines_take:
  assumes "holds_lines view u (stored_line to_vec (take k ls)) k db"
  shows "holds_lines view u (stored_line to_vec ls) k db"
proof -
  have "stored_line to_vec (take k ls) m = stored_line to_vec ls m" if "1 \<le> m \<and> m \<le> k" for m
  proof -
    have "take k ls ! (m - 1) = ls ! (m - 1)" using that by (intro nth_take) arith
    then show ?thesis by (simp add: stored_line_def)
  qed
  then show ?thesis using assms unfolding holds_lines_def by (metis (no_types, lifting))
qed

lemma reads_back_list:
  "\<forall>e \<in> set es. reads_back parse to_string e \<Longrightarrow>
   \<exists>es'. list_all2 same_entry es es'
       \<and> list_all2 (\<lambda>s e. parse s = Some e) (List.map_filter to_string es) es'"
proof (induction es)
  case (Cons e es)
  then obtain es' where "list_all2 same_entry es es'"
      "list_all2 (\<lambda>s e. parse s = Some e) (List.map_filter to_string es) es'" by auto
  moreover from Cons.prems obtain s e' where "to_string e = Some s" "parse s = Some e'" "same_entry e e'"
    by (auto simp: reads_back_def split: option.splits)
  ultimately show ?case
    by (intro exI [of _ "e' # es'"]) (simp add: map_filter_simps)
qed (simp add: map_filter_simps)

text \<open>What the service holds after it read a body: exactly the messages it was made of.\<close>

lemma posted_body_holds_lines:
  assumes "json_lines_law read_lines print" and "put_law put view" and "\<forall>k v db. put k v db \<noteq> None"
    and "\<forall>k. u @ ''-'' \<le> k \<and> k < range_max u \<longrightarrow> view db k = None"
    and "list_all2 (\<lambda>s e. parse s = Some e) ms es'" and "length ts = length es'"
    and "\<forall>l \<in> set (map2 entry_log ts es'). print l \<noteq> None" and "length es' < 2 ^ 63"
  shows "holds_lines view u (stored_line to_vec (map2 entry_log ts es')) (length es')
    (post_logs put to_vec u (read_lines (upload_body parse print ts ms)) db)"
proof -
  have "read_lines (upload_body parse print ts ms) = map Inr (map2 entry_log ts es')"
    using assms(1,7) upload_body_lines [OF assms(6,7,5)] unfolding json_lines_law_def by metis
  then show ?thesis
    using post_logs_holds_lines [OF assms(2,3,4), of "map Inr (map2 entry_log ts es')" to_vec] assms(6,8)
    by (simp del: map_map)
qed

text \<open>The same for a body that was cut after \<open>k\<close> messages.\<close>

lemma posted_prefix_holds_lines:
  assumes "json_lines_law read_lines print" and "put_law put view" and "\<forall>k v db. put k v db \<noteq> None"
    and "\<forall>k. u @ ''-'' \<le> k \<and> k < range_max u \<longrightarrow> view db k = None"
    and "list_all2 (\<lambda>s e. parse s = Some e) ms es'" and "length ts = length es'"
    and "\<forall>l \<in> set (map2 entry_log ts es'). print l \<noteq> None" and "length es' < 2 ^ 63"
    and "k \<le> length es'"
  shows "holds_lines view u (stored_line to_vec (map2 entry_log ts es')) k
    (post_logs put to_vec u (read_lines (upload_body parse print (take k ts) (take k ms))) db)"
proof -
  have eq: "map2 entry_log (take k ts) (take k es') = take k (map2 entry_log ts es')"
    by (simp add: take_map take_zip)
  have "\<forall>l \<in> set (map2 entry_log (take k ts) (take k es')). print l \<noteq> None"
    using assms(7) unfolding eq by (meson in_set_takeD)
  with posted_body_holds_lines [OF assms(1-4) list_all2_takeI [OF assms(5)], of "take k ts" k to_vec]
    assms(6,8,9)
  have "holds_lines view u (stored_line to_vec (take k (map2 entry_log ts es'))) k
    (post_logs put to_vec u (read_lines (upload_body parse print (take k ts) (take k ms))) db)"
    by (simp add: eq)
  then show ?thesis by (rule holds_lines_take)
qed

subsection \<open>A concrete codec for the example\<close>

definition demo_first :: log_entry where
  "demo_first = initial_log_entry ''u'' 2 512"

definition demo_print_entry :: "log_entry \<Rightarrow> string option" where
  "demo_print_entry e = (if e = demo_first then Some ''0'' else if e = demo_line then Some ''1'' else None)"

definition demo_parse_entry :: "string \<Rightarrow> log_entry option" where
  "demo_parse_entry s = (if s = ''0'' then Some demo_first else if s = ''1'' then Some demo_line else None)"

definition demo_print_log :: "log \<Rightarrow> string option" where
  "demo_print_log l = (if l = entry_log ''t'' demo_first then Some ''0''
     else if l = entry_log ''t'' demo_line then Some ''1'' else None)"

definition demo_read_lines :: "string \<Rightarrow> (unit + log) list" where
  "demo_read_lines body =
     map (\<lambda>c. Inr (entry_log ''t'' (if c = CHR ''0'' then demo_first else demo_line)))
       (filter (\<lambda>c. c \<noteq> char_of (10 :: nat)) body)"

lemma demo_entries: "demo_first \<noteq> demo_line" "entry_log ''t'' demo_first \<noteq> entry_log ''t'' demo_line"
    "le_fields demo_first = []" "le_fields demo_line = []"
  by (simp_all add: demo_first_def demo_line_def initial_log_entry_def entry_log_def
      formatted_message_def)

lemma demo_json_lines: "json_lines_law demo_read_lines demo_print_log"
proof -
  have "demo_read_lines (concat (map (\<lambda>l. the (demo_print_log l) @ [char_of (10 :: nat)]) ls)) = map Inr ls"
    if "\<forall>l \<in> set ls. demo_print_log l \<noteq> None" for ls
    using that
    by (induction ls) (auto simp: demo_read_lines_def demo_print_log_def char_of_def split: if_splits)
  then show ?thesis by (simp add: json_lines_law_def)
qed

lemma same_entry_no_fields: "same_entry e e' \<Longrightarrow> le_fields e = [] \<Longrightarrow> e' = e"
  by (simp add: same_entry_def)

section \<open>Properties\<close>

text \<open>
  C16. The guest's log is what the log service stores: when a guest reads its configuration, logs
  lines and reports its result, the host's handler forwards these lines to the upload of the job,
  and at every moment of the upload, when \<open>k\<close> messages have been sent, the service holds exactly
  the first \<open>k\<close> lines of the log, that is the claim line followed by the guest's entries in their
  order, each formatted with its level, target, message and fields and numbered from one. The codecs
  and the reader of JSON lines read back what is printed, the store obeys its map contract, its writes
  succeed, and it starts without lines of the job.
\<close>

theorem guest_log_is_stored:
  assumes "codec_ok host_to_vec host_from_slice (Host_Job_Config c)"
    and "codec_ok gt_vec gf_slice (Guest_Ready (jc_id c))"
    and "\<forall>e \<in> set es. codec_ok gt_vec gf_slice (guest_log (jc_id c) e)"
    and "codec_ok gt_vec gf_slice (Guest_Complete (jc_id c) b)"
    and "gs = empty_stream\<lparr>st_in := frames host_to_vec [Host_Job_Config c]\<rparr>"
    and "first = initial_log_entry u cpu_count memory_mb"
    and rb: "\<forall>e \<in> set (first # es). reads_back parse to_string e"
    and "json_lines_law read_lines print"
    and prints: "\<forall>t \<in> set ts. \<forall>e \<in> set (first # es). \<forall>e'. same_entry e e' \<longrightarrow> print (entry_log t e') \<noteq> None"
    and "put_law put view" and "\<forall>k v db. put k v db \<noteq> None"
    and "\<forall>k. u @ ''-'' \<le> k \<and> k < range_max u \<longrightarrow> view db k = None"
    and len: "length ts = Suc (length es)" "Suc (length es) < 2 ^ 63"
  shows "\<exists>r r' hs cs' es'. receive_config_from_host host_from_slice gt_vec [Some gs] = Ok (c, r)
    \<and> report_complete gt_vec b (drain_logs gt_vec es r) = (Ok (), r')
    \<and> handle_guest_connection host_to_vec gf_slice to_string c
        (empty_stream\<lparr>st_in := st_out (jr_stream r')\<rparr>) empty_connection = (Ok (), hs, cs')
    \<and> cs_logs cs' = List.map_filter to_string es
    \<and> list_all2 same_entry (first # es) es'
    \<and> (\<forall>k \<le> Suc (length es).
         holds_lines view u (stored_line to_vec (map2 entry_log ts es')) k
           (post_logs put to_vec u (read_lines (upload_body parse print (take k ts)
              (take k (channel_messages to_string first (cs_logs cs'))))) db))"
proof -
  obtain r where r: "receive_config_from_host host_from_slice gt_vec [Some gs] = Ok (c, r)"
    and s: "let (res, r') = report_complete gt_vec b (drain_logs gt_vec es r);
         (res', hs, cs') = handle_guest_connection host_to_vec gf_slice to_string c
           (empty_stream\<lparr>st_in := st_out (jr_stream r')\<rparr>) empty_connection
     in res = Ok () \<and> res' = Ok () \<and> cs_result cs' = Some (Some b) \<and> cs_notified cs'
        \<and> st_out hs = st_in gs \<and> cs_logs cs' = cs_logs empty_connection @ List.map_filter to_string es"
    using guest_session [OF assms(1-5), of empty_connection to_string]
    by (auto simp: empty_connection_def)
  obtain r' hs cs' where r': "report_complete gt_vec b (drain_logs gt_vec es r) = (Ok (), r')"
    and h: "handle_guest_connection host_to_vec gf_slice to_string c
        (empty_stream\<lparr>st_in := st_out (jr_stream r')\<rparr>) empty_connection = (Ok (), hs, cs')"
    and logs: "cs_logs cs' = List.map_filter to_string es"
    using s by (auto simp: empty_connection_def split: prod.splits)
  from reads_back_list [OF rb] obtain es' where same: "list_all2 same_entry (first # es) es'"
    and ms: "list_all2 (\<lambda>s e. parse s = Some e) (List.map_filter to_string (first # es)) es'" by blast
  have ch: "channel_messages to_string first (cs_logs cs') = List.map_filter to_string (first # es)"
    by (simp add: channel_messages_def logs map_filter_simps split: option.split)
  have n: "length es' = Suc (length es)" using list_all2_lengthD [OF same] by simp
  have "\<exists>e \<in> set (first # es). same_entry e e'" if "e' \<in> set es'" for e'
    using same that by (metis in_set_conv_nth list_all2_conv_all_nth)
  then have "print (entry_log t e') \<noteq> None" if "t \<in> set ts" "e' \<in> set es'" for t e'
    using prints that by blast
  then have p: "\<forall>l \<in> set (map2 entry_log ts es'). print l \<noteq> None"
    using set_zip_leftD set_zip_rightD by fastforce
  have "holds_lines view u (stored_line to_vec (map2 entry_log ts es')) k
      (post_logs put to_vec u (read_lines (upload_body parse print (take k ts)
         (take k (channel_messages to_string first (cs_logs cs'))))) db)" if "k \<le> Suc (length es)" for k
    unfolding ch using posted_prefix_holds_lines [OF assms(8,10-12) ms _ p] len n that by simp
  then show ?thesis using r r' h logs same by blast
qed

theorem guest_log_is_stored_witness:
  "\<exists>es'. list_all2 same_entry [demo_first, demo_line] es' \<and>
     holds_lines map_of ''u'' (stored_line lw_message (map2 entry_log [''t'', ''t''] es')) 2
       (post_logs demo_put lw_message ''u'' (demo_read_lines
          (upload_body demo_parse_entry demo_print_log [''t'', ''t''] [''0'', ''1''])) [])"
proof -
  have rb: "\<forall>e \<in> set (demo_first # [demo_line]). reads_back demo_parse_entry demo_print_entry e"
    using demo_entries by (simp add: reads_back_def demo_print_entry_def demo_parse_entry_def same_entry_def)
  have prints: "\<forall>t \<in> set [''t'', ''t'']. \<forall>e \<in> set (demo_first # [demo_line]). \<forall>e'.
      same_entry e e' \<longrightarrow> demo_print_log (entry_log t e') \<noteq> None"
    using demo_entries by (auto dest!: same_entry_no_fields simp: demo_print_log_def)
  have logs: "\<forall>e \<in> set [demo_line]. codec_ok demo_to_vec demo_from_slice (guest_log (jc_id demo_job) e)"
    "codec_ok demo_to_vec demo_from_slice (Guest_Ready (jc_id demo_job))"
    "codec_ok demo_to_vec demo_from_slice (Guest_Complete (jc_id demo_job) True)"
    using demo_codec by (simp_all add: demo_job_def)
  have demo_logs: "List.map_filter demo_print_entry [demo_line] = [''1'']"
    "channel_messages demo_print_entry demo_first [''1''] = [''0'', ''1'']"
    using demo_entries by (simp_all add: channel_messages_def demo_print_entry_def map_filter_simps)
  obtain cs' :: connection_state and es' where cs: "cs_logs cs' = List.map_filter demo_print_entry [demo_line]"
    and same: "list_all2 same_entry [demo_first, demo_line] es'"
    and held: "\<forall>k \<le> Suc (length [demo_line]).
      holds_lines map_of ''u'' (stored_line lw_message (map2 entry_log [''t'', ''t''] es')) k
        (post_logs demo_put lw_message ''u'' (demo_read_lines (upload_body demo_parse_entry demo_print_log
           (take k [''t'', ''t''])
           (take k (channel_messages demo_print_entry demo_first (cs_logs cs'))))) [])"
    using guest_log_is_stored [OF demo_codec(1) logs(2,1,3) refl demo_first_def rb demo_json_lines prints
        demo_store_laws(1,3), where db = "[]" and to_vec = lw_message]
    by (auto simp del: frames_simps drain_logs.simps)
  have "take 2 (channel_messages demo_print_entry demo_first (cs_logs cs')) = [''0'', ''1'']"
    unfolding cs demo_logs by simp
  then show ?thesis
    using same held [rule_format, of 2] by auto
qed

end
