(* ===== verification/Database.thy ===== *)
theory Database
  imports Protocol
begin

section \<open>The backend's database and its outside: backend/src/schema.rs and the row types\<close>

text \<open>
  The tables as lists of records in the order the database holds them (a statement for every list
  covers every order), the constraints the migrations declare, and the world of a backend
  operation: the tables, the connected runners, the requests sent to GitHub and an environment
  that answers everything the program does not decide. Every statement, clock reading, fresh
  identifier and request is one interaction, numbered by \<open>bk_tick\<close>; each can fail or answer
  differently, so a statement for every environment covers every behaviour of the outside.
\<close>

text \<open>Timestamps are microseconds.\<close>

type_synonym time = int

datatype job_platform = Job_X86_64Linux | Job_AArch64Darwin

subsection \<open>Rows\<close>

record job =
  j_id :: uuid
  j_platform :: job_platform
  j_status :: job_status
  j_started_at :: "time option"
  j_finished_at :: "time option"
  j_runner_id :: "uuid option"
  j_cpus :: i32
  j_memory_mb :: i64
  j_retried_job_id :: "uuid option"
  j_created_at :: time
  j_previous_job_id :: "uuid option"

record runner_row =
  rr_id :: uuid
  rr_last_seen_at :: time
  rr_platform :: job_platform
  rr_created_at :: time

record github_instance =
  gn_id :: i32
  gn_host :: string

record github_owner =
  go_id :: i64
  go_login :: string
  go_name :: string
  go_instance_id :: i32
  go_is_user :: bool

record github_installation =
  gi_id :: i64
  gi_owner_id :: i64
  gi_disabled :: bool

record github_repo =
  gr_id :: i64
  gr_name :: string
  gr_is_private :: bool
  gr_owner_id :: i64
  gr_disabled :: bool
  gr_generate_pr :: "string option"

record github_commit =
  gc_id :: uuid
  gc_rev :: string
  gc_ref :: string
  gc_repo_id :: i64
  gc_author :: string
  gc_message :: string

record job_github =
  jg_job_id :: uuid
  jg_commit_id :: uuid
  jg_check_run_id :: i64

record db =
  db_jobs :: "job list"
  db_runners :: "runner_row list"
  db_instances :: "github_instance list"
  db_owners :: "github_owner list"
  db_installations :: "github_installation list"
  db_repos :: "github_repo list"
  db_commits :: "github_commit list"
  db_jobs_github :: "job_github list"

subsection \<open>Statements on a table\<close>

definition update_where :: "('r \<Rightarrow> bool) \<Rightarrow> ('r \<Rightarrow> 'r) \<Rightarrow> 'r list \<Rightarrow> 'r list" where
  "update_where P f rows = map (\<lambda>r. if P r then f r else r) rows"

definition has_key :: "('r \<Rightarrow> 'k) \<Rightarrow> 'k \<Rightarrow> 'r list \<Rightarrow> bool" where
  "has_key key k rows = list_ex (\<lambda>r. key r = k) rows"

definition by_key :: "('r \<Rightarrow> 'k) \<Rightarrow> 'k \<Rightarrow> 'r list \<Rightarrow> 'r option" where
  "by_key key k rows = find (\<lambda>r. key r = k) rows"

lemma has_key_iff: "has_key key k rows \<longleftrightarrow> k \<in> key ` set rows"
  by (auto simp: has_key_def list_ex_iff)

lemma by_key_None: "by_key key k rows = None \<longleftrightarrow> \<not> has_key key k rows"
  by (auto simp: by_key_def has_key_iff find_None_iff)

lemma by_key_Some: "by_key key k rows = Some r \<Longrightarrow> r \<in> set rows \<and> key r = k"
  by (auto simp: by_key_def find_Some_iff)

lemma by_key_in: "distinct (map key rows) \<Longrightarrow> r \<in> set rows \<Longrightarrow> by_key key (key r) rows = Some r"
  unfolding by_key_def by (induction rows) (auto simp: image_iff)

text \<open>
  An update of rows that keeps their key: what every \<open>UPDATE\<close> of the program relies on.
\<close>

locale row_update =
  fixes key :: "'r \<Rightarrow> 'k"
    and upd :: "'r \<Rightarrow> 'r"
  assumes key_upd: "key (upd r) = key r"
begin

lemma keys: "map key (update_where P upd rows) = map key rows"
  by (simp add: update_where_def key_upd)

lemma key_set: "key ` set (update_where P upd rows) = key ` set rows"
  using arg_cong [OF keys, of set] by simp

lemma has_key_update: "has_key key k (update_where P upd rows) = has_key key k rows"
  by (simp add: has_key_iff key_set)

lemma by_key_update:
  "by_key key k (update_where P upd rows) =
     map_option (\<lambda>r. if P r then upd r else r) (by_key key k rows)"
  unfolding by_key_def update_where_def by (induction rows) (auto simp: key_upd)

lemma by_key_other:
  "by_key key k rows = Some r \<Longrightarrow> \<not> P r \<Longrightarrow> by_key key k (update_where P upd rows) = Some r"
  by (simp add: by_key_update)

end

definition insert_row :: "('r \<Rightarrow> 'k) \<Rightarrow> 'r \<Rightarrow> 'r list \<Rightarrow> 'r list option" where
  "insert_row key r rows = (if has_key key (key r) rows then None else Some (rows @ [r]))"

definition upsert_row :: "('r \<Rightarrow> 'k) \<Rightarrow> 'r \<Rightarrow> ('r \<Rightarrow> 'r) \<Rightarrow> 'r list \<Rightarrow> 'r list" where
  "upsert_row key r upd rows =
     (if has_key key (key r) rows then update_where (\<lambda>x. key x = key r) upd rows else rows @ [r])"

lemma insert_row_Some:
  "insert_row key r rows = Some rows' \<longleftrightarrow> key r \<notin> key ` set rows \<and> rows' = rows @ [r]"
  by (auto simp: insert_row_def has_key_iff)

lemma by_key_append:
  "by_key key k (rows @ rows') = (case by_key key k rows of None \<Rightarrow> by_key key k rows' | Some r \<Rightarrow> Some r)"
  unfolding by_key_def by (induction rows) auto

subsection \<open>Constraints\<close>

text \<open>Primary keys are distinct and foreign keys point to existing rows (the migrations).\<close>

definition keys_ok :: "db \<Rightarrow> bool" where
  "keys_ok d \<longleftrightarrow> distinct (map j_id (db_jobs d)) \<and> distinct (map rr_id (db_runners d))
     \<and> distinct (map go_id (db_owners d)) \<and> distinct (map gi_id (db_installations d))
     \<and> distinct (map gr_id (db_repos d)) \<and> distinct (map gc_id (db_commits d))
     \<and> distinct (map jg_job_id (db_jobs_github d))"

definition refs_ok :: "db \<Rightarrow> bool" where
  "refs_ok d \<longleftrightarrow>
     (\<forall>j \<in> set (db_jobs d). \<forall>i. j_previous_job_id j = Some i \<or> j_retried_job_id j = Some i
        \<longrightarrow> has_key j_id i (db_jobs d))
     \<and> (\<forall>o' \<in> set (db_owners d). has_key gn_id (go_instance_id o') (db_instances d))
     \<and> (\<forall>i \<in> set (db_installations d). has_key go_id (gi_owner_id i) (db_owners d))
     \<and> (\<forall>r \<in> set (db_repos d). has_key go_id (gr_owner_id r) (db_owners d))
     \<and> (\<forall>c \<in> set (db_commits d). has_key gr_id (gc_repo_id c) (db_repos d))
     \<and> (\<forall>g \<in> set (db_jobs_github d). has_key j_id (jg_job_id g) (db_jobs d)
          \<and> has_key gc_id (jg_commit_id g) (db_commits d))"

definition db_ok :: "db \<Rightarrow> bool" where
  "db_ok d \<longleftrightarrow> keys_ok d \<and> refs_ok d"

text \<open>The database after the migrations.\<close>

definition db_new :: db where
  "db_new = \<lparr>db_jobs = [], db_runners = [], db_instances = [\<lparr>gn_id = 1, gn_host = ''github.com''\<rparr>],
     db_owners = [], db_installations = [], db_repos = [], db_commits = [], db_jobs_github = []\<rparr>"

lemma db_ok_new: "db_ok db_new"
  by (simp add: db_ok_def keys_ok_def refs_ok_def db_new_def)

subsection \<open>The world of a backend operation\<close>

datatype be_error =
    Not_Found
  | Rollback_Transaction
  | Database_Fault
  | Pool_Fault
  | Github_Fault
  | Other_Error string
  | Panicked_Task

datatype check_conclusion =
    Concluded_Cancelled | Concluded_Failure | Concluded_Success | Concluded_Timed_Out | Concluded_Skipped

datatype check_update = Check_In_Progress time | Check_Completed time check_conclusion

text \<open>Requests to GitHub: owner and repository first.\<close>

datatype github_call =
    Installation_Client u64
  | Create_Check_Run string string string string string uuid
  | Update_Check_Run string string u64 check_update
  | Get_Content string string string string

record github_reply =
  ga_ok :: bool
  ga_id :: u64
  ga_items :: "string option list"

record env =
  ev_pool :: "nat \<Rightarrow> bool"
  ev_statement :: "nat \<Rightarrow> bool"
  ev_uuid :: "nat \<Rightarrow> uuid"
  ev_now :: "nat \<Rightarrow> time"
  ev_locked :: "nat \<Rightarrow> uuid \<Rightarrow> bool"
  ev_github :: "nat \<Rightarrow> github_call \<Rightarrow> github_reply"
  ev_representable :: "time \<Rightarrow> bool"
  ev_uuid_str :: "uuid \<Rightarrow> string"
  ev_url_ok :: "string \<Rightarrow> bool"

record app_config =
  ac_base_url :: string
  ac_logger_url :: string
  ac_timeout_seconds :: u64
  ac_github_secret :: "string option"
  ac_zitadel_secret :: "string option"

text \<open>A spawned task that tells runners of a job: the runners known when it was spawned.\<close>

record broadcast =
  bc_message :: server_message
  bc_runners :: "uuid list"
  bc_platform :: string

record backend =
  bk_db :: db
  bk_runners :: "(uuid, server_message chan) hmap"
  bk_tasks :: "broadcast list"
  bk_calls :: "github_call list"
  bk_tick :: nat
  bk_env :: env
  bk_config :: app_config

type_synonym 'a be = "(backend, be_error, 'a) io"

definition next_tick :: "backend \<Rightarrow> backend" where
  "next_tick w = w\<lparr>bk_tick := Suc (bk_tick w)\<rparr>"

definition ask :: "(env \<Rightarrow> nat \<Rightarrow> 'a) \<Rightarrow> 'a be" where
  "ask f w = (Ok (f (bk_env w) (bk_tick w)), next_tick w)"

definition gets :: "(backend \<Rightarrow> 'a) \<Rightarrow> 'a be" where
  "gets f w = (Ok (f w), w)"

text \<open>A connection of the pool; one statement, with the database's clock; a request to GitHub.\<close>

definition pool_get :: "unit be" where
  "pool_get = and_then (ask ev_pool) (\<lambda>ok. if ok then ret () else throw Pool_Fault)"

definition statement :: "(time \<Rightarrow> db \<Rightarrow> (be_error + 'a) \<times> db) \<Rightarrow> 'a be" where
  "statement f w =
     (if ev_statement (bk_env w) (bk_tick w)
      then case f (ev_now (bk_env w) (bk_tick w)) (bk_db w) of
             (r, d) \<Rightarrow> (r, next_tick (w\<lparr>bk_db := d\<rparr>))
      else (Err Database_Fault, next_tick w))"

definition select :: "(db \<Rightarrow> 'a) \<Rightarrow> 'a be" where
  "select f = statement (\<lambda>_ d. (Ok (f d), d))"

definition select_first :: "(db \<Rightarrow> 'a list) \<Rightarrow> 'a be" where
  "select_first f = statement (\<lambda>_ d. (case f d of [] \<Rightarrow> Err Not_Found | r # _ \<Rightarrow> Ok r, d))"

definition execute :: "(db \<Rightarrow> db) \<Rightarrow> unit be" where
  "execute f = statement (\<lambda>_ d. (Ok (), f d))"

definition execute_checked :: "(db \<Rightarrow> db option) \<Rightarrow> unit be" where
  "execute_checked f =
     statement (\<lambda>_ d. case f d of None \<Rightarrow> (Err Database_Fault, d) | Some d' \<Rightarrow> (Ok (), d'))"

definition utc_now :: "time be" where
  "utc_now = ask ev_now"

definition now_v7 :: "uuid be" where
  "now_v7 = ask ev_uuid"

definition call_github :: "github_call \<Rightarrow> github_reply be" where
  "call_github c w =
     (let r = ev_github (bk_env w) (bk_tick w) c; w' = next_tick (w\<lparr>bk_calls := bk_calls w @ [c]\<rparr>)
      in if ga_ok r then (Ok r, w') else (Err Github_Fault, w'))"

text \<open>A transaction: begin and commit are statements, and a failure restores the tables.\<close>

definition transaction :: "'a be \<Rightarrow> 'a be" where
  "transaction m w =
     (case and_then (select (\<lambda>_. ()))
             (\<lambda>_. and_then m (\<lambda>a. and_then (select (\<lambda>_. ())) (\<lambda>_. ret a))) w of
        (r, w') \<Rightarrow> (r, if is_ok r then w' else w'\<lparr>bk_db := bk_db w\<rparr>))"

text \<open>\<open>unwrap\<close> panics the task; \<open>ok()\<close> and \<open>if let Ok\<close> look at the result instead.\<close>

definition unwrapped :: "'a be \<Rightarrow> 'a be" where
  "unwrapped m = map_err (\<lambda>_. Panicked_Task) m"

text \<open>A panic is not an error value: it passes through \<open>attempt\<close>.\<close>

definition inspect :: "'a be \<Rightarrow> (be_error + 'a) be" where
  "inspect m w = (case m w of (r, w') \<Rightarrow> (if r = Err Panicked_Task then Err Panicked_Task else Ok r, w'))"

end
