(* ===== verification/Jobs_Db.thy ===== *)
theory Jobs_Db
  imports Database
begin

section \<open>Jobs of the backend: backend/src/job/model.rs\<close>

text \<open>
  The job rows: the text form of their platform and status, and every operation of \<open>Job\<close>. A
  diesel statement is a statement of \<open>Database\<close>; \<open>&mut self\<close> operations return the changed job.
\<close>

subsection \<open>Platforms and statuses as text\<close>

fun job_platform_display :: "job_platform \<Rightarrow> string" where
  "job_platform_display Job_X86_64Linux = ''x86_64-linux''"
| "job_platform_display Job_AArch64Darwin = ''aarch64-darwin''"

definition job_platform_parse :: "string \<Rightarrow> job_platform option" where
  "job_platform_parse s =
     (if s = ''x86_64-linux'' then Some Job_X86_64Linux
      else if s = ''aarch64-darwin'' then Some Job_AArch64Darwin
      else None)"

definition job_platform_from_sql :: "string \<Rightarrow> string + job_platform" where
  "job_platform_from_sql s =
     (case job_platform_parse s of None \<Rightarrow> Err ''Unrecognized platform'' | Some p \<Rightarrow> Ok p)"

fun platform_of_job :: "job_platform \<Rightarrow> platform" where
  "platform_of_job Job_X86_64Linux = X86_64Linux"
| "platform_of_job Job_AArch64Darwin = AArch64Darwin"

fun job_platform_of :: "platform \<Rightarrow> job_platform" where
  "job_platform_of X86_64Linux = Job_X86_64Linux"
| "job_platform_of AArch64Darwin = Job_AArch64Darwin"

lemma job_platform_inverse [simp]:
  "job_platform_of (platform_of_job p) = p" "platform_of_job (job_platform_of q) = q"
  by (cases p; simp) (cases q; simp)

lemma job_platform_text: "job_platform_display p = platform_display (platform_of_job p)"
  by (cases p) simp_all

lemma job_platform_parse_Some: "job_platform_parse s = Some p \<longleftrightarrow> s = job_platform_display p"
  by (cases p) (auto simp: job_platform_parse_def)

lemma job_platform_display_inj [simp]: "job_platform_display p = job_platform_display q \<longleftrightarrow> p = q"
  by (cases p; cases q) simp_all

fun status_to_sql :: "job_status \<Rightarrow> string" where
  "status_to_sql Queued = ''queued''"
| "status_to_sql Running = ''running''"
| "status_to_sql (Complete Failed) = ''failed''"
| "status_to_sql (Complete Success) = ''success''"
| "status_to_sql (Complete Cancelled) = ''cancelled''"
| "status_to_sql (Complete TimedOut) = ''timed_out''"
| "status_to_sql (Complete Skipped) = ''skipped''"

definition status_from_sql :: "string \<Rightarrow> string + job_status" where
  "status_from_sql s =
     (if s = ''queued'' then Ok Queued
      else if s = ''running'' then Ok Running
      else if s = ''failed'' then Ok (Complete Failed)
      else if s = ''success'' then Ok (Complete Success)
      else if s = ''cancelled'' then Ok (Complete Cancelled)
      else if s = ''timed_out'' then Ok (Complete TimedOut)
      else if s = ''skipped'' then Ok (Complete Skipped)
      else Err ''Unrecognized status'')"

lemma status_from_to_sql [simp]: "status_from_sql (status_to_sql s) = Ok s"
  by (cases s rule: status_to_sql.cases) (simp_all add: status_from_sql_def)

lemma status_from_sql_Ok: "status_from_sql t = Ok s \<Longrightarrow> t = status_to_sql s"
  unfolding status_from_sql_def by (auto split: if_splits)

subsection \<open>Creating and reading jobs\<close>

definition update_jobs :: "(job \<Rightarrow> bool) \<Rightarrow> (job \<Rightarrow> job) \<Rightarrow> db \<Rightarrow> db" where
  "update_jobs P f d = d\<lparr>db_jobs := update_where P f (db_jobs d)\<rparr>"

text \<open>An insertion fails on an existing key or a previous job that does not exist.\<close>

definition insert_job :: "job \<Rightarrow> db \<Rightarrow> (be_error + job) \<times> db" where
  "insert_job j d =
     (if (case j_previous_job_id j of None \<Rightarrow> False | Some p \<Rightarrow> \<not> has_key j_id p (db_jobs d))
      then (Err Database_Fault, d)
      else (case insert_row j_id j (db_jobs d) of
              None \<Rightarrow> (Err Database_Fault, d)
            | Some rows \<Rightarrow> (Ok j, d\<lparr>db_jobs := rows\<rparr>)))"

definition queued_job :: "uuid \<Rightarrow> job_platform \<Rightarrow> i32 \<Rightarrow> i64 \<Rightarrow> uuid option \<Rightarrow> time \<Rightarrow> job" where
  "queued_job i p cpus mem prev t =
     \<lparr>j_id = i, j_platform = p, j_status = Queued, j_started_at = None, j_finished_at = None,
      j_runner_id = None, j_cpus = cpus, j_memory_mb = mem, j_retried_job_id = None,
      j_created_at = t, j_previous_job_id = prev\<rparr>"

definition job_new :: "job_platform \<Rightarrow> i32 option \<Rightarrow> i64 option \<Rightarrow> job be" where
  "job_new p cpus mem =
     and_then now_v7
       (\<lambda>i. statement (\<lambda>t. insert_job (queued_job i p (unwrap_or cpus 2) (unwrap_or mem 256) None t)))"

definition job_get_by_id :: "uuid \<Rightarrow> job be" where
  "job_get_by_id i = select_first (\<lambda>d. filter (\<lambda>j. j_id j = i) (db_jobs d))"

subsection \<open>Changing a job\<close>

definition job_set_status :: "job \<Rightarrow> job_status \<Rightarrow> job be" where
  "job_set_status j s =
     and_then (execute (update_jobs (\<lambda>r. j_id r = j_id j) (\<lambda>r. r\<lparr>j_status := s\<rparr>)))
       (\<lambda>_. ret (j\<lparr>j_status := s\<rparr>))"

definition assigned :: "uuid \<Rightarrow> time \<Rightarrow> job \<Rightarrow> job" where
  "assigned r t j = j\<lparr>j_runner_id := Some r, j_started_at := Some t, j_status := Running\<rparr>"

definition assign_to_runner :: "job \<Rightarrow> uuid \<Rightarrow> job be" where
  "assign_to_runner j r =
     and_then utc_now
       (\<lambda>t. and_then (execute (update_jobs (\<lambda>x. j_id x = j_id j) (assigned r t)))
          (\<lambda>_. ret (assigned r t j)))"

definition completed :: "completion_status \<Rightarrow> time \<Rightarrow> job \<Rightarrow> job" where
  "completed c t j = j\<lparr>j_finished_at := Some t, j_status := Complete c\<rparr>"

definition job_complete :: "job \<Rightarrow> completion_status \<Rightarrow> job be" where
  "job_complete j c =
     and_then utc_now
       (\<lambda>t. and_then (execute (update_jobs (\<lambda>x. j_id x = j_id j) (completed c t)))
          (\<lambda>_. ret (completed c t j)))"

text \<open>
  Expired jobs: the subtraction of the timeout panics when the result (or the timeout itself) is
  not a representable time. A job without a start is never less than the cutoff.
\<close>

definition micros :: int where
  "micros = 1000000"

definition expired_before :: "time \<Rightarrow> job \<Rightarrow> bool" where
  "expired_before cutoff j \<longleftrightarrow> j_status j = Running
     \<and> (case j_started_at j of None \<Rightarrow> False | Some t \<Rightarrow> t < cutoff)"

definition find_expired_jobs :: "u64 \<Rightarrow> job list be" where
  "find_expired_jobs timeout_seconds =
     and_then utc_now
       (\<lambda>now. let cutoff = now - sint timeout_seconds * micros in
          and_then (ask (\<lambda>e _. ev_representable e (sint timeout_seconds * micros) \<and> ev_representable e cutoff))
            (\<lambda>ok. if ok then select (\<lambda>d. filter (expired_before cutoff) (db_jobs d))
                  else throw Panicked_Task))"

definition claimed_by :: "uuid \<Rightarrow> job \<Rightarrow> job" where
  "claimed_by r j = j\<lparr>j_status := Running, j_runner_id := Some r\<rparr>"

definition claimable :: "uuid \<Rightarrow> job \<Rightarrow> bool" where
  "claimable i j \<longleftrightarrow> j_id j = i \<and> j_status j = Queued"

text \<open>The number of rows the update changed.\<close>

definition claim_job_for_runner :: "uuid \<Rightarrow> uuid \<Rightarrow> nat be" where
  "claim_job_for_runner i r =
     statement (\<lambda>_ d. (Ok (length (filter (claimable i) (db_jobs d))),
                       update_jobs (claimable i) (claimed_by r) d))"

definition db_update_job_status :: "uuid \<Rightarrow> job_status \<Rightarrow> unit be" where
  "db_update_job_status i s = execute (update_jobs (\<lambda>j. j_id j = i) (\<lambda>j. j\<lparr>j_status := s\<rparr>))"

definition first_by_id :: "job list \<Rightarrow> job option" where
  "first_by_id js = (if js = [] then None else Some (arg_min_list j_id js))"

definition available_for :: "job_platform \<Rightarrow> job \<Rightarrow> bool" where
  "available_for p j \<longleftrightarrow> j_status j = Queued \<and> j_runner_id j = None \<and> j_platform j = p"

text \<open>Rows another transaction has locked are skipped.\<close>

definition find_queued_job_for_platform :: "job_platform \<Rightarrow> job option be" where
  "find_queued_job_for_platform p =
     and_then (ask ev_locked)
       (\<lambda>locked. select (\<lambda>d. first_by_id (filter (\<lambda>j. available_for p j \<and> \<not> locked (j_id j)) (db_jobs d))))"

subsection \<open>Retrying and cancelling\<close>

definition is_retryable :: "job \<Rightarrow> bool" where
  "is_retryable j = (case j_status j of Complete c \<Rightarrow> c \<noteq> Success | _ \<Rightarrow> False)"

text \<open>The link is a foreign key.\<close>

definition link_retried :: "uuid \<Rightarrow> uuid \<Rightarrow> db \<Rightarrow> db option" where
  "link_retried i k d =
     (if has_key j_id i (db_jobs d) \<and> \<not> has_key j_id k (db_jobs d) then None
      else Some (update_jobs (\<lambda>x. j_id x = i) (\<lambda>x. x\<lparr>j_retried_job_id := Some k\<rparr>) d))"

definition job_retry :: "job \<Rightarrow> job be" where
  "job_retry j =
     (if is_retryable j
      then and_then now_v7
        (\<lambda>i. and_then (statement (\<lambda>t. insert_job
                (queued_job i (j_platform j) (j_cpus j) (j_memory_mb j) (Some (j_id j)) t)))
          (\<lambda>retried. and_then (execute_checked (link_retried (j_id j) (j_id retried)))
            (\<lambda>_. ret retried)))
      else throw Rollback_Transaction)"

definition is_cancellable :: "job \<Rightarrow> bool" where
  "is_cancellable j = (j_status j = Queued \<or> j_status j = Running)"

definition job_cancel :: "uuid \<Rightarrow> (bool \<times> job option) be" where
  "job_cancel i =
     transaction
       (and_then (select_first (\<lambda>d. filter (\<lambda>j. j_id j = i) (db_jobs d)))
          (\<lambda>j. case j_status j of
             Queued \<Rightarrow> and_then (job_complete j Cancelled) (\<lambda>j. ret (True, Some j))
           | Running \<Rightarrow> and_then (job_complete j Cancelled) (\<lambda>j. ret (True, Some j))
           | Complete _ \<Rightarrow> ret (False, Some j)))"

text \<open>The join of a job with its GitHub data.\<close>

definition github_details :: "uuid \<Rightarrow> db \<Rightarrow> (job \<times> job_github \<times> github_commit) list" where
  "github_details i d =
     [(j, g, c). j \<leftarrow> db_jobs d, j_id j = i, g \<leftarrow> db_jobs_github d, jg_job_id g = j_id j,
                 c \<leftarrow> db_commits d, gc_id c = jg_commit_id g]"

definition get_with_github_details :: "uuid \<Rightarrow> (job \<times> job_github \<times> github_commit) be" where
  "get_with_github_details i = select_first (github_details i)"

text \<open>Sizes are signed in the table and unsigned in a machine: \<open>as\<close> sign-extends.\<close>

definition to_vm_config :: "job \<Rightarrow> vm" where
  "to_vm_config j = \<lparr>vm_cpu_count = scast (j_cpus j), vm_memory_size_mb = j_memory_mb j,
     vm_platform = platform_of_job (j_platform j)\<rparr>"

definition log_url :: "env \<Rightarrow> string \<Rightarrow> uuid \<Rightarrow> string" where
  "log_url e base i = base @ ''/'' @ ev_uuid_str e i"

end
