(* ===== verification/Runner_Registry.thy ===== *)
theory Runner_Registry
  imports Jobs_Db
begin

section \<open>Connected runners: backend/src/runner/model.rs and \<open>RunnerState\<close> of runner/serve.rs\<close>

text \<open>
  The rows of runners and the map from connected runners to the channel their websocket task
  reads. Sending to a runner never waits: a full or closed channel loses the message.
\<close>

subsection \<open>Rows\<close>

definition insert_runner :: "runner_row \<Rightarrow> db \<Rightarrow> (be_error + runner_row) \<times> db" where
  "insert_runner r d =
     (case insert_row rr_id r (db_runners d) of
        None \<Rightarrow> (Err Database_Fault, d)
      | Some rows \<Rightarrow> (Ok r, d\<lparr>db_runners := rows\<rparr>))"

text \<open>\<open>pool.get().await.unwrap()\<close>\<close>

definition pool_get_unwrapped :: "unit be" where
  "pool_get_unwrapped = unwrapped pool_get"

definition runner_row_new :: "job_platform \<Rightarrow> runner_row be" where
  "runner_row_new p =
     and_then pool_get_unwrapped
       (\<lambda>_. and_then now_v7
         (\<lambda>i. and_then utc_now
           (\<lambda>now. statement (\<lambda>t. insert_runner
              \<lparr>rr_id = i, rr_last_seen_at = now, rr_platform = p, rr_created_at = t\<rparr>))))"

definition runner_disconnected :: "uuid \<Rightarrow> unit be" where
  "runner_disconnected i =
     and_then pool_get_unwrapped
       (\<lambda>_. and_then utc_now
         (\<lambda>now. execute (\<lambda>d. d\<lparr>db_runners :=
            update_where (\<lambda>r. rr_id r = i) (\<lambda>r. r\<lparr>rr_last_seen_at := now\<rparr>) (db_runners d)\<rparr>)))"

definition get_platform :: "uuid \<Rightarrow> string be" where
  "get_platform i =
     select_first (\<lambda>d. map (\<lambda>r. job_platform_display (rr_platform r))
       (filter (\<lambda>r. rr_id r = i) (db_runners d)))"

definition matching_platforms :: "uuid list \<Rightarrow> string \<Rightarrow> db \<Rightarrow> uuid list" where
  "matching_platforms ids platform d =
     map rr_id (filter (\<lambda>r. rr_id r \<in> set ids \<and> job_platform_display (rr_platform r) = platform)
       (db_runners d))"

definition find_matching_platforms :: "uuid list \<Rightarrow> string \<Rightarrow> uuid list be" where
  "find_matching_platforms ids platform = select (matching_platforms ids platform)"

subsection \<open>Channels of connected runners\<close>

definition runner_channel :: "server_message chan" where
  "runner_channel = \<lparr>ch_queue = [], ch_cap = Some 32, ch_open = True\<rparr>"

definition runner_register :: "uuid \<Rightarrow> server_message chan \<Rightarrow> unit be" where
  "runner_register i tx = modify (\<lambda>w. w\<lparr>bk_runners := hm_insert i tx (bk_runners w)\<rparr>)"

definition runner_unregister :: "uuid \<Rightarrow> unit be" where
  "runner_unregister i = modify (\<lambda>w. w\<lparr>bk_runners := hm_remove i (bk_runners w)\<rparr>)"

definition try_send_to :: "uuid \<Rightarrow> server_message \<Rightarrow> bool be" where
  "try_send_to i msg w =
     (case hm_get (bk_runners w) i of
        None \<Rightarrow> (Ok False, w)
      | Some tx \<Rightarrow>
          (case chan_send msg tx of
             (outcome, tx') \<Rightarrow> (Ok (outcome = Sent), w\<lparr>bk_runners := hm_insert i tx' (bk_runners w)\<rparr>)))"

definition create_job_notification :: "job \<Rightarrow> server_message" where
  "create_job_notification j =
     NewJobAvailable (j_id j)
       \<lparr>vm_cpu_count = scast (j_cpus j), vm_memory_size_mb = j_memory_mb j,
        vm_platform = platform_of_job (j_platform j)\<rparr>"

text \<open>Spawns a task when any runner is connected; \<open>run_broadcast\<close> is what the task does.\<close>

definition broadcast_job_available :: "job \<Rightarrow> unit be" where
  "broadcast_job_available j =
     modify (\<lambda>w. if bk_runners w = [] then w
        else w\<lparr>bk_tasks := bk_tasks w @
          [\<lparr>bc_message = create_job_notification j, bc_runners = hm_keys (bk_runners w),
            bc_platform = job_platform_display (j_platform j)\<rparr>]\<rparr>)"

definition notify_runners_about_job :: "job \<Rightarrow> unit be" where
  "notify_runners_about_job = broadcast_job_available"

definition run_broadcast :: "broadcast \<Rightarrow> unit be" where
  "run_broadcast b =
     and_then (inspect pool_get)
       (\<lambda>conn. case conn of
          Inl _ \<Rightarrow> ret ()
        | Inr _ \<Rightarrow>
            and_then (inspect (find_matching_platforms (bc_runners b) (bc_platform b)))
              (\<lambda>res. case res of
                 Inl _ \<Rightarrow> ret ()
               | Inr ids \<Rightarrow>
                   for_each (\<lambda>i. and_then (try_send_to i (bc_message b)) (\<lambda>_. ret ())) ids))"

end
