(* ===== verification/Github_Db.thy ===== *)
theory Github_Db
  imports Runner_Registry
begin

section \<open>GitHub data of the backend: backend/src/github/model.rs\<close>

text \<open>
  Owners, installations, repositories, commits and the link between jobs and check runs, the
  queries over them, and the operations that keep a job and its check run together: creating a
  job, reporting a status. GitHub's API is a request of \<open>Database\<close> that may fail.
\<close>

subsection \<open>Owners and installations\<close>

definition owner_get_by_login :: "string \<Rightarrow> github_owner be" where
  "owner_get_by_login login = select_first (\<lambda>d. filter (\<lambda>x. go_login x = login) (db_owners d))"

definition upsert_owner_row :: "github_owner \<Rightarrow> db \<Rightarrow> db option" where
  "upsert_owner_row x d =
     (if has_key gn_id (go_instance_id x) (db_instances d)
      then Some (d\<lparr>db_owners := upsert_row go_id x
             (\<lambda>r. r\<lparr>go_login := go_login x, go_name := go_name x, go_instance_id := go_instance_id x,
                   go_is_user := go_is_user x\<rparr>) (db_owners d)\<rparr>)
      else None)"

definition owner_upsert :: "github_owner \<Rightarrow> unit be" where
  "owner_upsert x = execute_checked (upsert_owner_row x)"

definition installation_disable :: "i64 \<Rightarrow> bool \<Rightarrow> unit be" where
  "installation_disable i disabled =
     execute (\<lambda>d. d\<lparr>db_installations :=
       update_where (\<lambda>x. gi_id x = i) (\<lambda>x. x\<lparr>gi_disabled := disabled\<rparr>) (db_installations d)\<rparr>)"

definition active_installations :: "i64 \<Rightarrow> db \<Rightarrow> github_installation list" where
  "active_installations owner d =
     filter (\<lambda>x. gi_owner_id x = owner \<and> gi_disabled x = False) (db_installations d)"

definition get_for_owner_id :: "i64 \<Rightarrow> github_installation be" where
  "get_for_owner_id owner = select_first (active_installations owner)"

text \<open>On a conflict only \<open>disabled\<close> changes; a new row needs its owner.\<close>

definition upsert_installation_row :: "github_installation \<Rightarrow> db \<Rightarrow> db option" where
  "upsert_installation_row x d =
     (if has_key gi_id (gi_id x) (db_installations d) \<or> has_key go_id (gi_owner_id x) (db_owners d)
      then Some (d\<lparr>db_installations := upsert_row gi_id x (\<lambda>r. r\<lparr>gi_disabled := gi_disabled x\<rparr>)
             (db_installations d)\<rparr>)
      else None)"

definition installation_upsert :: "github_installation \<Rightarrow> unit be" where
  "installation_upsert x = execute_checked (upsert_installation_row x)"

subsection \<open>Repositories\<close>

definition repo_get_by_owner_and_name :: "i64 \<Rightarrow> string \<Rightarrow> github_repo be" where
  "repo_get_by_owner_and_name owner name =
     select_first (\<lambda>d. filter (\<lambda>r. gr_owner_id r = owner \<and> gr_name r = name) (db_repos d))"

definition update_generate_pr :: "i64 \<Rightarrow> string \<Rightarrow> string option \<Rightarrow> unit be" where
  "update_generate_pr owner name html_url =
     execute (\<lambda>d. d\<lparr>db_repos := update_where (\<lambda>r. gr_owner_id r = owner \<and> gr_name r = name)
       (\<lambda>r. r\<lparr>gr_generate_pr := html_url\<rparr>) (db_repos d)\<rparr>)"

text \<open>The derived change set skips a field that is \<open>None\<close>.\<close>

definition repo_changes :: "github_repo \<Rightarrow> github_repo \<Rightarrow> github_repo" where
  "repo_changes x r =
     r\<lparr>gr_name := gr_name x, gr_is_private := gr_is_private x, gr_owner_id := gr_owner_id x,
       gr_disabled := gr_disabled x,
       gr_generate_pr := (case gr_generate_pr x of None \<Rightarrow> gr_generate_pr r | Some u \<Rightarrow> Some u)\<rparr>"

definition upsert_repo_row :: "github_repo \<Rightarrow> db \<Rightarrow> db option" where
  "upsert_repo_row x d =
     (if has_key go_id (gr_owner_id x) (db_owners d)
      then Some (d\<lparr>db_repos := upsert_row gr_id x (repo_changes x) (db_repos d)\<rparr>)
      else None)"

definition repo_upsert :: "github_repo \<Rightarrow> unit be" where
  "repo_upsert x = execute_checked (upsert_repo_row x)"

definition webhook_repo_changes :: "github_repo \<Rightarrow> github_repo \<Rightarrow> github_repo" where
  "webhook_repo_changes x r =
     r\<lparr>gr_name := gr_name x, gr_is_private := gr_is_private x, gr_disabled := False\<rparr>"

definition upsert_webhook_repo :: "github_repo \<Rightarrow> db \<Rightarrow> (be_error + github_repo) \<times> db" where
  "upsert_webhook_repo x d =
     (if has_key gr_id (gr_id x) (db_repos d) \<or> has_key go_id (gr_owner_id x) (db_owners d)
      then (let rows = upsert_row gr_id x (webhook_repo_changes x) (db_repos d)
            in (case by_key gr_id (gr_id x) rows of None \<Rightarrow> Err Not_Found | Some r \<Rightarrow> Ok r,
                d\<lparr>db_repos := rows\<rparr>))
      else (Err Database_Fault, d))"

definition create_from_webhook :: "i64 \<Rightarrow> string \<Rightarrow> bool \<Rightarrow> i64 \<Rightarrow> github_repo be" where
  "create_from_webhook i name private owner =
     statement (\<lambda>_. upsert_webhook_repo
       \<lparr>gr_id = i, gr_name = name, gr_is_private = private, gr_owner_id = owner, gr_disabled = False,
        gr_generate_pr = None\<rparr>)"

definition repo_disable :: "i64 \<Rightarrow> unit be" where
  "repo_disable i =
     execute (\<lambda>d. d\<lparr>db_repos :=
       update_where (\<lambda>r. gr_id r = i) (\<lambda>r. r\<lparr>gr_disabled := True\<rparr>) (db_repos d)\<rparr>)"

subsection \<open>Commits\<close>

definition commit_get_by_id :: "uuid \<Rightarrow> github_commit be" where
  "commit_get_by_id i = select_first (\<lambda>d. filter (\<lambda>c. gc_id c = i) (db_commits d))"

text \<open>Newest first: identifiers are ordered by time.\<close>

definition commits_of_repo :: "i64 \<Rightarrow> db \<Rightarrow> github_commit list" where
  "commits_of_repo repo d =
     rev (sort_key gc_id (filter (\<lambda>c. gc_repo_id c = repo) (db_commits d)))"

definition get_latest_by_repo_id :: "i64 \<Rightarrow> github_commit be" where
  "get_latest_by_repo_id repo = select_first (commits_of_repo repo)"

definition get_by_repo_ordered :: "i64 \<Rightarrow> github_commit list be" where
  "get_by_repo_ordered repo = select (commits_of_repo repo)"

definition get_by_repo_and_rev :: "i64 \<Rightarrow> string \<Rightarrow> github_commit be" where
  "get_by_repo_and_rev repo sha =
     select_first (\<lambda>d. filter (\<lambda>c. gc_repo_id c = repo \<and> gc_rev c = sha) (db_commits d))"

definition insert_commit :: "github_commit \<Rightarrow> db \<Rightarrow> db option" where
  "insert_commit c d =
     (if has_key gr_id (gc_repo_id c) (db_repos d)
      then map_option (\<lambda>rows. d\<lparr>db_commits := rows\<rparr>) (insert_row gc_id c (db_commits d))
      else None)"

definition commit_create :: "github_commit \<Rightarrow> unit be" where
  "commit_create c = execute_checked (insert_commit c)"

subsection \<open>Joins with jobs\<close>

text \<open>Ordered by the text of the platform.\<close>

fun platform_rank :: "job_platform \<Rightarrow> nat" where
  "platform_rank Job_AArch64Darwin = 0"
| "platform_rank Job_X86_64Linux = 1"

definition by_platform :: "(job_github \<times> job) list \<Rightarrow> (job_github \<times> job) list" where
  "by_platform = sort_key (\<lambda>p. platform_rank (j_platform (snd p)))"

definition github_jobs :: "db \<Rightarrow> (job_github \<times> job) list" where
  "github_jobs d = [(g, j). g \<leftarrow> db_jobs_github d, j \<leftarrow> db_jobs d, j_id j = jg_job_id g]"

definition jobs_of_commit :: "uuid \<Rightarrow> db \<Rightarrow> (job_github \<times> job) list" where
  "jobs_of_commit c d = by_platform (filter (\<lambda>p. jg_commit_id (fst p) = c) (github_jobs d))"

definition get_jobs_by_commit_id :: "uuid \<Rightarrow> (job_github \<times> job) list be" where
  "get_jobs_by_commit_id c = select (jobs_of_commit c)"

definition get_all_jobs_for_commit :: "uuid \<Rightarrow> (job \<times> job_github) list be" where
  "get_all_jobs_for_commit c = select (\<lambda>d. map prod.swap (jobs_of_commit c d))"

definition jobs_of_repo :: "i64 \<Rightarrow> db \<Rightarrow> (job_github \<times> job) list" where
  "jobs_of_repo repo d =
     by_platform (filter (\<lambda>p. list_ex (\<lambda>c. gc_id c = jg_commit_id (fst p) \<and> gc_repo_id c = repo)
       (db_commits d)) (github_jobs d))"

definition get_jobs_for_repo :: "i64 \<Rightarrow> (job_github \<times> job) list be" where
  "get_jobs_for_repo repo = select (jobs_of_repo repo)"

definition owners_with_repos :: "db \<Rightarrow> (github_owner \<times> github_repo) list" where
  "owners_with_repos d =
     [(x, r). x \<leftarrow> db_owners d, i \<leftarrow> db_installations d, gi_owner_id i = go_id x \<and> gi_disabled i = False,
              r \<leftarrow> db_repos d, gr_owner_id r = go_id x \<and> gr_disabled r = False]"

definition get_owners_with_repos :: "(github_owner \<times> github_repo) list be" where
  "get_owners_with_repos = select owners_with_repos"

definition get_job_github :: "uuid \<Rightarrow> job_github be" where
  "get_job_github i = select_first (\<lambda>d. filter (\<lambda>g. jg_job_id g = i) (db_jobs_github d))"

definition repo_get :: "i64 \<Rightarrow> github_repo be" where
  "repo_get i = select_first (\<lambda>d. filter (\<lambda>r. gr_id r = i) (db_repos d))"

definition owner_get :: "i64 \<Rightarrow> github_owner be" where
  "owner_get i = select_first (\<lambda>d. filter (\<lambda>x. go_id x = i) (db_owners d))"

definition get_repo_and_owner :: "job_github \<Rightarrow> (github_repo \<times> github_owner) be" where
  "get_repo_and_owner g =
     and_then (commit_get_by_id (jg_commit_id g))
       (\<lambda>c. and_then (repo_get (gc_repo_id c))
         (\<lambda>r. and_then (owner_get (gr_owner_id r)) (\<lambda>x. ret (r, x))))"

definition get_installation_client :: "i64 \<Rightarrow> unit be" where
  "get_installation_client i = and_then (call_github (Installation_Client i)) (\<lambda>_. ret ())"

subsection \<open>Check runs\<close>

definition details_url :: "app_config \<Rightarrow> env \<Rightarrow> github_owner \<Rightarrow> github_repo \<Rightarrow> uuid \<Rightarrow> string" where
  "details_url c e x r i =
     ac_base_url c @ ''/github/'' @ go_login x @ ''/'' @ gr_name r @ ''#'' @ ev_uuid_str e i"

definition check_run_name :: "job \<Rightarrow> string" where
  "check_run_name j = ''devenv ('' @ job_platform_display (j_platform j) @ '')''"

definition create_check_run :: "github_owner \<Rightarrow> github_repo \<Rightarrow> job \<Rightarrow> string \<Rightarrow> i64 be" where
  "create_check_run x r j sha =
     and_then (gets (\<lambda>w. details_url (bk_config w) (bk_env w) x r (j_id j)))
       (\<lambda>url. and_then
          (call_github (Create_Check_Run (go_login x) (gr_name r) (check_run_name j) sha url (j_id j)))
          (\<lambda>reply. ret (ga_id reply)))"

definition create_github_check_run :: "job \<Rightarrow> github_commit \<Rightarrow> i64 be" where
  "create_github_check_run j c =
     and_then (repo_get (gc_repo_id c))
       (\<lambda>r. and_then (owner_get (gr_owner_id r))
         (\<lambda>x. and_then (get_for_owner_id (go_id x))
           (\<lambda>i. and_then (get_installation_client (gi_id i))
             (\<lambda>_. create_check_run x r j (gc_rev c)))))"

definition insert_job_github :: "job_github \<Rightarrow> db \<Rightarrow> (be_error + job_github) \<times> db" where
  "insert_job_github g d =
     (if has_key j_id (jg_job_id g) (db_jobs d) \<and> has_key gc_id (jg_commit_id g) (db_commits d)
      then (case insert_row jg_job_id g (db_jobs_github d) of
              None \<Rightarrow> (Err Database_Fault, d)
            | Some rows \<Rightarrow> (Ok g, d\<lparr>db_jobs_github := rows\<rparr>))
      else (Err Database_Fault, d))"

definition create_with_check_run :: "job \<Rightarrow> github_commit \<Rightarrow> job_github be" where
  "create_with_check_run j c =
     and_then (create_github_check_run j c)
       (\<lambda>k. statement (\<lambda>_. insert_job_github
          \<lparr>jg_job_id = j_id j, jg_commit_id = gc_id c, jg_check_run_id = k\<rparr>))"

definition set_check_run :: "uuid \<Rightarrow> i64 \<Rightarrow> db \<Rightarrow> (be_error + job_github) \<times> db" where
  "set_check_run i k d =
     (let rows = update_where (\<lambda>g. jg_job_id g = i) (\<lambda>g. g\<lparr>jg_check_run_id := k\<rparr>) (db_jobs_github d)
      in (case by_key jg_job_id i rows of None \<Rightarrow> Err Not_Found | Some g \<Rightarrow> Ok g,
          d\<lparr>db_jobs_github := rows\<rparr>))"

definition create_check_run_for_job :: "job \<Rightarrow> github_commit \<Rightarrow> job_github be" where
  "create_check_run_for_job j c =
     and_then (create_github_check_run j c) (\<lambda>k. statement (\<lambda>_. set_check_run (j_id j) k))"

subsection \<open>Reporting a status, creating a job\<close>

fun conclusion_of :: "completion_status \<Rightarrow> check_conclusion" where
  "conclusion_of Cancelled = Concluded_Cancelled"
| "conclusion_of Failed = Concluded_Failure"
| "conclusion_of Success = Concluded_Success"
| "conclusion_of TimedOut = Concluded_Timed_Out"
| "conclusion_of Skipped = Concluded_Skipped"

definition update_check_run :: "github_owner \<Rightarrow> github_repo \<Rightarrow> job_github \<Rightarrow> check_update \<Rightarrow> unit be" where
  "update_check_run x r g u =
     and_then (call_github (Update_Check_Run (go_login x) (gr_name r) (jg_check_run_id g) u)) (\<lambda>_. ret ())"

definition github_update_status :: "job_status \<Rightarrow> uuid \<Rightarrow> unit be" where
  "github_update_status status i =
     and_then pool_get
       (\<lambda>_. and_then (get_job_github i)
         (\<lambda>g. and_then (get_repo_and_owner g)
           (\<lambda>(r, x). and_then (get_for_owner_id (go_id x))
             (\<lambda>inst. and_then (get_installation_client (gi_id inst))
               (\<lambda>_. case status of
                  Queued \<Rightarrow> ret ()
                | Running \<Rightarrow>
                    and_then utc_now
                      (\<lambda>now. and_then (update_check_run x r g (Check_In_Progress now))
                        (\<lambda>_. execute (update_jobs (\<lambda>j. j_id j = jg_job_id g)
                               (\<lambda>j. j\<lparr>j_started_at := Some now\<rparr>))))
                | Complete c \<Rightarrow>
                    and_then utc_now
                      (\<lambda>now. and_then (update_check_run x r g (Check_Completed now (conclusion_of c)))
                        (\<lambda>_. execute (update_jobs (\<lambda>j. j_id j = jg_job_id g)
                               (\<lambda>j. j\<lparr>j_finished_at := Some now\<rparr>)))))))))"

text \<open>Sizes of a machine are stored signed, \<open>as i32\<close> keeping the low 32 bits.\<close>

definition github_create_job :: "uuid \<Rightarrow> string \<Rightarrow> i64 \<Rightarrow> vm \<Rightarrow> job_github be" where
  "github_create_job commit_id sha repo_id v =
     and_then pool_get
       (\<lambda>_. and_then (job_new (job_platform_of (vm_platform v)) (Some (ucast (vm_cpu_count v)))
                        (Some (vm_memory_size_mb v)))
         (\<lambda>j. and_then (repo_get repo_id)
           (\<lambda>r. and_then (owner_get (gr_owner_id r))
             (\<lambda>x. and_then (get_for_owner_id (go_id x))
               (\<lambda>inst. and_then (get_installation_client (gi_id inst))
                 (\<lambda>_. and_then (create_check_run x r j sha)
                   (\<lambda>k. and_then (statement (\<lambda>_. insert_job_github
                           \<lparr>jg_job_id = j_id j, jg_commit_id = commit_id, jg_check_run_id = k\<rparr>))
                     (\<lambda>g. and_then (job_get_by_id (j_id j))
                       (\<lambda>j'. and_then (notify_runners_about_job j') (\<lambda>_. ret g))))))))))"

definition commit_create_job :: "github_commit \<Rightarrow> vm \<Rightarrow> job_github be" where
  "commit_create_job c v = github_create_job (gc_id c) (gc_rev c) (gc_repo_id c) v"

text \<open>
  The signature of a webhook: \<open>hmac\<close> is HMAC-SHA256 of a key and a body, \<open>hex_decode\<close> the hex
  decoder.
\<close>

definition verify_webhook_signature ::
    "(string \<Rightarrow> u8 list \<Rightarrow> u8 list) \<Rightarrow> (string \<Rightarrow> u8 list option)
     \<Rightarrow> u8 list \<Rightarrow> string \<Rightarrow> string \<Rightarrow> string + unit" where
  "verify_webhook_signature hmac hex_decode body signature secret =
     (case strip_prefix ''sha256='' signature of
        None \<Rightarrow> Err ''Invalid signature format''
      | Some sig \<Rightarrow>
          (case hex_decode sig of
             None \<Rightarrow> Err ''Invalid hex''
           | Some bytes \<Rightarrow> if bytes = hmac secret body then Ok () else Err ''Invalid signature''))"

end
