(* ===== verification/Runner_Service.thy ===== *)
theory Runner_Service
  imports Github_Db
begin

section \<open>Serving runners: backend/src/runner/serve.rs\<close>

text \<open>
  The websocket task of one runner (its messages, what it sends back), the handler that starts
  it, and the periodic check for jobs that run too long. A turn of the task's loop is one event:
  a message of the runner, a closed or failed socket, or a message other tasks queued for the
  runner. A panic ends the task where it is.
\<close>

record session_world =
  sw_backend :: backend
  sw_sent :: "server_message list"
  sw_sends :: nat
  sw_send_ok :: "nat \<Rightarrow> bool"

type_synonym 'a sess = "(session_world, be_error, 'a) io"

definition on_backend :: "'a be \<Rightarrow> 'a sess" where
  "on_backend m w = (case m (sw_backend w) of (r, b) \<Rightarrow> (r, w\<lparr>sw_backend := b\<rparr>))"

text \<open>A send on the socket and whether it succeeded.\<close>

definition socket_send :: "server_message \<Rightarrow> bool sess" where
  "socket_send msg w =
     (let ok = sw_send_ok w (sw_sends w)
      in (Ok ok, w\<lparr>sw_sends := Suc (sw_sends w), sw_sent := sw_sent w @ (if ok then [msg] else [])\<rparr>))"

definition parsed_platform :: "string \<Rightarrow> job_platform" where
  "parsed_platform s = (case job_platform_parse s of None \<Rightarrow> Job_X86_64Linux | Some p \<Rightarrow> p)"

definition check_and_send_job :: "uuid \<Rightarrow> bool sess" where
  "check_and_send_job runner_id =
     and_then (on_backend pool_get_unwrapped)
       (\<lambda>_. and_then (on_backend (inspect (get_platform runner_id)))
         (\<lambda>platform. case platform of
            Inl _ \<Rightarrow> ret False
          | Inr text \<Rightarrow>
              and_then (on_backend (inspect (find_queued_job_for_platform (parsed_platform text))))
                (\<lambda>res. case res of
                   Inl _ \<Rightarrow> ret False
                 | Inr None \<Rightarrow> ret False
                 | Inr (Some j) \<Rightarrow> socket_send (create_job_notification j))))"

text \<open>The four messages of a runner.\<close>

definition handle_claim :: "uuid \<Rightarrow> uuid \<Rightarrow> vm \<Rightarrow> unit sess" where
  "handle_claim runner_id i v =
     and_then (on_backend pool_get_unwrapped)
       (\<lambda>_. and_then (on_backend (inspect (claim_job_for_runner i runner_id)))
         (\<lambda>res. let rows = (case res of Inl _ \<Rightarrow> 0 | Inr n \<Rightarrow> n)
            in if rows = 1
               then and_then (on_backend (inspect (github_update_status Running i)))
                 (\<lambda>_. and_then (on_backend (gets (\<lambda>b. (log_url (bk_env b) (ac_logger_url (bk_config b)) i, bk_env b))))
                   (\<lambda>(url, e). if ev_url_ok e url
                      then and_then (socket_send (JobClaimed i v url)) (\<lambda>_. ret ())
                      else throw Panicked_Task))
               else ret ()))"

definition handle_update :: "uuid \<Rightarrow> uuid \<Rightarrow> job_status \<Rightarrow> unit sess" where
  "handle_update runner_id i status =
     and_then (on_backend pool_get_unwrapped)
       (\<lambda>_. and_then (on_backend (inspect (db_update_job_status i status)))
         (\<lambda>_. and_then (on_backend (inspect (github_update_status status i)))
           (\<lambda>_. and_then (check_and_send_job runner_id) (\<lambda>_. ret ()))))"

fun handle_client_message :: "uuid \<Rightarrow> client_message \<Rightarrow> unit sess" where
  "handle_client_message r (ClaimJob i v) = handle_claim r i v"
| "handle_client_message r (UpdateJobStatus i status) = handle_update r i status"
| "handle_client_message r RequestJob = and_then (check_and_send_job r) (\<lambda>_. ret ())"
| "handle_client_message r (ReportMetrics m) = ret ()"

datatype session_event =
    Sv_Client client_message
  | Sv_Client_Closed
  | Sv_Client_Error
  | Sv_Queued

definition take_queued :: "uuid \<Rightarrow> server_message option option be" where
  "take_queued i w =
     (case hm_get (bk_runners w) i of
        None \<Rightarrow> (Ok None, w)
      | Some rx \<Rightarrow>
          (case chan_recv rx of
             (msg, rx') \<Rightarrow> (Ok (Some msg), w\<lparr>bk_runners := hm_insert i rx' (bk_runners w)\<rparr>)))"

text \<open>One turn of the loop, and whether the loop goes on. Without a queued message nothing happens.\<close>

fun session_turn :: "uuid \<Rightarrow> session_event \<Rightarrow> bool sess" where
  "session_turn r (Sv_Client m) = and_then (handle_client_message r m) (\<lambda>_. ret True)"
| "session_turn r Sv_Client_Closed = ret False"
| "session_turn r Sv_Client_Error = ret False"
| "session_turn r Sv_Queued =
     and_then (on_backend (take_queued r))
       (\<lambda>msg. case msg of
          None \<Rightarrow> ret False
        | Some None \<Rightarrow> ret True
        | Some (Some m) \<Rightarrow> socket_send m)"

text \<open>The task over a sequence of events: whether it has ended.\<close>

fun session_loop :: "uuid \<Rightarrow> session_event list \<Rightarrow> bool sess" where
  "session_loop r [] = ret False"
| "session_loop r (e # es) =
     and_then (session_turn r e) (\<lambda>continue. if continue then session_loop r es else ret True)"

text \<open>A panic drops the task's receiver: the channel is closed and the runner stays registered.\<close>

definition close_channel :: "uuid \<Rightarrow> unit be" where
  "close_channel i =
     modify (\<lambda>w. case hm_get (bk_runners w) i of
        None \<Rightarrow> w
      | Some rx \<Rightarrow> w\<lparr>bk_runners := hm_insert i (rx\<lparr>ch_open := False\<rparr>) (bk_runners w)\<rparr>)"

definition receiver_dropped :: "uuid \<Rightarrow> 'a sess \<Rightarrow> 'a sess" where
  "receiver_dropped r m w =
     (case m w of (res, w') \<Rightarrow> (res, if is_ok res then w' else snd (on_backend (close_channel r) w')))"

definition spawn_runner :: "uuid \<Rightarrow> session_event list \<Rightarrow> unit sess" where
  "spawn_runner r es =
     and_then (on_backend (runner_register r runner_channel))
       (\<lambda>_. receiver_dropped r (and_then (check_and_send_job r)
         (\<lambda>_. and_then (session_loop r es)
           (\<lambda>ended. if ended then on_backend (runner_unregister r) else ret ()))))"

text \<open>The handler: the platform header, the runner's row, the upgrade (or status 500).\<close>

definition ws_handler :: "string option \<Rightarrow> (nat + uuid) be" where
  "ws_handler header =
     and_then (inspect (runner_row_new (parsed_platform (unwrap_or header ''x86_64-linux''))))
       (\<lambda>res. case res of Inl _ \<Rightarrow> ret (Inl 500) | Inr r \<Rightarrow> ret (Inr (rr_id r)))"

subsection \<open>Timeouts\<close>

definition expire_job :: "job \<Rightarrow> unit be" where
  "expire_job j =
     (case j_runner_id j of
        None \<Rightarrow> ret ()
      | Some runner_id \<Rightarrow>
          and_then (try_send_to runner_id (JobTimedOut (j_id j)))
            (\<lambda>notified. if notified then ret ()
               else and_then pool_get_unwrapped
                 (\<lambda>_. and_then (inspect (job_complete j TimedOut))
                   (\<lambda>res. case res of
                      Inl _ \<Rightarrow> ret ()
                    | Inr _ \<Rightarrow>
                        and_then (inspect (github_update_status (Complete TimedOut) (j_id j)))
                          (\<lambda>_. ret ())))))"

definition check_timeouts :: "unit be" where
  "check_timeouts =
     and_then (gets (\<lambda>w. ac_timeout_seconds (bk_config w)))
       (\<lambda>timeout_seconds. and_then pool_get_unwrapped
         (\<lambda>_. and_then (inspect (find_expired_jobs timeout_seconds))
           (\<lambda>res. case res of
              Inl _ \<Rightarrow> ret ()
            | Inr jobs \<Rightarrow> for_each expire_job jobs)))"

end
