(* ===== verification/Auth.thy ===== *)
theory Auth
  imports Json Texts
begin

section \<open>Who may use the service: backend/src/auth.rs and zitadel/actions.rs\<close>

text \<open>
  The beta check on an introspected user, the extractor that guards every user-facing handler,
  and the identity provider's hooks that decide the claim the check reads. Introspection, the
  signature check of the hook and the JSON codec belong to the identity provider's library:
  arguments.
\<close>

record introspected_user =
  iu_sub :: string
  iu_project_roles :: "(string \<times> json) list"
  iu_org_roles :: "(string \<times> json) list"
  iu_custom_claims :: "(string \<times> json) list"
  iu_metadata :: "(string \<times> string) list"

definition roles_claim :: "string \<Rightarrow> bool" where
  "roles_claim name \<longleftrightarrow> starts_with name ''urn:zitadel:iam:org:project:'' \<and> ends_with name '':roles''"

definition claim_grants_beta :: "string \<times> json \<Rightarrow> bool" where
  "claim_grants_beta c = (case c of (name, v) \<Rightarrow> roles_claim name
     \<and> (case as_object v of None \<Rightarrow> False | Some kvs \<Rightarrow> hm_contains kvs ''beta_user''))"

definition direct_claim :: "json \<Rightarrow> bool" where
  "direct_claim v =
     ((case as_bool v of None \<Rightarrow> False | Some b \<Rightarrow> b)
      \<or> (case as_str v of None \<Rightarrow> False | Some s \<Rightarrow> to_lowercase s = ''true''))"

definition has_beta_access :: "introspected_user \<Rightarrow> bool" where
  "has_beta_access u =
     (if hm_contains (iu_project_roles u) ''beta_user'' then True
      else if hm_contains (iu_org_roles u) ''beta_user'' then True
      else if list_ex claim_grants_beta (iu_custom_claims u) then True
      else if (case hm_get (iu_custom_claims u) ''beta_access'' of None \<Rightarrow> False | Some v \<Rightarrow> direct_claim v)
      then True
      else (case hm_get (iu_metadata u) ''beta_access'' of
              None \<Rightarrow> False | Some s \<Rightarrow> to_lowercase s = ''true''))"

text \<open>\<open>BetaUser::from_request_parts\<close>: the introspected user is the argument.\<close>

definition beta_user_from_request :: "'e + introspected_user \<Rightarrow> string + introspected_user" where
  "beta_user_from_request introspection =
     (case introspection of
        Inl _ \<Rightarrow> Err ''Authentication required''
      | Inr u \<Rightarrow> if has_beta_access u then Ok u
                 else Err ''Beta access required. Please contact support to get beta access.'')"

text \<open>A handler behind the extractor: 403 without calling it.\<close>

definition guarded_handler ::
    "'e + introspected_user \<Rightarrow> (introspected_user \<Rightarrow> 'w \<Rightarrow> nat \<times> 'w) \<Rightarrow> 'w \<Rightarrow> nat \<times> 'w" where
  "guarded_handler introspection h w =
     (case beta_user_from_request introspection of Inl _ \<Rightarrow> (403, w) | Inr u \<Rightarrow> h u w)"

subsection \<open>The hooks of the identity provider\<close>

datatype webhook_error = Invalid_Signature | Invalid_Body string

text \<open>\<open>ActionResponse\<close>: claims and metadata added in order.\<close>

record action_response =
  ar_claims :: "(string \<times> string) list"
  ar_metadata :: "(string \<times> string) list"

definition action_response_default :: action_response where
  "action_response_default = \<lparr>ar_claims = [], ar_metadata = []\<rparr>"

definition add_claim :: "string \<Rightarrow> string \<Rightarrow> action_response \<Rightarrow> action_response" where
  "add_claim k v r = r\<lparr>ar_claims := ar_claims r @ [(k, v)]\<rparr>"

definition add_metadata :: "string \<Rightarrow> string \<Rightarrow> action_response \<Rightarrow> action_response" where
  "add_metadata k v r = r\<lparr>ar_metadata := ar_metadata r @ [(k, v)]\<rparr>"

definition bool_str :: "bool \<Rightarrow> string" where
  "bool_str b = (if b then ''true'' else ''false'')"

definition complement_token :: action_response where
  "complement_token = add_claim ''beta_access'' (bool_str False) action_response_default"

definition pre_userinfo_creation :: action_response where
  "pre_userinfo_creation = action_response_default"

definition grant_has_beta :: "json \<Rightarrow> bool" where
  "grant_has_beta grant =
     (case Option.bind (json_get ''roles'' grant) as_array of
        None \<Rightarrow> False
      | Some roles \<Rightarrow> list_ex (\<lambda>role. as_str role = Some ''beta_user'') roles)"

definition granted_beta :: "json \<Rightarrow> bool" where
  "granted_beta data =
     (case Option.bind (json_get ''user_grants'' data) as_array of
        None \<Rightarrow> False
      | Some grants \<Rightarrow> list_ex grant_has_beta grants)"

definition preuserinfo_response :: "json \<Rightarrow> action_response" where
  "preuserinfo_response data =
     add_metadata ''processed_by'' ''preuserinfo_handler''
       (add_metadata ''beta_access_metadata'' (bool_str (granted_beta data))
         (add_claim ''beta_access'' (bool_str (granted_beta data)) action_response_default))"

text \<open>\<open>to_value\<close> is the serialisation of the response, which may fail.\<close>

definition handle_preuserinfo ::
    "(action_response \<Rightarrow> string + json) \<Rightarrow> json \<Rightarrow> webhook_error + json" where
  "handle_preuserinfo to_value data =
     (case to_value (preuserinfo_response data) of Inl e \<Rightarrow> Err (Invalid_Body e) | Inr j \<Rightarrow> Ok j)"

text \<open>Setting a member of an object, keeping its position when it exists.\<close>

definition set_member :: "string \<Rightarrow> json \<Rightarrow> (string \<times> json) list \<Rightarrow> (string \<times> json) list" where
  "set_member k v kvs = hm_insert k v kvs"

definition named_profile :: "string \<Rightarrow> json \<Rightarrow> json" where
  "named_profile name profile =
     (case profile of
        JObject kvs \<Rightarrow>
          JObject (set_member ''familyName'' (JString ''-'') (set_member ''givenName'' (JString name) kvs))
      | _ \<Rightarrow> profile)"

definition in_member :: "string \<Rightarrow> (json \<Rightarrow> json) \<Rightarrow> json \<Rightarrow> json" where
  "in_member k f v =
     (case v of
        JObject kvs \<Rightarrow>
          (case hm_get kvs k of None \<Rightarrow> v | Some x \<Rightarrow> JObject (set_member k (f x) kvs))
      | _ \<Rightarrow> v)"

definition handle_retrieve_identity_provider_intent :: "json \<Rightarrow> json" where
  "handle_retrieve_identity_provider_intent data =
     (case json_get ''response'' data of
        None \<Rightarrow> JObject []
      | Some response \<Rightarrow>
          (case Option.bind (json_path [''idpInformation'', ''rawInformation'', ''name''] response) as_str of
             None \<Rightarrow> response
           | Some name \<Rightarrow>
               in_member ''addHumanUser'' (in_member ''profile'' (named_profile name)) response))"

text \<open>
  The endpoint: \<open>verify\<close> is the library's signature check under a secret, \<open>parse\<close> the JSON parser.
  The answer is a body, empty for methods that are not handled.
\<close>

definition zitadel_dispatch :: "(action_response \<Rightarrow> string + json) \<Rightarrow> json \<Rightarrow> webhook_error + json option" where
  "zitadel_dispatch to_value data =
     (let full_method = unwrap_or (Option.bind (json_get ''fullMethod'' data) as_str) [];
          func = unwrap_or (Option.bind (json_get ''function'' data) as_str) []
      in if func \<noteq> [] then
           (if func = ''function/preuserinfo''
            then (case handle_preuserinfo to_value data of Inl e \<Rightarrow> Err e | Inr j \<Rightarrow> Ok (Some j))
            else Ok None)
         else if full_method = ''/zitadel.user.v2.UserService/RetrieveIdentityProviderIntent''
         then Ok (Some (handle_retrieve_identity_provider_intent data))
         else Ok None)"

definition zitadel_webhook ::
    "(string \<Rightarrow> u8 list \<Rightarrow> string \<Rightarrow> bool) \<Rightarrow> (u8 list \<Rightarrow> string + json)
     \<Rightarrow> (action_response \<Rightarrow> string + json) \<Rightarrow> string option \<Rightarrow> string option \<Rightarrow> u8 list
     \<Rightarrow> webhook_error + json option" where
  "zitadel_webhook verify parse to_value secret signature body =
     (case secret of
        None \<Rightarrow> Err Invalid_Signature
      | Some secret \<Rightarrow>
          (case signature of
             None \<Rightarrow> Err Invalid_Signature
           | Some sig \<Rightarrow>
               if verify secret body sig
               then (case parse body of
                       Inl e \<Rightarrow> Err (Invalid_Body e)
                     | Inr data \<Rightarrow> zitadel_dispatch to_value data)
               else Err Invalid_Signature))"

end
