(* ===== verification/Job_Api.thy ===== *)
theory Job_Api
  imports Runner_Service Auth
begin

section \<open>The job endpoints: backend/src/job/serve.rs and the error responses of backend/src/error.rs\<close>

text \<open>
  Reading, cancelling and retrying a job. An endpoint that fails answers 500 whatever the error
  (\<open>Report::into_response\<close>), and so does one that panics (the router catches panics).
\<close>

record job_response =
  jr_job :: job
  jr_github :: job_github
  jr_commit :: github_commit
  jr_log_url :: string

text \<open>The status and body of a handler that returns a result.\<close>

definition report_response :: "'a be \<Rightarrow> backend \<Rightarrow> (nat \<times> 'a option) \<times> backend" where
  "report_response m w =
     (case m w of (r, w') \<Rightarrow> (case r of Inl _ \<Rightarrow> (500, None) | Inr a \<Rightarrow> (200, Some a), w'))"

definition job_log_url :: "job \<Rightarrow> string be" where
  "job_log_url j = gets (\<lambda>w. log_url (bk_env w) (ac_logger_url (bk_config w)) (j_id j))"

definition get_job_handler :: "uuid \<Rightarrow> job_response be" where
  "get_job_handler i =
     and_then pool_get
       (\<lambda>_. and_then (get_with_github_details i)
         (\<lambda>(j, g, c). and_then (job_log_url j)
           (\<lambda>url. ret \<lparr>jr_job = j, jr_github = g, jr_commit = c, jr_log_url = url\<rparr>)))"

definition original_completion :: "job_status \<Rightarrow> completion_status" where
  "original_completion s = (case s of Complete Skipped \<Rightarrow> Skipped | _ \<Rightarrow> Cancelled)"

definition notify_cancelled :: "completion_status \<Rightarrow> job \<Rightarrow> uuid \<Rightarrow> unit be" where
  "notify_cancelled c j i =
     (if c = Cancelled
      then (case j_runner_id j of
              None \<Rightarrow> ret ()
            | Some r \<Rightarrow> and_then (try_send_to r (JobCancelled i)) (\<lambda>_. ret ()))
      else ret ())"

text \<open>The status code of \<open>cancel_job\<close>.\<close>

definition cancel_job_handler :: "uuid \<Rightarrow> nat be" where
  "cancel_job_handler i =
     and_then pool_get_unwrapped
       (\<lambda>_. and_then (inspect (job_cancel i))
         (\<lambda>res. case res of
            Inr (True, Some j) \<Rightarrow>
              and_then (notify_cancelled (original_completion (j_status j)) j i)
                (\<lambda>_. and_then (inspect (github_update_status (Complete (original_completion (j_status j))) i))
                  (\<lambda>_. ret 200))
          | Inr (True, None) \<Rightarrow> ret 500
          | Inr (False, _) \<Rightarrow> ret 400
          | Inl e \<Rightarrow> ret (if e = Not_Found then 404 else 500)))"

definition retry_job_handler :: "uuid \<Rightarrow> job_response be" where
  "retry_job_handler i =
     and_then pool_get
       (\<lambda>_. and_then (map_err (\<lambda>_. Other_Error ''Job not found or missing GitHub data'')
                        (get_with_github_details i))
         (\<lambda>(j, _, c).
            if \<not> is_retryable j then throw (Other_Error ''Job cannot be retried'')
            else and_then (map_err (\<lambda>_. Other_Error ''Failed to create retry job'') (transaction (job_retry j)))
              (\<lambda>retried. and_then (map_err (\<lambda>_. Other_Error ''Job created but GitHub check run failed'')
                             (create_with_check_run retried c))
                (\<lambda>g. and_then (job_log_url retried)
                  (\<lambda>url. and_then (notify_runners_about_job retried)
                    (\<lambda>_. ret \<lparr>jr_job = retried, jr_github = g, jr_commit = c, jr_log_url = url\<rparr>))))))"

text \<open>The endpoints behind the beta check.\<close>

definition get_job_endpoint ::
    "'e + introspected_user \<Rightarrow> uuid \<Rightarrow> backend \<Rightarrow> nat \<times> backend" where
  "get_job_endpoint user i =
     guarded_handler user (\<lambda>_ w. case report_response (get_job_handler i) w of ((s, _), w') \<Rightarrow> (s, w'))"

definition cancel_job_endpoint ::
    "'e + introspected_user \<Rightarrow> uuid \<Rightarrow> backend \<Rightarrow> nat \<times> backend" where
  "cancel_job_endpoint user i =
     guarded_handler user (\<lambda>_ w. case cancel_job_handler i w of
        (Inl _, w') \<Rightarrow> (500, w') | (Inr s, w') \<Rightarrow> (s, w'))"

definition retry_job_endpoint ::
    "'e + introspected_user \<Rightarrow> uuid \<Rightarrow> backend \<Rightarrow> nat \<times> backend" where
  "retry_job_endpoint user i =
     guarded_handler user (\<lambda>_ w. case report_response (retry_job_handler i) w of ((s, _), w') \<Rightarrow> (s, w'))"

end
