(* ===== verification/Cloud_Config.thy ===== *)
theory Cloud_Config
  imports Jobs_Db
begin

section \<open>Machine configurations of a repository: backend/src/runner/cloudconfig.rs\<close>

text \<open>
  The \<open>cloud\<close> section of a devenv.yaml file becomes a list of machines. The YAML parser is not
  part of the repository: it is the argument \<open>from_yaml\<close>, which turns a text into the typed
  configuration (the defaults of missing fields included) or an error message.
\<close>

datatype platform_config = Simple string | Detailed string "string option" "u32 option"

record cloud =
  cl_memory :: "string option"
  cl_cpus :: "u32 option"
  cl_platforms :: "platform_config list option"

definition DEFAULT_MEMORY :: string where
  "DEFAULT_MEMORY = ''4gb''"

definition DEFAULT_CPUS :: u32 where
  "DEFAULT_CPUS = 2"

definition default_platforms :: "platform_config list" where
  "default_platforms = [Simple ''x86_64-linux'', Simple ''aarch64-darwin'']"

text \<open>Megabytes; the multiplication wraps around.\<close>

definition parse_memory :: "string \<Rightarrow> string + u32" where
  "parse_memory text =
     (let s = to_lowercase (trim text)
      in if ends_with s ''gb'' then
           (case parse_u32 (trim (trim_end_matches ''gb'' s)) of
              None \<Rightarrow> Err (''Invalid memory size: '' @ s)
            | Some num \<Rightarrow> Ok (num * 1024))
         else if ends_with s ''mb'' then
           (case parse_u32 (trim (trim_end_matches ''mb'' s)) of
              None \<Rightarrow> Err (''Invalid memory size: '' @ s)
            | Some num \<Rightarrow> Ok num)
         else Err (''Memory size must end with 'mb' or 'gb': '' @ s))"

fun config_parts :: "platform_config \<Rightarrow> string \<times> string option \<times> u32 option" where
  "config_parts (Simple name) = (name, None, None)"
| "config_parts (Detailed name memory cpus) = (name, memory, cpus)"

definition supported_platform :: "string \<Rightarrow> string + job_platform" where
  "supported_platform name =
     (if name = ''x86_64-linux'' then Ok Job_X86_64Linux
      else if name = ''aarch64-darwin'' then Ok Job_AArch64Darwin
      else Err (''Platform ' '' @ name
        @ '' ' is not supported. Only 'x86_64-linux' and 'aarch64-darwin' are allowed''))"

definition vm_of_config :: "u32 \<Rightarrow> u32 \<Rightarrow> platform_config \<Rightarrow> string + vm" where
  "vm_of_config cloud_memory_mb cloud_cpus pc =
     (case config_parts pc of (name, memory_opt, cpus_opt) \<Rightarrow>
        (case supported_platform name of
           Inl e \<Rightarrow> Err e
         | Inr platform \<Rightarrow>
             (case (case memory_opt of Some mem_str \<Rightarrow> parse_memory mem_str | None \<Rightarrow> Ok cloud_memory_mb) of
                Inl e \<Rightarrow> Err e
              | Inr memory_mb \<Rightarrow>
                  Ok \<lparr>vm_cpu_count = ucast (unwrap_or cpus_opt cloud_cpus),
                      vm_memory_size_mb = ucast memory_mb,
                      vm_platform = platform_of_job platform\<rparr>)))"

definition final_cloud_of :: "cloud \<Rightarrow> string + vm list" where
  "final_cloud_of cloud =
     (case parse_memory (unwrap_or (cl_memory cloud) DEFAULT_MEMORY) of
        Inl e \<Rightarrow> Err e
      | Inr cloud_memory_mb \<Rightarrow>
          collect_results
            (map (vm_of_config cloud_memory_mb (unwrap_or (cl_cpus cloud) DEFAULT_CPUS))
               (unwrap_or (cl_platforms cloud) default_platforms)))"

definition final_cloud_new :: "(string \<Rightarrow> string + cloud) \<Rightarrow> string \<Rightarrow> string + vm list" where
  "final_cloud_new from_yaml text =
     (case from_yaml (if trim text = [] then ''{}'' else text) of
        Inl e \<Rightarrow> Err (''Failed to parse YAML: '' @ e)
      | Inr cloud \<Rightarrow> final_cloud_of cloud)"

subsection \<open>Memory sizes\<close>

text \<open>A decimal number followed by a unit: a gigabyte is 1024 megabytes, modulo \<open>2\<^sup>3\<^sup>2\<close>.\<close>

lemma digit_facts:
  assumes "is_digit c"
  shows "\<not> is_space c" "to_lower c = c" "c \<noteq> CHR ''b''" "c \<noteq> CHR ''+''"
  using assms by (auto simp: is_digit_def is_space_def to_lower_def)

lemma lowercase_digits: "to_lowercase (dec_digits n) = dec_digits n"
  unfolding to_lowercase_def by (rule map_idI) (auto dest: dec_digits_digits digit_facts)

lemma trim_digits: "\<forall>c \<in> set u. \<not> is_space c \<Longrightarrow> trim (dec_digits n @ u) = dec_digits n @ u"
  by (rule trim_id) (auto dest: dec_digits_digits digit_facts)

lemma digits_no_unit: "\<not> ends_with (dec_digits n) [c, CHR ''b'']"
proof
  assume "ends_with (dec_digits n) [c, CHR ''b'']"
  then obtain r where "dec_digits n = r @ [c, CHR ''b'']" by (auto simp: ends_with_iff)
  then have "CHR ''b'' \<in> set (dec_digits n)" by simp
  then show False using dec_digits_digits digit_facts(3) by blast
qed

lemma trim_unit: "trim_end_matches [c, CHR ''b''] (dec_digits n @ [c, CHR ''b'']) = dec_digits n"
  by (simp add: trim_end_matches_step trim_end_matches_none digits_no_unit)

lemma parse_memory_units:
  assumes "n < 2 ^ 32"
  shows "parse_memory (dec_digits n @ ''gb'') = Ok (of_nat n * 1024)"
    and "parse_memory (dec_digits n @ ''mb'') = Ok (of_nat n)"
proof -
  have p: "parse_u32 (dec_digits n) = Some (of_nat n)"
    using assms by (intro parse_u32_digits) (simp add: unat_of_nat take_bit_nat_eq_self_iff)
  have t: "trim (dec_digits n) = dec_digits n" using trim_digits [of "[]" n] by simp
  have l: "to_lowercase (dec_digits n @ u) = dec_digits n @ to_lowercase u" for u
    using lowercase_digits [of n] by (simp add: to_lowercase_def)
  have u: "to_lowercase ''gb'' = ''gb''" "to_lowercase ''mb'' = ''mb''"
    by (simp_all add: to_lowercase_def to_lower_def)
  have e: "ends_with (dec_digits n @ ''gb'') ''gb''" "ends_with (dec_digits n @ ''mb'') ''mb''"
    "\<not> ends_with (dec_digits n @ ''mb'') ''gb''" by (auto simp: ends_with_iff)
  have s: "trim (dec_digits n @ ''gb'') = dec_digits n @ ''gb''" "trim (dec_digits n @ ''mb'') = dec_digits n @ ''mb''"
    by (rule trim_digits; simp add: is_space_def)+
  show "parse_memory (dec_digits n @ ''gb'') = Ok (of_nat n * 1024)"
    unfolding parse_memory_def Let_def s(1) l u(1) using e(1) by (simp add: trim_unit t p)
  show "parse_memory (dec_digits n @ ''mb'') = Ok (of_nat n)"
    unfolding parse_memory_def Let_def s(2) l u(2) using e(2,3) by (simp add: trim_unit t p)
qed

lemma parse_default_memory: "parse_memory DEFAULT_MEMORY = Ok 4096"
proof -
  have "digit_char 4 = CHR ''4''" by code_simp
  then have "DEFAULT_MEMORY = dec_digits 4 @ ''gb''"
    by (subst dec_digits.simps) (simp add: DEFAULT_MEMORY_def)
  then show ?thesis using parse_memory_units(1) [of 4] by simp
qed

end
