(* ===== verification/Github_Webhook.thy ===== *)
theory Github_Webhook
  imports Job_Api Cloud_Config
begin

section \<open>GitHub endpoints: backend/src/github/serve.rs\<close>

text \<open>
  The webhook that creates owners, repositories, commits and jobs, and the read endpoints of the
  user interface. Parsing an event (octocrab), HMAC, hex and the YAML parser are arguments.
\<close>

subsection \<open>Events\<close>

record account =
  ac_id :: u64
  ac_login :: string
  ac_type :: string

datatype event_installation = Full_Installation u64 account | Minimal_Installation u64

fun event_installation_id :: "event_installation \<Rightarrow> u64" where
  "event_installation_id (Full_Installation i _) = i"
| "event_installation_id (Minimal_Installation i) = i"

datatype installation_action =
    Ia_Created | Ia_Deleted | Ia_Suspend | Ia_Unsuspend | Ia_New_Permissions_Accepted | Ia_Other

record event_repo =
  er_id :: u64
  er_name :: string
  er_private :: bool

record repository =
  rp_id :: u64
  rp_name :: string
  rp_owner :: "account option"

text \<open>The author's handle and the message of a pushed commit.\<close>

record push_event =
  pu_ref :: string
  pu_after :: string
  pu_commits :: "(string option \<times> string) list"

record pull_event =
  pl_synchronize :: bool
  pl_ref :: string
  pl_sha :: string
  pl_repo :: "repository option"
  pl_user :: "string option"
  pl_title :: "string option"

datatype webhook_payload =
    Pl_Installation installation_action "event_repo list option"
  | Pl_Installation_Repositories "event_repo list" "event_repo list"
  | Pl_Push push_event
  | Pl_Pull_Request pull_event
  | Pl_Other

record webhook_event =
  we_installation :: "event_installation option"
  we_repository :: "repository option"
  we_specific :: webhook_payload

definition or_else :: "'a option \<Rightarrow> be_error \<Rightarrow> 'a be" where
  "or_else x e = (case x of None \<Rightarrow> throw e | Some a \<Rightarrow> ret a)"

subsection \<open>Installations\<close>

definition owner_of_account :: "account \<Rightarrow> github_owner" where
  "owner_of_account a = \<lparr>go_id = ac_id a, go_login = ac_login a, go_name = ac_login a,
     go_instance_id = 1, go_is_user = (ac_type a = ''User'')\<rparr>"

definition repo_of_event :: "account \<Rightarrow> event_repo \<Rightarrow> github_repo" where
  "repo_of_event a r = \<lparr>gr_id = er_id r, gr_name = er_name r, gr_is_private = er_private r,
     gr_owner_id = ac_id a, gr_disabled = False, gr_generate_pr = None\<rparr>"

definition installation_created :: "account \<Rightarrow> u64 \<Rightarrow> event_repo list option \<Rightarrow> unit be" where
  "installation_created a i repos =
     and_then (owner_upsert (owner_of_account a))
       (\<lambda>_. and_then (installation_upsert \<lparr>gi_id = i, gi_owner_id = ac_id a, gi_disabled = False\<rparr>)
         (\<lambda>_. for_each (\<lambda>r. repo_upsert (repo_of_event a r)) (unwrap_or repos [])))"

definition handle_installation ::
    "event_installation \<Rightarrow> installation_action \<Rightarrow> event_repo list option \<Rightarrow> unit be" where
  "handle_installation inst action repos =
     (case inst of
        Minimal_Installation _ \<Rightarrow> throw Panicked_Task
      | Full_Installation i a \<Rightarrow>
          (case action of
             Ia_Created \<Rightarrow> installation_created a i repos
           | Ia_Deleted \<Rightarrow> installation_disable i True
           | Ia_Suspend \<Rightarrow> installation_disable i True
           | Ia_Unsuspend \<Rightarrow> installation_disable i False
           | Ia_New_Permissions_Accepted \<Rightarrow> ret ()
           | Ia_Other \<Rightarrow> ret ()))"

definition handle_installation_repositories ::
    "event_installation \<Rightarrow> event_repo list \<Rightarrow> event_repo list \<Rightarrow> unit be" where
  "handle_installation_repositories inst added removed =
     (case inst of
        Minimal_Installation _ \<Rightarrow> throw Panicked_Task
      | Full_Installation i a \<Rightarrow>
          and_then (for_each (\<lambda>r. and_then (create_from_webhook (er_id r) (er_name r) (er_private r) (ac_id a))
                                    (\<lambda>_. ret ())) added)
            (\<lambda>_. for_each (\<lambda>r. repo_disable (er_id r)) removed))"

subsection \<open>Commits and their jobs\<close>

text \<open>The decoded \<open>devenv.yaml\<close>; a missing or unreadable file is the empty text.\<close>

definition fetch_devenv_yaml :: "string \<Rightarrow> string \<Rightarrow> string \<Rightarrow> string be" where
  "fetch_devenv_yaml login name ref_name =
     and_then (inspect (call_github (Get_Content login name ''devenv.yaml'' ref_name)))
       (\<lambda>res. ret (case res of
          Inl _ \<Rightarrow> []
        | Inr reply \<Rightarrow> (case ga_items reply of [] \<Rightarrow> [] | item # _ \<Rightarrow> unwrap_or item [])))"

text \<open>The common end of both branches: record the commit, read the configuration, create the jobs.\<close>

definition create_commit_jobs ::
    "(string \<Rightarrow> string + cloud) \<Rightarrow> string \<Rightarrow> string \<Rightarrow> string \<Rightarrow> github_commit \<Rightarrow> unit be" where
  "create_commit_jobs from_yaml login name ref_name c =
     and_then (commit_create c)
       (\<lambda>_. and_then (fetch_devenv_yaml login name ref_name)
         (\<lambda>yaml. case final_cloud_new from_yaml yaml of
            Inl e \<Rightarrow> throw (Other_Error (''Failed to parse devenv.yaml: '' @ e))
          | Inr vms \<Rightarrow> for_each (\<lambda>v. and_then (commit_create_job c v) (\<lambda>_. ret ())) vms))"

definition push_author :: "(string option \<times> string) list \<Rightarrow> string \<times> string" where
  "push_author cs = (case cs of
     [] \<Rightarrow> (''Unknown'', ''No message provided'')
   | (username, message) # _ \<Rightarrow> (unwrap_or username ''Unknown'', message))"

definition ref_short :: "string \<Rightarrow> string" where
  "ref_short r = trim_start_matches ''refs/heads/'' r"

definition handle_push ::
    "(string \<Rightarrow> string + cloud) \<Rightarrow> repository option \<Rightarrow> push_event \<Rightarrow> unit be" where
  "handle_push from_yaml repo p =
     and_then (or_else repo Panicked_Task)
       (\<lambda>repository. and_then (or_else (rp_owner repository) Panicked_Task)
         (\<lambda>owner. and_then pool_get
           (\<lambda>_. and_then (owner_get (ac_id owner))
             (\<lambda>db_owner. and_then (get_for_owner_id (go_id db_owner))
               (\<lambda>inst. and_then (get_installation_client (gi_id inst))
                 (\<lambda>_. and_then (call_github (Get_Content (ac_login owner) (rp_name repository) ''devenv.nix'' (pu_ref p)))
                   (\<lambda>content. if ga_items content = [] then ret ()
                      else and_then now_v7
                        (\<lambda>i. create_commit_jobs from_yaml (ac_login owner) (rp_name repository) (pu_ref p)
                           \<lparr>gc_id = i, gc_rev = pu_after p, gc_ref = ref_short (pu_ref p),
                            gc_repo_id = rp_id repository, gc_author = fst (push_author (pu_commits p)),
                            gc_message = snd (push_author (pu_commits p))\<rparr>))))))))"

definition handle_pull_request :: "(string \<Rightarrow> string + cloud) \<Rightarrow> pull_event \<Rightarrow> unit be" where
  "handle_pull_request from_yaml p =
     (if \<not> pl_synchronize p then ret ()
      else and_then (or_else (pl_repo p) (Other_Error ''could not get head repository from pull request''))
       (\<lambda>repo. and_then (or_else (rp_owner repo) (Other_Error ''could not get repository owner''))
         (\<lambda>owner. and_then pool_get
           (\<lambda>_. and_then (owner_get_by_login (ac_login owner))
             (\<lambda>db_owner. and_then (get_for_owner_id (go_id db_owner))
               (\<lambda>inst. and_then (get_installation_client (gi_id inst))
                 (\<lambda>_. and_then (call_github (Get_Content (ac_login owner) (rp_name repo) ''devenv.nix'' (pl_ref p)))
                   (\<lambda>content. if ga_items content = [] then ret ()
                      else and_then now_v7
                        (\<lambda>i. create_commit_jobs from_yaml (ac_login owner) (rp_name repo) (pl_ref p)
                           \<lparr>gc_id = i, gc_rev = pl_sha p, gc_ref = pl_ref p, gc_repo_id = rp_id repo,
                            gc_author = unwrap_or (pl_user p) ''Unknown'',
                            gc_message = unwrap_or (pl_title p) ''No message provided''\<rparr>)))))))))"

fun handle_payload ::
    "(string \<Rightarrow> string + cloud) \<Rightarrow> event_installation \<Rightarrow> repository option \<Rightarrow> webhook_payload \<Rightarrow> unit be" where
  "handle_payload y inst repo (Pl_Installation action repos) = handle_installation inst action repos"
| "handle_payload y inst repo (Pl_Installation_Repositories added removed) =
     handle_installation_repositories inst added removed"
| "handle_payload y inst repo (Pl_Push p) = handle_push y repo p"
| "handle_payload y inst repo (Pl_Pull_Request p) = handle_pull_request y p"
| "handle_payload y inst repo Pl_Other = ret ()"

text \<open>\<open>parse\<close> reads an event from its name and body; the headers default to the empty text.\<close>

definition webhook ::
    "(string \<Rightarrow> u8 list \<Rightarrow> u8 list) \<Rightarrow> (string \<Rightarrow> u8 list option)
     \<Rightarrow> (string \<Rightarrow> u8 list \<Rightarrow> webhook_event option) \<Rightarrow> (string \<Rightarrow> string + cloud)
     \<Rightarrow> string option \<Rightarrow> string option \<Rightarrow> u8 list \<Rightarrow> unit be" where
  "webhook hmac hex_decode parse from_yaml event_header signature_header body =
     and_then (gets (\<lambda>w. ac_github_secret (bk_config w)))
       (\<lambda>secret. and_then (or_else secret (Other_Error ''GitHub webhook secret not configured''))
         (\<lambda>key. case verify_webhook_signature hmac hex_decode body (unwrap_or signature_header []) key of
            Inl e \<Rightarrow> throw (Other_Error e)
          | Inr _ \<Rightarrow>
              and_then (or_else (parse (unwrap_or event_header []) body) (Other_Error ''parse''))
                (\<lambda>event. and_then pool_get
                  (\<lambda>_. and_then (or_else (we_installation event) (Other_Error ''could not get installation''))
                    (\<lambda>inst. handle_payload from_yaml inst (we_repository event) (we_specific event))))))"

subsection \<open>Reading\<close>

record commit_view =
  cv_owner :: string
  cv_repo :: string
  cv_rev :: string
  cv_ref :: string
  cv_author :: string
  cv_message :: string
  cv_jobs :: "job_response list"

definition view_commit :: "string \<Rightarrow> string \<Rightarrow> github_commit \<Rightarrow> job_response list \<Rightarrow> commit_view" where
  "view_commit owner repo c jobs = \<lparr>cv_owner = owner, cv_repo = repo, cv_rev = gc_rev c,
     cv_ref = gc_ref c, cv_author = gc_author c, cv_message = gc_message c, cv_jobs = jobs\<rparr>"

definition view_job :: "(job \<Rightarrow> string) \<Rightarrow> github_commit \<Rightarrow> job_github \<times> job \<Rightarrow> job_response" where
  "view_job url c p = \<lparr>jr_job = snd p, jr_github = fst p, jr_commit = c, jr_log_url = url (snd p)\<rparr>"

definition url_of :: "(job \<Rightarrow> string) be" where
  "url_of = gets (\<lambda>w j. log_url (bk_env w) (ac_logger_url (bk_config w)) (j_id j))"

definition get_rev :: "string \<Rightarrow> string \<Rightarrow> string \<Rightarrow> commit_view be" where
  "get_rev owner_login repo_name sha =
     and_then pool_get
       (\<lambda>_. and_then (owner_get_by_login owner_login)
         (\<lambda>x. and_then (repo_get_by_owner_and_name (go_id x) repo_name)
           (\<lambda>r. and_then (get_by_repo_and_rev (gr_id r) sha)
             (\<lambda>c. and_then (get_jobs_by_commit_id (gc_id c))
               (\<lambda>pairs. and_then url_of
                 (\<lambda>url. ret (view_commit owner_login repo_name c (map (view_job url c) pairs))))))))"

text \<open>Grouping the jobs of a repository by commit: each job fetches its commit, unwrapped.\<close>

fun group_jobs ::
    "(job \<Rightarrow> string) \<Rightarrow> (uuid, job_response list) hmap \<Rightarrow> (job_github \<times> job) list
     \<Rightarrow> (uuid, job_response list) hmap be" where
  "group_jobs url m [] = ret m"
| "group_jobs url m (p # ps) =
     and_then (unwrapped (commit_get_by_id (jg_commit_id (fst p))))
       (\<lambda>c. group_jobs url
          (hm_insert (jg_commit_id (fst p))
             (unwrap_or (hm_get m (jg_commit_id (fst p))) [] @ [view_job url c p]) m) ps)"

text \<open>Each commit takes its group out of the map.\<close>

fun take_groups ::
    "string \<Rightarrow> string \<Rightarrow> (uuid, job_response list) hmap \<Rightarrow> github_commit list \<Rightarrow> commit_view list" where
  "take_groups owner repo m [] = []"
| "take_groups owner repo m (c # cs) =
     view_commit owner repo c (unwrap_or (hm_get m (gc_id c)) [])
       # take_groups owner repo (hm_remove (gc_id c) m) cs"

definition get_repo_jobs :: "string \<Rightarrow> string \<Rightarrow> commit_view list be" where
  "get_repo_jobs owner_login repo_name =
     and_then pool_get
       (\<lambda>_. and_then (owner_get_by_login owner_login)
         (\<lambda>x. and_then (repo_get_by_owner_and_name (go_id x) repo_name)
           (\<lambda>r. and_then (get_jobs_for_repo (gr_id r))
             (\<lambda>pairs. and_then url_of
               (\<lambda>url. and_then (group_jobs url [] pairs)
                 (\<lambda>m. and_then (get_by_repo_ordered (gr_id r))
                   (\<lambda>cs. ret (take_groups owner_login repo_name m cs))))))))"

subsection \<open>The overview\<close>

record repo_info =
  ri_id :: i64
  ri_name :: string
  ri_is_private :: bool
  ri_generate_pr :: "string option"
  ri_latest_commit :: "commit_view option"

record owner_with_repos =
  or_id :: i64
  or_login :: string
  or_name :: string
  or_is_user :: bool
  or_repos :: "repo_info list"

fun group_repos ::
    "(i64, github_owner \<times> github_repo list) hmap \<Rightarrow> (github_owner \<times> github_repo) list
     \<Rightarrow> (i64, github_owner \<times> github_repo list) hmap" where
  "group_repos m [] = m"
| "group_repos m ((x, r) # ps) =
     (let (y, rs) = unwrap_or (hm_get m (go_id x)) (x, [])
      in group_repos (hm_insert (go_id x) (y, rs @ [r]) m) ps)"

fun latest_commits ::
    "(i64, github_commit \<times> (job \<times> job_github) list) hmap \<Rightarrow> i64 list
     \<Rightarrow> (i64, github_commit \<times> (job \<times> job_github) list) hmap be" where
  "latest_commits m [] = ret m"
| "latest_commits m (i # is) =
     and_then (inspect (get_latest_by_repo_id i))
       (\<lambda>res. case res of
          Inl _ \<Rightarrow> latest_commits m is
        | Inr c \<Rightarrow>
            and_then (inspect (get_all_jobs_for_commit (gc_id c)))
              (\<lambda>jobs. latest_commits (hm_insert i (c, case jobs of Inl _ \<Rightarrow> [] | Inr js \<Rightarrow> js) m) is))"

definition view_repo ::
    "(job \<Rightarrow> string) \<Rightarrow> (i64, github_commit \<times> (job \<times> job_github) list) hmap \<Rightarrow> github_owner
     \<Rightarrow> github_repo \<Rightarrow> repo_info" where
  "view_repo url latest x r =
     \<lparr>ri_id = gr_id r, ri_name = gr_name r, ri_is_private = gr_is_private r,
      ri_generate_pr = gr_generate_pr r,
      ri_latest_commit = map_option (\<lambda>(c, js). view_commit (go_login x) (gr_name r) c
         (map (\<lambda>p. view_job url c (prod.swap p)) js)) (hm_get latest (gr_id r))\<rparr>"

definition view_owner ::
    "(job \<Rightarrow> string) \<Rightarrow> (i64, github_commit \<times> (job \<times> job_github) list) hmap
     \<Rightarrow> github_owner \<times> github_repo list \<Rightarrow> owner_with_repos" where
  "view_owner url latest p =
     \<lparr>or_id = go_id (fst p), or_login = go_login (fst p), or_name = go_name (fst p),
      or_is_user = go_is_user (fst p), or_repos = map (view_repo url latest (fst p)) (snd p)\<rparr>"

definition get_repos :: "owner_with_repos list be" where
  "get_repos =
     and_then pool_get
       (\<lambda>_. and_then get_owners_with_repos
         (\<lambda>pairs. let m = group_repos [] pairs in
            and_then (latest_commits [] (gather (\<lambda>(x, rs). map gr_id rs) (hm_values m)))
              (\<lambda>latest. and_then url_of
                (\<lambda>url. ret (map (view_owner url latest) (hm_values m))))))"

end
