(* ===== verification/Backend_Actions.thy ===== *)
theory Backend_Actions
  imports Github_Webhook
begin
section \<open>What the backend writes: the statements behind every entry point\<close>

text \<open>
  Every write of the backend is one of a few statements. An action is one of them with its values;
  an operation is described by the actions it may perform (a guarantee), whatever the environment
  answers. Interleaved requests perform interleaved actions, so a property of every list of
  actions holds for every interleaving of the backend's tasks.
\<close>

datatype db_action =
    Da_Insert_Job job
  | Da_Claim uuid uuid
  | Da_Status uuid job_status
  | Da_Complete uuid completion_status time
  | Da_Assign uuid uuid time
  | Da_Retried uuid uuid
  | Da_Started uuid time
  | Da_Finished uuid time
  | Da_Insert_Runner runner_row
  | Da_Seen uuid time
  | Da_Owner github_owner
  | Da_Installation github_installation
  | Da_Disable_Installation i64 bool
  | Da_Repo github_repo
  | Da_Webhook_Repo github_repo
  | Da_Disable_Repo i64
  | Da_Generate_Pr i64 string "string option"
  | Da_Commit github_commit
  | Da_Job_Github job_github
  | Da_Check_Run uuid i64

fun db_act :: "db_action \<Rightarrow> db \<Rightarrow> db" where
  "db_act (Da_Insert_Job j) d = snd (insert_job j d)"
| "db_act (Da_Claim i r) d = update_jobs (claimable i) (claimed_by r) d"
| "db_act (Da_Status i s) d = update_jobs (\<lambda>j. j_id j = i) (\<lambda>j. j\<lparr>j_status := s\<rparr>) d"
| "db_act (Da_Complete i c t) d = update_jobs (\<lambda>j. j_id j = i) (completed c t) d"
| "db_act (Da_Assign i r t) d = update_jobs (\<lambda>j. j_id j = i) (assigned r t) d"
| "db_act (Da_Retried i k) d = unwrap_or (link_retried i k d) d"
| "db_act (Da_Started i t) d = update_jobs (\<lambda>j. j_id j = i) (\<lambda>j. j\<lparr>j_started_at := Some t\<rparr>) d"
| "db_act (Da_Finished i t) d = update_jobs (\<lambda>j. j_id j = i) (\<lambda>j. j\<lparr>j_finished_at := Some t\<rparr>) d"
| "db_act (Da_Insert_Runner r) d = snd (insert_runner r d)"
| "db_act (Da_Seen i t) d =
     d\<lparr>db_runners := update_where (\<lambda>r. rr_id r = i) (\<lambda>r. r\<lparr>rr_last_seen_at := t\<rparr>) (db_runners d)\<rparr>"
| "db_act (Da_Owner x) d = unwrap_or (upsert_owner_row x d) d"
| "db_act (Da_Installation x) d = unwrap_or (upsert_installation_row x d) d"
| "db_act (Da_Disable_Installation i b) d =
     d\<lparr>db_installations := update_where (\<lambda>x. gi_id x = i) (\<lambda>x. x\<lparr>gi_disabled := b\<rparr>) (db_installations d)\<rparr>"
| "db_act (Da_Repo x) d = unwrap_or (upsert_repo_row x d) d"
| "db_act (Da_Webhook_Repo x) d = snd (upsert_webhook_repo x d)"
| "db_act (Da_Disable_Repo i) d =
     d\<lparr>db_repos := update_where (\<lambda>r. gr_id r = i) (\<lambda>r. r\<lparr>gr_disabled := True\<rparr>) (db_repos d)\<rparr>"
| "db_act (Da_Generate_Pr x name u) d =
     d\<lparr>db_repos := update_where (\<lambda>r. gr_owner_id r = x \<and> gr_name r = name)
       (\<lambda>r. r\<lparr>gr_generate_pr := u\<rparr>) (db_repos d)\<rparr>"
| "db_act (Da_Commit c) d = unwrap_or (insert_commit c d) d"
| "db_act (Da_Job_Github g) d = snd (insert_job_github g d)"
| "db_act (Da_Check_Run i k) d = snd (set_check_run i k d)"

subsection \<open>Guarantees of operations\<close>

definition acts_on :: "('w \<Rightarrow> backend) \<Rightarrow> (db_action \<Rightarrow> bool) \<Rightarrow> ('w, 'e, 'a) io \<Rightarrow> bool" where
  "acts_on \<pi> P m \<longleftrightarrow>
     (\<forall>w. \<exists>as. bk_db (\<pi> (snd (m w))) = fold db_act as (bk_db (\<pi> w)) \<and> list_all P as)"

abbreviation acts :: "(db_action \<Rightarrow> bool) \<Rightarrow> 'a be \<Rightarrow> bool" where
  "acts \<equiv> acts_on (\<lambda>w. w)"

abbreviation session_acts :: "(db_action \<Rightarrow> bool) \<Rightarrow> 'a sess \<Rightarrow> bool" where
  "session_acts \<equiv> acts_on sw_backend"

named_theorems acts_intros

lemma acts_onE:
  assumes "acts_on \<pi> P m"
  obtains as where "bk_db (\<pi> (snd (m w))) = fold db_act as (bk_db (\<pi> w))" and "list_all P as"
  using assms unfolding acts_on_def by blast

lemma acts_frame: "(\<And>w. bk_db (\<pi> (snd (m w))) = bk_db (\<pi> w)) \<Longrightarrow> acts_on \<pi> P m"
  unfolding acts_on_def by (intro allI exI [of _ "[]"]) simp

lemma acts_ret [acts_intros]: "acts_on \<pi> P (ret a)" "acts_on \<pi> P (throw e)" "acts P (gets f)"
    "acts P (ask g)" "acts P (call_github c)"
  by (auto intro!: acts_frame simp: io_defs gets_def ask_def call_github_def next_tick_def Let_def)

lemma acts_and_then [acts_intros]:
  assumes "acts_on \<pi> P m" and "\<And>a. acts_on \<pi> P (f a)"
  shows "acts_on \<pi> P (and_then m f)"
  unfolding acts_on_def
proof
  fix w
  obtain r w' where m: "m w = (r, w')" by (cases "m w")
  obtain as where as: "bk_db (\<pi> w') = fold db_act as (bk_db (\<pi> w))" "list_all P as"
    using acts_onE [OF assms(1), of w] m by auto
  show "\<exists>as. bk_db (\<pi> (snd (and_then m f w))) = fold db_act as (bk_db (\<pi> w)) \<and> list_all P as"
  proof (cases r)
    case (Inl e)
    then show ?thesis using as by (auto simp: and_then_def m)
  next
    case (Inr a)
    obtain bs where "bk_db (\<pi> (snd (f a w'))) = fold db_act bs (bk_db (\<pi> w'))" "list_all P bs"
      using acts_onE [OF assms(2)] .
    then show ?thesis using as Inr by (intro exI [of _ "as @ bs"]) (simp add: and_then_def m)
  qed
qed

lemma acts_results [acts_intros]:
  "acts P m \<Longrightarrow> acts P (inspect m)" "acts P m \<Longrightarrow> acts P (unwrapped m)"
  "acts_on \<pi> P n \<Longrightarrow> acts_on \<pi> P (map_err g n)"
  unfolding acts_on_def inspect_def unwrapped_def map_err_def
  by (simp_all add: case_prod_beta split: sum.splits)

lemma acts_for_each [acts_intros]:
  "(\<And>x. acts_on \<pi> P (f x)) \<Longrightarrow> acts_on \<pi> P (for_each f xs)"
  by (induction xs) (auto intro: acts_intros)

lemma acts_statement:
  assumes "\<And>t d. \<exists>as. snd (f t d) = fold db_act as d \<and> list_all P as"
  shows "acts P (statement f)"
  unfolding acts_on_def
proof
  fix w
  show "\<exists>as. bk_db (snd (statement f w)) = fold db_act as (bk_db w) \<and> list_all P as"
  proof (cases "ev_statement (bk_env w) (bk_tick w)")
    case True
    then show ?thesis
      using assms [of "ev_now (bk_env w) (bk_tick w)" "bk_db w"]
      by (simp add: statement_def next_tick_def case_prod_beta)
  next
    case False
    then show ?thesis by (intro exI [of _ "[]"]) (simp add: statement_def next_tick_def)
  qed
qed

lemma acts_statement_act:
  "(\<And>t d. snd (f t d) = db_act (a t) d) \<Longrightarrow> (\<And>t. P (a t)) \<Longrightarrow> acts P (statement f)"
  by (rule acts_statement, rule exI [of _ "[a _]"]) simp

lemma acts_execute: "(\<And>d. f d = db_act a d) \<Longrightarrow> P a \<Longrightarrow> acts P (execute f)"
  unfolding execute_def by (rule acts_statement_act [where a = "\<lambda>_. a"]) auto

lemma acts_execute_checked:
  assumes "\<And>d. unwrap_or (f d) d = db_act a d" and "P a"
  shows "acts P (execute_checked f)"
proof -
  have "snd (case f d of None \<Rightarrow> (Err Database_Fault, d) | Some d' \<Rightarrow> (Ok (), d')) = db_act a d" for d
    using assms(1) [of d] by (cases "f d") auto
  then show ?thesis
    unfolding execute_checked_def by (rule acts_statement_act) (rule assms(2))
qed

lemma acts_select [acts_intros]: "acts P (select f)" "acts P (select_first g)"
  unfolding select_def select_first_def
  by (auto intro!: acts_statement exI [of _ "[]"])

lemma acts_transaction [acts_intros]:
  assumes "acts P m"
  shows "acts P (transaction m)"
proof -
  let ?m = "and_then (select (\<lambda>_. ())) (\<lambda>_. and_then m (\<lambda>a. and_then (select (\<lambda>_. ())) (\<lambda>_. ret a)))"
  have "acts P ?m" by (intro acts_intros assms)
  then show ?thesis
    unfolding acts_on_def transaction_def
    by (auto simp: case_prod_beta intro: exI [of _ "[]"])
qed

lemma acts_on_backend [acts_intros]: "acts P m \<Longrightarrow> session_acts P (on_backend m)"
  unfolding acts_on_def on_backend_def by (simp add: case_prod_beta)

lemma acts_mono: "acts_on \<pi> P m \<Longrightarrow> (\<And>a. P a \<Longrightarrow> Q a) \<Longrightarrow> acts_on \<pi> Q m"
  unfolding acts_on_def by (metis (no_types, lifting) list_all_iff)
subsection \<open>The actions of every operation\<close>

text \<open>
  New jobs are queued and unassigned; a status is set as \<open>S\<close> allows (what the runners send); on its
  own the backend completes no job successfully.
\<close>

definition fresh_job :: "job \<Rightarrow> bool" where
  "fresh_job j \<longleftrightarrow> j_status j = Queued \<and> j_runner_id j = None \<and> j_started_at j = None
     \<and> j_retried_job_id j = None"

fun allowed :: "(uuid \<Rightarrow> job_status \<Rightarrow> bool) \<Rightarrow> db_action \<Rightarrow> bool" where
  "allowed S (Da_Insert_Job j) = fresh_job j"
| "allowed S (Da_Status i s) = S i s"
| "allowed S (Da_Complete i c t) = (c \<noteq> Success)"
| "allowed S (Da_Assign i r t) = False"
| "allowed S (Da_Generate_Pr x name u) = False"
| "allowed S (Da_Seen i t) = False"
| "allowed S (Da_Check_Run i k) = False"
| "allowed S _ = True"

lemma fresh_queued_job [simp]: "fresh_job (queued_job i p c m prev t)"
  by (simp add: fresh_job_def queued_job_def)

lemma job_new_acts [acts_intros]: "acts (allowed S) (job_new p c m)"
  unfolding job_new_def now_v7_def
  by (intro acts_intros acts_statement_act [where a = "\<lambda>t. Da_Insert_Job (queued_job _ _ _ _ _ t)"]) simp_all

lemma job_reads [acts_intros]:
  "acts P (job_get_by_id i)" "acts P (find_queued_job_for_platform p)"
  "acts P (get_with_github_details i)" "acts P (find_expired_jobs n)"
  unfolding job_get_by_id_def find_queued_job_for_platform_def get_with_github_details_def
    find_expired_jobs_def utc_now_def Let_def
  by (auto intro!: acts_intros)

lemma complete_acts: "c \<noteq> Success \<Longrightarrow> acts (allowed S) (job_complete j c)"
  unfolding job_complete_def utc_now_def
  by (intro acts_intros acts_execute [where a = "Da_Complete _ _ _"]) simp_all

lemma job_complete_acts [acts_intros]:
  "acts (allowed S) (job_complete j Cancelled)" "acts (allowed S) (job_complete j TimedOut)"
  by (simp_all add: complete_acts)

lemma claim_acts [acts_intros]: "acts (allowed S) (claim_job_for_runner i r)"
  unfolding claim_job_for_runner_def
  by (intro acts_statement_act [where a = "\<lambda>t. Da_Claim _ _"]) simp_all

lemma status_acts [acts_intros]: "S i s \<Longrightarrow> acts (allowed S) (db_update_job_status i s)"
  unfolding db_update_job_status_def by (rule acts_execute [where a = "Da_Status i s"]) auto

lemma retry_acts [acts_intros]: "acts (allowed S) (job_retry j)"
  unfolding job_retry_def now_v7_def
  by (auto intro!: acts_intros acts_statement_act [where a = "\<lambda>t. Da_Insert_Job (queued_job _ _ _ _ _ t)"]
      acts_execute_checked [where a = "Da_Retried _ _"])

lemma cancel_acts [acts_intros]: "acts (allowed S) (job_cancel i)"
  unfolding job_cancel_def
  by (intro acts_intros) (auto intro!: acts_intros split: job_status.splits)

lemma pool_acts [acts_intros]: "acts P pool_get" "acts P pool_get_unwrapped"
  unfolding pool_get_def pool_get_unwrapped_def by (auto intro!: acts_intros)

lemma runner_acts [acts_intros]:
  "acts P (get_platform i)" "acts P (find_matching_platforms is p)" "acts P (runner_register i c)"
  "acts P (runner_unregister i)" "acts P (try_send_to i m)" "acts P (notify_runners_about_job j)"
  "acts P (take_queued i)"
  unfolding get_platform_def find_matching_platforms_def
  by (auto intro!: acts_select acts_frame simp: modify_def try_send_to_def take_queued_def
      runner_register_def runner_unregister_def notify_runners_about_job_def broadcast_job_available_def
      split: option.splits prod.splits)

lemma runner_new_acts [acts_intros]: "acts (allowed S) (runner_row_new q)"
  unfolding runner_row_new_def now_v7_def utc_now_def
  by (intro acts_intros acts_statement_act [where a = "\<lambda>t. Da_Insert_Runner
      \<lparr>rr_id = _, rr_last_seen_at = _, rr_platform = q, rr_created_at = t\<rparr>"]) simp_all

lemma broadcast_acts [acts_intros]: "acts P (run_broadcast b)"
  unfolding run_broadcast_def by (auto intro!: acts_intros split: sum.splits)

subsubsection \<open>GitHub\<close>

lemma github_reads [acts_intros]:
  "acts P (owner_get_by_login l)" "acts P (get_for_owner_id x)" "acts P (repo_get_by_owner_and_name x n)"
  "acts P (commit_get_by_id c)" "acts P (get_latest_by_repo_id r)" "acts P (get_by_repo_ordered r)"
  "acts P (get_by_repo_and_rev r v)" "acts P (get_jobs_by_commit_id c)" "acts P (get_all_jobs_for_commit c)"
  "acts P (get_jobs_for_repo r)" "acts P get_owners_with_repos" "acts P (get_job_github i)"
  "acts P (repo_get r)" "acts P (owner_get x)"
  unfolding owner_get_by_login_def get_for_owner_id_def repo_get_by_owner_and_name_def commit_get_by_id_def
    get_latest_by_repo_id_def get_by_repo_ordered_def get_by_repo_and_rev_def get_jobs_by_commit_id_def
    get_all_jobs_for_commit_def get_jobs_for_repo_def get_owners_with_repos_def get_job_github_def
    repo_get_def owner_get_def
  by (rule acts_select)+

lemma github_calls [acts_intros]:
  "acts P (get_repo_and_owner g)" "acts P (get_installation_client k)" "acts P (create_check_run x r j v)"
  "acts P (create_github_check_run j c)" "acts P (update_check_run x r g u)"
  unfolding get_repo_and_owner_def get_installation_client_def create_check_run_def
    create_github_check_run_def update_check_run_def
  by (intro acts_intros)+

lemma github_writes [acts_intros]:
  "acts (allowed S) (owner_upsert x)" "acts (allowed S) (installation_upsert i)"
  "acts (allowed S) (repo_upsert r)" "acts (allowed S) (commit_create c)"
  unfolding owner_upsert_def installation_upsert_def repo_upsert_def commit_create_def
  by (rule acts_execute_checked [where a = "Da_Owner _"] acts_execute_checked [where a = "Da_Installation _"]
      acts_execute_checked [where a = "Da_Repo _"] acts_execute_checked [where a = "Da_Commit _"]; simp)+

lemma github_flags [acts_intros]:
  "acts (allowed S) (installation_disable k b)" "acts (allowed S) (repo_disable k)"
  "acts (allowed S) (create_from_webhook k n v x)"
  unfolding installation_disable_def repo_disable_def create_from_webhook_def
  by (rule acts_execute [where a = "Da_Disable_Installation _ _"] acts_execute [where a = "Da_Disable_Repo _"]
      acts_statement_act [where a = "\<lambda>t. Da_Webhook_Repo _"]; simp)+

lemma insert_job_github_acts [acts_intros]: "acts (allowed S) (statement (\<lambda>_. insert_job_github g))"
  by (rule acts_statement_act [where a = "\<lambda>t. Da_Job_Github g"]) simp_all

lemma create_with_check_run_acts [acts_intros]: "acts (allowed S) (create_with_check_run j c)"
  unfolding create_with_check_run_def by (intro acts_intros)

lemma timestamp_acts [acts_intros]:
  "acts (allowed S) (execute (update_jobs (\<lambda>j. j_id j = i) (\<lambda>j. j\<lparr>j_started_at := Some t\<rparr>)))"
  "acts (allowed S) (execute (update_jobs (\<lambda>j. j_id j = i) (\<lambda>j. j\<lparr>j_finished_at := Some t\<rparr>)))"
  by (rule acts_execute [where a = "Da_Started i t"]; simp)
    (rule acts_execute [where a = "Da_Finished i t"]; simp)

lemma github_update_status_acts [acts_intros]: "acts (allowed S) (github_update_status s i)"
  unfolding github_update_status_def utc_now_def
  by (cases s) (auto intro!: acts_intros split: prod.splits)

lemma create_job_acts [acts_intros]: "acts (allowed S) (commit_create_job c v)"
  unfolding commit_create_job_def github_create_job_def by (intro acts_intros)

subsubsection \<open>Entry points\<close>

lemma check_and_send_acts [acts_intros]: "session_acts P (check_and_send_job r)"
proof -
  have send: "session_acts P (socket_send m)" for m
    by (rule acts_frame) (simp add: socket_send_def Let_def)
  show ?thesis
    unfolding check_and_send_job_def
    by (auto intro!: acts_intros send split: sum.splits option.splits)
qed

lemma socket_send_acts [acts_intros]: "session_acts P (socket_send m)"
  by (rule acts_frame) (simp add: socket_send_def Let_def)

lemma handle_claim_acts: "session_acts (allowed S) (handle_claim r i v)"
  unfolding handle_claim_def Let_def by (auto intro!: acts_intros split: prod.splits)

lemma handle_update_acts: "S i s \<Longrightarrow> session_acts (allowed S) (handle_update r i s)"
  unfolding handle_update_def by (auto intro!: acts_intros)

fun statuses_allowed :: "(uuid \<Rightarrow> job_status \<Rightarrow> bool) \<Rightarrow> session_event \<Rightarrow> bool" where
  "statuses_allowed S (Sv_Client (UpdateJobStatus i s)) = S i s"
| "statuses_allowed S _ = True"

lemma session_turn_acts: "statuses_allowed S e \<Longrightarrow> session_acts (allowed S) (session_turn r e)"
  by (cases "(S, e)" rule: statuses_allowed.cases)
    (auto intro!: acts_intros handle_claim_acts handle_update_acts split: option.splits)

lemma session_loop_acts:
  "list_all (statuses_allowed S) es \<Longrightarrow> session_acts (allowed S) (session_loop r es)"
  by (induction es) (auto intro!: acts_intros session_turn_acts)

lemma receiver_dropped_db [simp]:
  "bk_db (sw_backend (snd (receiver_dropped r m w))) = bk_db (sw_backend (snd (m w)))"
  by (simp add: receiver_dropped_def case_prod_beta on_backend_def close_channel_def modify_def
      split: option.split)

lemma acts_receiver_dropped [acts_intros]: "session_acts P m \<Longrightarrow> session_acts P (receiver_dropped r m)"
  by (simp add: acts_on_def)

lemma spawn_runner_acts:
  "list_all (statuses_allowed S) es \<Longrightarrow> session_acts (allowed S) (spawn_runner r es)"
  unfolding spawn_runner_def by (auto intro!: acts_intros session_loop_acts)

lemma entry_acts [acts_intros]:
  "acts (allowed S) (ws_handler h)" "acts (allowed S) (expire_job j)"
  unfolding ws_handler_def expire_job_def
  by (auto intro!: acts_intros split: sum.splits option.splits)

lemma check_timeouts_acts [acts_intros]: "acts (allowed S) check_timeouts"
  unfolding check_timeouts_def by (auto intro!: acts_intros split: sum.splits)

lemma job_api_acts [acts_intros]:
  "acts (allowed S) (get_job_handler i)" "acts (allowed S) (cancel_job_handler i)"
  "acts (allowed S) (retry_job_handler i)"
  unfolding get_job_handler_def cancel_job_handler_def retry_job_handler_def notify_cancelled_def
    job_log_url_def
  by (auto intro!: acts_intros split: sum.splits option.splits bool.splits prod.splits)

lemma webhook_parts [acts_intros]:
  "acts (allowed S) (handle_installation inst action repos)"
  "acts (allowed S) (handle_installation_repositories inst added removed)"
  "acts P (or_else x e)"
  unfolding handle_installation_def handle_installation_repositories_def installation_created_def or_else_def
  by (auto intro!: acts_intros split: event_installation.splits installation_action.splits option.splits)

lemma fetch_devenv_yaml_acts [acts_intros]: "acts P (fetch_devenv_yaml x n r)"
  unfolding fetch_devenv_yaml_def by (intro acts_intros)

lemma create_commit_jobs_acts [acts_intros]: "acts (allowed S) (create_commit_jobs y x n r c)"
  unfolding create_commit_jobs_def by (auto intro!: acts_intros split: sum.splits)

lemma push_acts [acts_intros]:
  "acts (allowed S) (handle_push y repo p)" "acts (allowed S) (handle_pull_request y q)"
  unfolding handle_push_def handle_pull_request_def now_v7_def
  by (auto intro!: acts_intros)

lemma handle_payload_acts [acts_intros]: "acts (allowed S) (handle_payload y inst repo pl)"
  by (cases pl) (auto intro!: acts_intros)

lemma webhook_acts [acts_intros]:
  "acts (allowed S) (webhook hmac hex_decode parse y ev sig body)"
  unfolding webhook_def by (auto intro!: acts_intros split: sum.splits)

lemma group_jobs_acts [acts_intros]: "acts P (group_jobs url m ps)"
  by (induction url m ps rule: group_jobs.induct) (auto intro!: acts_intros)

lemma latest_commits_acts [acts_intros]: "acts P (latest_commits m is)"
  by (induction m "is" rule: latest_commits.induct) (auto intro!: acts_intros split: sum.splits)

lemma read_acts [acts_intros]:
  "acts P (get_rev x n v)" "acts P (get_repo_jobs x n)" "acts P get_repos"
  unfolding get_rev_def get_repo_jobs_def get_repos_def url_of_def Let_def by (intro acts_intros)+

subsection \<open>Actions keep the constraints\<close>

interpretation status: row_update j_id "\<lambda>j. j\<lparr>j_status := s\<rparr>" for s by unfold_locales simp
interpretation claim: row_update j_id "claimed_by r" for r by unfold_locales (simp add: claimed_by_def)
interpretation complete: row_update j_id "completed c t" for c t by unfold_locales (simp add: completed_def)
interpretation assign: row_update j_id "assigned r t" for r t by unfold_locales (simp add: assigned_def)
interpretation retried: row_update j_id "\<lambda>j. j\<lparr>j_retried_job_id := k\<rparr>" for k by unfold_locales simp
interpretation started: row_update j_id "\<lambda>j. j\<lparr>j_started_at := t\<rparr>" for t by unfold_locales simp
interpretation finished: row_update j_id "\<lambda>j. j\<lparr>j_finished_at := t\<rparr>" for t by unfold_locales simp
interpretation seen: row_update rr_id "\<lambda>r. r\<lparr>rr_last_seen_at := t\<rparr>" for t by unfold_locales simp
interpretation installation: row_update gi_id "\<lambda>x. x\<lparr>gi_disabled := b\<rparr>" for b by unfold_locales simp
interpretation repo: row_update gr_id "repo_changes x" for x by unfold_locales (simp add: repo_changes_def)
interpretation webhook_repo: row_update gr_id "webhook_repo_changes x" for x
  by unfold_locales (simp add: webhook_repo_changes_def)
interpretation repo_flag: row_update gr_id "\<lambda>r. r\<lparr>gr_disabled := b\<rparr>" for b by unfold_locales simp
interpretation repo_pr: row_update gr_id "\<lambda>r. r\<lparr>gr_generate_pr := u\<rparr>" for u by unfold_locales simp
interpretation check_run: row_update jg_job_id "\<lambda>g. g\<lparr>jg_check_run_id := k\<rparr>" for k by unfold_locales simp
interpretation owner: row_update go_id "\<lambda>r. r\<lparr>go_login := l, go_name := n, go_instance_id := i,
    go_is_user := u\<rparr>" for l n i u
  by unfold_locales simp

lemmas row_keys = status.keys claim.keys complete.keys assign.keys retried.keys started.keys
  finished.keys seen.keys installation.keys repo.keys webhook_repo.keys repo_flag.keys repo_pr.keys
  check_run.keys owner.keys

lemmas row_has_key = status.has_key_update claim.has_key_update complete.has_key_update
  assign.has_key_update retried.has_key_update started.has_key_update finished.has_key_update
  installation.has_key_update repo.has_key_update webhook_repo.has_key_update repo_flag.has_key_update
  repo_pr.has_key_update check_run.has_key_update owner.has_key_update

lemma ball_update_where:
  "\<forall>r \<in> set rows. Q r \<Longrightarrow> (\<And>r. r \<in> set rows \<Longrightarrow> P r \<Longrightarrow> Q r \<Longrightarrow> Q (f r)) \<Longrightarrow> \<forall>r \<in> set (update_where P f rows). Q r"
  by (auto simp: update_where_def)

text \<open>Updating rows that keep their keys and references.\<close>

lemma db_ok_update_jobs:
  assumes "db_ok d" and key: "\<And>j. j_id (f j) = j_id j"
    and prev: "\<And>j. j_previous_job_id (f j) = j_previous_job_id j"
    and retried: "\<And>j. j_retried_job_id (f j) = j_retried_job_id j"
  shows "db_ok (update_jobs P f d)"
proof -
  have f: "row_update j_id f" by unfold_locales (rule key)
  show ?thesis
    using assms(1) unfolding db_ok_def keys_ok_def refs_ok_def update_jobs_def
    by (simp add: row_update.keys [OF f] row_update.has_key_update [OF f]) (auto simp: update_where_def prev retried)
qed
lemma has_key_snoc [simp]: "has_key key k (rows @ [r]) \<longleftrightarrow> has_key key k rows \<or> key r = k"
  by (auto simp: has_key_def)

lemma keys_upsert:
  assumes "row_update key upd" and "distinct (map key rows)"
  shows "distinct (map key (upsert_row key r upd rows))"
  using assms(2) by (auto simp: upsert_row_def row_update.keys [OF assms(1)] has_key_iff)

lemma has_key_upsert:
  assumes "row_update key upd"
  shows "has_key key k (upsert_row key r upd rows) \<longleftrightarrow> has_key key k rows \<or> key r = k"
  by (auto simp: upsert_row_def row_update.has_key_update [OF assms])

lemma ball_upsert:
  assumes "\<forall>x \<in> set rows. Q x" and "\<And>x. x \<in> set rows \<Longrightarrow> key x = key r \<Longrightarrow> Q (upd x)"
    and "\<not> has_key key (key r) rows \<Longrightarrow> Q r"
  shows "\<forall>x \<in> set (upsert_row key r upd rows). Q x"
  using assms by (auto simp: upsert_row_def update_where_def)

lemma row_updates:
  "row_update go_id (\<lambda>r. r\<lparr>go_login := l, go_name := n, go_instance_id := i, go_is_user := u\<rparr>)"
  "row_update gi_id (\<lambda>x. x\<lparr>gi_disabled := b\<rparr>)"
  "row_update gr_id (repo_changes y)" "row_update gr_id (webhook_repo_changes y)"
  by (unfold_locales; simp add: repo_changes_def webhook_repo_changes_def)+

lemma db_ok_insert_job: "db_ok d \<Longrightarrow> fresh_job j \<Longrightarrow> db_ok (snd (insert_job j d))"
  by (auto simp: insert_job_def db_ok_def keys_ok_def refs_ok_def insert_row_Some fresh_job_def
      split: option.splits)

text \<open>Replacing one table: distinct keys, no key lost, references kept.\<close>

lemma db_ok_set_owners:
  assumes "db_ok d" and "distinct (map go_id rows)"
    and "\<And>k. has_key go_id k (db_owners d) \<Longrightarrow> has_key go_id k rows"
    and "\<forall>x \<in> set rows. has_key gn_id (go_instance_id x) (db_instances d)"
  shows "db_ok (d\<lparr>db_owners := rows\<rparr>)"
  using assms unfolding db_ok_def keys_ok_def refs_ok_def by simp

lemma db_ok_set_installations:
  assumes "db_ok d" and "distinct (map gi_id rows)"
    and "\<forall>x \<in> set rows. has_key go_id (gi_owner_id x) (db_owners d)"
  shows "db_ok (d\<lparr>db_installations := rows\<rparr>)"
  using assms unfolding db_ok_def keys_ok_def refs_ok_def by simp

lemma db_ok_set_repos:
  assumes "db_ok d" and "distinct (map gr_id rows)"
    and "\<And>k. has_key gr_id k (db_repos d) \<Longrightarrow> has_key gr_id k rows"
    and "\<forall>x \<in> set rows. has_key go_id (gr_owner_id x) (db_owners d)"
  shows "db_ok (d\<lparr>db_repos := rows\<rparr>)"
  using assms unfolding db_ok_def keys_ok_def refs_ok_def by simp

lemma db_ok_set_commits:
  assumes "db_ok d" and "distinct (map gc_id rows)"
    and "\<And>k. has_key gc_id k (db_commits d) \<Longrightarrow> has_key gc_id k rows"
    and "\<forall>x \<in> set rows. has_key gr_id (gc_repo_id x) (db_repos d)"
  shows "db_ok (d\<lparr>db_commits := rows\<rparr>)"
  using assms unfolding db_ok_def keys_ok_def refs_ok_def by simp

lemma db_ok_set_jobs_github:
  assumes "db_ok d" and "distinct (map jg_job_id rows)"
    and "\<forall>g \<in> set rows. has_key j_id (jg_job_id g) (db_jobs d) \<and> has_key gc_id (jg_commit_id g) (db_commits d)"
  shows "db_ok (d\<lparr>db_jobs_github := rows\<rparr>)"
  using assms unfolding db_ok_def keys_ok_def refs_ok_def by simp

lemma db_ok_set_runners:
  "db_ok d \<Longrightarrow> distinct (map rr_id rows) \<Longrightarrow> db_ok (d\<lparr>db_runners := rows\<rparr>)"
  unfolding db_ok_def keys_ok_def refs_ok_def by simp

lemma db_okD:
  assumes "db_ok d"
  shows "distinct (map j_id (db_jobs d))" "distinct (map rr_id (db_runners d))"
    "distinct (map go_id (db_owners d))" "distinct (map gi_id (db_installations d))"
    "distinct (map gr_id (db_repos d))" "distinct (map gc_id (db_commits d))"
    "distinct (map jg_job_id (db_jobs_github d))"
    "\<forall>x \<in> set (db_owners d). has_key gn_id (go_instance_id x) (db_instances d)"
    "\<forall>i \<in> set (db_installations d). has_key go_id (gi_owner_id i) (db_owners d)"
    "\<forall>r \<in> set (db_repos d). has_key go_id (gr_owner_id r) (db_owners d)"
    "\<forall>c \<in> set (db_commits d). has_key gr_id (gc_repo_id c) (db_repos d)"
    "\<forall>g \<in> set (db_jobs_github d). has_key j_id (jg_job_id g) (db_jobs d)
       \<and> has_key gc_id (jg_commit_id g) (db_commits d)"
  using assms unfolding db_ok_def keys_ok_def refs_ok_def by blast+

lemma db_ok_owner:
  assumes "db_ok d"
  shows "db_ok (unwrap_or (upsert_owner_row x d) d)"
proof (cases "has_key gn_id (go_instance_id x) (db_instances d)")
  case True
  have "\<forall>y \<in> set (upsert_row go_id x (\<lambda>r. r\<lparr>go_login := go_login x, go_name := go_name x,
    go_instance_id := go_instance_id x, go_is_user := go_is_user x\<rparr>) (db_owners d)). has_key gn_id (go_instance_id y) (db_instances d)"
    by (rule ball_upsert) (use db_okD(8) [OF assms] True in \<open>auto simp: has_key_iff\<close>)
  then have "db_ok (d\<lparr>db_owners := upsert_row go_id x (\<lambda>r. r\<lparr>go_login := go_login x, go_name := go_name x,
    go_instance_id := go_instance_id x, go_is_user := go_is_user x\<rparr>) (db_owners d)\<rparr>)"
    by (intro db_ok_set_owners keys_upsert [OF row_updates(1)] db_okD(3) [OF assms] assms)
      (simp_all add: has_key_upsert [OF row_updates(1)])
  with True show ?thesis by (simp add: upsert_owner_row_def Let_def)
next
  case False
  with assms show ?thesis by (simp add: upsert_owner_row_def Let_def)
qed

lemma db_ok_installation:
  assumes "db_ok d"
  shows "db_ok (unwrap_or (upsert_installation_row x d) d)"
proof (cases "has_key gi_id (gi_id x) (db_installations d) \<or> has_key go_id (gi_owner_id x) (db_owners d)")
  case True
  have "\<forall>y \<in> set (upsert_row gi_id x (\<lambda>r. r\<lparr>gi_disabled := gi_disabled x\<rparr>) (db_installations d)). has_key go_id (gi_owner_id y) (db_owners d)"
    by (rule ball_upsert) (use db_okD(9) [OF assms] True in \<open>auto simp: has_key_iff\<close>)
  then have "db_ok (d\<lparr>db_installations := upsert_row gi_id x (\<lambda>r. r\<lparr>gi_disabled := gi_disabled x\<rparr>) (db_installations d)\<rparr>)"
    by (intro db_ok_set_installations keys_upsert [OF row_updates(2)] db_okD(4) [OF assms] assms)
      simp_all
  with True show ?thesis by (simp add: upsert_installation_row_def Let_def)
next
  case False
  with assms show ?thesis by (simp add: upsert_installation_row_def Let_def)
qed

lemma db_ok_repo:
  assumes "db_ok d"
  shows "db_ok (unwrap_or (upsert_repo_row x d) d)"
proof (cases "has_key go_id (gr_owner_id x) (db_owners d)")
  case True
  have "\<forall>y \<in> set (upsert_row gr_id x (repo_changes x) (db_repos d)). has_key go_id (gr_owner_id y) (db_owners d)"
    by (rule ball_upsert) (use db_okD(10) [OF assms] True in \<open>auto simp: has_key_iff repo_changes_def\<close>)
  then have "db_ok (d\<lparr>db_repos := upsert_row gr_id x (repo_changes x) (db_repos d)\<rparr>)"
    by (intro db_ok_set_repos keys_upsert [OF row_updates(3)] db_okD(5) [OF assms] assms)
      (simp_all add: has_key_upsert [OF row_updates(3)])
  with True show ?thesis by (simp add: upsert_repo_row_def Let_def)
next
  case False
  with assms show ?thesis by (simp add: upsert_repo_row_def Let_def)
qed

lemma db_ok_webhook_repo:
  assumes "db_ok d"
  shows "db_ok (snd (upsert_webhook_repo x d))"
proof (cases "has_key gr_id (gr_id x) (db_repos d) \<or> has_key go_id (gr_owner_id x) (db_owners d)")
  case True
  have "\<forall>y \<in> set (upsert_row gr_id x (webhook_repo_changes x) (db_repos d)). has_key go_id (gr_owner_id y) (db_owners d)"
    by (rule ball_upsert) (use db_okD(10) [OF assms] True in \<open>auto simp: has_key_iff webhook_repo_changes_def\<close>)
  then have "db_ok (d\<lparr>db_repos := upsert_row gr_id x (webhook_repo_changes x) (db_repos d)\<rparr>)"
    by (intro db_ok_set_repos keys_upsert [OF row_updates(4)] db_okD(5) [OF assms] assms)
      (simp_all add: has_key_upsert [OF row_updates(4)])
  with True show ?thesis by (simp add: upsert_webhook_repo_def Let_def)
next
  case False
  with assms show ?thesis by (simp add: upsert_webhook_repo_def Let_def)
qed

lemma db_ok_commit:
  assumes "db_ok d"
  shows "db_ok (unwrap_or (insert_commit c d) d)"
  using db_okD(6,11) [OF assms] unfolding insert_commit_def insert_row_def
  by (auto simp: has_key_iff assms intro!: db_ok_set_commits)

lemma db_ok_job_github:
  assumes "db_ok d"
  shows "db_ok (snd (insert_job_github g d))"
  using db_okD(7,12) [OF assms] unfolding insert_job_github_def insert_row_def
  by (auto simp: has_key_iff assms intro!: db_ok_set_jobs_github)

lemma db_ok_runner: "db_ok d \<Longrightarrow> db_ok (snd (insert_runner r d))"
  unfolding insert_runner_def insert_row_def
  by (auto simp: has_key_iff db_okD intro!: db_ok_set_runners)

lemma db_ok_set_jobs:
  assumes "db_ok d" and "distinct (map j_id rows)"
    and "\<And>k. has_key j_id k (db_jobs d) \<Longrightarrow> has_key j_id k rows"
    and "\<forall>j \<in> set rows. \<forall>i. j_previous_job_id j = Some i \<or> j_retried_job_id j = Some i
           \<longrightarrow> has_key j_id i rows"
  shows "db_ok (d\<lparr>db_jobs := rows\<rparr>)"
  using assms unfolding db_ok_def keys_ok_def refs_ok_def by simp

lemma db_ok_retried:
  assumes "db_ok d"
  shows "db_ok (unwrap_or (link_retried i k d) d)"
proof (cases "has_key j_id i (db_jobs d) \<and> \<not> has_key j_id k (db_jobs d)")
  case False
  let ?rows = "update_where (\<lambda>x. j_id x = i) (\<lambda>x. x\<lparr>j_retried_job_id := Some k\<rparr>) (db_jobs d)"
  have refs: "\<forall>j \<in> set (db_jobs d). \<forall>n. j_previous_job_id j = Some n \<or> j_retried_job_id j = Some n
      \<longrightarrow> has_key j_id n (db_jobs d)"
    using assms by (simp add: db_ok_def refs_ok_def)
  have "\<forall>j \<in> set ?rows. \<forall>n. j_previous_job_id j = Some n \<or> j_retried_job_id j = Some n
      \<longrightarrow> has_key j_id n ?rows"
    unfolding retried.has_key_update
    by (rule ball_update_where [OF refs]) (use False in \<open>auto simp: has_key_iff update_where_def\<close>)
  then have "db_ok (d\<lparr>db_jobs := ?rows\<rparr>)"
    by (intro db_ok_set_jobs assms) (simp_all add: retried.keys retried.has_key_update db_okD(1) [OF assms])
  with False show ?thesis by (auto simp: link_retried_def update_jobs_def)
qed (simp add: link_retried_def assms)

text \<open>Every action keeps the constraints, whatever it writes.\<close>

lemma db_ok_job_act:
  assumes "db_ok d"
  shows "db_ok (update_jobs P (claimed_by r) d)" "db_ok (update_jobs P (\<lambda>j. j\<lparr>j_status := s\<rparr>) d)"
    "db_ok (update_jobs P (completed c t) d)" "db_ok (update_jobs P (\<lambda>j. j\<lparr>j_started_at := u\<rparr>) d)"
    "db_ok (update_jobs P (\<lambda>j. j\<lparr>j_finished_at := u\<rparr>) d)"
  by (rule db_ok_update_jobs [OF assms]; simp add: claimed_by_def completed_def)+

lemma db_ok_flags:
  assumes "db_ok d"
  shows "db_ok (d\<lparr>db_installations := update_where P (\<lambda>x. x\<lparr>gi_disabled := b\<rparr>) (db_installations d)\<rparr>)"
    and "db_ok (d\<lparr>db_repos := update_where Q (\<lambda>r. r\<lparr>gr_disabled := b\<rparr>) (db_repos d)\<rparr>)"
proof -
  show "db_ok (d\<lparr>db_installations := update_where P (\<lambda>x. x\<lparr>gi_disabled := b\<rparr>) (db_installations d)\<rparr>)"
    by (intro db_ok_set_installations assms ball_update_where)
      (simp_all add: installation.keys db_okD [OF assms])
  show "db_ok (d\<lparr>db_repos := update_where Q (\<lambda>r. r\<lparr>gr_disabled := b\<rparr>) (db_repos d)\<rparr>)"
    by (intro db_ok_set_repos assms ball_update_where)
      (simp_all add: repo_flag.keys repo_flag.has_key_update db_okD [OF assms])
qed

lemma db_ok_act:
  assumes "db_ok d" and "allowed S a"
  shows "db_ok (db_act a d)"
  using assms(2)
  by (cases "(S, a)" rule: allowed.cases)
    (simp_all only: prod.inject db_act.simps allowed.simps db_ok_insert_job db_ok_job_act db_ok_flags
      db_ok_retried db_ok_runner db_ok_owner db_ok_installation db_ok_repo db_ok_webhook_repo
      db_ok_commit db_ok_job_github assms(1) simp_thms)

lemma db_ok_acts: "db_ok d \<Longrightarrow> list_all (allowed S) as \<Longrightarrow> db_ok (fold db_act as d)"
  by (induction as arbitrary: d) (auto intro: db_ok_act)

end
