(* ===== verification/Backend_System.thy ===== *)
theory Backend_System
  imports Backend_Actions
begin

section \<open>The backend as a whole\<close>

text \<open>
  The requests the backend serves, each run to its end, and what holds after every sequence of
  them in every environment. Where a property depends on the interleaving of requests it is
  stated over the actions of \<open>Backend_Actions\<close>.
\<close>

datatype request =
    Rq_Connect "string option"
  | Rq_Start uuid "nat \<Rightarrow> bool"
  | Rq_Turn uuid session_event "nat \<Rightarrow> bool"
  | Rq_Disconnect uuid
  | Rq_Timeouts
  | Rq_Broadcast nat
  | Rq_Get_Job "string + introspected_user" uuid
  | Rq_Cancel "string + introspected_user" uuid
  | Rq_Retry "string + introspected_user" uuid
  | Rq_Webhook "string \<Rightarrow> u8 list \<Rightarrow> u8 list" "string \<Rightarrow> u8 list option"
      "string \<Rightarrow> u8 list \<Rightarrow> webhook_event option" "string \<Rightarrow> string + cloud"
      "string option" "string option" "u8 list"

definition fresh_session :: "backend \<Rightarrow> (nat \<Rightarrow> bool) \<Rightarrow> session_world" where
  "fresh_session w ok = \<lparr>sw_backend = w, sw_sent = [], sw_sends = 0, sw_send_ok = ok\<rparr>"

fun run_request :: "request \<Rightarrow> backend \<Rightarrow> backend" where
  "run_request (Rq_Connect h) w = snd (ws_handler h w)"
| "run_request (Rq_Start r ok) w = sw_backend (snd (spawn_runner r [] (fresh_session w ok)))"
| "run_request (Rq_Turn r e ok) w = sw_backend (snd (receiver_dropped r (session_turn r e) (fresh_session w ok)))"
| "run_request (Rq_Disconnect r) w = snd (runner_unregister r w)"
| "run_request Rq_Timeouts w = snd (check_timeouts w)"
| "run_request (Rq_Broadcast n) w =
     (if n < length (bk_tasks w)
      then snd (run_broadcast (bk_tasks w ! n) (w\<lparr>bk_tasks := remove_nth n (bk_tasks w)\<rparr>)) else w)"
| "run_request (Rq_Get_Job u i) w = snd (get_job_endpoint u i w)"
| "run_request (Rq_Cancel u i) w = snd (cancel_job_endpoint u i w)"
| "run_request (Rq_Retry u i) w = snd (retry_job_endpoint u i w)"
| "run_request (Rq_Webhook hmac hex parse yaml ev sig body) w =
     snd (webhook hmac hex parse yaml ev sig body w)"

fun request_allowed :: "(uuid \<Rightarrow> job_status \<Rightarrow> bool) \<Rightarrow> request \<Rightarrow> bool" where
  "request_allowed S (Rq_Turn r e ok) = statuses_allowed S e"
| "request_allowed S _ = True"

text \<open>A request only performs actions.\<close>

lemma guarded_backend:
  assumes "\<And>u. \<exists>as. bk_db (snd (h u w)) = fold db_act as (bk_db w) \<and> list_all P as"
  shows "\<exists>as. bk_db (snd (guarded_handler user h w)) = fold db_act as (bk_db w) \<and> list_all P as"
  using assms by (auto simp: guarded_handler_def intro: exI [of _ "[]"] split: sum.splits)

lemma actsD:
  assumes "acts P m"
  shows "\<exists>as. bk_db (snd (m w)) = fold db_act as (bk_db w) \<and> list_all P as"
  using assms unfolding acts_on_def by blast

lemma answer_acts:
  assumes "acts P m"
  shows "\<exists>as. bk_db (snd (case m w of (Inl e, w') \<Rightarrow> (c, w') | (Inr s, w') \<Rightarrow> (g s, w')))
    = fold db_act as (bk_db w) \<and> list_all P as"
proof -
  have "snd (case m w of (Inl e, w') \<Rightarrow> (c, w') | (Inr s, w') \<Rightarrow> (g s, w')) = snd (m w)"
    by (simp split: prod.split sum.split)
  then show ?thesis using assms unfolding acts_on_def by simp
qed

lemma response_acts:
  assumes "acts P m"
  shows "\<exists>as. bk_db (snd (case report_response m w of ((s, b), w') \<Rightarrow> (s, w')))
    = fold db_act as (bk_db w) \<and> list_all P as"
proof -
  have "snd (case report_response m w of ((s, b), w') \<Rightarrow> (s, w')) = snd (m w)"
    by (simp add: report_response_def split: prod.split sum.split)
  then show ?thesis using assms unfolding acts_on_def by simp
qed

lemma run_request_acts:
  assumes "request_allowed S rq"
  shows "\<exists>as. bk_db (run_request rq w) = fold db_act as (bk_db w) \<and> list_all (allowed S) as"
proof -
  show ?thesis
  proof (cases rq)
    case (Rq_Start r ok)
    have "session_acts (allowed S) (spawn_runner r [])" by (rule spawn_runner_acts) simp
    from acts_onE [OF this, of "fresh_session w ok"] show ?thesis
      by (auto simp: Rq_Start fresh_session_def)
  next
    case (Rq_Turn r e ok)
    have "session_acts (allowed S) (session_turn r e)"
      using assms by (intro session_turn_acts) (simp add: Rq_Turn)
    from acts_onE [OF this, of "fresh_session w ok"] show ?thesis
      by (auto simp: Rq_Turn fresh_session_def)
  next
    case (Rq_Get_Job u i)
    show ?thesis
      unfolding Rq_Get_Job run_request.simps get_job_endpoint_def
      by (intro guarded_backend response_acts acts_intros)
  next
    case (Rq_Cancel u i)
    show ?thesis
      unfolding Rq_Cancel run_request.simps cancel_job_endpoint_def
      by (intro guarded_backend answer_acts acts_intros)
  next
    case (Rq_Retry u i)
    show ?thesis
      unfolding Rq_Retry run_request.simps retry_job_endpoint_def
      by (intro guarded_backend response_acts acts_intros)
  next
    case (Rq_Broadcast n)
    have "\<exists>as. bk_db (snd (run_broadcast b v)) = fold db_act as (bk_db v) \<and> list_all (allowed S) as" for b v
      using broadcast_acts unfolding acts_on_def by blast
    from this [of "bk_tasks w ! n" "w\<lparr>bk_tasks := remove_nth n (bk_tasks w)\<rparr>"] show ?thesis
      unfolding Rq_Broadcast by (simp, intro impI exI [of _ "[]"]) simp
  qed (simp_all add: actsD entry_acts runner_acts check_timeouts_acts webhook_acts)
qed

lemma run_requests_acts:
  "list_all (request_allowed S) rqs
   \<Longrightarrow> \<exists>as. bk_db (fold run_request rqs w) = fold db_act as (bk_db w) \<and> list_all (allowed S) as"
proof (induction rqs arbitrary: w)
  case (Cons rq rqs)
  from Cons.prems obtain as where as: "bk_db (run_request rq w) = fold db_act as (bk_db w)"
    "list_all (allowed S) as" using run_request_acts [of S rq w] by auto
  from Cons.prems Cons.IH [of "run_request rq w"] obtain bs where
    "bk_db (fold run_request rqs (run_request rq w)) = fold db_act bs (bk_db (run_request rq w))"
    "list_all (allowed S) bs" by auto
  with as show ?case by (intro exI [of _ "as @ bs"]) simp
qed (auto intro: exI [of _ "[]"])
lemma allowed_any: "list_all (request_allowed (\<lambda>_ _. True)) rqs"
proof -
  have "statuses_allowed (\<lambda>_ _. True) e" for e
    by (cases "(\<lambda>(_ :: uuid) (_ :: job_status). True, e)" rule: statuses_allowed.cases) auto
  then have "request_allowed (\<lambda>_ _. True) rq" for rq by (cases rq) auto
  then show ?thesis by (simp add: list_all_iff)
qed

lemma db_ok_run: "db_ok (bk_db w) \<Longrightarrow> db_ok (bk_db (fold run_request rqs w))"
  using run_requests_acts [OF allowed_any, of rqs w] db_ok_acts by fastforce

subsection \<open>A job is handed out once\<close>

text \<open>A job that is not queued any more.\<close>

definition taken :: "uuid \<Rightarrow> db \<Rightarrow> bool" where
  "taken i d \<longleftrightarrow> (\<exists>j \<in> set (db_jobs d). j_id j = i \<and> j_status j \<noteq> Queued)"

abbreviation never_requeues :: "uuid \<Rightarrow> uuid \<Rightarrow> job_status \<Rightarrow> bool" where
  "never_requeues i \<equiv> \<lambda>k s. k = i \<longrightarrow> s \<noteq> Queued"

lemma taken_update:
  assumes "taken i d" and "\<And>j. j_id (f j) = j_id j"
    and "\<And>j. j_id j = i \<Longrightarrow> P j \<Longrightarrow> j_status j \<noteq> Queued \<Longrightarrow> j_status (f j) \<noteq> Queued"
  shows "taken i (update_jobs P f d)"
proof -
  obtain j where "j \<in> set (db_jobs d)" "j_id j = i" "j_status j \<noteq> Queued"
    using assms(1) by (auto simp: taken_def)
  then have "(if P j then f j else j) \<in> set (update_where P f (db_jobs d))"
    "j_id (if P j then f j else j) = i" "j_status (if P j then f j else j) \<noteq> Queued"
    using assms(2,3) by (auto simp: update_where_def)
  then show ?thesis unfolding taken_def update_jobs_def by auto
qed

lemma taken_jobs: "taken i d \<Longrightarrow> set (db_jobs d) \<subseteq> set (db_jobs d') \<Longrightarrow> taken i d'"
  by (auto simp: taken_def)

lemma taken_act:
  assumes "taken i d" and "allowed (never_requeues i) a"
  shows "taken i (db_act a d)"
proof (cases a)
  case (Da_Insert_Job j)
  show ?thesis
    unfolding Da_Insert_Job
    by (rule taken_jobs [OF assms(1)])
      (auto simp: insert_job_def insert_row_def split: option.splits)
next
  case (Da_Claim k r)
  show ?thesis unfolding Da_Claim db_act.simps
    by (rule taken_update [OF assms(1)]) (simp_all add: claimed_by_def)
next
  case (Da_Status k s)
  show ?thesis unfolding Da_Status db_act.simps
    by (rule taken_update [OF assms(1)]) (use assms(2) in \<open>simp_all add: Da_Status\<close>)
next
  case (Da_Complete k c t)
  show ?thesis unfolding Da_Complete db_act.simps
    by (rule taken_update [OF assms(1)]) (simp_all add: completed_def)
next
  case (Da_Retried k n)
  show ?thesis
    using assms(1) taken_update [OF assms(1), of "\<lambda>x. x\<lparr>j_retried_job_id := Some n\<rparr>"]
    unfolding Da_Retried by (simp add: link_retried_def)
next
  case (Da_Started k t)
  show ?thesis unfolding Da_Started db_act.simps
    by (rule taken_update [OF assms(1)]) simp_all
next
  case (Da_Finished k t)
  show ?thesis unfolding Da_Finished db_act.simps
    by (rule taken_update [OF assms(1)]) simp_all
qed (use assms in \<open>auto simp: insert_runner_def upsert_owner_row_def upsert_installation_row_def
    upsert_repo_row_def upsert_webhook_repo_def insert_commit_def insert_job_github_def set_check_run_def
    insert_row_def Let_def taken_def split: option.splits\<close>)

lemma taken_acts:
  "taken i d \<Longrightarrow> list_all (allowed (never_requeues i)) as \<Longrightarrow> taken i (fold db_act as d)"
  by (induction as arbitrary: d) (auto intro: taken_act)

lemma taken_session:
  assumes "session_acts (allowed (never_requeues i)) m" and "taken i (bk_db (sw_backend s))"
  shows "taken i (bk_db (sw_backend (snd (m s))))"
  using acts_onE [OF assms(1), of s] taken_acts [OF assms(2)] by metis
text \<open>What a session sends.\<close>

fun is_grant :: "uuid \<Rightarrow> server_message \<Rightarrow> bool" where
  "is_grant i (JobClaimed k v u) = (k = i)"
| "is_grant i _ = False"

definition granted :: "uuid \<Rightarrow> session_world \<Rightarrow> nat" where
  "granted i s = length (filter (is_grant i) (sw_sent s))"

lemma granted_on_backend [simp]: "granted i (snd (on_backend m s)) = granted i s"
  by (simp add: granted_def on_backend_def case_prod_beta)

lemma granted_preserved_on_backend: "preserves (\<lambda>s. granted i s = n) (on_backend m)"
  by (simp add: preserves_def)

lemma granted_socket_send:
  "\<not> is_grant i m \<Longrightarrow> preserves (\<lambda>s. granted i s = n) (socket_send m)"
  by (simp add: preserves_def granted_def socket_send_def Let_def)

lemma notification_no_grant [simp]: "\<not> is_grant i (create_job_notification j)"
  by (simp add: create_job_notification_def)

lemma granted_check_and_send: "preserves (\<lambda>s. granted i s = n) (check_and_send_job r)"
  unfolding check_and_send_job_def
  by (auto intro!: preserves_and_then granted_preserved_on_backend granted_socket_send
      split: sum.splits option.splits)

lemma granted_handle_update: "preserves (\<lambda>s. granted i s = n) (handle_update r k st)"
  unfolding handle_update_def
  by (intro preserves_and_then granted_preserved_on_backend granted_check_and_send preserves_ret)

lemma bk_db_pool: "bk_db (snd (pool_get_unwrapped w)) = bk_db w"
  by (simp add: pool_get_unwrapped_def unwrapped_def pool_get_def map_err_def and_then_def ask_def
      ret_def throw_def next_tick_def split: sum.split)

lemma claim_result:
  assumes "inspect (claim_job_for_runner i r) w = (Ok (Ok n), w')"
  shows "n = length (filter (claimable i) (db_jobs (bk_db w)))"
    and "bk_db w' = update_jobs (claimable i) (claimed_by r) (bk_db w)"
  using assms
  by (auto simp: inspect_def claim_job_for_runner_def statement_def next_tick_def split: if_splits prod.splits)

lemma claimed_taken:
  assumes "filter (claimable i) (db_jobs d) \<noteq> []"
  shows "taken i (update_jobs (claimable i) (claimed_by r) d)"
proof -
  obtain j where "j \<in> set (db_jobs d)" "claimable i j"
    using assms by (auto simp: filter_empty_conv)
  then have "claimed_by r j \<in> set (update_where (claimable i) (claimed_by r) (db_jobs d))"
    unfolding update_where_def by force
  moreover have "j_id (claimed_by r j) = i" "j_status (claimed_by r j) \<noteq> Queued"
    using \<open>claimable i j\<close> by (simp_all add: claimed_by_def claimable_def)
  ultimately show ?thesis unfolding taken_def update_jobs_def by auto
qed

lemma granted_and_then:
  assumes "preserves (\<lambda>s. granted k s = n) m" and "granted k s = n"
    and "\<And>a s'. granted k s' = n \<Longrightarrow> Q (granted k (snd (f a s')))" and "Q n"
  shows "Q (granted k (snd (and_then m f s)))"
  using preservesD [OF assms(1,2)] assms(3,4)
  by (cases "m s"; cases "fst (m s)") (auto simp: and_then_def)

lemma handle_claim_grants:
  assumes "granted k (snd (handle_claim r i v s)) \<noteq> granted k s"
  shows "k = i \<and> granted k (snd (handle_claim r i v s)) = Suc (granted k s)
    \<and> filter (claimable i) (db_jobs (bk_db (sw_backend s))) \<noteq> []
    \<and> taken i (bk_db (sw_backend (snd (handle_claim r i v s))))"
proof -
  obtain r1 s1 where 1: "on_backend pool_get_unwrapped s = (r1, s1)"
    by (cases "on_backend pool_get_unwrapped s")
  obtain r2 s2 where 2: "on_backend (inspect (claim_job_for_runner i r)) s1 = (r2, s2)"
    by (cases "on_backend (inspect (claim_job_for_runner i r)) s1")
  define grant where "grant = and_then (on_backend (inspect (github_update_status Running i)))
    (\<lambda>_. and_then (on_backend (gets (\<lambda>b. (log_url (bk_env b) (ac_logger_url (bk_config b)) i, bk_env b))))
      (\<lambda>(url, e). if ev_url_ok e url
         then and_then (socket_send (JobClaimed i v url)) (\<lambda>_. ret ()) else throw Panicked_Task))"
  have h: "handle_claim r i v s =
      (case r1 of Inl e \<Rightarrow> (Err e, s1) | Inr _ \<Rightarrow>
        (case r2 of Inl e \<Rightarrow> (Err e, s2)
         | Inr res \<Rightarrow> if (case res of Inl _ \<Rightarrow> 0 | Inr n \<Rightarrow> n) = 1 then grant s2 else (Ok (), s2)))"
    by (simp add: handle_claim_def and_then_def [of _ _ s] and_then_def [of _ _ s1] 1 2 grant_def ret_def
        Let_def split: sum.split)
  have g: "granted k s1 = granted k s" "granted k s2 = granted k s"
    using granted_on_backend [of k pool_get_unwrapped s] granted_on_backend
      [of k "inspect (claim_job_for_runner i r)" s1] by (simp_all add: 1 2)
  have d: "bk_db (sw_backend s1) = bk_db (sw_backend s)"
    using 1 bk_db_pool [of "sw_backend s"] by (auto simp: on_backend_def split: prod.splits)
  obtain u where r1: "r1 = Ok u" using assms h g by (cases r1) auto
  obtain n where r2: "r2 = Ok (Ok n)" "n = 1"
    using assms g unfolding h by (auto simp: r1 split: sum.splits if_splits)
  have cl: "inspect (claim_job_for_runner i r) (sw_backend s1) = (Ok (Ok n), sw_backend s2)"
    using 2 r2(1) by (auto simp: on_backend_def split: prod.splits)
  have ne: "filter (claimable i) (db_jobs (bk_db (sw_backend s1))) \<noteq> []"
    using claim_result(1) [OF cl] r2(2) by (cases "filter (claimable i) (db_jobs (bk_db (sw_backend s1)))") auto
  have t: "taken i (bk_db (sw_backend s2))"
    using claimed_taken [OF ne] unfolding claim_result(2) [OF cl] .
  have c: "filter (claimable i) (db_jobs (bk_db (sw_backend s))) \<noteq> []"
    using ne unfolding d .
  have f: "snd (handle_claim r i v s) = snd (grant s2)" by (simp add: h r1 r2)
  have "session_acts (allowed (never_requeues i)) grant"
    unfolding grant_def by (auto intro!: acts_intros)
  from taken_session [OF this t] have "taken i (bk_db (sw_backend (snd (grant s2))))" .
  moreover have "granted k (snd (grant s2)) = granted k s2
      \<or> k = i \<and> granted k (snd (grant s2)) = Suc (granted k s2)"
    unfolding grant_def
  proof (rule granted_and_then [OF granted_preserved_on_backend refl,
        where Q = "\<lambda>x. x = granted k s2 \<or> k = i \<and> x = Suc (granted k s2)"],
      rule granted_and_then [OF granted_preserved_on_backend _,
        where Q = "\<lambda>x. x = granted k s2 \<or> k = i \<and> x = Suc (granted k s2)"])
    show "granted k (snd ((\<lambda>(url, e). if ev_url_ok e url
         then and_then (socket_send (JobClaimed i v url)) (\<lambda>_. ret ()) else throw Panicked_Task) p s'))
        = granted k s2
      \<or> k = i \<and> granted k (snd ((\<lambda>(url, e). if ev_url_ok e url
         then and_then (socket_send (JobClaimed i v url)) (\<lambda>_. ret ()) else throw Panicked_Task) p s'))
        = Suc (granted k s2)" if "granted k s' = granted k s2" for p :: "string \<times> env" and s'
      using that by (cases p) (auto simp: and_then_def socket_send_def granted_def ret_def throw_def Let_def)
  qed simp_all
  ultimately show ?thesis using assms c unfolding f g by auto
qed
text \<open>The grants of a request, and of a sequence of them.\<close>

fun grants :: "uuid \<Rightarrow> request \<Rightarrow> backend \<Rightarrow> nat" where
  "grants i (Rq_Turn r (Sv_Client m) ok) w =
     granted i (snd (session_turn r (Sv_Client m) (fresh_session w ok)))"
| "grants i _ w = 0"

fun total_grants :: "uuid \<Rightarrow> request list \<Rightarrow> backend \<Rightarrow> nat" where
  "total_grants i [] w = 0"
| "total_grants i (rq # rqs) w = grants i rq w + total_grants i rqs (run_request rq w)"

lemma snd_then_ret: "snd (and_then m (\<lambda>_. ret a) s) = snd (m s)"
  by (simp add: and_then_def ret_def split: prod.split sum.split)

lemma no_grants:
  "(\<nexists>v. m = ClaimJob i v) \<Longrightarrow> granted i (snd (handle_client_message r m s)) = granted i s"
proof (cases m)
  case (ClaimJob k v)
  assume "\<nexists>v. m = ClaimJob i v"
  then show ?thesis using handle_claim_grants [of i r k v s] ClaimJob by auto
qed (simp_all add: snd_then_ret ret_def preservesD [OF granted_handle_update] preservesD [OF granted_check_and_send])

lemma grant_takes:
  assumes "db_ok (bk_db w)" and "grants i rq w \<noteq> 0"
  shows "grants i rq w = 1 \<and> \<not> taken i (bk_db w) \<and> taken i (bk_db (run_request rq w))"
proof -
  obtain r m ok where rq: "rq = Rq_Turn r (Sv_Client m) ok"
    using assms(2) by (cases "(i, rq, w)" rule: grants.cases) auto
  let ?s = "fresh_session w ok"
  have g0: "granted i ?s = 0" by (simp add: granted_def fresh_session_def)
  then obtain v where m: "m = ClaimJob i v"
    using assms(2) no_grants [of m i r ?s] by (auto simp: rq snd_then_ret)
  have "granted i (snd (handle_claim r i v ?s)) \<noteq> granted i ?s"
    using assms(2) g0 by (simp add: rq m snd_then_ret)
  note h = handle_claim_grants [OF this]
  obtain j where j: "j \<in> set (db_jobs (bk_db w))" "claimable i j"
    using h by (auto simp: fresh_session_def filter_empty_conv)
  have "\<not> taken i (bk_db w)"
  proof
    assume "taken i (bk_db w)"
    then obtain k where "k \<in> set (db_jobs (bk_db w))" "j_id k = i" "j_status k \<noteq> Queued"
      by (auto simp: taken_def)
    moreover have "k = j" if "k \<in> set (db_jobs (bk_db w))" "j_id k = i" for k
      using that j db_okD(1) [OF assms(1)] by (auto simp: claimable_def distinct_map inj_on_def)
    ultimately show False using j by (auto simp: claimable_def)
  qed
  with h g0 show ?thesis by (simp add: rq m snd_then_ret)
qed

lemma taken_run:
  assumes "request_allowed (never_requeues i) rq" and "taken i (bk_db w)"
  shows "taken i (bk_db (run_request rq w))"
  using run_request_acts [OF assms(1), of w] taken_acts [OF assms(2)] by metis

lemma grants_bound:
  assumes "db_ok (bk_db w)" and "list_all (request_allowed (never_requeues i)) rqs"
  shows "total_grants i rqs w \<le> (if taken i (bk_db w) then 0 else 1)"
  using assms
proof (induction rqs arbitrary: w)
  case (Cons rq rqs)
  have ok: "db_ok (bk_db (run_request rq w))" using db_ok_run [of w "[rq]"] Cons.prems by simp
  note IH = Cons.IH [OF ok] and t = taken_run [of i rq w]
  show ?case
  proof (cases "grants i rq w = 0")
    case True
    then show ?thesis using IH t Cons.prems by (auto split: if_splits)
  next
    case False
    with grant_takes [OF Cons.prems(1)] IH Cons.prems show ?thesis by auto
  qed
qed simp
subsection \<open>A small backend for the examples\<close>

definition demo_env :: env where
  "demo_env = \<lparr>ev_pool = (\<lambda>_. True), ev_statement = (\<lambda>_. True), ev_uuid = (\<lambda>n. 100 + of_nat n),
     ev_now = (\<lambda>n. int n), ev_locked = (\<lambda>_ _. False),
     ev_github = (\<lambda>_ _. \<lparr>ga_ok = True, ga_id = 5, ga_items = [Some []]\<rparr>),
     ev_representable = (\<lambda>_. True), ev_uuid_str = (\<lambda>_. ''u''), ev_url_ok = (\<lambda>_. True)\<rparr>"

definition demo_app_config :: app_config where
  "demo_app_config = \<lparr>ac_base_url = ''b'', ac_logger_url = ''l'', ac_timeout_seconds = 3600,
     ac_github_secret = Some ''s'', ac_zitadel_secret = None\<rparr>"

definition demo_db :: db where
  "demo_db = \<lparr>db_jobs = [queued_job 7 Job_X86_64Linux 2 256 None 0],
     db_runners = [\<lparr>rr_id = 1, rr_last_seen_at = 0, rr_platform = Job_X86_64Linux, rr_created_at = 0\<rparr>],
     db_instances = [\<lparr>gn_id = 1, gn_host = ''github.com''\<rparr>],
     db_owners = [\<lparr>go_id = 3, go_login = ''o'', go_name = ''o'', go_instance_id = 1, go_is_user = True\<rparr>],
     db_installations = [\<lparr>gi_id = 4, gi_owner_id = 3, gi_disabled = False\<rparr>],
     db_repos = [\<lparr>gr_id = 5, gr_name = ''r'', gr_is_private = False, gr_owner_id = 3,
       gr_disabled = False, gr_generate_pr = None\<rparr>],
     db_commits = [\<lparr>gc_id = 6, gc_rev = ''c'', gc_ref = ''main'', gc_repo_id = 5, gc_author = ''a'',
       gc_message = ''m''\<rparr>],
     db_jobs_github = [\<lparr>jg_job_id = 7, jg_commit_id = 6, jg_check_run_id = 8\<rparr>]\<rparr>"

definition demo_backend :: backend where
  "demo_backend = \<lparr>bk_db = demo_db, bk_runners = [(1, runner_channel)], bk_tasks = [], bk_calls = [],
     bk_tick = 0, bk_env = demo_env, bk_config = demo_app_config\<rparr>"

definition demo_user :: introspected_user where
  "demo_user = \<lparr>iu_sub = ''s'', iu_project_roles = [(''beta_user'', JNull)], iu_org_roles = [],
     iu_custom_claims = [], iu_metadata = []\<rparr>"

definition demo_vm_config :: vm where
  "demo_vm_config = \<lparr>vm_cpu_count = 2, vm_memory_size_mb = 256, vm_platform = X86_64Linux\<rparr>"

lemma db_ok_demo: "db_ok (bk_db demo_backend)"
  by (simp add: demo_backend_def demo_db_def db_ok_def keys_ok_def refs_ok_def has_key_def queued_job_def)

section \<open>Properties\<close>



text \<open>
  C5. A job is handed to at most one runner: over every sequence of requests in which no runner
  reports the job as queued again, at most one claim of it is answered with \<open>JobClaimed\<close>, however
  many runners claim it and whatever fails in between.
\<close>

theorem job_granted_at_most_once:
  assumes "db_ok (bk_db w)" and "list_all (request_allowed (never_requeues i)) rqs"
  shows "total_grants i rqs w \<le> 1"
  using grants_bound [OF assms] by (simp split: if_splits)

theorem job_granted_at_most_once_witness:
  "total_grants 7 [Rq_Turn 1 (Sv_Client (ClaimJob 7 demo_vm_config)) (\<lambda>_. True),
     Rq_Turn 2 (Sv_Client (ClaimJob 7 demo_vm_config)) (\<lambda>_. True),
     Rq_Turn 1 (Sv_Client (UpdateJobStatus 7 (Complete Failed))) (\<lambda>_. True)] demo_backend \<le> 1"
  by (rule job_granted_at_most_once [OF db_ok_demo]) simp
end
