(* ===== verification/Job_Lifecycle.thy ===== *)
theory Job_Lifecycle
  imports Backend_System
begin

section \<open>The life of a job in the backend\<close>

text \<open>
  What cancelling, retrying, offering and reporting do to a job, in every environment. Lemmas
  describe one operation by the statements it performs; a failed statement leaves the tables as
  they were.
\<close>

definition status_of :: "uuid \<Rightarrow> db \<Rightarrow> job_status option" where
  "status_of i d = map_option j_status (by_key j_id i (db_jobs d))"

lemma hd_filter_by_key: "(case filter (\<lambda>r. key r = k) rows of [] \<Rightarrow> Err Not_Found | r # _ \<Rightarrow> Ok r) =
   (case by_key key k rows of None \<Rightarrow> Err Not_Found | Some r \<Rightarrow> Ok r)"
  unfolding by_key_def by (induction rows) auto

text \<open>A successful and a failed run of the basic operations.\<close>

lemma statement_cases:
  obtains (ok) r d where "f (ev_now (bk_env w) (bk_tick w)) (bk_db w) = (r, d)"
      and "statement f w = (r, next_tick (w\<lparr>bk_db := d\<rparr>))"
  | (failed) "statement f w = (Err Database_Fault, next_tick w)"
  by (cases "ev_statement (bk_env w) (bk_tick w)";
      cases "f (ev_now (bk_env w) (bk_tick w)) (bk_db w)") (auto simp: statement_def)

lemma next_tick_simps [simp]:
  "bk_db (next_tick w) = bk_db w" "bk_runners (next_tick w) = bk_runners w"
  "bk_tasks (next_tick w) = bk_tasks w" "bk_env (next_tick w) = bk_env w"
  "bk_config (next_tick w) = bk_config w" "bk_calls (next_tick w) = bk_calls w"
  by (simp_all add: next_tick_def)

lemma select_first_key:
  "select_first (\<lambda>d. filter (\<lambda>r. key r = k) (rows d)) w = (r, w') \<Longrightarrow>
     bk_db w' = bk_db w \<and> (r = Err Database_Fault \<or>
       r = (case by_key key k (rows (bk_db w)) of None \<Rightarrow> Err Not_Found | Some x \<Rightarrow> Ok x))"
  unfolding select_first_def hd_filter_by_key
  by (rule statement_cases [of "\<lambda>_ d. (case by_key key k (rows d) of None \<Rightarrow> Err Not_Found | Some r \<Rightarrow> Ok r, d)" w])
    auto

lemma execute_result:
  "execute f w = (r, w') \<Longrightarrow>
     r = Ok () \<and> bk_db w' = f (bk_db w) \<or> r = Err Database_Fault \<and> bk_db w' = bk_db w"
  unfolding execute_def by (rule statement_cases [of "\<lambda>_ d. (Ok (), f d)" w]) auto

lemma job_complete_result:
  "job_complete j c w = (r, w') \<Longrightarrow>
     (\<exists>t. r = Ok (completed c t j) \<and> bk_db w' = update_jobs (\<lambda>x. j_id x = j_id j) (completed c t) (bk_db w))
     \<or> r = Err Database_Fault \<and> bk_db w' = bk_db w"
  unfolding job_complete_def utc_now_def
  by (auto simp: and_then_def ask_def ret_def split: prod.splits sum.splits dest!: execute_result)

lemma select_unit: "select (\<lambda>_. ()) w = (Ok (), next_tick w) \<or> select (\<lambda>_. ()) w = (Err Database_Fault, next_tick w)"
  unfolding select_def by (rule statement_cases [of "\<lambda>_ d. (Ok (), d)" w]) auto

lemma transaction_result:
  assumes "transaction m w = (r, w')"
  shows "(\<exists>a w1. r = Ok a \<and> m (next_tick w) = (Ok a, w1) \<and> w' = next_tick w1)
    \<or> (\<exists>e. r = Err e \<and> bk_db w' = bk_db w \<and> (e = Database_Fault \<or> (\<exists>w1. m (next_tick w) = (Err e, w1))))"
proof -
  let ?m = "and_then (select (\<lambda>_. ())) (\<lambda>_. and_then m (\<lambda>a. and_then (select (\<lambda>_. ())) (\<lambda>_. ret a)))"
  obtain x w1 where m: "m (next_tick w) = (x, w1)" by (cases "m (next_tick w)")
  obtain y v where v: "?m w = (y, v)" by (cases "?m w")
  have r: "r = y" "w' = (if is_ok y then v else v\<lparr>bk_db := bk_db w\<rparr>)"
    using assms unfolding transaction_def v by auto
  from select_unit [of w] show ?thesis
  proof
    assume ok: "select (\<lambda>_. ()) w = (Ok (), next_tick w)"
    show ?thesis
    proof (cases x)
      case (Inl e)
      have "?m w = (Err e, w1)" by (simp add: and_then_def ok m Inl)
      then have "y = Err e" using v by simp
      then show ?thesis using m Inl by (simp add: r)
    next
      case (Inr a)
      from select_unit [of w1] show ?thesis
      proof
        assume "select (\<lambda>_. ()) w1 = (Ok (), next_tick w1)"
        then have "?m w = (Ok a, next_tick w1)" by (simp add: and_then_def ok m Inr ret_def)
        then have "y = Ok a" "v = next_tick w1" using v by simp_all
        then show ?thesis using m Inr by (simp add: r)
      next
        assume "select (\<lambda>_. ()) w1 = (Err Database_Fault, next_tick w1)"
        then have "?m w = (Err Database_Fault, next_tick w1)" by (simp add: and_then_def ok m Inr)
        then have "y = Err Database_Fault" using v by simp
        then show ?thesis by (simp add: r)
      qed
    qed
  next
    assume "select (\<lambda>_. ()) w = (Err Database_Fault, next_tick w)"
    then have "?m w = (Err Database_Fault, next_tick w)" by (simp add: and_then_def)
    then have "y = Err Database_Fault" using v by simp
    then show ?thesis by (simp add: r)
  qed
qed

lemma completed_by_key:
  "by_key j_id i rows = Some j \<Longrightarrow> j_id j = i"
  by (drule by_key_Some) simp

lemma job_cancel_result:
  assumes "job_cancel i w = (r, w')"
  shows "(\<exists>j t. r = Ok (True, Some (completed Cancelled t j)) \<and> by_key j_id i (db_jobs (bk_db w)) = Some j
          \<and> is_cancellable j \<and> bk_db w' = update_jobs (\<lambda>x. j_id x = i) (completed Cancelled t) (bk_db w))
     \<or> (\<exists>j. r = Ok (False, Some j) \<and> by_key j_id i (db_jobs (bk_db w)) = Some j \<and> \<not> is_cancellable j
          \<and> bk_db w' = bk_db w)
     \<or> r = Err Not_Found \<and> by_key j_id i (db_jobs (bk_db w)) = None \<and> bk_db w' = bk_db w
     \<or> r = Err Database_Fault \<and> bk_db w' = bk_db w"
proof -
  define body where "body = (\<lambda>j. case j_status j of
      Queued \<Rightarrow> and_then (job_complete j Cancelled) (\<lambda>j. ret (True, Some j))
    | Running \<Rightarrow> and_then (job_complete j Cancelled) (\<lambda>j. ret (True, Some j))
    | Complete _ \<Rightarrow> ret (False, Some j))"
  have body: "(\<exists>t. x = Ok (True, Some (completed Cancelled t j)) \<and> is_cancellable j
        \<and> bk_db v' = update_jobs (\<lambda>x. j_id x = j_id j) (completed Cancelled t) (bk_db v))
      \<or> x = Ok (False, Some j) \<and> \<not> is_cancellable j \<and> bk_db v' = bk_db v
      \<or> x = Err Database_Fault \<and> bk_db v' = bk_db v" if "body j v = (x, v')" for j v x v'
    using that unfolding body_def is_cancellable_def
    by (cases "j_status j")
      (auto simp: and_then_def ret_def split: prod.splits sum.splits dest!: job_complete_result)
  have main: "(\<exists>j t. x = Ok (True, Some (completed Cancelled t j)) \<and> by_key j_id i (db_jobs (bk_db v)) = Some j
          \<and> is_cancellable j \<and> bk_db v' = update_jobs (\<lambda>x. j_id x = i) (completed Cancelled t) (bk_db v))
     \<or> (\<exists>j. x = Ok (False, Some j) \<and> by_key j_id i (db_jobs (bk_db v)) = Some j \<and> \<not> is_cancellable j
          \<and> bk_db v' = bk_db v)
     \<or> x = Err Not_Found \<and> by_key j_id i (db_jobs (bk_db v)) = None
     \<or> x = Err Database_Fault"
    if "and_then (select_first (\<lambda>d. filter (\<lambda>j. j_id j = i) (db_jobs d))) body v = (x, v')" for v x v'
  proof -
    obtain y u where y: "select_first (\<lambda>d. filter (\<lambda>j. j_id j = i) (db_jobs d)) v = (y, u)"
      by (cases "select_first (\<lambda>d. filter (\<lambda>j. j_id j = i) (db_jobs d)) v")
    note first = select_first_key [OF y]
    show ?thesis
    proof (cases y)
      case (Inl e)
      then show ?thesis using that first by (auto simp: and_then_def y split: option.splits)
    next
      case (Inr j)
      then have "by_key j_id i (db_jobs (bk_db v)) = Some j" "bk_db u = bk_db v" "body j u = (x, v')"
        using that first by (auto simp: and_then_def y split: option.splits)
      with body [of j u x v'] completed_by_key [of i _ j] show ?thesis by auto
    qed
  qed
  have "job_cancel i = transaction (and_then (select_first (\<lambda>d. filter (\<lambda>j. j_id j = i) (db_jobs d))) body)"
    by (simp add: job_cancel_def body_def)
  from transaction_result [OF assms [unfolded this]] show ?thesis
    by (auto dest!: main)
qed
subsection \<open>Reporting to GitHub only stamps times\<close>

fun stamp :: "db_action \<Rightarrow> bool" where
  "stamp (Da_Started i t) = True"
| "stamp (Da_Finished i t) = True"
| "stamp _ = False"

lemma github_update_status_stamps: "acts stamp (github_update_status s i)"
proof -
  have "acts stamp (execute (update_jobs (\<lambda>j. j_id j = k) (\<lambda>j. j\<lparr>j_started_at := Some t\<rparr>)))"
    "acts stamp (execute (update_jobs (\<lambda>j. j_id j = k) (\<lambda>j. j\<lparr>j_finished_at := Some t\<rparr>)))" for k t
    by (rule acts_execute [where a = "Da_Started k t"]; simp)
      (rule acts_execute [where a = "Da_Finished k t"]; simp)
  then show ?thesis
    unfolding github_update_status_def utc_now_def
    by (cases s) (auto intro!: acts_intros split: prod.splits)
qed

lemma status_of_update:
  assumes "\<And>j. j_id (f j) = j_id j"
  shows "status_of i (update_jobs P f d) =
    map_option (\<lambda>j. j_status (if P j then f j else j)) (by_key j_id i (db_jobs d))"
proof -
  have f: "row_update j_id f" by unfold_locales (rule assms)
  show ?thesis
    by (simp add: status_of_def update_jobs_def row_update.by_key_update [OF f] option.map_comp comp_def)
qed

lemma status_of_set:
  assumes "\<And>j. j_id (f j) = j_id j" and "\<And>j. j_status (f j) = s"
  shows "status_of k (update_jobs (\<lambda>j. j_id j = i) f d) =
    (if k = i \<and> status_of i d \<noteq> None then Some s else status_of k d)"
proof (cases "by_key j_id k (db_jobs d)")
  case None
  then show ?thesis
    by (subst status_of_update [of f, OF assms(1)]) (auto simp: status_of_def)
next
  case (Some j)
  then have "j_id j = k" by (auto dest: by_key_Some)
  with Some show ?thesis
    by (subst status_of_update [of f, OF assms(1)]) (auto simp: status_of_def assms(2))
qed

lemma status_of_stamps: "list_all stamp as \<Longrightarrow> status_of i (fold db_act as d) = status_of i d"
proof (induction as arbitrary: d)
  case (Cons a as)
  have "status_of i (db_act a d) = status_of i d"
    using Cons.prems by (cases a) (simp_all add: status_of_update if_distrib cong: if_cong, simp_all add: status_of_def)
  with Cons show ?case by simp
qed simp

lemma status_of_stamped: "acts stamp m \<Longrightarrow> status_of i (bk_db (snd (m w))) = status_of i (bk_db w)"
  by (metis acts_onE status_of_stamps)

lemma inspect_snd: "snd (inspect m w) = snd (m w)"
  by (simp add: inspect_def case_prod_beta)

lemma pool_unwrapped_result:
  "pool_get_unwrapped w = (Ok (), next_tick w) \<or> pool_get_unwrapped w = (Err Panicked_Task, next_tick w)"
  by (simp add: pool_get_unwrapped_def unwrapped_def pool_get_def map_err_def and_then_def ask_def ret_def
      throw_def)

lemma notify_cancelled_result: "fst (notify_cancelled c j i w) = Ok () \<and> bk_db (snd (notify_cancelled c j i w)) = bk_db w"
  by (auto simp: notify_cancelled_def ret_def and_then_def try_send_to_def split: option.splits prod.splits)

lemma inspect_result: "fst (inspect m w) = (if fst (m w) = Err Panicked_Task then Err Panicked_Task else Ok (fst (m w)))"
  by (simp add: inspect_def case_prod_beta)

text \<open>The whole of a successful cancellation after the transaction.\<close>

definition after_cancel :: "job \<Rightarrow> uuid \<Rightarrow> nat be" where
  "after_cancel j i =
     and_then (notify_cancelled (original_completion (j_status j)) j i)
       (\<lambda>_. and_then (inspect (github_update_status (Complete (original_completion (j_status j))) i))
         (\<lambda>_. ret 200))"

lemma after_cancel_statuses: "status_of k (bk_db (snd (after_cancel j i w))) = status_of k (bk_db w)"
proof -
  have "acts stamp (notify_cancelled c j i)" for c
    by (rule acts_frame) (simp add: notify_cancelled_result)
  then have "acts stamp (after_cancel j i)"
    unfolding after_cancel_def by (intro acts_intros github_update_status_stamps)
  then show ?thesis by (rule status_of_stamped)
qed

subsection \<open>What does not panic\<close>

definition calm :: "'a be \<Rightarrow> bool" where
  "calm m \<longleftrightarrow> (\<forall>w. fst (m w) \<noteq> Err Panicked_Task)"

named_theorems calm_intros

lemma calm_basic [calm_intros]:
  "calm (ret a)" "e \<noteq> Panicked_Task \<Longrightarrow> calm (throw e)" "calm (ask f)" "calm (gets g)" "calm (select h)"
  "calm (select_first k)" "calm (execute u)" "calm (call_github c)" "calm (modify v)"
  by (auto simp: calm_def ret_def throw_def ask_def gets_def select_def select_first_def execute_def
      statement_def call_github_def modify_def Let_def split: prod.splits list.splits)

lemma calm_and_then [calm_intros]: "calm m \<Longrightarrow> (\<And>a. calm (f a)) \<Longrightarrow> calm (and_then m f)"
  unfolding calm_def and_then_def by (auto split: prod.splits sum.splits) (metis fst_conv)+

lemma calm_pool [calm_intros]: "calm pool_get"
  unfolding pool_get_def by (auto intro!: calm_intros)

lemma calm_github_update_status: "calm (github_update_status s i)"
  unfolding github_update_status_def get_job_github_def get_repo_and_owner_def commit_get_by_id_def
    repo_get_def owner_get_def get_for_owner_id_def get_installation_client_def update_check_run_def utc_now_def
  by (cases s) (auto intro!: calm_intros split: prod.splits)

lemma calm_inspect: "calm m \<Longrightarrow> fst (inspect m w) = Ok (fst (m w))"
  by (simp add: calm_def inspect_def case_prod_beta)

lemma after_cancel_result: "fst (after_cancel j i w) = Ok 200"
proof -
  obtain u where n: "notify_cancelled (original_completion (j_status j)) j i w = (Ok (), u)"
    using notify_cancelled_result [of "original_completion (j_status j)" j i w]
    by (cases "notify_cancelled (original_completion (j_status j)) j i w") auto
  let ?g = "github_update_status (Complete (original_completion (j_status j))) i"
  obtain v where "inspect ?g u = (Ok (fst (?g u)), v)"
    using calm_inspect [OF calm_github_update_status, of "Complete (original_completion (j_status j))" i u]
    by (cases "inspect ?g u") auto
  then show ?thesis by (simp add: after_cancel_def and_then_def n ret_def)
qed

text \<open>The answers of the cancellation endpoint, in every environment.\<close>

lemma cancel_job_handler_result:
  assumes "cancel_job_handler i w = (r, w')"
  shows "r = Ok 200 \<and> (\<exists>j. by_key j_id i (db_jobs (bk_db w)) = Some j \<and> is_cancellable j)
        \<and> (\<forall>k. status_of k (bk_db w') = (if k = i then Some (Complete Cancelled) else status_of k (bk_db w)))
    \<or> bk_db w' = bk_db w \<and>
        (r = Ok 400 \<and> (\<exists>j. by_key j_id i (db_jobs (bk_db w)) = Some j \<and> \<not> is_cancellable j)
         \<or> r = Ok 404 \<and> by_key j_id i (db_jobs (bk_db w)) = None
         \<or> r = Ok 500 \<or> r = Err Panicked_Task)"
proof -
  from pool_unwrapped_result [of w] show ?thesis
  proof
    assume "pool_get_unwrapped w = (Err Panicked_Task, next_tick w)"
    then show ?thesis using assms by (auto simp: cancel_job_handler_def and_then_def)
  next
    assume pool: "pool_get_unwrapped w = (Ok (), next_tick w)"
    obtain x u where c: "job_cancel i (next_tick w) = (x, u)" by (cases "job_cancel i (next_tick w)")
    note res = job_cancel_result [OF c, simplified]
    have "x \<noteq> Err Panicked_Task" using res by auto
    then have i: "inspect (job_cancel i) (next_tick w) = (Ok x, u)" by (simp add: inspect_def c)
    have h: "(r, w') = (case x of
        Inr (True, Some j) \<Rightarrow> after_cancel j i u | Inr (True, None) \<Rightarrow> (Ok 500, u)
      | Inr (False, _) \<Rightarrow> (Ok 400, u) | Inl e \<Rightarrow> (Ok (if e = Not_Found then 404 else 500), u))"
      using assms unfolding cancel_job_handler_def
      by (simp add: and_then_def [of _ _ w] and_then_def [of _ _ "next_tick w"] pool i after_cancel_def [symmetric]
          split: sum.splits prod.splits option.splits bool.splits) (auto simp: ret_def)
    from res show ?thesis
    proof (elim disjE exE conjE)
      fix j t
      assume x: "x = Ok (True, Some (completed Cancelled t j))"
        and j: "by_key j_id i (db_jobs (bk_db w)) = Some j" "is_cancellable j"
        and d: "bk_db u = update_jobs (\<lambda>x. j_id x = i) (completed Cancelled t) (bk_db w)"
      have "r = Ok 200" "w' = snd (after_cancel (completed Cancelled t j) i u)"
        using h after_cancel_result [of "completed Cancelled t j" i u] unfolding x
        by (simp_all add: prod_eq_iff)
      moreover have "status_of k (bk_db u) = (if k = i then Some (Complete Cancelled) else status_of k (bk_db w))" for k
        unfolding d using j(1) by (subst status_of_set) (auto simp: completed_def status_of_def)
      ultimately show ?thesis using j by (simp add: after_cancel_statuses)
    qed (use h in simp_all)
  qed
qed

definition demo_login :: "string + introspected_user" where
  "demo_login = Ok demo_user"

lemma demo_user_ok [simp]: "beta_user_from_request demo_login = Ok demo_user"
  by code_simp

text \<open>
  Evaluating an operation of the backend on concrete tables: a continuation is only looked at once
  the result before it is known.
\<close>

definition bind_result :: "('e + 'a) \<times> 'w \<Rightarrow> ('a \<Rightarrow> ('w, 'e, 'b) io) \<Rightarrow> ('e + 'b) \<times> 'w" where
  "bind_result p f = (case p of (Inl e, w) \<Rightarrow> (Err e, w) | (Inr a, w) \<Rightarrow> f a w)"

lemma bind_result_simps: "bind_result (Err e, w) f = (Err e, w)" "bind_result (Ok a, w) f = f a w"
  by (simp_all add: bind_result_def)

lemma and_then_run: "and_then m f w = bind_result (m w) f"
  by (simp add: and_then_def bind_result_def)

lemmas be_eval = and_then_run bind_result_simps ret_def throw_def map_err_def modify_def ask_def gets_def
  pool_get_def statement_def select_def select_first_def execute_def execute_checked_def utc_now_def
  now_v7_def call_github_def transaction_def unwrapped_def inspect_def next_tick_def
  pool_get_unwrapped_def update_jobs_def update_where_def Let_def

lemmas job_eval = job_get_by_id_def job_complete_def completed_def job_cancel_def job_retry_def
  insert_job_def queued_job_def insert_row_def link_retried_def is_retryable_def is_cancellable_def
  github_details_def get_with_github_details_def has_key_def

lemmas github_eval = github_update_status_def get_job_github_def get_repo_and_owner_def
  commit_get_by_id_def repo_get_def owner_get_def get_for_owner_id_def active_installations_def
  get_installation_client_def update_check_run_def create_with_check_run_def
  create_github_check_run_def create_check_run_def details_url_def insert_job_github_def

lemmas demo_eval = demo_backend_def demo_env_def demo_db_def

lemma demo_cancelled: "fst (cancel_job_endpoint demo_login 7 demo_backend) = 200"
  by (simp add: cancel_job_endpoint_def guarded_handler_def cancel_job_handler_def original_completion_def
      notify_cancelled_def be_eval job_eval github_eval demo_eval)

text \<open>
  C10. The cancellation endpoint answers what it did, in every environment: 403 without a change for
  a user without beta access; 200 exactly when the job was queued or running and has become
  cancelled, every other job keeping its status, although the reports to GitHub and to the runner
  may fail; 400 for a job that has ended, 404 for one that does not exist and 500 for a failure of
  the database, the tables unchanged.
\<close>

theorem cancellation_answers:
  assumes "cancel_job_endpoint user i w = (s, w')"
  shows "s = 403 \<and> w' = w \<and> \<not> is_ok (beta_user_from_request user)
    \<or> is_ok (beta_user_from_request user) \<and>
       (s = 200 \<and> (\<exists>j. by_key j_id i (db_jobs (bk_db w)) = Some j \<and> is_cancellable j)
          \<and> (\<forall>k. status_of k (bk_db w') = (if k = i then Some (Complete Cancelled) else status_of k (bk_db w)))
        \<or> bk_db w' = bk_db w \<and>
            (s = 400 \<and> (\<exists>j. by_key j_id i (db_jobs (bk_db w)) = Some j \<and> \<not> is_cancellable j)
             \<or> s = 404 \<and> by_key j_id i (db_jobs (bk_db w)) = None
             \<or> s = 500))"
proof (cases "beta_user_from_request user")
  case (Inl e)
  then show ?thesis using assms by (simp add: cancel_job_endpoint_def guarded_handler_def)
next
  case (Inr u)
  obtain r v where c: "cancel_job_handler i w = (r, v)" by (cases "cancel_job_handler i w")
  have "w' = v" "s = (case r of Inl _ \<Rightarrow> 500 | Inr s \<Rightarrow> s)"
    using assms Inr by (auto simp: cancel_job_endpoint_def guarded_handler_def c split: sum.splits)
  then show ?thesis using Inr cancel_job_handler_result [OF c] by (elim disjE conjE) auto
qed

theorem cancellation_answers_witness:
  "status_of 7 (bk_db (snd (cancel_job_endpoint demo_login 7 demo_backend))) = Some (Complete Cancelled)"
  using cancellation_answers [of demo_login 7 demo_backend, OF surjective_pairing] demo_cancelled
  by simp

subsection \<open>What a runner reports\<close>

text \<open>An outside that answers: connections and statements succeed and no row is locked.\<close>

definition quiet :: "backend \<Rightarrow> bool" where
  "quiet w \<longleftrightarrow> (\<forall>n. ev_pool (bk_env w) n \<and> ev_statement (bk_env w) n \<and> (\<forall>k. \<not> ev_locked (bk_env w) n k))"

lemma quiet_pool: "quiet w \<Longrightarrow> pool_get_unwrapped w = (Ok (), next_tick w) \<and> pool_get w = (Ok (), next_tick w)"
  by (simp add: quiet_def pool_get_unwrapped_def unwrapped_def pool_get_def map_err_def and_then_def ask_def ret_def)

lemma quiet_next [simp]: "quiet (next_tick w) = quiet w" "quiet (w\<lparr>bk_db := d\<rparr>) = quiet w"
  by (simp_all add: quiet_def)

lemma quiet_statement:
  "quiet w \<Longrightarrow> statement f w = (case f (ev_now (bk_env w) (bk_tick w)) (bk_db w) of
     (r, d) \<Rightarrow> (r, next_tick (w\<lparr>bk_db := d\<rparr>)))"
  by (simp add: quiet_def statement_def)

lemma quiet_select: "quiet w \<Longrightarrow> select f w = (Ok (f (bk_db w)), next_tick w)"
  by (simp add: select_def quiet_statement)

lemma quiet_select_first:
  "quiet w \<Longrightarrow> select_first f w = (case f (bk_db w) of [] \<Rightarrow> Err Not_Found | r # _ \<Rightarrow> Ok r, next_tick w)"
  by (simp add: select_first_def quiet_statement)

lemma quiet_execute: "quiet w \<Longrightarrow> execute f w = (Ok (), next_tick (w\<lparr>bk_db := f (bk_db w)\<rparr>))"
  by (simp add: execute_def quiet_statement)

lemma pool_session:
  "on_backend pool_get_unwrapped s = (Ok (), s\<lparr>sw_backend := next_tick (sw_backend s)\<rparr>)
   \<or> on_backend pool_get_unwrapped s = (Err Panicked_Task, s\<lparr>sw_backend := next_tick (sw_backend s)\<rparr>)
     \<and> \<not> quiet (sw_backend s)"
  using pool_unwrapped_result [of "sw_backend s"] quiet_pool [of "sw_backend s"]
  by (auto simp: on_backend_def)

lemma update_status_result:
  "\<exists>x w'. inspect (db_update_job_status i s) w = (Ok x, w') \<and>
     (bk_db w' = update_jobs (\<lambda>j. j_id j = i) (\<lambda>j. j\<lparr>j_status := s\<rparr>) (bk_db w)
      \<or> bk_db w' = bk_db w \<and> \<not> quiet w)"
proof -
  let ?f = "update_jobs (\<lambda>j. j_id j = i) (\<lambda>j. j\<lparr>j_status := s\<rparr>)"
  obtain x w' where x: "execute ?f w = (x, w')" by (cases "execute ?f w")
  from execute_result [OF x] quiet_execute [of w ?f] show ?thesis
    by (auto simp: db_update_job_status_def inspect_def x)
qed

lemma report_sets_status:
  fixes s :: session_world and r i :: uuid and st :: job_status
  defines "w \<equiv> sw_backend s" and "w' \<equiv> sw_backend (snd (handle_update r i st s))"
  shows "(\<forall>k. status_of k (bk_db w') =
      (if k = i \<and> status_of i (bk_db w) \<noteq> None then Some st else status_of k (bk_db w)))
    \<or> (\<forall>k. status_of k (bk_db w') = status_of k (bk_db w)) \<and> \<not> quiet w"
proof -
  define rest where "rest = and_then (on_backend (inspect (github_update_status st i)))
    (\<lambda>_. and_then (check_and_send_job r) (\<lambda>_. ret ()))"
  have rest: "session_acts stamp rest"
    unfolding rest_def by (intro acts_intros github_update_status_stamps)
  have kept: "status_of k (bk_db (sw_backend (snd (rest u)))) = status_of k (bk_db (sw_backend u))" for k u
    using acts_onE [OF rest, of u] status_of_stamps by metis
  have h: "handle_update r i st = and_then (on_backend pool_get_unwrapped)
      (\<lambda>_. and_then (on_backend (inspect (db_update_job_status i st))) (\<lambda>_. rest))"
    by (simp add: handle_update_def rest_def)
  from pool_session [of s, folded w_def] show ?thesis
  proof
    assume p: "on_backend pool_get_unwrapped s = (Ok (), s\<lparr>sw_backend := next_tick w\<rparr>)" (is "_ = (_, ?s1)")
    obtain x u where u: "inspect (db_update_job_status i st) (next_tick w) = (Ok x, u)"
      and d: "bk_db u = update_jobs (\<lambda>j. j_id j = i) (\<lambda>j. j\<lparr>j_status := st\<rparr>) (bk_db w)
        \<or> bk_db u = bk_db w \<and> \<not> quiet w"
      using update_status_result [of i st "next_tick w"] by auto
    have "snd (handle_update r i st s) = snd (rest (?s1\<lparr>sw_backend := u\<rparr>))"
      using p u by (simp add: h and_then_def on_backend_def [of "inspect _"] w_def)
    then have w': "status_of k (bk_db w') = status_of k (bk_db u)" for k
      by (simp add: w'_def kept)
    from d show ?thesis
    proof
      assume "bk_db u = update_jobs (\<lambda>j. j_id j = i) (\<lambda>j. j\<lparr>j_status := st\<rparr>) (bk_db w)"
      then have "status_of k (bk_db w') =
          (if k = i \<and> status_of i (bk_db w) \<noteq> None then Some st else status_of k (bk_db w))" for k
        using status_of_set [of "\<lambda>j. j\<lparr>j_status := st\<rparr>" st k i "bk_db w"] by (simp add: w')
      then show ?thesis by blast
    qed (simp add: w')
  next
    assume "on_backend pool_get_unwrapped s = (Err Panicked_Task, s\<lparr>sw_backend := next_tick w\<rparr>) \<and> \<not> quiet w"
    then show ?thesis by (simp add: w'_def h and_then_def w_def)
  qed
qed

text \<open>
  A report of a runner is taken as it is: when the database answers, a status update sets the
  status of the job it names to whatever the runner sent, whichever runner it is and whatever the
  status was. A cancelled job that its runner finishes afterwards becomes successful.
\<close>

theorem report_overwrites_any_status:
  assumes "quiet (sw_backend s)" and "status_of i (bk_db (sw_backend s)) = Some old"
  shows "status_of k (bk_db (sw_backend (snd (handle_client_message r (UpdateJobStatus i new) s)))) =
    (if k = i then Some new else status_of k (bk_db (sw_backend s)))"
  using report_sets_status [of r i new s] assms by auto

lemma quiet_cancelled: "quiet (snd (cancel_job_endpoint demo_login 7 demo_backend))"
  by (simp add: cancel_job_endpoint_def guarded_handler_def cancel_job_handler_def original_completion_def
      notify_cancelled_def quiet_def be_eval job_eval github_eval demo_eval)

theorem report_overwrites_any_status_witness:
  "status_of 7 (bk_db (snd (cancel_job_endpoint demo_login 7 demo_backend))) = Some (Complete Cancelled)
   \<and> status_of 7 (bk_db (sw_backend (snd (handle_client_message 2 (UpdateJobStatus 7 (Complete Success))
       (fresh_session (snd (cancel_job_endpoint demo_login 7 demo_backend)) (\<lambda>_. True)))))) = Some (Complete Success)"
proof -
  have c: "status_of 7 (bk_db (snd (cancel_job_endpoint demo_login 7 demo_backend))) = Some (Complete Cancelled)"
    by (simp add: cancel_job_endpoint_def guarded_handler_def cancel_job_handler_def original_completion_def
      notify_cancelled_def status_of_def by_key_def be_eval job_eval github_eval demo_eval)
  then show ?thesis
    using report_overwrites_any_status [of "fresh_session (snd (cancel_job_endpoint demo_login 7 demo_backend)) (\<lambda>_. True)"
        7 "Complete Cancelled" 7 2 "Complete Success"] quiet_cancelled
    by (simp add: fresh_session_def)
qed

end
