(* ===== verification/Job_Creation.thy ===== *)
theory Job_Creation
  imports Job_Lifecycle
begin

section \<open>How jobs come to be\<close>

text \<open>
  Retrying a job and the jobs of a push, in every environment: which rows exist afterwards. An
  operation \<open>meets\<close> a relation between the world before, its result and the world after; one that
  performs no action reads.
\<close>

definition meets :: "'a be \<Rightarrow> (backend \<Rightarrow> be_error + 'a \<Rightarrow> backend \<Rightarrow> bool) \<Rightarrow> bool" where
  "meets m Q \<longleftrightarrow> (\<forall>w. Q w (fst (m w)) (snd (m w)))"

abbreviation reads :: "'a be \<Rightarrow> bool" where
  "reads \<equiv> acts (\<lambda>_. False)"

definition keeps_env :: "'a be \<Rightarrow> bool" where
  "keeps_env m \<longleftrightarrow> (\<forall>w. bk_env (snd (m w)) = bk_env w)"

lemma meetsD: "meets m Q \<Longrightarrow> m w = (r, w') \<Longrightarrow> Q w r w'"
  unfolding meets_def by (metis fst_conv snd_conv)

lemma meets_mono: "meets m Q \<Longrightarrow> (\<And>w r w'. Q w r w' \<Longrightarrow> R w r w') \<Longrightarrow> meets m R"
  by (simp add: meets_def)

lemma meets_conj: "meets m Q \<Longrightarrow> meets m R \<Longrightarrow> meets m (\<lambda>w r w'. Q w r w' \<and> R w r w')"
  by (simp add: meets_def)

lemma meets_keeps: "keeps_env m \<Longrightarrow> meets m (\<lambda>w r w'. bk_env w' = bk_env w)"
  by (simp add: meets_def keeps_env_def)

lemma meets_reads: "reads m \<Longrightarrow> meets m (\<lambda>w r w'. bk_db w' = bk_db w)"
  unfolding meets_def acts_on_def by (metis (mono_tags) fold_simps(1) list.pred_set list.set_intros(1) neq_Nil_conv)

lemma meets_and_then:
  assumes "meets m Q" and "\<And>a. meets (f a) (R a)"
  shows "meets (and_then m f) (\<lambda>w r w'. (\<exists>e. r = Err e \<and> Q w (Err e) w')
    \<or> (\<exists>a w1. Q w (Ok a) w1 \<and> R a w1 r w'))"
  unfolding meets_def
proof
  fix w
  obtain x w1 where m: "m w = (x, w1)" by (cases "m w")
  have q: "Q w x w1" using meetsD [OF assms(1) m] .
  show "(\<exists>e. fst (and_then m f w) = Err e \<and> Q w (Err e) (snd (and_then m f w)))
    \<or> (\<exists>a w1. Q w (Ok a) w1 \<and> R a w1 (fst (and_then m f w)) (snd (and_then m f w)))"
  proof (cases x)
    case (Inl e)
    then show ?thesis using q by (simp add: and_then_def m)
  next
    case (Inr a)
    have "R a w1 (fst (f a w1)) (snd (f a w1))" using assms(2) [of a] by (simp add: meets_def)
    then show ?thesis using q Inr by (auto simp: and_then_def m)
  qed
qed

text \<open>A relation between tables: reading first or last does not matter.\<close>

abbreviation tables :: "(db \<Rightarrow> be_error + 'a \<Rightarrow> db \<Rightarrow> bool) \<Rightarrow> backend \<Rightarrow> be_error + 'a \<Rightarrow> backend \<Rightarrow> bool" where
  "tables Q \<equiv> \<lambda>w r w'. Q (bk_db w) r (bk_db w')"

lemma tables_after_reads:
  assumes "reads m" and "\<And>a. meets (f a) (tables Q)" and "\<And>d e. Q d (Err e) d"
  shows "meets (and_then m f) (tables Q)"
  by (rule meets_mono [OF meets_and_then [OF meets_reads [OF assms(1)] assms(2)]]) (auto simp: assms(3))

lemma tables_then:
  assumes "meets m (tables Q)" and "\<And>a. meets (f a) (tables (R a))"
    and "\<And>d e d'. Q d (Err e) d' \<Longrightarrow> S d (Err e) d'"
    and "\<And>d a d1 r d'. Q d (Ok a) d1 \<Longrightarrow> R a d1 r d' \<Longrightarrow> S d r d'"
  shows "meets (and_then m f) (tables S)"
  by (rule meets_mono [OF meets_and_then [OF assms(1,2)]]) (auto intro: assms(3,4))

lemma tables_ret: "(\<And>d. Q d (Ok a) d) \<Longrightarrow> meets (ret a) (tables Q)"
  by (simp add: meets_def ret_def)

lemma tables_reads: "reads m \<Longrightarrow> meets m (tables (\<lambda>d r d'. d' = d))"
  by (rule meets_reads)

lemma tables_map_err: "meets m (tables Q) \<Longrightarrow> meets (map_err g m) (tables (\<lambda>d r d'.
    (\<exists>e x. r = Err x \<and> Q d (Err e) d') \<or> (\<exists>a. r = Ok a \<and> Q d (Ok a) d')))"
  unfolding meets_def map_err_def by (auto simp: case_prod_beta split: sum.splits) metis+

lemma tables_transaction:
  assumes "meets m (tables Q)"
  shows "meets (transaction m) (tables (\<lambda>d r d'. (\<exists>e. r = Err e \<and> d' = d) \<or> (\<exists>a. r = Ok a \<and> Q d (Ok a) d')))"
  unfolding meets_def
proof
  fix w
  obtain r w' where t: "transaction m w = (r, w')" by (cases "transaction m w")
  show "(\<exists>e. fst (transaction m w) = Err e \<and> bk_db (snd (transaction m w)) = bk_db w)
    \<or> (\<exists>a. fst (transaction m w) = Ok a \<and> Q (bk_db w) (Ok a) (bk_db (snd (transaction m w))))"
    using transaction_result [OF t] meetsD [OF assms] by (fastforce simp: t)
qed

named_theorems env_intros

lemma keeps_env_basic [env_intros]:
  "keeps_env (ret a)" "keeps_env (throw e)" "keeps_env (ask f)" "keeps_env (gets g)"
  "keeps_env (statement h)" "keeps_env (call_github c)" "keeps_env (modify (\<lambda>w. w\<lparr>bk_tasks := ts w\<rparr>))"
  by (auto simp: keeps_env_def io_defs ask_def gets_def statement_def next_tick_def call_github_def Let_def
      split: prod.splits)

lemma keeps_env_and_then [env_intros]:
  assumes "keeps_env m" and "\<And>a. keeps_env (k a)"
  shows "keeps_env (and_then m k)"
  unfolding keeps_env_def
proof
  fix w
  obtain r w1 where m: "m w = (r, w1)" by (cases "m w")
  then have "bk_env w1 = bk_env w" using assms(1) unfolding keeps_env_def by (metis snd_conv)
  then show "bk_env (snd (and_then m k w)) = bk_env w"
    using assms(2) by (cases r) (simp_all add: and_then_def m keeps_env_def)
qed

lemma keeps_env_inspect [env_intros]: "keeps_env m \<Longrightarrow> keeps_env (inspect m)"
  by (simp add: keeps_env_def inspect_def case_prod_beta)

lemma keeps_env_for_each [env_intros]: "(\<And>x. keeps_env (f x)) \<Longrightarrow> keeps_env (for_each f xs)"
  by (induction xs) (auto intro: env_intros)

subsection \<open>Inserting and linking rows\<close>

definition add_job :: "job \<Rightarrow> db \<Rightarrow> db" where
  "add_job j d = d\<lparr>db_jobs := db_jobs d @ [j]\<rparr>"

definition add_link :: "job_github \<Rightarrow> db \<Rightarrow> db" where
  "add_link g d = d\<lparr>db_jobs_github := db_jobs_github d @ [g]\<rparr>"

lemma insert_job_meets:
  assumes "\<And>t. j_id (q t) = i" and "\<And>t. j_previous_job_id (q t) = p"
  shows "meets (statement (\<lambda>t. insert_job (q t))) (tables (\<lambda>d r d'.
    (\<exists>e. r = Err e \<and> d' = d) \<or> (\<exists>t. r = Ok (q t) \<and> \<not> has_key j_id i (db_jobs d)
       \<and> (case p of None \<Rightarrow> True | Some k \<Rightarrow> has_key j_id k (db_jobs d)) \<and> d' = add_job (q t) d)))"
  unfolding meets_def
proof
  fix w
  show "(\<exists>e. fst (statement (\<lambda>t. insert_job (q t)) w) = Err e \<and> bk_db (snd (statement (\<lambda>t. insert_job (q t)) w)) = bk_db w)
    \<or> (\<exists>t. fst (statement (\<lambda>t. insert_job (q t)) w) = Ok (q t) \<and> \<not> has_key j_id i (db_jobs (bk_db w))
       \<and> (case p of None \<Rightarrow> True | Some k \<Rightarrow> has_key j_id k (db_jobs (bk_db w)))
       \<and> bk_db (snd (statement (\<lambda>t. insert_job (q t)) w)) = add_job (q t) (bk_db w))"
    by (rule statement_cases [of "\<lambda>t. insert_job (q t)" w])
      (auto simp: insert_job_def insert_row_def add_job_def assms split: if_splits option.splits)
qed

lemma insert_job_github_meets:
  "meets (statement (\<lambda>_. insert_job_github g)) (tables (\<lambda>d r d'.
    (\<exists>e. r = Err e \<and> d' = d) \<or> r = Ok g \<and> d' = add_link g d))"
  unfolding meets_def
proof
  fix w
  show "(\<exists>e. fst (statement (\<lambda>_. insert_job_github g) w) = Err e \<and> bk_db (snd (statement (\<lambda>_. insert_job_github g) w)) = bk_db w)
    \<or> fst (statement (\<lambda>_. insert_job_github g) w) = Ok g \<and> bk_db (snd (statement (\<lambda>_. insert_job_github g) w)) = add_link g (bk_db w)"
    by (rule statement_cases [of "\<lambda>_. insert_job_github g" w])
      (auto simp: insert_job_github_def insert_row_def add_link_def split: if_splits option.splits)
qed

lemma execute_checked_meets:
  "meets (execute_checked f) (tables (\<lambda>d r d'. (\<exists>e. r = Err e \<and> d' = d) \<or> r = Ok () \<and> f d = Some d'))"
  unfolding meets_def
proof
  fix w
  show "(\<exists>e. fst (execute_checked f w) = Err e \<and> bk_db (snd (execute_checked f w)) = bk_db w)
    \<or> fst (execute_checked f w) = Ok () \<and> f (bk_db w) = Some (bk_db (snd (execute_checked f w)))"
    unfolding execute_checked_def
    by (rule statement_cases [of "\<lambda>_ d. case f d of None \<Rightarrow> (Err Database_Fault, d) | Some d' \<Rightarrow> (Ok (), d')" w])
      (auto split: option.splits)
qed

subsection \<open>Retrying\<close>

text \<open>The new job of a retry, and the tables with it and the link to it.\<close>

definition retry_of :: "job \<Rightarrow> uuid \<Rightarrow> time \<Rightarrow> job" where
  "retry_of j n t = queued_job n (j_platform j) (j_cpus j) (j_memory_mb j) (Some (j_id j)) t"

definition retried_with :: "job \<Rightarrow> uuid \<Rightarrow> time \<Rightarrow> db \<Rightarrow> db" where
  "retried_with j n t d =
     update_jobs (\<lambda>x. j_id x = j_id j) (\<lambda>x. x\<lparr>j_retried_job_id := Some n\<rparr>) (add_job (retry_of j n t) d)"

lemma job_retry_meets:
  "meets (job_retry j) (tables (\<lambda>d r d'. (\<exists>e. r = Err e) \<or>
     (\<exists>n t. r = Ok (retry_of j n t) \<and> is_retryable j \<and> \<not> has_key j_id n (db_jobs d)
        \<and> has_key j_id (j_id j) (db_jobs d) \<and> d' = retried_with j n t d)))"
proof (cases "is_retryable j")
  case True
  show ?thesis
    unfolding job_retry_def now_v7_def if_P [OF True]
  proof (rule tables_after_reads [OF acts_ret(4)])
    fix i
    let ?q = "queued_job i (j_platform j) (j_cpus j) (j_memory_mb j) (Some (j_id j))"
    show "meets (and_then (statement (\<lambda>t. insert_job (?q t)))
        (\<lambda>retried. and_then (execute_checked (link_retried (j_id j) (j_id retried))) (\<lambda>_. ret retried)))
      (tables (\<lambda>d r d'. (\<exists>e. r = Err e) \<or>
     (\<exists>n t. r = Ok (retry_of j n t) \<and> is_retryable j \<and> \<not> has_key j_id n (db_jobs d)
        \<and> has_key j_id (j_id j) (db_jobs d) \<and> d' = retried_with j n t d)))"
    proof (rule tables_then [OF insert_job_meets [where i = i and p = "Some (j_id j)"]])
      show "meets (and_then (execute_checked (link_retried (j_id j) (j_id retried))) (\<lambda>_. ret retried))
        (tables (\<lambda>d r d'. (\<exists>e. r = Err e) \<or> r = Ok retried \<and> link_retried (j_id j) (j_id retried) d = Some d'))"
        for retried
        by (rule tables_then [OF execute_checked_meets tables_ret [where Q = "\<lambda>d r d'. r = Ok retried \<and> d' = d"]]) auto
    qed (auto simp: queued_job_def retry_of_def retried_with_def link_retried_def add_job_def True split: if_splits)
  qed simp
next
  case False
  then show ?thesis by (simp add: job_retry_def meets_def throw_def)
qed

lemma select_first_meets:
  "meets (select_first f) (tables (\<lambda>d r d'. d' = d \<and> (\<forall>x. r = Ok x \<longrightarrow> x \<in> set (f d))))"
  unfolding meets_def
proof
  fix w
  show "bk_db (snd (select_first f w)) = bk_db w
    \<and> (\<forall>x. fst (select_first f w) = Ok x \<longrightarrow> x \<in> set (f (bk_db w)))"
    unfolding select_first_def
    by (rule statement_cases [of "\<lambda>_ d. (case f d of [] \<Rightarrow> Err Not_Found | r # _ \<Rightarrow> Ok r, d)" w])
      (auto split: list.splits)
qed

lemma create_with_check_run_meets:
  "meets (create_with_check_run j c) (tables (\<lambda>d r d'. (\<exists>e. r = Err e \<and> d' = d)
     \<or> (\<exists>k. let g = \<lparr>jg_job_id = j_id j, jg_commit_id = gc_id c, jg_check_run_id = k\<rparr>
             in r = Ok g \<and> d' = add_link g d)))"
  unfolding create_with_check_run_def Let_def
  by (rule tables_after_reads, rule github_calls(4), rule meets_mono [OF insert_job_github_meets]) auto

text \<open>
  Three outcomes of retrying job \<open>j\<close> of commit \<open>c\<close>: nothing, the new job alone, and the new job with
  its check run.
\<close>

definition retry_result :: "job \<Rightarrow> github_commit \<Rightarrow> db \<Rightarrow> be_error + job_response \<Rightarrow> db \<Rightarrow> bool" where
  "retry_result j c d r d' \<longleftrightarrow> (\<exists>e. r = Err e \<and> d' = d) \<or>
     (\<exists>n t. is_retryable j \<and> \<not> has_key j_id n (db_jobs d) \<and>
        ((\<exists>e. r = Err e \<and> d' = retried_with j n t d)
         \<or> (\<exists>resp. r = Ok resp \<and> jr_job resp = retry_of j n t \<and> jg_job_id (jr_github resp) = n
              \<and> jg_commit_id (jr_github resp) = gc_id c \<and> d' = add_link (jr_github resp) (retried_with j n t d))))"

definition retry_outcome :: "uuid \<Rightarrow> db \<Rightarrow> be_error + job_response \<Rightarrow> db \<Rightarrow> bool" where
  "retry_outcome i d r d' \<longleftrightarrow> (\<exists>e. r = Err e \<and> d' = d) \<or>
     (\<exists>j g c. (j, g, c) \<in> set (github_details i d) \<and> retry_result j c d r d')"

text \<open>The end of the handler: nothing can fail after the row of the check run is written.\<close>

definition answer_retry :: "job \<Rightarrow> github_commit \<Rightarrow> job_github \<Rightarrow> job_response be" where
  "answer_retry retried c g =
     and_then (job_log_url retried)
       (\<lambda>url. and_then (notify_runners_about_job retried)
         (\<lambda>_. ret \<lparr>jr_job = retried, jr_github = g, jr_commit = c, jr_log_url = url\<rparr>))"

lemma answer_retry_meets:
  "meets (answer_retry retried c g)
     (tables (\<lambda>d r d'. \<exists>resp. r = Ok resp \<and> jr_job resp = retried \<and> jr_github resp = g \<and> d' = d))"
  by (simp add: answer_retry_def meets_def and_then_def job_log_url_def gets_def notify_runners_about_job_def
      broadcast_job_available_def modify_def ret_def)

lemma linked_retry_meets:
  "meets (and_then (map_err h (create_with_check_run retried c)) (answer_retry retried c))
     (tables (\<lambda>d r d'. (\<exists>e. r = Err e \<and> d' = d) \<or>
       (\<exists>resp. r = Ok resp \<and> jr_job resp = retried \<and> jg_job_id (jr_github resp) = j_id retried
          \<and> jg_commit_id (jr_github resp) = gc_id c \<and> d' = add_link (jr_github resp) d)))"
  by (rule tables_then [OF tables_map_err [OF create_with_check_run_meets] answer_retry_meets])
    (auto simp: Let_def)

lemma retry_meets:
  "meets (and_then (map_err h (transaction (job_retry j)))
      (\<lambda>retried. and_then (map_err h' (create_with_check_run retried c)) (answer_retry retried c)))
     (tables (retry_result j c))"
  by (rule tables_then [OF tables_map_err [OF tables_transaction [OF job_retry_meets]] linked_retry_meets])
    (force simp: retry_result_def retry_of_def queued_job_def)+

lemma retry_job_handler_meets: "meets (retry_job_handler i) (tables (retry_outcome i))"
  unfolding retry_job_handler_def answer_retry_def [symmetric]
proof (rule tables_after_reads [OF pool_acts(1)])
  show "meets (and_then (map_err h (get_with_github_details i))
         (\<lambda>(j, g, c). if \<not> is_retryable j then throw e
            else and_then (map_err h' (transaction (job_retry j)))
              (\<lambda>retried. and_then (map_err h'' (create_with_check_run retried c)) (answer_retry retried c))))
     (tables (retry_outcome i))" for h h' h'' e
  proof (rule tables_then)
    show "meets (map_err h (get_with_github_details i)) (tables (\<lambda>d r d'. (\<exists>x. r = Err x \<and> d' = d)
        \<or> (\<exists>a. r = Ok a \<and> d' = d \<and> a \<in> set (github_details i d))))"
      unfolding get_with_github_details_def
      by (rule meets_mono [OF tables_map_err [OF select_first_meets]]) auto
    show "meets (case a of (j, g, c) \<Rightarrow> if \<not> is_retryable j then throw e
            else and_then (map_err h' (transaction (job_retry j)))
              (\<lambda>retried. and_then (map_err h'' (create_with_check_run retried c)) (answer_retry retried c)))
        (tables (case a of (j, g, c) \<Rightarrow> retry_result j c))" for a
    proof (cases a)
      case (fields j g c)
      have "meets (throw e) (tables (retry_result j c))"
        by (simp add: meets_def throw_def retry_result_def)
      then show ?thesis by (simp add: fields retry_meets)
    qed
  qed (auto simp: retry_outcome_def split: prod.splits)
qed (simp add: retry_outcome_def)

lemma no_details_without_job: "(j, g, c) \<in> set (github_details i d) \<Longrightarrow> j \<in> set (db_jobs d) \<and> j_id j = i"
  by (auto simp: github_details_def split: if_splits)

text \<open>
  C14. A retry is never half done: in every environment the endpoint either changes nothing (403
  without beta access, 500 otherwise), or it adds one queued job with the machine of the ended,
  unsuccessful job it retries, under a fresh identifier, and links both jobs to each other. It
  answers 200 exactly when the check run was recorded too; a failure of GitHub leaves the new job
  queued without one.
\<close>

theorem retry_is_all_or_nothing:
  assumes "retry_job_endpoint user i w = (s, w')"
  shows "bk_db w' = bk_db w \<and> (if is_ok (beta_user_from_request user) then s = 500 else s = 403)
    \<or> (\<exists>j n t c k. is_ok (beta_user_from_request user)
        \<and> j \<in> set (db_jobs (bk_db w)) \<and> j_id j = i \<and> is_retryable j
        \<and> \<not> has_key j_id n (db_jobs (bk_db w))
        \<and> (s = 500 \<and> bk_db w' = retried_with j n t (bk_db w)
           \<or> s = 200 \<and> bk_db w' = add_link \<lparr>jg_job_id = n, jg_commit_id = c, jg_check_run_id = k\<rparr>
                                    (retried_with j n t (bk_db w))))"
proof (cases "beta_user_from_request user")
  case (Inl e)
  then show ?thesis using assms by (simp add: retry_job_endpoint_def guarded_handler_def)
next
  case (Inr u)
  obtain r v where h: "retry_job_handler i w = (r, v)" by (cases "retry_job_handler i w")
  have s: "s = (case r of Inl _ \<Rightarrow> 500 | Inr _ \<Rightarrow> 200)" "w' = v"
    using assms Inr
    by (auto simp: retry_job_endpoint_def guarded_handler_def report_response_def h split: sum.splits)
  have "retry_outcome i (bk_db w) r (bk_db w')"
    using meetsD [OF retry_job_handler_meets h] s(2) by simp
  then consider (nothing) e where "r = Err e" "bk_db w' = bk_db w"
    | (some) j g c where "(j, g, c) \<in> set (github_details i (bk_db w))" "retry_result j c (bk_db w) r (bk_db w')"
    unfolding retry_outcome_def by blast
  then show ?thesis
  proof cases
    case nothing
    then show ?thesis using Inr s by simp
  next
    case some
    have j: "j \<in> set (db_jobs (bk_db w))" "j_id j = i"
      using no_details_without_job [OF some(1)] by simp_all
    from some(2) consider (none) e where "r = Err e" "bk_db w' = bk_db w"
      | (row) n t e where "is_retryable j" "\<not> has_key j_id n (db_jobs (bk_db w))" "r = Err e"
          "bk_db w' = retried_with j n t (bk_db w)"
      | (linked) n t resp where "is_retryable j" "\<not> has_key j_id n (db_jobs (bk_db w))" "r = Ok resp"
          "jg_job_id (jr_github resp) = n" "bk_db w' = add_link (jr_github resp) (retried_with j n t (bk_db w))"
      unfolding retry_result_def by blast
    then show ?thesis
    proof cases
      case none
      then show ?thesis using Inr s by simp
    next
      case row
      then show ?thesis using Inr s j by auto
    next
      case linked
      then have "jr_github resp = \<lparr>jg_job_id = n, jg_commit_id = jg_commit_id (jr_github resp),
          jg_check_run_id = jg_check_run_id (jr_github resp)\<rparr>" by simp
      then show ?thesis using Inr s j linked by (metis is_ok_simps(1) sum.case(2))
    qed
  qed
qed

lemma demo_retried: "fst (retry_job_endpoint demo_login 7 (snd (cancel_job_endpoint demo_login 7 demo_backend))) = 200"
  by (simp add: cancel_job_endpoint_def guarded_handler_def cancel_job_handler_def original_completion_def
      notify_cancelled_def retry_job_endpoint_def report_response_def retry_job_handler_def job_log_url_def
      notify_runners_about_job_def broadcast_job_available_def be_eval job_eval github_eval demo_eval)

theorem retry_is_all_or_nothing_witness:
  "\<exists>j n t c k. j_id j = 7 \<and> is_retryable j \<and>
     bk_db (snd (retry_job_endpoint demo_login 7 (snd (cancel_job_endpoint demo_login 7 demo_backend)))) =
       add_link \<lparr>jg_job_id = n, jg_commit_id = c, jg_check_run_id = k\<rparr>
         (retried_with j n t (bk_db (snd (cancel_job_endpoint demo_login 7 demo_backend))))"
  using retry_is_all_or_nothing [of demo_login 7 "snd (cancel_job_endpoint demo_login 7 demo_backend)",
      OF surjective_pairing] demo_retried by simp blast

subsection \<open>The jobs of a push\<close>

text \<open>The rows of a machine: its job, and the link of the job to the commit and its check run.\<close>

record created =
  cr_job :: uuid
  cr_time :: time
  cr_check :: i64

definition machine_job :: "created \<times> vm \<Rightarrow> job" where
  "machine_job p = (case p of (x, v) \<Rightarrow>
     queued_job (cr_job x) (job_platform_of (vm_platform v)) (ucast (vm_cpu_count v)) (vm_memory_size_mb v)
       None (cr_time x))"

definition machine_link :: "github_commit \<Rightarrow> created \<Rightarrow> job_github" where
  "machine_link c x = \<lparr>jg_job_id = cr_job x, jg_commit_id = gc_id c, jg_check_run_id = cr_check x\<rparr>"

abbreviation or_fails :: "(db \<Rightarrow> 'a \<Rightarrow> db \<Rightarrow> bool) \<Rightarrow> db \<Rightarrow> be_error + 'a \<Rightarrow> db \<Rightarrow> bool" where
  "or_fails Q \<equiv> \<lambda>d r d'. (\<exists>e. r = Err e) \<or> (\<exists>a. r = Ok a \<and> Q d a d')"

lemma link_job_meets:
  "meets (and_then (statement (\<lambda>_. insert_job_github g))
      (\<lambda>g. and_then (job_get_by_id i) (\<lambda>j. and_then (notify_runners_about_job j) (\<lambda>_. ret g))))
    (tables (or_fails (\<lambda>d a d'. a = g \<and> d' = add_link g d)))"
proof (rule tables_then [OF insert_job_github_meets])
  show "meets (and_then (job_get_by_id i) (\<lambda>j. and_then (notify_runners_about_job j) (\<lambda>_. ret g)))
    (tables (or_fails (\<lambda>d a d'. a = g \<and> d' = d)))" for g
    by (intro tables_after_reads acts_intros tables_ret) auto
qed auto

lemma job_new_meets:
  "meets (job_new p (Some n) (Some m)) (tables (or_fails (\<lambda>d a d'. \<exists>i t. \<not> has_key j_id i (db_jobs d)
     \<and> a = queued_job i p n m None t \<and> d' = add_job a d)))"
  unfolding job_new_def now_v7_def unwrap_or.simps
  by (rule tables_after_reads [OF acts_ret(4)],
      rule meets_mono [OF insert_job_meets [where p = None]]) (auto simp: queued_job_def)

lemma commit_create_job_meets:
  "meets (commit_create_job c v) (tables (or_fails (\<lambda>d a d'.
     \<exists>x. \<not> has_key j_id (cr_job x) (db_jobs d) \<and> a = machine_link c x
        \<and> d' = add_link a (add_job (machine_job (x, v)) d))))"
  unfolding commit_create_job_def github_create_job_def
proof (rule tables_after_reads [OF pool_acts(1)], rule tables_then [OF job_new_meets])
  show "meets (and_then (repo_get (gc_repo_id c))
           (\<lambda>r. and_then (owner_get (gr_owner_id r))
             (\<lambda>x. and_then (get_for_owner_id (go_id x))
               (\<lambda>inst. and_then (get_installation_client (gi_id inst))
                 (\<lambda>_. and_then (create_check_run x r j (gc_rev c))
                   (\<lambda>k. and_then (statement (\<lambda>_. insert_job_github
                           \<lparr>jg_job_id = j_id j, jg_commit_id = gc_id c, jg_check_run_id = k\<rparr>))
                     (\<lambda>g. and_then (job_get_by_id (j_id j))
                       (\<lambda>j'. and_then (notify_runners_about_job j') (\<lambda>_. ret g)))))))))
    (tables (or_fails (\<lambda>d a d'. \<exists>k. a = \<lparr>jg_job_id = j_id j, jg_commit_id = gc_id c, jg_check_run_id = k\<rparr>
       \<and> d' = add_link a d)))" for j
    by (intro tables_after_reads acts_intros meets_mono [OF link_job_meets]) auto
next
  show "or_fails (\<lambda>d a d'. \<exists>x. \<not> has_key j_id (cr_job x) (db_jobs d) \<and> a = machine_link c x
        \<and> d' = add_link a (add_job (machine_job (x, v)) d)) d r d'"
    if new: "or_fails (\<lambda>d a d'. \<exists>i t. \<not> has_key j_id i (db_jobs d)
        \<and> a = queued_job i (job_platform_of (vm_platform v)) (ucast (vm_cpu_count v)) (vm_memory_size_mb v) None t
        \<and> d' = add_job a d) d (Ok j) d1"
      and link: "or_fails (\<lambda>d a d'. \<exists>k. a = \<lparr>jg_job_id = j_id j, jg_commit_id = gc_id c, jg_check_run_id = k\<rparr>
        \<and> d' = add_link a d) d1 r d'" for d j d1 r d'
  proof -
    from new obtain i t where "\<not> has_key j_id i (db_jobs d)" "d1 = add_job j d"
      "j = queued_job i (job_platform_of (vm_platform v)) (ucast (vm_cpu_count v)) (vm_memory_size_mb v) None t"
      by auto
    note j = this
    show ?thesis
    proof (cases r)
      case (Inr g)
      then obtain k where "g = \<lparr>jg_job_id = j_id j, jg_commit_id = gc_id c, jg_check_run_id = k\<rparr>"
        "d' = add_link g d1" using link by auto
      with j Inr show ?thesis
        by (intro disjI2 exI [of _ g] conjI exI [of _ "\<lparr>cr_job = i, cr_time = t, cr_check = k\<rparr>"])
          (simp_all add: machine_link_def machine_job_def queued_job_def)
    qed simp
  qed
qed auto

definition add_machines :: "github_commit \<Rightarrow> (created \<times> vm) list \<Rightarrow> db \<Rightarrow> db" where
  "add_machines c ps d =
     d\<lparr>db_jobs := db_jobs d @ map machine_job ps,
       db_jobs_github := db_jobs_github d @ map (\<lambda>p. machine_link c (fst p)) ps\<rparr>"

text \<open>One job and one link for every machine, under fresh identifiers.\<close>

definition jobs_for :: "github_commit \<Rightarrow> vm list \<Rightarrow> db \<Rightarrow> db \<Rightarrow> bool" where
  "jobs_for c vms d d' \<longleftrightarrow> (\<exists>xs. length xs = length vms \<and> distinct (map cr_job xs)
     \<and> (\<forall>x \<in> set xs. \<not> has_key j_id (cr_job x) (db_jobs d)) \<and> d' = add_machines c (zip xs vms) d)"

lemma jobs_for_Nil: "jobs_for c [] d d"
  by (simp add: jobs_for_def add_machines_def)

lemma machine_job_id [simp]: "j_id (machine_job p) = cr_job (fst p)"
  by (simp add: machine_job_def queued_job_def case_prod_beta)

lemma jobs_for_Cons:
  assumes "\<not> has_key j_id (cr_job x) (db_jobs d)"
    and "jobs_for c vs (add_link (machine_link c x) (add_job (machine_job (x, v)) d)) d'"
  shows "jobs_for c (v # vs) d d'"
proof -
  obtain xs where "length xs = length vs" "distinct (map cr_job xs)"
    "\<forall>y \<in> set xs. \<not> has_key j_id (cr_job y) (db_jobs d @ [machine_job (x, v)])"
    "d' = add_machines c (zip xs vs) (add_link (machine_link c x) (add_job (machine_job (x, v)) d))"
    using assms(2) by (auto simp: jobs_for_def add_link_def add_job_def)
  then show ?thesis
    using assms(1) unfolding jobs_for_def
    by (intro exI [of _ "x # xs"]) (auto simp: add_machines_def add_link_def add_job_def)
qed

lemma machines_meet:
  "meets (for_each (\<lambda>v. and_then (commit_create_job c v) (\<lambda>_. ret ())) vs)
     (tables (or_fails (\<lambda>d a d'. jobs_for c vs d d')))"
proof (induction vs)
  case Nil
  show ?case by (simp add: meets_def ret_def jobs_for_Nil)
next
  case (Cons v vs)
  have one: "meets (and_then (commit_create_job c v) (\<lambda>_. ret ())) (tables (or_fails (\<lambda>d a d'.
     \<exists>x. \<not> has_key j_id (cr_job x) (db_jobs d)
        \<and> d' = add_link (machine_link c x) (add_job (machine_job (x, v)) d))))"
    by (rule tables_then [OF commit_create_job_meets tables_ret [where Q = "\<lambda>d r d'. r = Ok () \<and> d' = d"]]) auto
  show ?case
    unfolding for_each.simps
    by (rule tables_then [OF one Cons.IH]) (auto intro: jobs_for_Cons)
qed

text \<open>Relations that also see what the outside answers.\<close>

abbreviation outside :: "(env \<Rightarrow> db \<Rightarrow> 'r \<Rightarrow> db \<Rightarrow> bool) \<Rightarrow> backend \<Rightarrow> 'r \<Rightarrow> backend \<Rightarrow> bool" where
  "outside Q \<equiv> \<lambda>w r w'. Q (bk_env w) (bk_db w) r (bk_db w')"

lemma outside_then:
  assumes "keeps_env m" and "meets m (outside Q)" and "\<And>a. meets (f a) (outside (R a))"
    and "\<And>v d e d'. Q v d (Err e) d' \<Longrightarrow> S v d (Err e) d'"
    and "\<And>v d a d1 r d'. Q v d (Ok a) d1 \<Longrightarrow> R a v d1 r d' \<Longrightarrow> S v d r d'"
  shows "meets (and_then m f) (outside S)"
proof (rule meets_mono [OF meets_and_then [OF meets_conj [OF assms(2) meets_keeps [OF assms(1)]] assms(3)]])
  show "S (bk_env w) (bk_db w) r (bk_db w')"
    if "(\<exists>e. r = Err e \<and> Q (bk_env w) (bk_db w) (Err e) (bk_db w') \<and> bk_env w' = bk_env w)
      \<or> (\<exists>a w1. (Q (bk_env w) (bk_db w) (Ok a) (bk_db w1) \<and> bk_env w1 = bk_env w)
          \<and> R a (bk_env w1) (bk_db w1) r (bk_db w'))" for w r w'
    using that assms(4,5) by metis
qed

lemma outside_after_reads:
  assumes "reads m" and "keeps_env m" and "\<And>a. meets (f a) (outside Q)" and "\<And>v d e. Q v d (Err e) d"
  shows "meets (and_then m f) (outside Q)"
  by (rule outside_then [OF assms(2) tables_reads [OF assms(1)] assms(3)]) (auto simp: assms(4))

lemma env_reads [env_intros]:
  "keeps_env pool_get" "keeps_env (select f)" "keeps_env (select_first g)" "keeps_env (execute h)"
  "keeps_env (execute_checked k)" "keeps_env (or_else x e)" "keeps_env now_v7" "keeps_env utc_now"
  "keeps_env (owner_get i)" "keeps_env (get_for_owner_id i)" "keeps_env (get_installation_client i)"
  unfolding pool_get_def select_def select_first_def execute_def execute_checked_def or_else_def now_v7_def
    utc_now_def owner_get_def get_for_owner_id_def get_installation_client_def
  by (auto intro!: env_intros split: option.split)

text \<open>The text of a file GitHub answers with: the empty text unless it is there and readable.\<close>

definition file_text :: "github_reply \<Rightarrow> string" where
  "file_text a = (if ga_ok a then (case ga_items a of [] \<Rightarrow> [] | item # _ \<Rightarrow> unwrap_or item []) else [])"

lemma call_github_meets:
  "meets (call_github c) (outside (\<lambda>v d r d'. d' = d \<and>
     (\<exists>n. r = (if ga_ok (ev_github v n c) then Ok (ev_github v n c) else Err Github_Fault))))"
  by (auto simp: meets_def call_github_def next_tick_def Let_def)

lemma fetch_devenv_yaml_meets:
  "meets (fetch_devenv_yaml x n f) (outside (\<lambda>v d r d'. d' = d \<and>
     (\<exists>k. r = Ok (file_text (ev_github v k (Get_Content x n ''devenv.yaml'' f))))))"
proof -
  have "bk_db (snd (fetch_devenv_yaml x n f w)) = bk_db w \<and> fst (fetch_devenv_yaml x n f w)
      = Ok (file_text (ev_github (bk_env w) (bk_tick w) (Get_Content x n ''devenv.yaml'' f)))" for w
    by (simp add: fetch_devenv_yaml_def and_then_def inspect_def call_github_def next_tick_def ret_def
        file_text_def Let_def)
  then show ?thesis unfolding meets_def by blast
qed

definition add_commit :: "github_commit \<Rightarrow> db \<Rightarrow> db" where
  "add_commit c d = d\<lparr>db_commits := db_commits d @ [c]\<rparr>"

lemma insert_commit_Some: "insert_commit c d = Some d' \<Longrightarrow> d' = add_commit c d \<and> \<not> has_key gc_id (gc_id c) (db_commits d)"
  by (auto simp: insert_commit_def insert_row_def add_commit_def split: if_splits)

text \<open>A commit with a job for every machine of the configuration that GitHub answered.\<close>

definition commit_with_jobs ::
    "(string \<Rightarrow> string + cloud) \<Rightarrow> string \<Rightarrow> string \<Rightarrow> string \<Rightarrow> github_commit \<Rightarrow> env \<Rightarrow> db \<Rightarrow> db \<Rightarrow> bool" where
  "commit_with_jobs from_yaml login name ref_name c v d d' \<longleftrightarrow>
     (\<exists>k vms. final_cloud_new from_yaml (file_text (ev_github v k (Get_Content login name ''devenv.yaml'' ref_name)))
          = Ok vms \<and> jobs_for c vms (add_commit c d) d')"

lemma create_commit_jobs_meets:
  "meets (create_commit_jobs y x n f c)
     (outside (\<lambda>v. or_fails (\<lambda>d a d'. \<not> has_key gc_id (gc_id c) (db_commits d) \<and> commit_with_jobs y x n f c v d d')))"
  unfolding create_commit_jobs_def commit_create_def
proof (rule outside_then [OF env_reads(5) execute_checked_meets])
  show "meets (and_then (fetch_devenv_yaml x n f)
      (\<lambda>yaml. case final_cloud_new y yaml of
         Inl e \<Rightarrow> throw (Other_Error (''Failed to parse devenv.yaml: '' @ e))
       | Inr vms \<Rightarrow> for_each (\<lambda>v. and_then (commit_create_job c v) (\<lambda>_. ret ())) vms))
    (outside (\<lambda>v. or_fails (\<lambda>d a d'. \<exists>k vms. final_cloud_new y
        (file_text (ev_github v k (Get_Content x n ''devenv.yaml'' f))) = Ok vms \<and> jobs_for c vms d d')))"
  proof (rule outside_then [OF _ fetch_devenv_yaml_meets])
    show "keeps_env (fetch_devenv_yaml x n f)"
      unfolding fetch_devenv_yaml_def by (intro env_intros)
    show "meets (case final_cloud_new y yaml of
         Inl e \<Rightarrow> throw (Other_Error (''Failed to parse devenv.yaml: '' @ e))
       | Inr vms \<Rightarrow> for_each (\<lambda>v. and_then (commit_create_job c v) (\<lambda>_. ret ())) vms)
      (outside (\<lambda>v. or_fails (\<lambda>d a d'. \<exists>vms. final_cloud_new y yaml = Ok vms \<and> jobs_for c vms d d')))" for yaml
    proof (cases "final_cloud_new y yaml")
      case (Inr vms)
      have "meets (for_each (\<lambda>v. and_then (commit_create_job c v) (\<lambda>_. ret ())) vms)
        (tables (or_fails (\<lambda>d a d'. jobs_for c vms d d')))" by (rule machines_meet)
      then show ?thesis using Inr by (auto elim!: meets_mono)
    qed (simp add: meets_def throw_def)
  qed auto
qed (auto dest!: insert_commit_Some simp: commit_with_jobs_def)

definition pushed_commit :: "uuid \<Rightarrow> repository \<Rightarrow> push_event \<Rightarrow> github_commit" where
  "pushed_commit i r p = \<lparr>gc_id = i, gc_rev = pu_after p, gc_ref = ref_short (pu_ref p), gc_repo_id = rp_id r,
     gc_author = fst (push_author (pu_commits p)), gc_message = snd (push_author (pu_commits p))\<rparr>"

definition push_result ::
    "(string \<Rightarrow> string + cloud) \<Rightarrow> repository \<Rightarrow> account \<Rightarrow> push_event \<Rightarrow> env \<Rightarrow> db \<Rightarrow> db \<Rightarrow> bool" where
  "push_result y r a p v d d' \<longleftrightarrow>
     (\<exists>k. let content = ev_github v k (Get_Content (ac_login a) (rp_name r) ''devenv.nix'' (pu_ref p))
          in ga_ok content
           \<and> (if ga_items content = [] then d' = d
              else \<exists>i. \<not> has_key gc_id i (db_commits d)
                \<and> commit_with_jobs y (ac_login a) (rp_name r) (pu_ref p) (pushed_commit i r p) v d d'))"

lemma handle_push_meets:
  "meets (handle_push y (Some r) p) (outside (\<lambda>v. or_fails (\<lambda>d x d'.
     \<exists>a. rp_owner r = Some a \<and> push_result y r a p v d d')))"
proof (cases "rp_owner r")
  case None
  then show ?thesis by (simp add: handle_push_def or_else_def meets_def throw_def)
next
  case (Some a)
  have commit: "meets (and_then now_v7 (\<lambda>i. create_commit_jobs y (ac_login a) (rp_name r) (pu_ref p) (pushed_commit i r p)))
    (outside (\<lambda>v. or_fails (\<lambda>d x d'. \<exists>i. \<not> has_key gc_id i (db_commits d)
       \<and> commit_with_jobs y (ac_login a) (rp_name r) (pu_ref p) (pushed_commit i r p) v d d')))"
    unfolding now_v7_def
    by (rule outside_after_reads [OF acts_ret(4) keeps_env_basic(3)],
        rule meets_mono [OF create_commit_jobs_meets]) (auto simp: pushed_commit_def)
  have content: "meets (and_then (call_github (Get_Content (ac_login a) (rp_name r) ''devenv.nix'' (pu_ref p)))
      (\<lambda>content. if ga_items content = [] then ret ()
         else and_then now_v7 (\<lambda>i. create_commit_jobs y (ac_login a) (rp_name r) (pu_ref p) (pushed_commit i r p))))
    (outside (\<lambda>v. or_fails (\<lambda>d x d'. push_result y r a p v d d')))"
  proof (rule outside_then [OF keeps_env_basic(6) call_github_meets])
    show "meets (if ga_items content = [] then ret ()
         else and_then now_v7 (\<lambda>i. create_commit_jobs y (ac_login a) (rp_name r) (pu_ref p) (pushed_commit i r p)))
      (outside (\<lambda>v. or_fails (\<lambda>d x d'. if ga_items content = [] then d' = d
         else \<exists>i. \<not> has_key gc_id i (db_commits d)
           \<and> commit_with_jobs y (ac_login a) (rp_name r) (pu_ref p) (pushed_commit i r p) v d d')))" for content
      using commit by (simp add: meets_def ret_def)
  qed (auto simp: push_result_def Let_def split: if_splits)
  have "handle_push y (Some r) p = and_then pool_get
         (\<lambda>_. and_then (owner_get (ac_id a))
           (\<lambda>db_owner. and_then (get_for_owner_id (go_id db_owner))
             (\<lambda>inst. and_then (get_installation_client (gi_id inst))
               (\<lambda>_. and_then (call_github (Get_Content (ac_login a) (rp_name r) ''devenv.nix'' (pu_ref p)))
      (\<lambda>content. if ga_items content = [] then ret ()
         else and_then now_v7 (\<lambda>i. create_commit_jobs y (ac_login a) (rp_name r) (pu_ref p) (pushed_commit i r p)))))))"
    by (simp add: handle_push_def or_else_def Some pushed_commit_def cong: if_cong)
  moreover have "meets (and_then (call_github (Get_Content (ac_login a) (rp_name r) ''devenv.nix'' (pu_ref p)))
      (\<lambda>content. if ga_items content = [] then ret ()
         else and_then now_v7 (\<lambda>i. create_commit_jobs y (ac_login a) (rp_name r) (pu_ref p) (pushed_commit i r p))))
    (outside (\<lambda>v. or_fails (\<lambda>d x d'. \<exists>a. rp_owner r = Some a \<and> push_result y r a p v d d')))"
    using content by (simp add: Some)
  ultimately show ?thesis
    by (simp only:) (rule outside_after_reads [OF pool_acts(1) env_reads(1)],
        rule outside_after_reads [OF github_reads(14) env_reads(9)],
        rule outside_after_reads [OF github_reads(2) env_reads(10)],
        rule outside_after_reads [OF github_calls(2) env_reads(11)], assumption, simp_all)
qed

text \<open>
  C9. A processed push creates what the repository asks for: when GitHub says there is no
  \<open>devenv.nix\<close>, nothing; otherwise the commit, and for every machine of the configuration in
  \<open>devenv.yaml\<close> (the default one when the file is missing) exactly one queued job and one link of
  that job to the commit, under fresh identifiers and in the order of the configuration. Nothing
  else changes.
\<close>

theorem push_creates_a_job_per_machine:
  assumes "handle_push from_yaml repo p w = (Ok (), w')"
  shows "\<exists>r a. repo = Some r \<and> rp_owner r = Some a \<and> push_result from_yaml r a p (bk_env w) (bk_db w) (bk_db w')"
proof (cases repo)
  case None
  then show ?thesis using assms by (simp add: handle_push_def or_else_def throw_def)
next
  case (Some r)
  then show ?thesis using meetsD [OF handle_push_meets assms [unfolded Some]] by auto
qed

definition demo_yaml :: "string \<Rightarrow> string + cloud" where
  "demo_yaml text = Ok \<lparr>cl_memory = None, cl_cpus = None, cl_platforms = None\<rparr>"

definition demo_repository :: repository where
  "demo_repository = \<lparr>rp_id = 5, rp_name = ''r'', rp_owner = Some \<lparr>ac_id = 3, ac_login = ''o'', ac_type = ''User''\<rparr>\<rparr>"

definition demo_push :: push_event where
  "demo_push = \<lparr>pu_ref = ''refs/heads/main'', pu_after = ''c'', pu_commits = []\<rparr>"

definition demo_machine :: "platform \<Rightarrow> vm" where
  "demo_machine p = \<lparr>vm_cpu_count = 2, vm_memory_size_mb = 4096, vm_platform = p\<rparr>"

lemma demo_machines: "final_cloud_new demo_yaml [] = Ok [demo_machine X86_64Linux, demo_machine AArch64Darwin]"
  by (simp add: final_cloud_new_def demo_yaml_def final_cloud_of_def parse_default_memory trim_def
      default_platforms_def vm_of_config_def supported_platform_def DEFAULT_CPUS_def demo_machine_def)

lemma demo_pushed: "fst (handle_push demo_yaml (Some demo_repository) demo_push demo_backend) = Ok ()"
  by (simp add: handle_push_def or_else_def demo_repository_def demo_push_def create_commit_jobs_def
      commit_create_def insert_commit_def fetch_devenv_yaml_def demo_machines commit_create_job_def
      github_create_job_def job_new_def notify_runners_about_job_def broadcast_job_available_def
      be_eval job_eval github_eval demo_eval)

theorem push_creates_a_job_per_machine_witness:
  "\<exists>w'. handle_push demo_yaml (Some demo_repository) demo_push demo_backend = (Ok (), w')
     \<and> length (db_jobs (bk_db w')) = 3 \<and> length (db_jobs_github (bk_db w')) = 3"
proof -
  obtain w' where w': "handle_push demo_yaml (Some demo_repository) demo_push demo_backend = (Ok (), w')"
    using demo_pushed by (cases "handle_push demo_yaml (Some demo_repository) demo_push demo_backend") auto
  obtain a where "push_result demo_yaml demo_repository a demo_push (bk_env demo_backend) (bk_db demo_backend) (bk_db w')"
    using push_creates_a_job_per_machine [OF w'] by auto
  then obtain c vms where "final_cloud_new demo_yaml [] = Ok vms"
    "jobs_for c vms (add_commit c (bk_db demo_backend)) (bk_db w')"
    by (auto simp: push_result_def commit_with_jobs_def file_text_def demo_backend_def demo_env_def Let_def
        split: if_splits)
  then show ?thesis
    using w' by (auto simp: demo_machines jobs_for_def add_machines_def add_commit_def demo_backend_def demo_db_def)
qed
end
