(* ===== verification/Job_Offers.thy ===== *)
theory Job_Offers
  imports Job_Creation
begin

section \<open>Offering, claiming and expiring jobs\<close>

text \<open>
  Which job a runner is offered and with which machine, how the sizes of a machine travel from the
  configuration to the runner, and what happens to a claimed job whose start is never recorded.
\<close>

subsection \<open>The job a runner is offered\<close>

lemma first_by_id_Some:
  assumes "first_by_id js = Some j"
  shows "j \<in> set js" and "k \<in> set js \<Longrightarrow> j_id j \<le> j_id k"
  using assms arg_min_list_in [of js j_id] f_arg_min_list_f [of js j_id]
  by (auto simp: first_by_id_def split: if_splits)

lemma first_by_id_None: "first_by_id js = None \<longleftrightarrow> js = []"
  by (simp add: first_by_id_def)

lemma on_backend_run: "on_backend m s = (fst (m (sw_backend s)), s\<lparr>sw_backend := snd (m (sw_backend s))\<rparr>)"
  by (simp add: on_backend_def case_prod_beta)

lemma parsed_display: "parsed_platform (job_platform_display p) = p"
  by (cases p) (simp_all add: parsed_platform_def job_platform_parse_def)

lemma filter_by_key: "by_key key k rows = Some r \<Longrightarrow> \<exists>rs. filter (\<lambda>x. key x = k) rows = r # rs"
  unfolding by_key_def by (induction rows) (auto split: if_splits)

lemma find_queued_quiet:
  assumes "quiet w"
  shows "\<exists>w'. inspect (find_queued_job_for_platform p) w = (Ok (Ok (first_by_id (filter (available_for p) (db_jobs (bk_db w))))), w')
    \<and> bk_db w' = bk_db w"
proof -
  have "filter (\<lambda>j. available_for p j \<and> \<not> ev_locked (bk_env w) (bk_tick w) (j_id j)) (db_jobs (bk_db w))
      = filter (available_for p) (db_jobs (bk_db w))"
    using assms by (intro filter_cong) (auto simp: quiet_def)
  then show ?thesis
    using assms
    by (simp add: find_queued_job_for_platform_def inspect_def and_then_run bind_result_simps ask_def quiet_select)
qed

lemma get_platform_quiet:
  assumes "quiet w" and "by_key rr_id r (db_runners (bk_db w)) = Some row"
  shows "inspect (get_platform r) w = (Ok (Ok (job_platform_display (rr_platform row))), next_tick w)"
proof -
  obtain rs where "filter (\<lambda>x. rr_id x = r) (db_runners (bk_db w)) = row # rs"
    using filter_by_key [OF assms(2)] by blast
  then show ?thesis
    using assms(1) by (simp add: get_platform_def inspect_def quiet_select_first)
qed

lemma check_and_send_quiet:
  assumes "quiet (sw_backend s)" and "by_key rr_id r (db_runners (bk_db (sw_backend s))) = Some row"
  shows "sw_sent (snd (check_and_send_job r s)) = sw_sent s @
    (case first_by_id (filter (available_for (rr_platform row)) (db_jobs (bk_db (sw_backend s)))) of
       None \<Rightarrow> []
     | Some j \<Rightarrow> if sw_send_ok s (sw_sends s) then [create_job_notification j] else [])"
proof -
  let ?w = "sw_backend s"
  obtain w2 where w2: "inspect (find_queued_job_for_platform (rr_platform row)) (next_tick (next_tick ?w)) =
      (Ok (Ok (first_by_id (filter (available_for (rr_platform row)) (db_jobs (bk_db ?w))))), w2)"
    using find_queued_quiet [of "next_tick (next_tick ?w)" "rr_platform row"] assms(1) by auto
  show ?thesis
    using assms quiet_pool [OF assms(1)] get_platform_quiet [of "next_tick ?w" r row]
    by (simp add: check_and_send_job_def and_then_run bind_result_simps on_backend_run parsed_display w2
        ret_def socket_send_def Let_def split: option.splits)
qed

text \<open>
  C18. A runner that connects or asks for a job is offered the oldest one it may run: when the
  outside answers, exactly one message is sent if a queued job without a runner exists for the
  platform of the runner's row, and it is the notification of the one with the smallest
  identifier, carrying that job's machine; otherwise nothing is sent.
\<close>

theorem oldest_matching_job_is_offered:
  assumes "quiet (sw_backend s)" and "\<forall>n. sw_send_ok s n"
    and "by_key rr_id r (db_runners (bk_db (sw_backend s))) = Some row"
  shows "(\<exists>j. sw_sent (snd (handle_client_message r RequestJob s)) = sw_sent s @ [NewJobAvailable (j_id j) (to_vm_config j)]
        \<and> j \<in> set (db_jobs (bk_db (sw_backend s))) \<and> available_for (rr_platform row) j
        \<and> (\<forall>k \<in> set (db_jobs (bk_db (sw_backend s))). available_for (rr_platform row) k \<longrightarrow> j_id j \<le> j_id k))
    \<or> sw_sent (snd (handle_client_message r RequestJob s)) = sw_sent s
        \<and> (\<forall>k \<in> set (db_jobs (bk_db (sw_backend s))). \<not> available_for (rr_platform row) k)"
proof -
  let ?js = "filter (available_for (rr_platform row)) (db_jobs (bk_db (sw_backend s)))"
  have sent: "sw_sent (snd (handle_client_message r RequestJob s)) = sw_sent s @
      (case first_by_id ?js of None \<Rightarrow> [] | Some j \<Rightarrow> [create_job_notification j])"
    using check_and_send_quiet [OF assms(1,3)] assms(2) by (simp add: snd_then_ret split: option.splits)
  show ?thesis
  proof (cases "first_by_id ?js")
    case None
    then have "?js = []" by (simp add: first_by_id_None)
    then show ?thesis using sent None by (simp add: filter_empty_conv)
  next
    case (Some j)
    have "create_job_notification j = NewJobAvailable (j_id j) (to_vm_config j)"
      by (simp add: create_job_notification_def to_vm_config_def)
    then show ?thesis using sent Some first_by_id_Some [OF Some] by auto
  qed
qed

lemma quiet_demo [simp]: "quiet demo_backend"
  by (simp add: quiet_def demo_backend_def demo_env_def)

theorem oldest_matching_job_is_offered_witness:
  "sw_sent (snd (handle_client_message 1 RequestJob (fresh_session demo_backend (\<lambda>_. True)))) =
     [NewJobAvailable 7 \<lparr>vm_cpu_count = 2, vm_memory_size_mb = 256, vm_platform = X86_64Linux\<rparr>]"
  using oldest_matching_job_is_offered [of "fresh_session demo_backend (\<lambda>_. True)" 1
      "\<lparr>rr_id = 1, rr_last_seen_at = 0, rr_platform = Job_X86_64Linux, rr_created_at = 0\<rparr>"]
  by (auto simp: fresh_session_def by_key_def demo_backend_def demo_db_def available_for_def queued_job_def
      to_vm_config_def quiet_def demo_env_def)

subsection \<open>The sizes of a machine on their way to the runner\<close>

lemma mod_once: "y \<le> x \<Longrightarrow> x < 2 * y \<Longrightarrow> x mod y = x - (y :: int)"
  by (metis add_diff_cancel_left' diff_add_cancel diff_ge_0_iff_ge diff_less_eq minus_mod_self2
      mod_pos_pos_trivial mult_2)

lemma signed_32:
  assumes "0 \<le> k" and "k < (2 :: int) ^ 32"
  shows "signed_take_bit 31 k = (if k < 2 ^ 31 then k else k - 2 ^ 32)"
proof -
  have "signed_take_bit 31 k = (k + 2 ^ 31) mod 2 ^ 32 - 2 ^ 31"
    by (simp add: signed_take_bit_eq_take_bit_shift take_bit_eq_mod)
  moreover have "(k + 2 ^ 31) mod 2 ^ 32 = (if k < 2 ^ 31 then k + 2 ^ 31 else k + 2 ^ 31 - 2 ^ 32)"
    using assms mod_once [of "2 ^ 32" "k + 2 ^ 31"] by simp
  ultimately show ?thesis by (simp split: if_splits)
qed

text \<open>A count of processors stored as \<open>i32\<close> and read back as \<open>usize\<close>.\<close>

lemma cpus_through_the_table:
  fixes c :: usize
  assumes "unat c < 2 ^ 32"
  shows "uint (scast (ucast c :: i32) :: usize) = (if uint c < 2 ^ 31 then uint c else 2 ^ 64 - 2 ^ 32 + uint c)"
proof -
  have "int (unat c) < int (2 ^ 32)" using assms by (simp only: of_nat_less_iff)
  then have c: "0 \<le> uint c" "uint c < 2 ^ 32" by simp_all
  then have "uint (ucast c :: i32) = uint c"
    by (simp add: unsigned_ucast_eq take_bit_int_eq_self_iff)
  then have s: "sint (ucast c :: i32) = (if uint c < 2 ^ 31 then uint c else uint c - 2 ^ 32)"
    using signed_32 [OF c] by (simp add: sint_uint)
  have "uint (word_of_int k :: usize) = k mod 2 ^ 64" for k by (simp add: uint_word_of_int)
  then have "uint (scast (ucast c :: i32) :: usize) = (if uint c < 2 ^ 31 then uint c else uint c - 2 ^ 32) mod 2 ^ 64"
    by (simp only: scast_eq s)
  also have "\<dots> = (if uint c < 2 ^ 31 then uint c else 2 ^ 64 - 2 ^ 32 + uint c)"
  proof (cases "uint c < 2 ^ 31")
    case True
    then show ?thesis using c by simp
  next
    case False
    have "(uint c - 2 ^ 32) mod 2 ^ 64 = (uint c - 2 ^ 32 + 2 ^ 64) mod 2 ^ 64"
      by (rule mod_add_self2 [symmetric])
    also have "\<dots> = uint c - 2 ^ 32 + 2 ^ 64"
      using c by (intro mod_pos_pos_trivial) simp_all
    finally show ?thesis using False by simp
  qed
  finally show ?thesis .
qed

lemma configured_machine:
  assumes "final_cloud_of c = Ok vms" and "v \<in> set vms"
  shows "unat (vm_cpu_count v) < 2 ^ 32" and "unat (vm_memory_size_mb v) < 2 ^ 32"
proof -
  obtain mem where m: "map (vm_of_config mem (unwrap_or (cl_cpus c) DEFAULT_CPUS))
      (unwrap_or (cl_platforms c) default_platforms) = map Inr vms"
    using assms(1) by (auto simp: final_cloud_of_def collect_results_Ok split: sum.splits)
  have "Inr v \<in> set (map Inr vms :: (string + vm) list)" using assms(2) by simp
  then obtain pc where "vm_of_config mem (unwrap_or (cl_cpus c) DEFAULT_CPUS) pc = Ok v"
    unfolding m [symmetric] by (metis imageE list.set_map)
  then have "\<exists>a b p. v = \<lparr>vm_cpu_count = ucast (a :: u32), vm_memory_size_mb = ucast (b :: u32), vm_platform = p\<rparr>"
    by (auto simp: vm_of_config_def split: sum.splits prod.splits option.splits)
  then obtain a b p where "v = \<lparr>vm_cpu_count = ucast (a :: u32), vm_memory_size_mb = ucast (b :: u32), vm_platform = p\<rparr>"
    by blast
  moreover have "unat (ucast x :: 64 word) < 2 ^ 32" for x :: u32
  proof -
    have "unat (ucast x :: 64 word) \<le> unat x" by (simp add: unsigned_ucast_eq take_bit_nat_less_eq_self)
    also have "\<dots> < 2 ^ 32" using unsigned_less [of x, where ?'a = nat] by simp
    finally show ?thesis .
  qed
  ultimately show "unat (vm_cpu_count v) < 2 ^ 32" "unat (vm_memory_size_mb v) < 2 ^ 32"
    by simp_all
qed

text \<open>
  C20. A machine reaches the runner as the repository asked for it, within bounds: every machine of
  a configuration has fewer than \<open>2\<^sup>3\<^sup>2\<close> processors and megabytes; the machine of its job (stored with
  a 32-bit signed count) is the same machine exactly when the processor count is below \<open>2\<^sup>3\<^sup>1\<close>;
  otherwise the runner is offered \<open>2\<^sup>6\<^sup>4 - 2\<^sup>3\<^sup>2\<close> more processors, which no runner has.
\<close>

theorem machine_reaches_runner:
  assumes "final_cloud_of c = Ok vms" and "v \<in> set vms"
  shows "unat (vm_cpu_count v) < 2 ^ 32 \<and> unat (vm_memory_size_mb v) < 2 ^ 32
    \<and> create_job_notification (machine_job (x, v)) =
        NewJobAvailable (cr_job x)
          (if uint (vm_cpu_count v) < 2 ^ 31 then v else v\<lparr>vm_cpu_count := vm_cpu_count v + (2 ^ 64 - 2 ^ 32)\<rparr>)
    \<and> (2 ^ 31 \<le> uint (vm_cpu_count v) \<longrightarrow>
         uint (vm_cpu_count v + (2 ^ 64 - 2 ^ 32)) = 2 ^ 64 - 2 ^ 32 + uint (vm_cpu_count v))"
proof -
  note b = configured_machine [OF assms]
  let ?c = "vm_cpu_count v"
  have "uint ?c < 2 ^ 32"
  proof -
    have "int (unat ?c) < int (2 ^ 32)" using b(1) by (simp only: of_nat_less_iff)
    then show ?thesis by simp
  qed
  then have wide: "uint (?c + (2 ^ 64 - 2 ^ 32)) = 2 ^ 64 - 2 ^ 32 + uint ?c"
    by (simp add: uint_word_ariths)
  have "(scast (ucast ?c :: i32) :: usize) = (if uint ?c < 2 ^ 31 then ?c else ?c + (2 ^ 64 - 2 ^ 32))"
    using cpus_through_the_table [OF b(1)] wide by (intro word_uint_eqI) (simp split: if_splits)
  then show ?thesis
    using b wide by (simp add: create_job_notification_def machine_job_def queued_job_def)
qed


theorem machine_reaches_runner_witness:
  "\<forall>x. create_job_notification (machine_job (x,
      \<lparr>vm_cpu_count = 2147483648, vm_memory_size_mb = 4096, vm_platform = X86_64Linux\<rparr>)) =
    NewJobAvailable (cr_job x)
      \<lparr>vm_cpu_count = 18446744071562067968, vm_memory_size_mb = 4096, vm_platform = X86_64Linux\<rparr>"
proof -
  let ?v = "\<lparr>vm_cpu_count = 2147483648, vm_memory_size_mb = 4096, vm_platform = X86_64Linux\<rparr>"
  have "final_cloud_of \<lparr>cl_memory = None, cl_cpus = Some 2147483648, cl_platforms = Some [Simple ''x86_64-linux'']\<rparr>
      = Ok [?v]"
    by (simp add: final_cloud_of_def parse_default_memory vm_of_config_def supported_platform_def)
  from machine_reaches_runner [OF this] show ?thesis by simp
qed

subsection \<open>Expiry\<close>

definition yields :: "'a be \<Rightarrow> 'a \<Rightarrow> bool" where
  "yields m a \<longleftrightarrow> (\<exists>w w'. m w = (Ok a, w'))"

lemma acts_and_then_value:
  assumes "acts P m" and "\<And>a. yields m a \<Longrightarrow> acts P (f a)"
  shows "acts P (and_then m f)"
proof -
  have "and_then m f = and_then m (\<lambda>a. if yields m a then f a else ret undefined)"
  proof
    fix w
    show "and_then m f w = and_then m (\<lambda>a. if yields m a then f a else ret undefined) w"
      unfolding and_then_def by (cases "m w"; cases "fst (m w)") (auto simp: yields_def)
  qed
  moreover have "acts P \<dots>"
    by (rule acts_and_then [OF assms(1)]) (auto intro: assms(2) acts_ret)
  ultimately show ?thesis by simp
qed

lemma acts_for_each_in: "(\<And>x. x \<in> set xs \<Longrightarrow> acts P (f x)) \<Longrightarrow> acts P (for_each f xs)"
  by (induction xs) (auto intro!: acts_intros)

lemma yields_job_github: "yields (get_job_github i) g \<Longrightarrow> jg_job_id g = i"
  using select_first_meets [of "\<lambda>d. filter (\<lambda>g. jg_job_id g = i) (db_jobs_github d)"]
  unfolding yields_def get_job_github_def by (auto dest: meetsD)

text \<open>Actions on the row of another job.\<close>

fun spares :: "uuid \<Rightarrow> db_action \<Rightarrow> bool" where
  "spares i (Da_Complete k c t) = (k \<noteq> i)"
| "spares i (Da_Started k t) = (k \<noteq> i)"
| "spares i (Da_Finished k t) = (k \<noteq> i)"
| "spares i _ = False"

lemma spares_stamps:
  assumes "k \<noteq> i"
  shows "acts (spares i) (execute (update_jobs (\<lambda>j. j_id j = k) (\<lambda>j. j\<lparr>j_started_at := Some t\<rparr>)))"
    and "acts (spares i) (execute (update_jobs (\<lambda>j. j_id j = k) (\<lambda>j. j\<lparr>j_finished_at := Some t\<rparr>)))"
  by (rule acts_execute [where a = "Da_Started k t"]; simp add: assms)
    (rule acts_execute [where a = "Da_Finished k t"]; simp add: assms)

lemma github_update_status_spares:
  assumes "k \<noteq> i"
  shows "acts (spares i) (github_update_status s k)"
  unfolding github_update_status_def utc_now_def
proof (rule acts_and_then [OF pool_acts(1)], rule acts_and_then_value [OF github_reads(12)])
  fix g assume "yields (get_job_github k) g"
  then have "jg_job_id g \<noteq> i" using yields_job_github assms by blast
  then show "acts (spares i) (and_then (get_repo_and_owner g)
      (\<lambda>(r, x). and_then (get_for_owner_id (go_id x))
        (\<lambda>inst. and_then (get_installation_client (gi_id inst))
          (\<lambda>_. case s of
             Queued \<Rightarrow> ret ()
           | Running \<Rightarrow> and_then (ask ev_now) (\<lambda>now. and_then (update_check_run x r g (Check_In_Progress now))
               (\<lambda>_. execute (update_jobs (\<lambda>j. j_id j = jg_job_id g) (\<lambda>j. j\<lparr>j_started_at := Some now\<rparr>))))
           | Complete c \<Rightarrow> and_then (ask ev_now) (\<lambda>now. and_then (update_check_run x r g (Check_Completed now (conclusion_of c)))
               (\<lambda>_. execute (update_jobs (\<lambda>j. j_id j = jg_job_id g) (\<lambda>j. j\<lparr>j_finished_at := Some now\<rparr>))))))))"
    by (cases s) (auto intro!: acts_intros spares_stamps split: prod.splits)
qed

lemma expire_job_spares:
  assumes "j_id j \<noteq> i"
  shows "acts (spares i) (expire_job j)"
proof -
  have "acts (spares i) (execute (update_jobs (\<lambda>x. j_id x = j_id j) (completed TimedOut t)))" for t
    using assms by (intro acts_execute [where a = "Da_Complete (j_id j) TimedOut t"]) simp_all
  then have "acts (spares i) (job_complete j TimedOut)"
    unfolding job_complete_def utc_now_def by (intro acts_intros)
  then show ?thesis
    unfolding expire_job_def using github_update_status_spares [OF assms]
    by (auto intro!: acts_intros split: option.splits sum.splits)
qed

lemma spared_row: "list_all (spares i) as \<Longrightarrow> by_key j_id i (db_jobs (fold db_act as d)) = by_key j_id i (db_jobs d)"
proof (induction as arbitrary: d)
  case (Cons a as)
  have other: "by_key j_id i (db_jobs (update_jobs (\<lambda>j. j_id j = k) f d)) = by_key j_id i (db_jobs d)"
    if "k \<noteq> i" "row_update j_id f" for k f
  proof (cases "by_key j_id i (db_jobs d)")
    case (Some j)
    then have "j_id j = i" by (auto dest: by_key_Some)
    then show ?thesis using that Some by (simp add: update_jobs_def row_update.by_key_update [OF that(2)])
  qed (simp add: update_jobs_def row_update.by_key_update [OF that(2)])
  have "by_key j_id i (db_jobs (db_act a d)) = by_key j_id i (db_jobs d)"
    using Cons.prems by (cases a) (auto intro!: other simp: row_update_def completed_def)
  with Cons show ?case by simp
qed simp

lemma find_expired_meets:
  "meets (find_expired_jobs n) (tables (\<lambda>d r d'. d' = d \<and>
     (\<forall>js. r = Ok js \<longrightarrow> set js \<subseteq> {j \<in> set (db_jobs d). j_started_at j \<noteq> None})))"
proof -
  have sel: "meets (select (\<lambda>d. filter (expired_before c) (db_jobs d))) (tables (\<lambda>d r d'. d' = d \<and>
     (\<forall>js. r = Ok js \<longrightarrow> set js \<subseteq> {j \<in> set (db_jobs d). j_started_at j \<noteq> None})))" for c
    unfolding meets_def
  proof
    fix w
    let ?f = "\<lambda>d. filter (expired_before c) (db_jobs d)"
    show "bk_db (snd (select ?f w)) = bk_db w \<and>
      (\<forall>js. fst (select ?f w) = Ok js \<longrightarrow> set js \<subseteq> {j \<in> set (db_jobs (bk_db w)). j_started_at j \<noteq> None})"
      unfolding select_def
      by (rule statement_cases [of "\<lambda>_ d. (Ok (?f d), d)" w]) (auto simp: expired_before_def split: option.splits)
  qed
  have stop: "meets (throw e) (tables (\<lambda>d (r :: be_error + job list) d'. d' = d \<and>
     (\<forall>js. r = Ok js \<longrightarrow> set js \<subseteq> {j \<in> set (db_jobs d). j_started_at j \<noteq> None})))" for e
    by (simp add: meets_def throw_def)
  show ?thesis
    unfolding find_expired_jobs_def utc_now_def Let_def
    by (intro tables_after_reads acts_intros) (simp_all add: sel [simplified] stop [simplified])
qed

lemma unstarted_job_is_spared:
  assumes "distinct (map j_id (db_jobs (bk_db w)))"
    and "by_key j_id i (db_jobs (bk_db w)) = Some j" and "j_started_at j = None"
  shows "by_key j_id i (db_jobs (bk_db (snd (check_timeouts w)))) = Some j"
proof -
  let ?n = "ac_timeout_seconds (bk_config w)"
  let ?run = "\<lambda>res. case res of Inl (_ :: be_error) \<Rightarrow> ret () | Inr jobs \<Rightarrow> for_each expire_job jobs"
  have c: "check_timeouts w = and_then pool_get_unwrapped (\<lambda>_. and_then (inspect (find_expired_jobs ?n)) ?run) w"
    by (simp add: check_timeouts_def and_then_run bind_result_simps gets_def)
  from pool_unwrapped_result [of w] show ?thesis
  proof
    assume "pool_get_unwrapped w = (Err Panicked_Task, next_tick w)"
    then show ?thesis using assms by (simp add: c and_then_run bind_result_simps)
  next
    assume p: "pool_get_unwrapped w = (Ok (), next_tick w)"
    obtain x u where x: "find_expired_jobs ?n (next_tick w) = (x, u)" by (cases "find_expired_jobs ?n (next_tick w)")
    have d: "bk_db u = bk_db w" "\<And>js. x = Ok js \<Longrightarrow> set js \<subseteq> {j \<in> set (db_jobs (bk_db w)). j_started_at j \<noteq> None}"
      using meetsD [OF find_expired_meets x] by auto
    show ?thesis
    proof (cases x)
      case (Inl e)
      then show ?thesis
        using assms d(1) by (simp add: c p x inspect_def and_then_run bind_result_simps ret_def)
    next
      case (Inr js)
      have "j_id k \<noteq> i" if "k \<in> set js" for k
        using that d(2) [OF Inr] assms by_key_in [OF assms(1), of k] by auto
      then have "acts (spares i) (for_each expire_job js)"
        by (intro acts_for_each_in expire_job_spares)
      then have "by_key j_id i (db_jobs (bk_db (snd (for_each expire_job js u)))) = by_key j_id i (db_jobs (bk_db u))"
        by (metis acts_onE spared_row)
      then show ?thesis
        using assms d(1) by (simp add: c p x Inr inspect_def and_then_run bind_result_simps)
    qed
  qed
qed

text \<open>A claim while GitHub does not answer.\<close>

definition github_down :: "env \<Rightarrow> bool" where
  "github_down v \<longleftrightarrow> (\<forall>n c. \<not> ga_ok (ev_github v n c))"

lemma github_update_status_down:
  assumes "github_down (bk_env w)"
  shows "bk_db (snd (github_update_status s i w)) = bk_db w"
proof -
  have call: "meets (and_then (get_installation_client k) f) (outside (\<lambda>v d r d'. github_down v \<longrightarrow> d' = d))" for k f
    by (simp add: meets_def get_installation_client_def and_then_run bind_result_def call_github_def
        next_tick_def github_down_def Let_def)
  have env: "keeps_env (get_job_github k)" "keeps_env (get_repo_and_owner g)" for k g
    unfolding get_job_github_def get_repo_and_owner_def commit_get_by_id_def repo_get_def
    by (intro env_intros)+
  have "meets (github_update_status s i) (outside (\<lambda>v d r d'. github_down v \<longrightarrow> d' = d))"
    unfolding github_update_status_def
  proof (rule outside_after_reads [OF pool_acts(1) env_reads(1)],
      rule outside_after_reads [OF github_reads(12) env(1)], rule outside_after_reads [OF github_calls(1) env(2)])
    show "meets (case a of (r, x) \<Rightarrow> and_then (get_for_owner_id (go_id x))
        (\<lambda>inst. and_then (get_installation_client (gi_id inst)) (f x r)))
      (outside (\<lambda>v d r d'. github_down v \<longrightarrow> d' = d))" for a and f :: "github_owner \<Rightarrow> github_repo \<Rightarrow> unit \<Rightarrow> unit be"
    proof (cases a)
      case (Pair r x)
      have "meets (and_then (get_for_owner_id (go_id x))
          (\<lambda>inst. and_then (get_installation_client (gi_id inst)) (f x r)))
        (outside (\<lambda>v d r d'. github_down v \<longrightarrow> d' = d))"
        by (rule outside_after_reads [OF github_reads(2) env_reads(10) call]) simp
      then show ?thesis by (simp add: Pair)
    qed
  qed simp_all
  then show ?thesis using assms by (auto simp: meets_def)
qed

lemma calm_run: "calm m \<Longrightarrow> inspect m w = (Ok (fst (m w)), snd (m w))"
  by (simp add: inspect_def calm_def case_prod_beta)

lemma keeps_env_github_update_status: "keeps_env (github_update_status s i)"
proof -
  have "keeps_env (get_job_github k)" "keeps_env (get_repo_and_owner g)" "keeps_env (update_check_run x r g u)" for k g x r u
    unfolding get_job_github_def get_repo_and_owner_def commit_get_by_id_def repo_get_def update_check_run_def
    by (intro env_intros)+
  then show ?thesis
    unfolding github_update_status_def by (cases s) (auto intro!: env_intros split: prod.splits)
qed

lemma claim_without_github:
  fixes s :: session_world
  defines "w \<equiv> sw_backend s"
  assumes "quiet w" and "github_down (bk_env w)" and "\<forall>u. ev_url_ok (bk_env w) u" and "\<forall>n. sw_send_ok s n"
    and "length (filter (claimable i) (db_jobs (bk_db w))) = 1"
  shows "\<exists>u. sw_sent (snd (handle_claim r i v s)) = sw_sent s @ [JobClaimed i v u]"
    and "bk_db (sw_backend (snd (handle_claim r i v s))) = update_jobs (claimable i) (claimed_by r) (bk_db w)"
proof -
  define w2 where "w2 = next_tick (next_tick w\<lparr>bk_db := update_jobs (claimable i) (claimed_by r) (bk_db w)\<rparr>)"
  let ?g = "github_update_status Running i"
  have claim: "inspect (claim_job_for_runner i r) (next_tick w) = (Ok (Ok 1), w2)"
    using assms(2,6) by (simp add: claim_job_for_runner_def inspect_def quiet_statement w2_def)
  have g: "inspect ?g w2 = (Ok (fst (?g w2)), snd (?g w2))"
    by (rule calm_run [OF calm_github_update_status])
  have e: "bk_env w2 = bk_env w" by (simp add: w2_def)
  then have e': "bk_env (snd (?g w2)) = bk_env w"
    using keeps_env_github_update_status by (simp add: keeps_env_def)
  have d: "bk_db (snd (?g w2)) = update_jobs (claimable i) (claimed_by r) (bk_db w)"
    using github_update_status_down [of w2 Running i] assms(3) e by (simp add: w2_def)
  have p: "pool_get_unwrapped w = (Ok (), next_tick w)" using quiet_pool [OF assms(2)] by simp
  have "snd (handle_claim r i v s) = s\<lparr>sw_backend := snd (?g w2), sw_sends := Suc (sw_sends s),
      sw_sent := sw_sent s @ [JobClaimed i v (log_url (bk_env w) (ac_logger_url (bk_config (snd (?g w2)))) i)]\<rparr>"
    using assms(4,5) by (simp add: handle_claim_def and_then_run bind_result_simps on_backend_run w_def [symmetric]
        p claim g e' gets_def socket_send_def ret_def)
  then show "\<exists>u. sw_sent (snd (handle_claim r i v s)) = sw_sent s @ [JobClaimed i v u]"
    "bk_db (sw_backend (snd (handle_claim r i v s))) = update_jobs (claimable i) (claimed_by r) (bk_db w)"
    using d by simp_all
qed

lemma filter_unique:
  assumes "distinct (map key rows)" and "x \<in> set rows" and "P x" and "\<And>y. P y \<Longrightarrow> key y = key x"
  shows "filter P rows = [x]"
  using assms(1,2)
proof (induction rows)
  case (Cons y rows)
  show ?case
  proof (cases "y = x")
    case True
    have "filter P rows = []"
      using Cons.prems(1) True assms(4) by (auto simp: filter_empty_conv image_iff)
    then show ?thesis using True assms(3) by simp
  next
    case False
    then have "x \<in> set rows" "\<not> P y" using Cons.prems assms(4) [of y] by (auto simp: image_iff)
    then show ?thesis using Cons by simp
  qed
qed simp

lemma db_ok_timeouts: "db_ok (bk_db w) \<Longrightarrow> db_ok (bk_db (snd (check_timeouts w)))"
  using acts_onE [OF check_timeouts_acts, of w "\<lambda>_ _. True"] db_ok_acts by metis

lemma unstarted_job_never_expires:
  assumes "db_ok (bk_db w)" and "by_key j_id i (db_jobs (bk_db w)) = Some j" and "j_started_at j = None"
  shows "by_key j_id i (db_jobs (bk_db (((\<lambda>w. snd (check_timeouts w)) ^^ n) w))) = Some j
    \<and> db_ok (bk_db (((\<lambda>w. snd (check_timeouts w)) ^^ n) w))"
  by (induction n) (use assms unstarted_job_is_spared db_ok_timeouts db_okD(1) in auto)

text \<open>
  C34. A job claimed while GitHub does not answer has no time limit: the claim is answered with
  \<open>JobClaimed\<close> and the job is running for its runner, but the report to GitHub is also what would
  have recorded its start, so every later timeout check, however many and at whatever time, leaves
  the job running.
\<close>

theorem job_claimed_without_github_never_expires:
  assumes "db_ok (bk_db w)" and "quiet w" and "github_down (bk_env w)" and "\<forall>u. ev_url_ok (bk_env w) u"
    and "by_key j_id i (db_jobs (bk_db w)) = Some j" and "j_status j = Queued" and "j_started_at j = None"
  shows "(\<exists>u. sw_sent (snd (handle_claim r i v (fresh_session w (\<lambda>_. True)))) = [JobClaimed i v u])
    \<and> (\<forall>n. by_key j_id i (db_jobs (bk_db (((\<lambda>w. snd (check_timeouts w)) ^^ n)
          (sw_backend (snd (handle_claim r i v (fresh_session w (\<lambda>_. True)))))))) = Some (claimed_by r j))"
proof -
  let ?s = "fresh_session w (\<lambda>_. True)" and ?d = "bk_db w"
  have j: "j \<in> set (db_jobs ?d)" "j_id j = i" using by_key_Some [OF assms(5)] by simp_all
  have "filter (claimable i) (db_jobs ?d) = [j]"
    by (rule filter_unique [OF db_okD(1) [OF assms(1)] j(1)]) (use j assms(6) in \<open>auto simp: claimable_def\<close>)
  then have one: "length (filter (claimable i) (db_jobs ?d)) = 1" by simp
  have w: "sw_backend ?s = w" "sw_sent ?s = []" "\<forall>n. sw_send_ok ?s n" by (simp_all add: fresh_session_def)
  note c = claim_without_github [of ?s i r v, unfolded w, OF assms(2-4) _ one]
  let ?w = "sw_backend (snd (handle_claim r i v ?s))"
  have "db_ok (bk_db ?w)"
    using acts_onE [OF handle_claim_acts, where w = ?s] db_ok_acts assms(1) w(1) by metis
  moreover have "by_key j_id i (db_jobs (bk_db ?w)) = Some (claimed_by r j)"
    using c(2) w(3) assms(5,6) j(2)
    by (simp add: update_jobs_def claim.by_key_update claimable_def)
  ultimately have "by_key j_id i (db_jobs (bk_db (((\<lambda>w. snd (check_timeouts w)) ^^ n) ?w))) = Some (claimed_by r j)" for n
    using unstarted_job_never_expires [of ?w i "claimed_by r j" n] assms(7) by (simp add: claimed_by_def)
  then show ?thesis using c(1) w(3) by simp
qed

definition offline_backend :: backend where
  "offline_backend = demo_backend\<lparr>bk_env := demo_env\<lparr>ev_github := \<lambda>_ _. \<lparr>ga_ok = False, ga_id = 0, ga_items = []\<rparr>\<rparr>\<rparr>"

theorem job_claimed_without_github_never_expires_witness:
  "\<forall>n. by_key j_id 7 (db_jobs (bk_db (((\<lambda>w. snd (check_timeouts w)) ^^ n)
      (sw_backend (snd (handle_claim 1 7 demo_vm_config (fresh_session offline_backend (\<lambda>_. True)))))))) =
    Some (claimed_by 1 (queued_job 7 Job_X86_64Linux 2 256 None 0))"
proof -
  have "bk_db offline_backend = bk_db demo_backend" by (simp add: offline_backend_def)
  then have d: "db_ok (bk_db offline_backend)"
    "by_key j_id 7 (db_jobs (bk_db offline_backend)) = Some (queued_job 7 Job_X86_64Linux 2 256 None 0)"
    using db_ok_demo by (simp_all add: demo_backend_def demo_db_def by_key_def queued_job_def)
  have "quiet offline_backend" "github_down (bk_env offline_backend)" "\<forall>u. ev_url_ok (bk_env offline_backend) u"
    by (simp_all add: quiet_def github_down_def offline_backend_def demo_env_def)
  from job_claimed_without_github_never_expires [OF d(1) this d(2)] show ?thesis
    by (simp add: queued_job_def)
qed

end
