(* ===== verification/Access_Control.thy ===== *)
theory Access_Control
  imports Job_Offers
begin

section \<open>Who gets through\<close>

text \<open>
  Requests without the right credentials change nothing, and the claim that the identity
  provider's hook writes is the one the beta check reads.
\<close>

lemma beta_user_ok: "is_ok (beta_user_from_request user) \<longleftrightarrow> (\<exists>u. user = Ok u \<and> has_beta_access u)"
  by (auto simp: beta_user_from_request_def split: sum.splits)

lemma guarded_out: "\<not> is_ok (beta_user_from_request user) \<Longrightarrow> guarded_handler user h w = (403, w)"
  by (cases "beta_user_from_request user") (simp_all add: guarded_handler_def)

text \<open>A body signed with the configured secret.\<close>

definition genuine ::
    "(string \<Rightarrow> u8 list \<Rightarrow> u8 list) \<Rightarrow> (string \<Rightarrow> u8 list option) \<Rightarrow> string option \<Rightarrow> string option
     \<Rightarrow> u8 list \<Rightarrow> bool" where
  "genuine hmac hex_decode secret signature body \<longleftrightarrow>
     (\<exists>key sig. secret = Some key \<and> signature = Some (''sha256='' @ sig) \<and> hex_decode sig = Some (hmac key body))"

lemma signature_ok:
  "is_ok (verify_webhook_signature hmac hex_decode body (unwrap_or signature []) key)
   \<longleftrightarrow> (\<exists>sig. signature = Some (''sha256='' @ sig) \<and> hex_decode sig = Some (hmac key body))"
  by (cases signature) (auto simp: verify_webhook_signature_def split: option.splits)

lemma forged_webhook:
  assumes "\<not> genuine hmac hex_decode (ac_github_secret (bk_config w)) signature body"
  shows "snd (webhook hmac hex_decode parse from_yaml event signature body w) = w"
proof (cases "ac_github_secret (bk_config w)")
  case None
  then show ?thesis by (simp add: webhook_def and_then_run bind_result_simps gets_def or_else_def throw_def)
next
  case (Some key)
  then have "\<not> is_ok (verify_webhook_signature hmac hex_decode body (unwrap_or signature []) key)"
    using assms unfolding signature_ok genuine_def by blast
  then obtain e where "verify_webhook_signature hmac hex_decode body (unwrap_or signature []) key = Err e"
    by (cases "verify_webhook_signature hmac hex_decode body (unwrap_or signature []) key") auto
  then show ?thesis
    using Some by (simp add: webhook_def and_then_run bind_result_simps gets_def or_else_def ret_def throw_def)
qed

fun authorised :: "request \<Rightarrow> backend \<Rightarrow> bool" where
  "authorised (Rq_Get_Job user i) w = (\<exists>u. user = Ok u \<and> has_beta_access u)"
| "authorised (Rq_Cancel user i) w = (\<exists>u. user = Ok u \<and> has_beta_access u)"
| "authorised (Rq_Retry user i) w = (\<exists>u. user = Ok u \<and> has_beta_access u)"
| "authorised (Rq_Webhook hmac hex_decode parse from_yaml event signature body) w =
     genuine hmac hex_decode (ac_github_secret (bk_config w)) signature body"
| "authorised _ w = True"

text \<open>
  C13. Without credentials nothing happens: a request to read, cancel or retry a job from anyone but
  an authenticated user with beta access, and a webhook whose signature is not the HMAC of its body
  under the configured secret (or with no secret configured), leave the backend exactly as it was:
  no statement is executed and no call to GitHub is made.
\<close>

theorem unauthorised_requests_change_nothing:
  assumes "\<not> authorised rq w"
  shows "run_request rq w = w"
  using assms
  by (cases rq) (simp_all add: forged_webhook get_job_endpoint_def cancel_job_endpoint_def
      retry_job_endpoint_def guarded_out beta_user_ok)

theorem unauthorised_requests_change_nothing_witness:
  "run_request (Rq_Cancel (Ok (demo_user\<lparr>iu_project_roles := []\<rparr>)) 7) demo_backend = demo_backend
   \<and> run_request (Rq_Webhook (\<lambda>key body. body) (\<lambda>sig. Some [1]) (\<lambda>_ _. None) demo_yaml None (Some ''sha256=00'') [2])
       demo_backend = demo_backend"
proof -
  have "\<not> has_beta_access (demo_user\<lparr>iu_project_roles := []\<rparr>)"
    by (simp add: has_beta_access_def demo_user_def hm_contains_def hm_get_def)
  then show ?thesis
    using unauthorised_requests_change_nothing
      [of "Rq_Cancel (Ok (demo_user\<lparr>iu_project_roles := []\<rparr>)) 7" demo_backend]
    using unauthorised_requests_change_nothing
      [of "Rq_Webhook (\<lambda>key body. body) (\<lambda>sig. Some [1]) (\<lambda>_ _. None) demo_yaml None (Some ''sha256=00'') [2]" demo_backend]
    by (simp add: genuine_def)
qed

subsection \<open>The beta claim\<close>

lemma granted_beta_iff:
  "granted_beta data \<longleftrightarrow> (\<exists>grants g roles. json_get ''user_grants'' data = Some (JArray grants) \<and> g \<in> set grants
     \<and> json_get ''roles'' g = Some (JArray roles) \<and> JString ''beta_user'' \<in> set roles)"
proof -
  have a: "as_array v = Some vs \<longleftrightarrow> v = JArray vs" for v vs by (cases v) auto
  have s: "as_str v = Some t \<longleftrightarrow> v = JString t" for v t by (cases v) auto
  have g: "grant_has_beta g \<longleftrightarrow> (\<exists>roles. json_get ''roles'' g = Some (JArray roles) \<and> JString ''beta_user'' \<in> set roles)" for g
    unfolding grant_has_beta_def by (auto simp: list_ex_iff a s bind_eq_Some_conv split: option.splits)
  show ?thesis
    unfolding granted_beta_def by (auto simp: list_ex_iff a g bind_eq_Some_conv split: option.splits)
qed

text \<open>
  C33. The hook and the check agree: for a user whose token carries, as the only thing that speaks
  of beta access, the claim the hook computed from the user's grants, the check grants access
  exactly when some grant of the user has the role \<open>beta_user\<close>.
\<close>

theorem beta_claim_roundtrip:
  assumes "(''beta_access'', v) \<in> set (ar_claims (preuserinfo_response data))"
    and "hm_get (iu_custom_claims u) ''beta_access'' = Some (JString v)"
    and "hm_get (iu_project_roles u) ''beta_user'' = None" and "hm_get (iu_org_roles u) ''beta_user'' = None"
    and "hm_get (iu_metadata u) ''beta_access'' = None"
    and "\<forall>c \<in> set (iu_custom_claims u). \<not> claim_grants_beta c"
  shows "has_beta_access u \<longleftrightarrow>
    (\<exists>grants g roles. json_get ''user_grants'' data = Some (JArray grants) \<and> g \<in> set grants
       \<and> json_get ''roles'' g = Some (JArray roles) \<and> JString ''beta_user'' \<in> set roles)"
proof -
  have v: "v = bool_str (granted_beta data)"
    using assms(1) by (simp add: preuserinfo_response_def add_claim_def add_metadata_def action_response_default_def)
  have l: "to_lowercase (bool_str b) = ''true'' \<longleftrightarrow> b" for b
    by (cases b) (simp_all add: bool_str_def to_lowercase_def to_lower_def)
  have "has_beta_access u \<longleftrightarrow> granted_beta data"
    using assms(2-6) by (simp add: has_beta_access_def hm_contains_def direct_claim_def v l list_ex_iff)
  then show ?thesis by (simp add: granted_beta_iff)
qed

theorem beta_claim_roundtrip_witness:
  "has_beta_access \<lparr>iu_sub = ''s'', iu_project_roles = [], iu_org_roles = [],
     iu_custom_claims = [(''beta_access'', JString ''true'')], iu_metadata = []\<rparr>"
proof -
  let ?data = "JObject [(''user_grants'', JArray [JObject [(''roles'', JArray [JString ''beta_user''])]])]"
  have "granted_beta ?data" by code_simp
  then show ?thesis
    using beta_claim_roundtrip [of "''true''" ?data "\<lparr>iu_sub = ''s'', iu_project_roles = [], iu_org_roles = [],
     iu_custom_claims = [(''beta_access'', JString ''true'')], iu_metadata = []\<rparr>"]
    by (simp add: preuserinfo_response_def add_claim_def add_metadata_def action_response_default_def bool_str_def
        hm_get_def claim_grants_beta_def roles_claim_def starts_with_def granted_beta_iff)
qed
end
