(* ===== verification/Job_Views.thy ===== *)
theory Job_Views
  imports Job_Offers
begin

section \<open>What the user interface reads\<close>

text \<open>
  The page of a repository groups its jobs by commit with a map that every commit's entry is taken
  out of; it shows the same as the page of each commit. Statements are read in a quiet outside.
\<close>

definition same_world :: "backend \<Rightarrow> backend \<Rightarrow> bool" where
  "same_world w w' \<longleftrightarrow> bk_db w' = bk_db w \<and> bk_env w' = bk_env w \<and> bk_config w' = bk_config w"

lemma same_world_tick [simp]: "same_world w (next_tick w') = same_world w w'" "same_world w w"
  by (simp_all add: same_world_def)

lemma same_world_trans: "same_world w w1 \<Longrightarrow> same_world w1 w2 \<Longrightarrow> same_world w w2"
  by (simp add: same_world_def)

lemma same_world_quiet: "same_world w w' \<Longrightarrow> quiet w \<Longrightarrow> quiet w'"
  by (simp add: same_world_def quiet_def)

subsection \<open>Grouping\<close>

lemma commit_read:
  assumes "quiet w" and "by_key gc_id k (db_commits (bk_db w)) = Some c"
  shows "unwrapped (commit_get_by_id k) w = (Ok c, next_tick w)"
proof -
  obtain cs where "filter (\<lambda>c. gc_id c = k) (db_commits (bk_db w)) = c # cs"
    using filter_by_key [OF assms(2)] by blast
  then show ?thesis
    using assms(1) by (simp add: commit_get_by_id_def unwrapped_def map_err_def quiet_select_first)
qed

definition shown :: "(job \<Rightarrow> string) \<Rightarrow> db \<Rightarrow> uuid \<Rightarrow> (job_github \<times> job) list \<Rightarrow> job_response list" where
  "shown url d k ps = map (view_job url (the (by_key gc_id k (db_commits d)))) (filter (\<lambda>p. jg_commit_id (fst p) = k) ps)"

lemma group_jobs_result:
  assumes "quiet w" and "\<forall>p \<in> set ps. has_key gc_id (jg_commit_id (fst p)) (db_commits (bk_db w))"
  shows "\<exists>m' w'. group_jobs url m ps w = (Ok m', w') \<and> same_world w w'
    \<and> (\<forall>k. unwrap_or (hm_get m' k) [] = unwrap_or (hm_get m k) [] @ shown url (bk_db w) k ps)"
  using assms
proof (induction ps arbitrary: m w)
  case Nil
  then show ?case by (simp add: ret_def shown_def)
next
  case (Cons p ps)
  let ?k = "jg_commit_id (fst p)"
  obtain c where c: "by_key gc_id ?k (db_commits (bk_db w)) = Some c"
    using Cons.prems(2) by_key_None [of gc_id ?k "db_commits (bk_db w)"] by (cases "by_key gc_id ?k (db_commits (bk_db w))") auto
  let ?m = "hm_insert ?k (unwrap_or (hm_get m ?k) [] @ [view_job url c p]) m"
  obtain m' w' where g: "group_jobs url ?m ps (next_tick w) = (Ok m', w')" and w': "same_world (next_tick w) w'"
    and m': "\<forall>k. unwrap_or (hm_get m' k) [] = unwrap_or (hm_get ?m k) [] @ shown url (bk_db w) k ps"
    using Cons.IH [of "next_tick w" ?m] Cons.prems by auto
  have "group_jobs url m (p # ps) w = (Ok m', w')"
    using g commit_read [OF Cons.prems(1) c] by (simp add: and_then_run bind_result_simps)
  moreover have "same_world w w'" using w' by (simp add: same_world_def)
  moreover have "unwrap_or (hm_get m' k) [] = unwrap_or (hm_get m k) [] @ shown url (bk_db w) k (p # ps)" for k
    using m' c by (auto simp: hm_get_insert shown_def)
  ultimately show ?case by blast
qed

lemma take_groups_distinct:
  "distinct (map gc_id cs) \<Longrightarrow>
     take_groups x n m cs = map (\<lambda>c. view_commit x n c (unwrap_or (hm_get m (gc_id c)) [])) cs"
proof (induction cs arbitrary: m)
  case (Cons c cs)
  then have "take_groups x n (hm_remove (gc_id c) m) cs =
      map (\<lambda>c'. view_commit x n c' (unwrap_or (hm_get (hm_remove (gc_id c) m) (gc_id c')) [])) cs" by simp
  also have "\<dots> = map (\<lambda>c. view_commit x n c (unwrap_or (hm_get m (gc_id c)) [])) cs"
    using Cons.prems by (intro map_cong) (auto simp: hm_get_remove image_iff)
  finally show ?case by simp
qed simp

lemma jobs_of_repo_by_commit:
  assumes "c \<in> set (db_commits d)" and "gc_repo_id c = r"
  shows "filter (\<lambda>p. jg_commit_id (fst p) = gc_id c) (jobs_of_repo r d) = jobs_of_commit (gc_id c) d"
proof -
  have "filter (\<lambda>p. jg_commit_id (fst p) = gc_id c)
      (filter (\<lambda>p. list_ex (\<lambda>c. gc_id c = jg_commit_id (fst p) \<and> gc_repo_id c = r) (db_commits d)) (github_jobs d))
    = filter (\<lambda>p. jg_commit_id (fst p) = gc_id c) (github_jobs d)"
    unfolding filter_filter using assms by (intro filter_cong refl) (auto simp: list_ex_iff)
  then show ?thesis
    by (simp add: jobs_of_repo_def jobs_of_commit_def by_platform_def filter_sort)
qed

lemma commits_of_repo_facts:
  assumes "distinct (map gc_id (db_commits d))"
  shows "distinct (map gc_id (commits_of_repo r d))"
    and "c \<in> set (commits_of_repo r d) \<Longrightarrow> c \<in> set (db_commits d) \<and> gc_repo_id c = r"
  using assms by (auto simp: commits_of_repo_def distinct_map inj_on_def)

text \<open>The page of a commit.\<close>

definition commit_page :: "backend \<Rightarrow> string \<Rightarrow> string \<Rightarrow> github_commit \<Rightarrow> commit_view" where
  "commit_page w x n c = view_commit x n c (map (view_job
     (\<lambda>j. log_url (bk_env w) (ac_logger_url (bk_config w)) (j_id j)) c) (jobs_of_commit (gc_id c) (bk_db w)))"

definition found_repo :: "db \<Rightarrow> string \<Rightarrow> string \<Rightarrow> github_repo option" where
  "found_repo d x n = (case filter (\<lambda>o'. go_login o' = x) (db_owners d) of [] \<Rightarrow> None
     | o' # _ \<Rightarrow> (case filter (\<lambda>r. gr_owner_id r = go_id o' \<and> gr_name r = n) (db_repos d) of [] \<Rightarrow> None | r # _ \<Rightarrow> Some r))"

lemma url_of_run: "same_world w w' \<Longrightarrow>
    url_of w' = (Ok (\<lambda>j. log_url (bk_env w) (ac_logger_url (bk_config w)) (j_id j)), w')"
  by (simp add: url_of_def gets_def same_world_def)

lemma repo_lookup:
  assumes "quiet w"
  shows "(case and_then pool_get (\<lambda>_. and_then (owner_get_by_login x)
      (\<lambda>o'. and_then (repo_get_by_owner_and_name (go_id o') n) f)) w of (r, w') \<Rightarrow>
    (case found_repo (bk_db w) x n of None \<Rightarrow> r = Err Not_Found
     | Some repo \<Rightarrow> \<exists>w1. same_world w w1 \<and> (r, w') = f repo w1))"
  using assms quiet_pool [OF assms]
  by (auto simp: and_then_run bind_result_def owner_get_by_login_def repo_get_by_owner_and_name_def
      quiet_select_first found_repo_def split: list.splits intro!: exI [of _ "next_tick (next_tick (next_tick w))"])

lemma repo_lookup_fst:
  assumes "quiet w" and "\<And>repo w1. same_world w w1 \<Longrightarrow> found_repo (bk_db w) x n = Some repo \<Longrightarrow> fst (f repo w1) = g repo"
  shows "fst (and_then pool_get (\<lambda>_. and_then (owner_get_by_login x)
      (\<lambda>o'. and_then (repo_get_by_owner_and_name (go_id o') n) f)) w) =
    (case found_repo (bk_db w) x n of None \<Rightarrow> Err Not_Found | Some repo \<Rightarrow> g repo)"
proof -
  obtain r w' where m: "and_then pool_get (\<lambda>_. and_then (owner_get_by_login x)
      (\<lambda>o'. and_then (repo_get_by_owner_and_name (go_id o') n) f)) w = (r, w')" by fastforce
  note l = repo_lookup [OF assms(1), where x = x and n = n and f = f, unfolded m, simplified]
  show ?thesis
  proof (cases "found_repo (bk_db w) x n")
    case None
    then show ?thesis using l by (simp add: m)
  next
    case (Some repo)
    then obtain w1 where "same_world w w1" "(r, w') = f repo w1" using l by auto
    then have "r = g repo" using assms(2) [OF _ Some] by (metis fst_conv)
    then show ?thesis using Some by (simp add: m)
  qed
qed

lemma get_rev_result:
  assumes "quiet w"
  shows "fst (get_rev x n sha w) = (case found_repo (bk_db w) x n of
      None \<Rightarrow> Err Not_Found
    | Some repo \<Rightarrow> (case filter (\<lambda>c. gc_repo_id c = gr_id repo \<and> gc_rev c = sha) (db_commits (bk_db w)) of
         [] \<Rightarrow> Err Not_Found | c # _ \<Rightarrow> Ok (commit_page w x n c)))"
  unfolding get_rev_def
proof (rule repo_lookup_fst [OF assms])
  fix repo w1
  assume w1: "same_world w w1"
  then have q: "quiet w1" and d: "bk_db w1 = bk_db w" using assms same_world_quiet by (auto simp: same_world_def)
  show "fst (and_then (get_by_repo_and_rev (gr_id repo) sha)
      (\<lambda>c. and_then (get_jobs_by_commit_id (gc_id c))
        (\<lambda>pairs. and_then url_of (\<lambda>url. ret (view_commit x n c (map (view_job url c) pairs))))) w1) =
    (case filter (\<lambda>c. gc_repo_id c = gr_id repo \<and> gc_rev c = sha) (db_commits (bk_db w)) of
       [] \<Rightarrow> Err Not_Found | c # _ \<Rightarrow> Ok (commit_page w x n c))"
    using q url_of_run [of w "next_tick (next_tick w1)"] w1
    by (simp add: and_then_run bind_result_def get_by_repo_and_rev_def get_jobs_by_commit_id_def quiet_select
        quiet_select_first d ret_def commit_page_def split: list.splits)
qed

lemma get_repo_jobs_result:
  assumes "quiet w" and "db_ok (bk_db w)"
  shows "fst (get_repo_jobs x n w) = (case found_repo (bk_db w) x n of
      None \<Rightarrow> Err Not_Found
    | Some repo \<Rightarrow> Ok (map (commit_page w x n) (commits_of_repo (gr_id repo) (bk_db w))))"
  unfolding get_repo_jobs_def
proof (rule repo_lookup_fst [OF assms(1)])
  fix repo w1
  assume w1: "same_world w w1"
  then have q: "quiet w1" and d: "bk_db w1 = bk_db w" using assms same_world_quiet by (auto simp: same_world_def)
  let ?url = "\<lambda>j. log_url (bk_env w) (ac_logger_url (bk_config w)) (j_id j)"
  let ?ps = "jobs_of_repo (gr_id repo) (bk_db w)" and ?cs = "commits_of_repo (gr_id repo) (bk_db w)"
  have ids: "distinct (map gc_id (db_commits (bk_db w)))" using db_okD(6) [OF assms(2)] .
  have "\<forall>p \<in> set ?ps. has_key gc_id (jg_commit_id (fst p)) (db_commits (bk_db (next_tick w1)))"
    by (auto simp: d jobs_of_repo_def by_platform_def list_ex_iff has_key_iff intro: rev_image_eqI)
  then obtain m w2 where g: "group_jobs ?url [] ?ps (next_tick w1) = (Ok m, w2)" and w2: "same_world (next_tick w1) w2"
    and m: "\<forall>k. unwrap_or (hm_get m k) [] = shown ?url (bk_db w) k ?ps"
    using group_jobs_result [of "next_tick w1" ?ps ?url "[]"] q by (auto simp: d hm_get_def)
  have "unwrap_or (hm_get m (gc_id c)) [] = map (view_job ?url c) (jobs_of_commit (gc_id c) (bk_db w))"
    if "c \<in> set ?cs" for c
  proof -
    have c: "c \<in> set (db_commits (bk_db w))" "gc_repo_id c = gr_id repo"
      using commits_of_repo_facts(2) [OF ids that] by simp_all
    then show ?thesis
      using m by_key_in [OF ids c(1)] jobs_of_repo_by_commit [OF c] by (simp add: shown_def)
  qed
  then have pages: "take_groups x n m ?cs = map (commit_page w x n) ?cs"
    unfolding take_groups_distinct [OF commits_of_repo_facts(1) [OF ids]]
    by (intro map_cong) (simp_all add: commit_page_def)
  have "same_world w w2" using w1 w2 by (auto simp: same_world_def)
  then have q2: "quiet w2" and d2: "bk_db w2 = bk_db w" using assms same_world_quiet by (auto simp: same_world_def)
  show "fst (and_then (get_jobs_for_repo (gr_id repo))
      (\<lambda>pairs. and_then url_of
        (\<lambda>url. and_then (group_jobs url [] pairs)
          (\<lambda>m. and_then (get_by_repo_ordered (gr_id repo)) (\<lambda>cs. ret (take_groups x n m cs))))) w1) =
    Ok (map (commit_page w x n) ?cs)"
    using q w1 url_of_run [of w "next_tick w1"]
    by (simp add: and_then_run bind_result_simps get_jobs_for_repo_def quiet_select d g get_by_repo_ordered_def q2 d2
        pages ret_def)
qed


end
