(* ===== verification/Vm_Task.thy ===== *)
theory Vm_Task
  imports Vm_Manager
begin

section \<open>A machine's task from start to end: vm_task_impl of runner/src/vm_manager.rs\<close>

text \<open>
  \<open>Vm_Manager\<close> interleaves the tasks and lets a machine's creation and wait answer anything; here one
  task on Linux is followed through with the operations of \<open>Vm_Linux\<close>: creation, configuration, start,
  wait, a shutdown command, the report, and the drop of the machine. The order of the last two matters:
  the machine is dropped, and its resources released, only after the completion was sent.
\<close>

text \<open>
  The select: \<open>polls\<close> are the polls of the wait until it ends or the command comes, \<open>later\<close> those of
  the second wait. The result is the exit status with the machine and the host then; \<open>None\<close>: it still waits.
\<close>

definition wait_or_command ::
    "(bool option \<times> try_wait) list \<Rightarrow> bool \<Rightarrow> (bool option \<times> try_wait) list \<Rightarrow> linux_vm \<Rightarrow> host
     \<Rightarrow> vm_exit_status option \<times> linux_vm \<times> host" where
  "wait_or_command polls commanded later m h =
     (case linux_wait polls m h of
        (Some r, m1, h1) \<Rightarrow> (Some (exit_of_wait r), m1, h1)
      | (None, m1, h1) \<Rightarrow>
          if \<not> commanded then (None, m1, h1)
          else
            (case linux_vm_shutdown m1 h1 of
               (m2, h2) \<Rightarrow>
                 (case linux_wait later m2 h2 of
                    (Some r, m3, h3) \<Rightarrow> (Some (exit_of_wait r), m3, h3)
                  | (None, m3, h3) \<Rightarrow> (None, m3, h3))))"

text \<open>
  The whole task: the status reported with the host at that moment (\<open>None\<close>: not reported yet) and the
  host at the end. A machine that does not boot is dropped when the start returns its error, before
  the report; one that ran is dropped after it.
\<close>

definition linux_vm_task ::
    "vm_outcomes \<Rightarrow> uuid \<Rightarrow> vm \<Rightarrow> string \<Rightarrow> vm_paths \<Rightarrow> string \<Rightarrow> job_config \<Rightarrow> bool \<Rightarrow> bool
     \<Rightarrow> (bool option \<times> try_wait) list \<Rightarrow> bool \<Rightarrow> (bool option \<times> try_wait) list \<Rightarrow> host
     \<Rightarrow> (vm_exit_status \<times> host) option \<times> host" where
  "linux_vm_task vo job_id v i paths run_dir c boot_ok rm_ok polls commanded later h =
     (case linux_vm_new vo job_id v i paths run_dir h of
        (None, h1) \<Rightarrow> (None, h1)
      | (Some (Inl e), h1) \<Rightarrow> (Some (Exit_Failure, h1), h1)
      | (Some (Inr m), h1) \<Rightarrow>
          let m1 = linux_set_job_config c m
          in (case linux_vm_start boot_ok m1 of
                Inl e \<Rightarrow> let h2 = linux_vm_drop rm_ok m1 h1 in (Some (Exit_Failure, h2), h2)
              | Inr _ \<Rightarrow>
                  (case wait_or_command polls commanded later m1 h1 of
                     (None, m2, h2) \<Rightarrow> (None, h2)
                   | (Some s, m2, h2) \<Rightarrow> (Some (s, h2), linux_vm_drop rm_ok m2 h2))))"

subsection \<open>Lemmas\<close>

text \<open>A wait leaves the machine as it was or shut down.\<close>

lemma linux_wait_machine:
  "linux_wait polls m h = (r, m', h') \<Longrightarrow> (m', h') = (m, h) \<or> (m', h') = linux_vm_shutdown m h"
  by (induction polls m h rule: linux_wait.induct)
    (auto simp: Let_def split: option.splits try_wait.splits prod.splits)

text \<open>Two machines that hold the same things, on hosts that gave nothing back in between.\<close>

definition same_machine :: "bool \<Rightarrow> linux_vm \<times> host \<Rightarrow> linux_vm \<times> host \<Rightarrow> bool" where
  "same_machine rm_ok x y \<longleftrightarrow> linux_vm_drop rm_ok (fst x) (snd x) = linux_vm_drop rm_ok (fst y) (snd y)
     \<and> h_rm (snd x) = h_rm (snd y) \<and> h_tasks (snd x) = h_tasks (snd y)"

lemma same_machine_trans: "same_machine b x y \<Longrightarrow> same_machine b y z \<Longrightarrow> same_machine b x z"
  by (simp add: same_machine_def)

lemma same_after_shutdown: "linux_vm_shutdown m h = x \<Longrightarrow> same_machine b x (m, h)"
  using drop_after_shutdown [where m = m and h = h and rm_ok = b]
  by (auto simp: same_machine_def linux_vm_shutdown_def kill_def)

lemma same_after_wait: "linux_wait ps m h = (r, x) \<Longrightarrow> same_machine b x (m, h)"
  using linux_wait_machine [of ps m h r "fst x" "snd x"] same_after_shutdown [of m h x b]
  by (auto simp: same_machine_def)

lemma waited_machine:
  assumes "wait_or_command polls commanded later m h = (s, m', h')"
  shows "same_machine b (m', h') (m, h)"
proof -
  obtain r m1 h1 where 1: "linux_wait polls m h = (r, m1, h1)" by (metis surj_pair)
  obtain m2 h2 where 2: "linux_vm_shutdown m1 h1 = (m2, h2)" by (metis surj_pair)
  obtain r3 m3 h3 where 3: "linux_wait later m2 h2 = (r3, m3, h3)" by (metis surj_pair)
  note same = same_after_wait [OF 1, of b] same_after_shutdown [OF 2, of b] same_after_wait [OF 3, of b]
  have "(m', h') = (m1, h1) \<or> (m', h') = (m3, h3)"
    using assms by (auto simp: wait_or_command_def 1 2 3 split: option.splits if_splits)
  then show ?thesis using same by (auto intro: same_machine_trans)
qed

lemma drop_job_config [simp]: "linux_vm_drop rm_ok (linux_set_job_config c m) h = linux_vm_drop rm_ok m h"
  by (simp add: linux_set_job_config_def linux_vm_drop_def Let_def)

text \<open>Where a task that has ended leaves the host.\<close>

lemma linux_vm_task_end:
  assumes "linux_vm_task vo j v i paths run_dir c boot_ok rm_ok polls commanded later h = (Some (s, hr), hf)"
  shows "(\<exists>e. linux_vm_new vo j v i paths run_dir h = (Some (Err e), hf))
    \<or> (\<exists>m h1. linux_vm_new vo j v i paths run_dir h = (Some (Ok m), h1) \<and> hf = linux_vm_drop rm_ok m h1
         \<and> (boot_ok \<longrightarrow> h_rm hr = h_rm h1 \<and> h_tasks hr = h_tasks h1))"
  using assms
  by (auto simp: linux_vm_task_def Let_def linux_vm_start_def same_machine_def
      split: prod.splits option.splits sum.splits if_splits dest!: waited_machine [where b = rm_ok])

section \<open>Properties\<close>

text \<open>
  C23. A machine's task gives back what it took: whatever fails in it, whether the machine was created
  or not, booted or not, ended by itself, by its job's result or by a command, once its task has
  ended the temporary directory is gone and the release tasks it spawned restore the resource
  manager in any order.
\<close>

theorem ended_task_gives_resources_back:
  assumes "accounting (h_rm h)" and "hm_get (alloc_jobs (rm_allocation (h_rm h))) j = None"
    and "linux_vm_task vo j v i paths run_dir c boot_ok rm_ok polls commanded later h = (Some (s, hr), hf)"
  shows "h_tmp hf = h_tmp h \<and> (\<exists>ts. h_tasks hf = h_tasks h @ ts \<and> gives_back (h_rm h) (h_rm hf) ts)"
  using linux_vm_task_end [OF assms(3)]
proof (elim disjE exE conjE)
  show ?thesis if "linux_vm_new vo j v i paths run_dir h = (Some (Err e), hf)" for e
    using linux_vm_new_cases [OF assms(1,2) that] by simp
  show ?thesis if "linux_vm_new vo j v i paths run_dir h = (Some (Ok m), h1)" "hf = linux_vm_drop rm_ok m h1" for m h1
    using linux_vm_new_cases [OF assms(1,2) that(1)] that(2)
    by (simp add: linux_vm_drop_def Let_def kill_def drop_tempdir_def drop_cid_guard_def drop_ip_guard_def
        drop_resource_guard_def)
qed

theorem ended_task_gives_resources_back_witness:
  "\<exists>hr hf ts. linux_vm_task demo_outcomes 1 demo_vm ''a'' demo_paths ''/t'' demo_config True True
       [(None, Still_Running)] True [(None, Exited None)] demo_host = (Some (Exit_Failure, hr), hf)
     \<and> h_tasks hf = ts \<and> gives_back (h_rm demo_host) (h_rm hf) ts"
proof -
  obtain m h1 where n: "linux_vm_new demo_outcomes 1 demo_vm ''a'' demo_paths ''/t'' demo_host = (Some (Ok m), h1)"
    using demo_new(2) by blast
  then obtain hr hf where t: "linux_vm_task demo_outcomes 1 demo_vm ''a'' demo_paths ''/t'' demo_config True True
      [(None, Still_Running)] True [(None, Exited None)] demo_host = (Some (Exit_Failure, hr), hf)"
    by (simp add: linux_vm_task_def wait_or_command_def linux_vm_start_def linux_vm_shutdown_def Let_def)
  from ended_task_gives_resources_back [OF demo_host_ok t] t show ?thesis by (auto simp: demo_host_def)
qed

end
