(* ===== verification/Runner_Work.thy ===== *)
theory Runner_Work
  imports Runner_Loop
begin
section \<open>What a runner takes on and what it may report\<close>

text \<open>
  Two facts of a single runner that the system as a whole rests on: only a granted job adds to the
  jobs and machines of a runner, and a runner reports success only for a job whose machine ended
  with success. Both are shown operation by operation, as frames or as preserved predicates.
\<close>

subsection \<open>Jobs and machines\<close>

definition known_jobs :: "runner \<Rightarrow> uuid set" where
  "known_jobs r = fst ` set (jm_jobs (rn_jm r))"

definition machine_jobs :: "runner \<Rightarrow> uuid list" where
  "machine_jobs r = map tk_job (vmm_tasks (rn_vmm r))"

definition work :: "runner \<Rightarrow> uuid set \<times> uuid list" where
  "work r = (known_jobs r, machine_jobs r)"

abbreviation keeps_work :: "'a run \<Rightarrow> bool" where
  "keeps_work m \<equiv> (\<forall>r. work (snd (m r)) = work r)"

lemma work_frame [simp]:
  "work (r\<lparr>rn_rm := rm\<rparr>) = work r" "work (r\<lparr>rn_loop := l\<rparr>) = work r" "work (r\<lparr>rn_starting := s\<rparr>) = work r"
  "work (r\<lparr>rn_shutting_down := b\<rparr>) = work r" "work (r\<lparr>rn_sends := n\<rparr>) = work r"
  "work (r\<lparr>rn_sent := ms\<rparr>) = work r" "work (r\<lparr>rn_log_streams := ls\<rparr>) = work r" "work (r\<lparr>rn_received := evs\<rparr>) = work r"
  by (simp_all add: work_def known_jobs_def machine_jobs_def)

lemma emit_jobs [simp]: "jm_jobs (snd (emit ev jm)) = jm_jobs jm"
  by (simp add: emit_def split: prod.split send_outcome.split)

lemma update_jobs_keys [simp]: "fst ` set (jm_jobs (snd (update_job_status i s jm))) = fst ` set (jm_jobs jm)"
  using hm_get_None [of "jm_jobs jm" i] by (auto simp: update_job_status_def split: option.split)

lemma shutdown_jobs: "map tk_job (vmm_tasks (snd (shutdown_vm i m))) = map tk_job (vmm_tasks m)"
proof -
  have "map tk_job (ts[n := (ts ! n)\<lparr>tk_control := c\<rparr>]) = map tk_job ts" for ts :: "vm_task list" and n c
    by (cases "n < length ts") (simp_all add: jobs_update list_update_beyond)
  then show ?thesis by (simp add: shutdown_vm_def split: option.split prod.split send_outcome.split)
qed

lemma task_jobs: "task_step n m m' \<Longrightarrow> map tk_job (vmm_tasks m') = map tk_job (vmm_tasks m)"
  by (induction rule: task_step.induct) (simp_all add: set_phase_def jobs_update)

lemma work_send: "keeps_work (send_message msg)"
  by (simp add: send_message_def)

lemma work_call_update: "keeps_work (call_jm (update_job_status i s))"
proof -
  have "work (r\<lparr>rn_jm := snd (update_job_status i s (rn_jm r))\<rparr>) = work r" for r
    by (simp add: work_def known_jobs_def machine_jobs_def)
  then show ?thesis
    by (auto simp: call_jm_def split: prod.splits poll.splits) (metis snd_conv)+
qed

lemma work_logged: "keeps_work m \<Longrightarrow> keeps_work (logged_only m)"
  by (auto simp: logged_only_def case_prod_unfold split: sum.splits run_error.splits)

lemma work_unwrap:
  "keeps_work m \<Longrightarrow> work (unwrap_run m r) = work r" "keeps_work m \<Longrightarrow> work (run_logged m r) = work r"
  by (auto simp: unwrap_run_def run_logged_def case_prod_unfold split: sum.splits run_error.splits)

lemma work_request: "keeps_work check_capacity_and_request_job"
  using work_send by (simp add: check_capacity_and_request_job_def)

lemma work_shutdown: "work (snd (call_shutdown_vm i r)) = work r"
  using shutdown_jobs [of i "rn_vmm r"]
  by (simp add: call_shutdown_vm_def work_def known_jobs_def machine_jobs_def case_prod_beta)

fun claimed_job :: "server_message \<Rightarrow> uuid option" where
  "claimed_job (JobClaimed i v u) = Some i"
| "claimed_job _ = None"

lemma work_message:
  assumes "claimed_job msg = None"
  shows "work (snd (handle_server_message msg r)) = work r"
proof -
  have end_job: "work (snd (and_then (logged_only (call_jm (complete_job i c))) (\<lambda>_. k) r)) = work r"
    if "\<And>r. work (snd (k r)) = work r" for i c and k :: "unit run"
    using spec [OF work_logged [OF work_call_update]] that
    by (simp add: and_then_def complete_job_def case_prod_beta split: sum.split)
  have stop: "work (snd (case call_shutdown_vm i r of
      (Send_Waits, r') \<Rightarrow> (Err Re_Blocked, r')
    | (Send_Failed, r') \<Rightarrow> (Ok (), r'\<lparr>rn_rm := snd (release_job i (rn_rm r'))\<rparr>)
    | (_, r') \<Rightarrow> (Ok (), r'))) = work r"
    and wait: "work (snd (case call_shutdown_vm i r of
      (Send_Waits, r') \<Rightarrow> (Err Re_Blocked, r') | (_, r') \<Rightarrow> (Ok (), r'))) = work r" for i r
    using work_shutdown [of i r] by (auto split: prod.splits shutdown_result.splits)
  show ?thesis
  proof (cases msg)
    case (NewJobAvailable i v)
    then show ?thesis using spec [OF work_send] by (simp add: handle_server_message_def)
  next
    case (JobTimedOut i)
    then show ?thesis using end_job [OF wait] by (simp add: handle_server_message_def)
  next
    case (JobCancelled i)
    then show ?thesis using end_job [OF stop] by (simp add: handle_server_message_def)
  qed (use assms in simp)
qed

lemma work_status: "work (handle_status ev r) = work r"
  using work_unwrap [OF work_send] work_unwrap [OF work_request]
  by (simp add: handle_status_def Let_def split: job_status.split)

lemma work_top: "work (loop_top r) = work r"
  by (simp add: loop_top_def split: poll.split)

lemma work_receive: "jm_receive (rn_jm r) = (ev, jm) \<Longrightarrow> work (r\<lparr>rn_jm := jm\<rparr>) = work r"
  by (auto simp: work_def known_jobs_def machine_jobs_def jm_receive_def split: prod.splits)

lemma work_select:
  assumes "\<And>msg. ev = Le_Ws_Message msg \<Longrightarrow> claimed_job msg = None"
  shows "work (loop_select ev r) = work r"
proof (cases ev)
  case Le_Status
  then show ?thesis
    using work_receive by (auto simp: work_status split: prod.splits option.splits)
next
  case (Le_Ws_Message msg)
  with work_message [OF assms [OF this]] show ?thesis
    by (auto simp: unwrap_run_def case_prod_unfold split: sum.splits run_error.splits)
next
  case Le_Metrics
  then show ?thesis using work_unwrap [OF work_send] by (simp split: poll.split)
qed (simp_all add: work_unwrap [OF work_request] split: poll.split)

text \<open>Only a granted job adds work.\<close>

lemma work_turn:
  assumes "\<And>msg. ev = Le_Ws_Message msg \<Longrightarrow> claimed_job msg = None"
  shows "work (loop_turn ev r) = work r"
  using work_select [OF assms] work_unwrap [OF work_call_update] work_top [of r]
  by (auto simp: loop_turn_def Let_def set_job_running_def split: option.split)

lemma work_completion: "work (completion_turn r) = work r"
  by (simp add: completion_turn_def work_def known_jobs_def machine_jobs_def complete_job_def
      split: prod.split option.split)

lemma work_claimed:
  assumes "claimed_job msg = Some i"
  shows "work (loop_turn (Le_Ws_Message msg) r)
    \<in> {work r, (insert i (known_jobs r), machine_jobs r), (insert i (known_jobs r), machine_jobs r @ [i])}"
proof -
  obtain v u where msg: "msg = JobClaimed i v u" using assms by (cases msg) auto
  have h: "work (unwrap_run (handle_server_message msg) r)
    \<in> {work r, (insert i (known_jobs r), machine_jobs r), (insert i (known_jobs r), machine_jobs r @ [i])}" for r
  proof -
    obtain p jm where reg: "register_job i (runner_job_config i) (rn_jm r) = (p, jm)"
      by (cases "register_job i (runner_job_config i) (rn_jm r)")
    have jm: "p = Ready (Ok ()) \<and> jm_jobs jm = hm_insert i (job_info_new i (runner_job_config i)) (jm_jobs (rn_jm r))
      \<or> p = Pending \<and> (jm_jobs jm = jm_jobs (rn_jm r)
          \<or> jm_jobs jm = hm_insert i (job_info_new i (runner_job_config i)) (jm_jobs (rn_jm r)))"
      using reg by (auto simp: register_job_def emit_def split: if_splits prod.splits send_outcome.splits)
    have run: "unwrap_run (handle_server_message msg) r = (if rn_shutting_down r then r else case p of
        Pending \<Rightarrow> r\<lparr>rn_jm := jm, rn_loop := Stuck\<rparr>
      | Ready (Inl e) \<Rightarrow> r\<lparr>rn_jm := jm, rn_loop := Panicked\<rparr>
      | Ready (Inr _) \<Rightarrow> r\<lparr>rn_jm := jm, rn_log_streams := rn_log_streams r @ [(i, u)],
          rn_vmm := launch_vm i (rn_vmm r), rn_starting := Some i\<rparr>)"
      by (simp add: msg unwrap_run_def handle_server_message_def and_then_def call_jm_def modify_def reg
          split: poll.split sum.split)
    from jm show ?thesis
      unfolding run
      by (elim disjE conjE)
        (simp_all add: work_def known_jobs_def machine_jobs_def launch_vm_def vm_task_new_def)
  qed
  have top: "known_jobs (loop_top r) = known_jobs r" "machine_jobs (loop_top r) = machine_jobs r"
    using work_top [of r] by (simp_all add: work_def)
  show ?thesis
  proof (cases "rn_starting r")
    case None
    then show ?thesis
      using h [of "loop_top r"] work_top [of r] by (simp add: loop_turn_def Let_def top)
  next
    case (Some j)
    then show ?thesis by (simp add: loop_turn_def set_job_running_def work_unwrap [OF work_call_update])
  qed
qed

subsection \<open>Success\<close>

text \<open>The machine of job \<open>i\<close> ended with success and its task said so.\<close>

definition succeeded :: "uuid \<Rightarrow> runner \<Rightarrow> bool" where
  "succeeded i r \<longleftrightarrow> \<lparr>ce_job_id = i, ce_status = Exit_Success\<rparr> \<in> set (vmm_reported (rn_vmm r))"

definition outcomes :: "runner \<Rightarrow> completion_event list \<times> completion_event chan" where
  "outcomes r = (vmm_reported (rn_vmm r), vmm_completion (rn_vmm r))"

text \<open>Every success announced or sent is one of \<open>F\<close>.\<close>

definition claims_only :: "(uuid \<Rightarrow> bool) \<Rightarrow> runner \<Rightarrow> bool" where
  "claims_only F r \<longleftrightarrow>
     (\<forall>ev \<in> set (announced (jobs_of r)). se_status ev = Complete Success \<longrightarrow> F (se_job_id ev))
     \<and> (\<forall>i. UpdateJobStatus i (Complete Success) \<in> set (rn_sent r) \<longrightarrow> F i)"

definition honest :: "runner \<Rightarrow> bool" where
  "honest r \<longleftrightarrow> set (ch_queue (vmm_completion (rn_vmm r))) \<subseteq> set (vmm_reported (rn_vmm r))
     \<and> claims_only (\<lambda>i. succeeded i r) r"

lemma claims_only_frame [simp]:
  "claims_only F (r\<lparr>rn_rm := rm\<rparr>) = claims_only F r" "claims_only F (r\<lparr>rn_loop := l\<rparr>) = claims_only F r"
  "claims_only F (r\<lparr>rn_starting := st\<rparr>) = claims_only F r" "claims_only F (r\<lparr>rn_vmm := m\<rparr>) = claims_only F r"
  "claims_only F (r\<lparr>rn_shutting_down := b\<rparr>) = claims_only F r" "claims_only F (r\<lparr>rn_sends := n\<rparr>) = claims_only F r"
  "claims_only F (r\<lparr>rn_log_streams := ls\<rparr>) = claims_only F r"
  by (simp_all add: claims_only_def jobs_of_def)

lemma outcomes_frame [simp]:
  "outcomes (r\<lparr>rn_rm := rm\<rparr>) = outcomes r" "outcomes (r\<lparr>rn_loop := l\<rparr>) = outcomes r"
  "outcomes (r\<lparr>rn_starting := st\<rparr>) = outcomes r" "outcomes (r\<lparr>rn_jm := jm\<rparr>) = outcomes r"
  "outcomes (r\<lparr>rn_shutting_down := b\<rparr>) = outcomes r" "outcomes (r\<lparr>rn_sends := n\<rparr>) = outcomes r"
  "outcomes (r\<lparr>rn_sent := ms\<rparr>) = outcomes r" "outcomes (r\<lparr>rn_log_streams := ls\<rparr>) = outcomes r"
  "outcomes (r\<lparr>rn_received := evs\<rparr>) = outcomes r"
  by (simp_all add: outcomes_def)

lemma emit_announced:
  "set (announced \<lparr>jw_jm = snd (emit ev jm), jw_received = evs\<rparr>)
   \<subseteq> insert ev (set (announced \<lparr>jw_jm = jm, jw_received = evs\<rparr>))"
  by (auto simp: emit_def announced_def chan_send_def split: option.splits if_splits)

lemma announced_jobs [simp]:
  "announced \<lparr>jw_jm = jm\<lparr>jm_jobs := js\<rparr>, jw_received = evs\<rparr> = announced \<lparr>jw_jm = jm, jw_received = evs\<rparr>"
  by (simp add: announced_def)

lemma emit_announced_jobs:
  "set (announced \<lparr>jw_jm = snd (emit ev (jm\<lparr>jm_jobs := js\<rparr>)), jw_received = evs\<rparr>)
   \<subseteq> insert ev (set (announced \<lparr>jw_jm = jm, jw_received = evs\<rparr>))"
  using emit_announced [of ev "jm\<lparr>jm_jobs := js\<rparr>" evs] by simp

lemma update_announced:
  "set (announced \<lparr>jw_jm = snd (update_job_status i s jm), jw_received = evs\<rparr>)
   \<subseteq> insert \<lparr>se_job_id = i, se_status = s\<rparr> (set (announced \<lparr>jw_jm = jm, jw_received = evs\<rparr>))"
  by (simp add: update_job_status_def emit_announced_jobs subset_insertI split: option.split)

lemma register_announced:
  "set (announced \<lparr>jw_jm = snd (register_job i c jm), jw_received = evs\<rparr>)
   \<subseteq> insert \<lparr>se_job_id = i, se_status = Queued\<rparr> (set (announced \<lparr>jw_jm = jm, jw_received = evs\<rparr>))"
  by (simp add: register_job_def emit_announced_jobs subset_insertI)

lemma claims_only_jm:
  assumes "claims_only F r"
    and "set (announced \<lparr>jw_jm = jm, jw_received = rn_received r\<rparr>) \<subseteq> insert ev (set (announced (jobs_of r)))"
    and "se_status ev = Complete Success \<Longrightarrow> F (se_job_id ev)"
  shows "claims_only F (r\<lparr>rn_jm := jm\<rparr>)"
  using assms unfolding claims_only_def jobs_of_def by auto

lemma claims_only_same:
  assumes "claims_only F r" and "set (announced (jobs_of r')) \<subseteq> set (announced (jobs_of r))"
    and "rn_sent r' = rn_sent r"
  shows "claims_only F r'"
  using assms unfolding claims_only_def by auto

lemma claims_only_update:
  "claims_only F r \<Longrightarrow> (s = Complete Success \<Longrightarrow> F i)
   \<Longrightarrow> claims_only F (r\<lparr>rn_jm := snd (update_job_status i s (rn_jm r))\<rparr>)"
  by (rule claims_only_jm [where ev = "\<lparr>se_job_id = i, se_status = s\<rparr>"])
    (simp_all add: jobs_of_def update_announced)

text \<open>An operation of the main loop that keeps both.\<close>

definition talks :: "(uuid \<Rightarrow> bool) \<Rightarrow> 'a run \<Rightarrow> bool" where
  "talks F m \<longleftrightarrow> preserves (claims_only F) m \<and> (\<forall>r. outcomes (snd (m r)) = outcomes r)"

lemma talks_send: "(\<And>i. msg = UpdateJobStatus i (Complete Success) \<Longrightarrow> F i) \<Longrightarrow> talks F (send_message msg)"
  by (auto simp: talks_def preserves_def send_message_def claims_only_def jobs_of_def)

lemma talks_send_other: "\<not> is_update msg \<Longrightarrow> talks F (send_message msg)"
  by (rule talks_send) auto

lemma talks_call:
  assumes "\<And>r. claims_only F r \<Longrightarrow> claims_only F (r\<lparr>rn_jm := snd (f (rn_jm r))\<rparr>)"
  shows "talks F (call_jm f)"
proof -
  have "claims_only F (snd (call_jm f r))" if "claims_only F r" for r
    using assms [OF that] by (auto simp: call_jm_def split: prod.split poll.split)
  then show ?thesis by (simp add: talks_def preserves_def call_jm_def split: prod.split poll.split)
qed

lemma talks_update: "(s = Complete Success \<Longrightarrow> F i) \<Longrightarrow> talks F (call_jm (update_job_status i s))"
  by (rule talks_call) (rule claims_only_update)

lemma talks_complete: "c \<noteq> Success \<Longrightarrow> talks F (call_jm (complete_job i c))"
  unfolding complete_job_def by (rule talks_update) simp

lemma talks_register: "talks F (call_jm (register_job i c))"
  by (rule talks_call, rule claims_only_jm [where ev = "\<lparr>se_job_id = i, se_status = Queued\<rparr>"])
    (use register_announced in \<open>simp_all add: jobs_of_def\<close>)

lemma talks_logged: "talks F m \<Longrightarrow> talks F (logged_only m)"
  by (auto simp: talks_def preserves_def logged_only_def case_prod_unfold split: sum.splits run_error.splits)

lemma talks_and_then: "talks F m \<Longrightarrow> (\<And>a. talks F (f a)) \<Longrightarrow> talks F (and_then m f)"
  unfolding talks_def by (auto simp: and_then_def case_prod_unfold split: sum.splits dest: preservesD)

lemma talks_request: "talks F check_capacity_and_request_job"
  using talks_send [of RequestJob F] by (simp add: talks_def preserves_def check_capacity_and_request_job_def)

lemma talks_run:
  assumes "talks F m" and "claims_only F r"
  shows "claims_only F (unwrap_run m r) \<and> outcomes (unwrap_run m r) = outcomes r"
    and "claims_only F (run_logged m r) \<and> outcomes (run_logged m r) = outcomes r"
  using assms
  by (auto simp: talks_def preserves_def unwrap_run_def run_logged_def case_prod_unfold
      split: sum.splits run_error.splits)

lemma outcomes_shutdown: "outcomes (snd (call_shutdown_vm i r)) = outcomes r"
  by (simp add: call_shutdown_vm_def outcomes_def shutdown_vm_def
      split: prod.split option.split send_outcome.split)

lemma claims_shutdown: "claims_only F (snd (call_shutdown_vm i r)) = claims_only F r"
  by (simp add: call_shutdown_vm_def split: prod.split)

lemma talks_shutdown:
  "talks F (\<lambda>r. case call_shutdown_vm i r of
      (Send_Waits, r') \<Rightarrow> (Err Re_Blocked, r')
    | (Send_Failed, r') \<Rightarrow> (Ok (), r'\<lparr>rn_rm := snd (release_job i (rn_rm r'))\<rparr>)
    | (_, r') \<Rightarrow> (Ok (), r'))"
  "talks F (\<lambda>r. case call_shutdown_vm i r of
      (Send_Waits, r') \<Rightarrow> (Err Re_Blocked, r') | (_, r') \<Rightarrow> (Ok (), r'))"
  using outcomes_shutdown [of i] claims_shutdown [of F i]
  by (auto simp: talks_def preserves_def case_prod_beta split: prod.splits shutdown_result.splits)

lemma talks_message: "talks F (handle_server_message msg)"
proof (cases msg)
  case (NewJobAvailable i v)
  then show ?thesis
    using talks_send [of "ClaimJob i v" F]
    by (simp add: talks_def preserves_def handle_server_message_def)
next
  case (JobClaimed i v u)
  have "talks F (modify (\<lambda>r. r\<lparr>rn_log_streams := rn_log_streams r @ [(i, u)],
      rn_vmm := launch_vm i (rn_vmm r), rn_starting := Some i\<rparr>))"
    by (simp add: talks_def preserves_def modify_def outcomes_def launch_vm_def)
  from talks_and_then [OF talks_register this] show ?thesis
    using JobClaimed by (simp add: talks_def preserves_def handle_server_message_def)
next
  case (JobTimedOut i)
  have "talks F (and_then (logged_only (call_jm (complete_job i TimedOut))) (\<lambda>_ r. case call_shutdown_vm i r of
      (Send_Waits, r') \<Rightarrow> (Err Re_Blocked, r') | (_, r') \<Rightarrow> (Ok (), r')))"
    by (intro talks_and_then talks_logged talks_shutdown talks_complete) simp
  with JobTimedOut show ?thesis by (simp add: talks_def preserves_def handle_server_message_def)
next
  case (JobCancelled i)
  have "talks F (and_then (logged_only (call_jm (complete_job i Cancelled))) (\<lambda>_ r. case call_shutdown_vm i r of
      (Send_Waits, r') \<Rightarrow> (Err Re_Blocked, r')
    | (Send_Failed, r') \<Rightarrow> (Ok (), r'\<lparr>rn_rm := snd (release_job i (rn_rm r'))\<rparr>)
    | (_, r') \<Rightarrow> (Ok (), r')))"
    by (intro talks_and_then talks_logged talks_shutdown talks_complete) simp
  with JobCancelled show ?thesis by (simp add: talks_def preserves_def handle_server_message_def)
qed

lemma talks_receive:
  assumes "claims_only F r" and "jm_receive (rn_jm r) = (Some ev, jm)"
  shows "claims_only F (handle_status ev (r\<lparr>rn_jm := jm, rn_received := rn_received r @ [ev]\<rparr>))
    \<and> outcomes (handle_status ev (r\<lparr>rn_jm := jm, rn_received := rn_received r @ [ev]\<rparr>)) = outcomes r"
proof -
  let ?r = "r\<lparr>rn_jm := jm, rn_received := rn_received r @ [ev]\<rparr>"
  have "set (announced (jobs_of ?r)) = set (announced (jobs_of r))" and ev: "ev \<in> set (announced (jobs_of r))"
    using assms(2) by (auto simp: announced_def jobs_of_def jm_receive_def chan_recv_def split: list.splits)
  then have r: "claims_only F ?r" "outcomes ?r = outcomes r"
    using assms(1) by (simp_all add: claims_only_def)
  have "talks F (send_message (UpdateJobStatus (se_job_id ev) (Complete c)))" if "se_status ev = Complete c" for c
    using assms(1) ev that by (intro talks_send) (auto simp: claims_only_def)
  note send = talks_run(2) [OF this r(1)]
  show ?thesis
  proof (cases "se_status ev")
    case (Complete c)
    note s = send [OF Complete]
    from talks_run(2) [OF talks_request conjunct1 [OF s]] s r show ?thesis
      by (simp add: handle_status_def Let_def Complete)
  qed (use r in \<open>simp_all add: handle_status_def\<close>)
qed

lemma turn_talks:
  assumes "claims_only F r"
  shows "claims_only F (loop_turn ev r) \<and> outcomes (loop_turn ev r) = outcomes r"
proof -
  have top: "claims_only F (loop_top r)" "outcomes (loop_top r) = outcomes r"
    using assms by (simp_all add: loop_top_def split: poll.split)
  have "claims_only F (loop_select ev r') \<and> outcomes (loop_select ev r') = outcomes r'" if "claims_only F r'" for r'
  proof (cases ev)
    case Le_Status
    then show ?thesis
      using that talks_receive [OF that] by (auto split: prod.split option.split)
  next
    case (Le_Ws_Message msg)
    then show ?thesis using talks_run(1) [OF talks_message that] that by simp
  next
    case Le_Metrics
    have "claims_only F (run_logged (send_message (ReportMetrics x)) r')
        \<and> outcomes (run_logged (send_message (ReportMetrics x)) r') = outcomes r'" for x
      by (rule talks_run(2) [OF talks_send_other that]) simp
    with Le_Metrics that show ?thesis by (simp split: poll.split)
  qed (use that talks_run(1) [OF talks_request that] in \<open>simp_all split: poll.split\<close>)
  moreover have start: "claims_only F (run_logged (call_jm (update_job_status i Running)) r')
      \<and> outcomes (run_logged (call_jm (update_job_status i Running)) r') = outcomes r'"
    if "claims_only F r'" for i r'
    by (rule talks_run(2) [OF talks_update that]) simp
  ultimately show ?thesis
    using assms top start
    by (auto simp: loop_turn_def Let_def set_job_running_def split: option.split)
qed

subsection \<open>Steps\<close>

lemma claims_only_mono: "claims_only F r \<Longrightarrow> (\<And>i. F i \<Longrightarrow> G i) \<Longrightarrow> claims_only G r"
  by (auto simp: claims_only_def)

lemma honest_outcomes:
  "outcomes r' = outcomes r \<Longrightarrow> honest r \<Longrightarrow> claims_only (\<lambda>i. succeeded i r) r' \<Longrightarrow> honest r'"
  by (simp add: honest_def outcomes_def succeeded_def)

lemma task_reported:
  assumes "task_step n m m'"
  shows "set (vmm_reported m) \<subseteq> set (vmm_reported m')"
    and "set (ch_queue (vmm_completion m)) \<subseteq> set (vmm_reported m)
      \<Longrightarrow> set (ch_queue (vmm_completion m')) \<subseteq> set (vmm_reported m')"
  using assms by (induction rule: task_step.induct) (auto simp: set_phase_def chan_send_def split: if_splits)

lemma honest_machine:
  assumes "honest r" and "task_step n (rn_vmm r) m"
  shows "honest (r\<lparr>rn_vmm := m\<rparr>)"
  using assms(1) task_reported [OF assms(2)]
  by (auto simp: honest_def succeeded_def intro: claims_only_mono)

lemma honest_completion:
  assumes "honest r"
  shows "honest (completion_turn r)"
proof (cases "jm_waiting (rn_jm r) = None \<and> fst (chan_recv (vmm_completion (rn_vmm r))) \<noteq> None")
  case True
  then obtain ev c where recv: "chan_recv (vmm_completion (rn_vmm r)) = (Some ev, c)"
    by (cases "chan_recv (vmm_completion (rn_vmm r))") auto
  let ?s = "Complete (completion_of_exit (ce_status ev))"
  have ev: "ev \<in> set (vmm_reported (rn_vmm r))" and c: "set (ch_queue c) \<subseteq> set (vmm_reported (rn_vmm r))"
    using recv assms by (auto simp: chan_recv_def honest_def split: list.splits)
  have "succeeded (ce_job_id ev) r" if "?s = Complete Success"
    using that ev by (cases ev; cases "ce_status ev") (auto simp: succeeded_def)
  then have "claims_only (\<lambda>i. succeeded i r)
      (r\<lparr>rn_jm := snd (update_job_status (ce_job_id ev) ?s (rn_jm r))\<rparr>)"
    using assms by (intro claims_only_update) (simp_all add: honest_def)
  then show ?thesis
    using True c by (simp add: completion_turn_def recv complete_job_def honest_def claims_only_def
        succeeded_def jobs_of_def)
qed (use assms in \<open>auto simp: completion_turn_def split: prod.splits option.splits\<close>)

lemma resume_announced: "set (announced \<lparr>jw_jm = jm_resume jm, jw_received = evs\<rparr>)
    \<subseteq> set (announced \<lparr>jw_jm = jm, jw_received = evs\<rparr>)"
  by (auto simp: announced_def jm_resume_def chan_send_def split: option.splits if_splits)

lemma honest_step: "runner_step r r' \<Longrightarrow> honest r \<Longrightarrow> honest r'"
proof (induction rule: runner_step.induct)
  case (turn ev r)
  then have "claims_only (\<lambda>i. succeeded i r) r" by (simp add: honest_def)
  from turn_talks [OF this, of ev] show ?case by (intro honest_outcomes [OF _ turn(2)]) simp_all
next
  case (resume r)
  then have c: "claims_only (\<lambda>i. succeeded i r) r" by (simp add: honest_def)
  have "claims_only (\<lambda>i. succeeded i r) (r\<lparr>rn_jm := jm_resume (rn_jm r)\<rparr>)"
    by (rule claims_only_same [OF c]) (simp_all add: jobs_of_def resume_announced)
  then show ?case by (intro honest_outcomes [OF _ resume]) simp
next
  case (resources r rm)
  then show ?case by (intro honest_outcomes [OF _ resources]) (simp_all add: honest_def)
qed (simp_all add: honest_machine honest_completion)

lemma honest_start: "runner_init r \<Longrightarrow> honest r"
proof -
  assume "runner_init r"
  then obtain p rm sends where start: "runner_start p rm sends = Ok r"
    by (auto simp: runner_init_def)
  let ?new = "runner_new p rm sends"
  have "claims_only F ?new" "outcomes ?new = ([], \<lparr>ch_queue = [], ch_cap = Some 100, ch_open = True\<rparr>)" for F
    by (simp_all add: claims_only_def runner_new_def jobs_of_def announced_def job_manager_new_def
        outcomes_def vm_manager_new_def)
  moreover have "r = snd (check_capacity_and_request_job ?new)"
    using start by (cases "check_capacity_and_request_job ?new") (auto simp: runner_start_def split: sum.splits)
  ultimately show ?thesis
    using talks_request by (auto simp: talks_def preserves_def honest_def outcomes_def)
qed

interpretation honest: transition_system runner_init runner_step honest
  by unfold_locales (auto intro: honest_start honest_step)

lemma succeeded_outcomes: "outcomes r' = outcomes r \<Longrightarrow> succeeded i r' = succeeded i r"
  by (simp add: outcomes_def succeeded_def)

lemma succeeded_turn: "succeeded i (loop_turn ev r) = succeeded i r"
  using turn_talks [of "\<lambda>_. True" r ev] by (intro succeeded_outcomes) (simp add: claims_only_def)

lemma succeeded_completion: "succeeded i (completion_turn r) = succeeded i r"
  by (simp add: succeeded_def completion_turn_def split: prod.split option.split)

lemma succeeded_step: "runner_step r r' \<Longrightarrow> succeeded i r \<Longrightarrow> succeeded i r'"
proof (induction rule: runner_step.induct)
  case (machine n r m)
  then show ?case using task_reported(1) [OF machine(1)] by (auto simp: succeeded_def)
qed (simp_all add: succeeded_turn succeeded_completion, simp_all add: succeeded_def)

lemma work_step:
  assumes "runner_step r r'"
  shows "work r' = work r \<or> (\<exists>msg i. claimed_job msg = Some i \<and> r' = loop_turn (Le_Ws_Message msg) r)"
  using assms
proof (induction rule: runner_step.induct)
  case (turn ev r)
  then show ?case using work_turn [of ev r] by (cases "\<exists>msg. ev = Le_Ws_Message msg \<and> claimed_job msg \<noteq> None") auto
next
  case (completion r)
  show ?case by (simp add: work_completion)
qed (auto simp: work_def known_jobs_def machine_jobs_def jm_resume_def dest: task_jobs
    split: option.splits prod.splits send_outcome.splits)

text \<open>A new runner has no work.\<close>

lemma work_start:
  assumes "runner_init r"
  shows "work r = ({}, [])"
proof -
  obtain p rm sends where start: "runner_start p rm sends = Ok r"
    using assms by (auto simp: runner_init_def)
  have "r = snd (check_capacity_and_request_job (runner_new p rm sends))"
    using start by (cases "check_capacity_and_request_job (runner_new p rm sends)")
      (auto simp: runner_start_def split: sum.splits)
  then show ?thesis
    using work_request by (simp add: work_def known_jobs_def machine_jobs_def runner_new_def
        job_manager_new_def vm_manager_new_def)
qed
end
