(* ===== verification/Notices.thy ===== *)
theory Notices
  imports Backend_System
begin
section \<open>What other tasks tell a runner\<close>

text \<open>
  The channels of connected runners and the pending broadcasts carry offers and notices of the end
  of a job, never a grant: a job is granted by the websocket task of its claimant alone. One lemma
  per operation, in the order of the components.
\<close>

fun is_notice :: "server_message \<Rightarrow> bool" where
  "is_notice (JobClaimed i v u) = False"
| "is_notice _ = True"

definition only_notices :: "backend \<Rightarrow> bool" where
  "only_notices w \<longleftrightarrow>
     (\<forall>(i, rx) \<in> set (bk_runners w). \<forall>m \<in> set (ch_queue rx). is_notice m)
     \<and> (\<forall>b \<in> set (bk_tasks w). is_notice (bc_message b))"

abbreviation notices :: "'a be \<Rightarrow> bool" where
  "notices \<equiv> preserves only_notices"

abbreviation session_notices :: "'a sess \<Rightarrow> bool" where
  "session_notices \<equiv> preserves (\<lambda>s. only_notices (sw_backend s))"

named_theorems notices_intros

lemma notice_notification [simp]: "is_notice (create_job_notification j)"
  by (simp add: create_job_notification_def)

lemma set_hm_insert: "set (hm_insert k v m) \<subseteq> insert (k, v) (set m)"
  unfolding hm_insert_def by (induction m) auto

lemma set_hm_remove: "set (hm_remove k m) \<subseteq> set m"
  by (auto simp: hm_remove_filter)

lemma only_notices_channel:
  assumes "only_notices w" and "hm_get (bk_runners w) i = Some rx" and "m \<in> set (ch_queue rx)"
  shows "is_notice m"
  using assms by (fastforce simp: only_notices_def hm_get_def dest: map_of_SomeD)

lemma only_notices_insert:
  assumes "only_notices w" and "\<forall>m \<in> set (ch_queue rx). is_notice m"
  shows "only_notices (w\<lparr>bk_runners := hm_insert i rx (bk_runners w)\<rparr>)"
  using assms set_hm_insert [of i rx "bk_runners w"] by (fastforce simp: only_notices_def)

lemma notices_frame:
  "(\<And>w. bk_runners (snd (m w)) = bk_runners w \<and> bk_tasks (snd (m w)) = bk_tasks w) \<Longrightarrow> notices m"
  by (simp add: preserves_def only_notices_def)

lemma notices_basic [notices_intros]:
  "preserves Q (ret a)" "preserves Q (throw e)" "notices (ask f)" "notices (gets g)"
  "notices (statement h)" "notices (select k)" "notices (select_first l)" "notices (execute u)"
  "notices (execute_checked v)" "notices (call_github c)" "notices utc_now" "notices now_v7"
  by (auto intro!: notices_frame simp: select_def select_first_def execute_def execute_checked_def
      utc_now_def now_v7_def ask_def gets_def statement_def next_tick_def call_github_def Let_def
      split: prod.splits)

lemma notices_results [notices_intros]:
  "notices m \<Longrightarrow> notices (inspect m)" "notices n \<Longrightarrow> notices (unwrapped n)"
  by (auto simp: preserves_def inspect_def unwrapped_def map_err_def case_prod_beta split: sum.splits)

lemmas notices_composed [notices_intros] = preserves_and_then preserves_map_err preserves_for_each

lemma notices_pool [notices_intros]: "notices pool_get" "notices pool_get_unwrapped"
  unfolding pool_get_def pool_get_unwrapped_def by (auto intro!: notices_intros)

lemma notices_transaction [notices_intros]:
  assumes "notices m"
  shows "notices (transaction m)"
proof -
  let ?m = "and_then (select (\<lambda>_. ())) (\<lambda>_. and_then m (\<lambda>a. and_then (select (\<lambda>_. ())) (\<lambda>_. ret a)))"
  have "notices ?m" by (intro notices_intros assms)
  moreover have "only_notices (v\<lparr>bk_db := d\<rparr>) = only_notices v" for v d by (simp add: only_notices_def)
  ultimately show ?thesis
    by (intro preservesI) (auto simp: transaction_def case_prod_beta dest: preservesD)
qed

lemma notices_on_backend [notices_intros]: "notices m \<Longrightarrow> session_notices (on_backend m)"
  by (simp add: preserves_def on_backend_def case_prod_beta)

lemma notices_socket [notices_intros]: "session_notices (socket_send m)"
  by (simp add: preserves_def socket_send_def Let_def)

subsection \<open>Operations\<close>

lemma notices_jobs [notices_intros]:
  "notices (job_new p c m)" "notices (job_get_by_id i)" "notices (find_queued_job_for_platform p)"
  "notices (get_with_github_details i)" "notices (find_expired_jobs n)" "notices (job_complete j x)"
  "notices (claim_job_for_runner i r)" "notices (db_update_job_status i s)" "notices (job_retry j)"
  unfolding job_new_def job_get_by_id_def find_queued_job_for_platform_def get_with_github_details_def
    find_expired_jobs_def job_complete_def claim_job_for_runner_def db_update_job_status_def job_retry_def
    Let_def
  by (auto intro!: notices_intros)

lemma notices_cancel [notices_intros]: "notices (job_cancel i)"
  unfolding job_cancel_def by (auto intro!: notices_intros split: job_status.splits)

lemma notices_send [notices_intros]: "is_notice m \<Longrightarrow> notices (try_send_to i m)"
  by (rule preservesI)
    (auto simp: try_send_to_def chan_send_def dest: only_notices_channel split: option.splits
      intro!: only_notices_insert)

lemma notices_registry [notices_intros]:
  "notices (runner_row_new q)" "notices (get_platform i)" "notices (find_matching_platforms is p)"
  "notices (runner_register i runner_channel)" "notices (runner_unregister i)" "notices (take_queued i)"
  "notices (notify_runners_about_job j)" "notices (close_channel i)"
proof -
  show "notices (runner_row_new q)" "notices (get_platform i)" "notices (find_matching_platforms is p)"
    unfolding runner_row_new_def get_platform_def find_matching_platforms_def
    by (auto intro!: notices_intros)
  show "notices (runner_register i runner_channel)"
    by (rule preservesI) (simp add: runner_register_def modify_def runner_channel_def only_notices_insert)
  show "notices (runner_unregister i)"
    using set_hm_remove [of i] by (intro preservesI) (fastforce simp: runner_unregister_def modify_def only_notices_def)
  show "notices (take_queued i)"
    by (rule preservesI)
      (auto simp: take_queued_def chan_recv_def dest: only_notices_channel split: option.splits list.splits
        intro!: only_notices_insert)
  show "notices (notify_runners_about_job j)"
    by (rule preservesI)
      (auto simp: notify_runners_about_job_def broadcast_job_available_def modify_def only_notices_def)
  show "notices (close_channel i)"
    by (rule preservesI)
      (auto simp: close_channel_def modify_def dest: only_notices_channel split: option.splits
        intro!: only_notices_insert)
qed

lemma notices_broadcast [notices_intros]: "is_notice (bc_message b) \<Longrightarrow> notices (run_broadcast b)"
  unfolding run_broadcast_def by (auto intro!: notices_intros split: sum.splits)

lemma notices_github_reads [notices_intros]:
  "notices (owner_get_by_login l)" "notices (get_for_owner_id x)" "notices (repo_get_by_owner_and_name x n)"
  "notices (commit_get_by_id c)" "notices (get_job_github i)" "notices (repo_get r)" "notices (owner_get x)"
  "notices (get_repo_and_owner g)" "notices (get_installation_client k)" "notices (create_check_run own rep j v)"
  "notices (create_github_check_run j cm)" "notices (update_check_run own rep g u)"
  unfolding owner_get_by_login_def get_for_owner_id_def repo_get_by_owner_and_name_def commit_get_by_id_def
    get_job_github_def repo_get_def owner_get_def get_repo_and_owner_def get_installation_client_def
    create_check_run_def create_github_check_run_def update_check_run_def
  by (intro notices_intros)+

lemma notices_github_writes [notices_intros]:
  "notices (owner_upsert x)" "notices (installation_upsert y)" "notices (repo_upsert r)"
  "notices (commit_create c)" "notices (installation_disable k b)" "notices (repo_disable k)"
  "notices (create_from_webhook k n v ow)" "notices (create_with_check_run j c)"
  "notices (github_update_status s i)" "notices (commit_create_job c vmc)"
  unfolding owner_upsert_def installation_upsert_def repo_upsert_def commit_create_def installation_disable_def
    repo_disable_def create_from_webhook_def create_with_check_run_def commit_create_job_def github_create_job_def
    github_update_status_def
  by (cases s; auto intro!: notices_intros split: prod.splits)+

subsection \<open>Entry points\<close>

lemma notices_check_and_send [notices_intros]: "session_notices (check_and_send_job r)"
  unfolding check_and_send_job_def by (auto intro!: notices_intros split: sum.splits option.splits)

lemma notices_client_message [notices_intros]: "session_notices (handle_client_message r m)"
  by (cases m) (auto simp: handle_claim_def handle_update_def Let_def intro!: notices_intros split: prod.splits)

lemma notices_turn [notices_intros]: "session_notices (session_turn r e)"
  by (cases e) (auto intro!: notices_intros split: option.splits)

lemma notices_dropped [notices_intros]: "session_notices m \<Longrightarrow> session_notices (receiver_dropped r m)"
  using preservesD [OF notices_on_backend [OF notices_registry(8)]]
  by (fastforce simp: preserves_def receiver_dropped_def split: prod.splits)

lemma notices_spawn [notices_intros]: "session_notices (spawn_runner r [])"
  unfolding spawn_runner_def by (auto intro!: notices_intros)

lemma notices_entry [notices_intros]:
  "notices (ws_handler h)" "notices (expire_job j)"
  unfolding ws_handler_def expire_job_def by (auto intro!: notices_intros split: sum.splits option.splits)

lemma notices_timeouts [notices_intros]: "notices check_timeouts"
  unfolding check_timeouts_def by (auto intro!: notices_intros split: sum.splits)

lemma notices_api [notices_intros]:
  "notices (get_job_handler i)" "notices (cancel_job_handler i)" "notices (retry_job_handler i)"
  unfolding get_job_handler_def cancel_job_handler_def retry_job_handler_def notify_cancelled_def job_log_url_def
  by (auto intro!: notices_intros split: sum.splits option.splits bool.splits prod.splits)

lemma notices_webhook_parts [notices_intros]:
  "notices (handle_installation inst action repos)"
  "notices (handle_installation_repositories inst added removed)" "notices (or_else x e)"
  "notices (fetch_devenv_yaml l n r)" "notices (create_commit_jobs y l n r c)"
  unfolding handle_installation_def handle_installation_repositories_def installation_created_def or_else_def
    fetch_devenv_yaml_def create_commit_jobs_def
  by (auto intro!: notices_intros split: event_installation.splits installation_action.splits option.splits
      sum.splits)

lemma notices_push [notices_intros]:
  "notices (handle_push y repo p)" "notices (handle_pull_request y q)"
  unfolding handle_push_def handle_pull_request_def by (auto intro!: notices_intros)

lemma notices_webhook [notices_intros]: "notices (webhook hmac hex_decode parse y ev sig body)"
proof -
  have "notices (handle_payload y inst repo pl)" for inst repo pl
    by (cases pl) (auto intro!: notices_intros)
  then show ?thesis unfolding webhook_def by (auto intro!: notices_intros split: sum.splits)
qed

lemma notices_request: "only_notices w \<Longrightarrow> only_notices (run_request rq w)"
proof (cases rq)
  case (Rq_Start r ok)
  assume "only_notices w"
  then show ?thesis
    using preservesD [OF notices_spawn, of "fresh_session w ok" r] by (simp add: Rq_Start fresh_session_def)
next
  case (Rq_Turn r e ok)
  assume "only_notices w"
  then show ?thesis
    using preservesD [OF notices_dropped [OF notices_turn], of "fresh_session w ok" r r e]
    by (simp add: Rq_Turn fresh_session_def)
next
  case (Rq_Broadcast n)
  assume w: "only_notices w"
  let ?w = "w\<lparr>bk_tasks := remove_nth n (bk_tasks w)\<rparr>"
  have "only_notices ?w" using w by (auto simp: only_notices_def remove_nth_def dest: in_set_takeD in_set_dropD)
  moreover have "is_notice (bc_message (bk_tasks w ! n))" if "n < length (bk_tasks w)"
    using w that by (auto simp: only_notices_def)
  ultimately show ?thesis
    using w preservesD [OF notices_broadcast, of "bk_tasks w ! n" ?w] by (simp add: Rq_Broadcast)
qed (auto simp: get_job_endpoint_def cancel_job_endpoint_def retry_job_endpoint_def guarded_handler_def
    report_response_def case_prod_beta dest: preservesD [OF notices_entry(1)] preservesD [OF notices_registry(5)]
      preservesD [OF notices_timeouts] preservesD [OF notices_api(1)] preservesD [OF notices_api(2)]
      preservesD [OF notices_api(3)] preservesD [OF notices_webhook] split: sum.splits)

lemma notices_requests: "only_notices w \<Longrightarrow> only_notices (fold run_request rqs w)"
  by (induction rqs arbitrary: w) (simp_all add: notices_request)
end
