(* ===== verification/Fleet.thy ===== *)
theory Fleet
  imports Runner_Work Notices
begin
section \<open>The backend and its runners\<close>

text \<open>
  Any number of runners connected to one backend by websockets that carry messages in order, may
  break, and may be opened again. A step is one step of a runner, one message read by either side,
  one message another task queued for a runner, the opening or closing of a connection, or any
  other request to the backend. A node is a runner with its connection: the backend's side of it,
  how many of the runner's messages were read (or lost with a connection), and the messages on
  their way to the runner.
\<close>

datatype connection = Offline | Accepted uuid | Serving uuid

record node =
  nd_runner :: runner
  nd_connection :: connection
  nd_read :: nat
  nd_down :: "server_message list"

record fleet =
  fl_backend :: backend
  fl_nodes :: "node list"

definition node_new :: "runner \<Rightarrow> node" where
  "node_new r = \<lparr>nd_runner = r, nd_connection = Offline, nd_read = 0, nd_down = []\<rparr>"

definition set_node :: "nat \<Rightarrow> node \<Rightarrow> fleet \<Rightarrow> fleet" where
  "set_node n nd f = f\<lparr>fl_nodes := (fl_nodes f)[n := nd]\<rparr>"

text \<open>The steps of a runner that do not touch its connection.\<close>

fun internal_event :: "loop_event \<Rightarrow> bool" where
  "internal_event (Le_Ws_Message msg) = False"
| "internal_event (Le_Ws_Closed b) = False"
| "internal_event ev = True"

inductive internal_step :: "runner \<Rightarrow> runner \<Rightarrow> bool" where
  turn: "internal_event ev \<Longrightarrow> internal_step r (loop_turn ev r)"
| completion: "internal_step r (completion_turn r)"
| resume: "internal_step r (r\<lparr>rn_jm := jm_resume (rn_jm r)\<rparr>)"
| machine: "task_step n (rn_vmm r) m \<Longrightarrow> internal_step r (r\<lparr>rn_vmm := m\<rparr>)"
| resources: "internal_step r (r\<lparr>rn_rm := rm\<rparr>)"

text \<open>The main loop polls its websocket.\<close>

definition polls_socket :: "runner \<Rightarrow> bool" where
  "polls_socket r \<longleftrightarrow> rn_loop r = Looping \<and> rn_starting r = None \<and> \<not> rn_shutting_down r"

text \<open>One turn of the backend's websocket task.\<close>

definition serve_turn ::
    "uuid \<Rightarrow> session_event \<Rightarrow> (nat \<Rightarrow> bool) \<Rightarrow> backend \<Rightarrow> (be_error + bool) \<times> session_world" where
  "serve_turn rid e ok w = receiver_dropped rid (session_turn rid e) (fresh_session w ok)"

definition after_turn :: "uuid \<Rightarrow> be_error + bool \<Rightarrow> backend \<Rightarrow> connection \<times> backend" where
  "after_turn rid res w =
     (if res = Ok True then (Serving rid, w)
      else (Offline, if res = Ok False then snd (runner_unregister rid w) else w))"

text \<open>Requests whose answer goes to no node: everything but a message of a connected runner.\<close>

fun background :: "request \<Rightarrow> bool" where
  "background (Rq_Turn rid (Sv_Client m) ok) = False"
| "background rq = True"

inductive fleet_step :: "fleet \<Rightarrow> fleet \<Rightarrow> bool" where
  join: "runner_init r \<Longrightarrow> fleet_step f (f\<lparr>fl_nodes := fl_nodes f @ [node_new r]\<rparr>)"
| internal: "n < length (fl_nodes f) \<Longrightarrow> internal_step (nd_runner (fl_nodes f ! n)) r
    \<Longrightarrow> fleet_step f (set_node n ((fl_nodes f ! n)\<lparr>nd_runner := r\<rparr>) f)"
| deliver: "n < length (fl_nodes f) \<Longrightarrow> nd_down (fl_nodes f ! n) = msg # rest
    \<Longrightarrow> polls_socket (nd_runner (fl_nodes f ! n))
    \<Longrightarrow> fleet_step f (set_node n ((fl_nodes f ! n)
          \<lparr>nd_runner := loop_turn (Le_Ws_Message msg) (nd_runner (fl_nodes f ! n)), nd_down := rest\<rparr>) f)"
| reconnect: "n < length (fl_nodes f) \<Longrightarrow> polls_socket (nd_runner (fl_nodes f ! n))
    \<Longrightarrow> fleet_step f (set_node n
          \<lparr>nd_runner = loop_turn (Le_Ws_Closed b) (nd_runner (fl_nodes f ! n)), nd_connection = Offline,
           nd_read = length (rn_sent (nd_runner (fl_nodes f ! n))), nd_down = []\<rparr> f)"
| accept: "n < length (fl_nodes f) \<Longrightarrow> nd_connection (fl_nodes f ! n) = Offline
    \<Longrightarrow> ws_handler h (fl_backend f) = (Ok (Inr rid), w)
    \<Longrightarrow> fleet_step f (set_node n ((fl_nodes f ! n)\<lparr>nd_connection := Accepted rid\<rparr>) (f\<lparr>fl_backend := w\<rparr>))"
| serve: "n < length (fl_nodes f) \<Longrightarrow> nd_connection (fl_nodes f ! n) = Accepted rid
    \<Longrightarrow> spawn_runner rid [] (fresh_session (fl_backend f) ok) = (res, s)
    \<Longrightarrow> fleet_step f (set_node n
          ((fl_nodes f ! n)\<lparr>nd_connection := (if is_ok res then Serving rid else Offline),
             nd_down := nd_down (fl_nodes f ! n) @ sw_sent s\<rparr>) (f\<lparr>fl_backend := sw_backend s\<rparr>))"
| read: "n < length (fl_nodes f) \<Longrightarrow> nd_connection (fl_nodes f ! n) = Serving rid
    \<Longrightarrow> nd_read (fl_nodes f ! n) < length (rn_sent (nd_runner (fl_nodes f ! n)))
    \<Longrightarrow> serve_turn rid (Sv_Client (rn_sent (nd_runner (fl_nodes f ! n)) ! nd_read (fl_nodes f ! n))) ok
          (fl_backend f) = (res, s)
    \<Longrightarrow> after_turn rid res (sw_backend s) = (c, w)
    \<Longrightarrow> fleet_step f (set_node n
          ((fl_nodes f ! n)\<lparr>nd_connection := c, nd_read := Suc (nd_read (fl_nodes f ! n)),
             nd_down := nd_down (fl_nodes f ! n) @ sw_sent s\<rparr>) (f\<lparr>fl_backend := w\<rparr>))"
| forward: "n < length (fl_nodes f) \<Longrightarrow> nd_connection (fl_nodes f ! n) = Serving rid
    \<Longrightarrow> serve_turn rid Sv_Queued ok (fl_backend f) = (res, s)
    \<Longrightarrow> after_turn rid res (sw_backend s) = (c, w)
    \<Longrightarrow> fleet_step f (set_node n
          ((fl_nodes f ! n)\<lparr>nd_connection := c, nd_down := nd_down (fl_nodes f ! n) @ sw_sent s\<rparr>)
          (f\<lparr>fl_backend := w\<rparr>))"
| hang_up: "n < length (fl_nodes f) \<Longrightarrow> nd_connection (fl_nodes f ! n) = Serving rid
    \<Longrightarrow> fleet_step f (set_node n ((fl_nodes f ! n)\<lparr>nd_connection := Offline\<rparr>)
          (f\<lparr>fl_backend := snd (runner_unregister rid (fl_backend f))\<rparr>))"
| late: "n < length (fl_nodes f) \<Longrightarrow> msg \<in> set (rn_sent (nd_runner (fl_nodes f ! n)))
    \<Longrightarrow> fleet_step f (f\<lparr>fl_backend := run_request (Rq_Turn rid (Sv_Client msg) ok) (fl_backend f)\<rparr>)"
| request: "background rq
    \<Longrightarrow> fleet_step f (f\<lparr>fl_backend := run_request rq (fl_backend f)\<rparr>)"

text \<open>A backend that has just started, on any consistent tables.\<close>

definition fleet_init :: "fleet \<Rightarrow> bool" where
  "fleet_init f \<longleftrightarrow> db_ok (bk_db (fl_backend f)) \<and> bk_runners (fl_backend f) = []
     \<and> bk_tasks (fl_backend f) = [] \<and> fl_nodes f = []"

subsection \<open>The backend's side\<close>

definition backend_ok :: "backend \<Rightarrow> bool" where
  "backend_ok w \<longleftrightarrow> db_ok (bk_db w) \<and> only_notices w"

lemma backend_ok_request: "backend_ok w \<Longrightarrow> backend_ok (run_request rq w)"
  using db_ok_run [of w "[rq]"] notices_request by (simp add: backend_ok_def)

lemma background_allowed: "background rq \<Longrightarrow> request_allowed S rq"
proof (cases rq)
  case (Rq_Turn rid e ok)
  assume "background rq"
  then show ?thesis by (cases e) (auto simp: Rq_Turn)
qed simp_all

text \<open>What a grant is among the messages sent.\<close>

abbreviation grants_in :: "uuid \<Rightarrow> server_message list \<Rightarrow> nat" where
  "grants_in i ms \<equiv> length (filter (is_grant i) ms)"

lemma is_grant_claimed: "is_grant i m \<longleftrightarrow> claimed_job m = Some i"
  by (cases m) auto

lemma notices_no_grants: "\<forall>m \<in> set ms. is_notice m \<Longrightarrow> grants_in i ms = 0"
proof -
  have "is_notice m \<Longrightarrow> \<not> is_grant i m" for m by (cases m) auto
  then show "\<forall>m \<in> set ms. is_notice m \<Longrightarrow> grants_in i ms = 0" by simp
qed

lemma sent_dropped: "sw_sent (snd (receiver_dropped r m s)) = sw_sent (snd (m s))"
  by (simp add: receiver_dropped_def case_prod_beta on_backend_def)

lemma grants_spawn: "grants_in i (sw_sent (snd (spawn_runner rid [] (fresh_session w ok)))) = 0"
proof -
  have inner: "preserves (\<lambda>s. granted i s = 0) (and_then (check_and_send_job rid)
      (\<lambda>_. and_then (session_loop rid []) (\<lambda>ended. if ended then on_backend (runner_unregister rid) else ret ())))"
    by (auto intro!: preserves_and_then granted_check_and_send granted_preserved_on_backend)
  have "preserves (\<lambda>s. granted i s = 0) (receiver_dropped rid (and_then (check_and_send_job rid)
      (\<lambda>_. and_then (session_loop rid []) (\<lambda>ended. if ended then on_backend (runner_unregister rid) else ret ()))))"
    using inner by (simp add: preserves_def granted_def sent_dropped)
  then have "preserves (\<lambda>s. granted i s = 0) (spawn_runner rid [])"
    unfolding spawn_runner_def by (intro preserves_and_then granted_preserved_on_backend)
  then show ?thesis by (simp add: preserves_def granted_def fresh_session_def)
qed

lemma grants_client:
  "grants_in i (sw_sent (snd (serve_turn rid (Sv_Client m) ok w))) = grants i (Rq_Turn rid (Sv_Client m) ok) w"
  by (simp only: serve_turn_def sent_dropped grants.simps granted_def)

lemma grants_forward:
  assumes "only_notices w"
  shows "grants_in i (sw_sent (snd (serve_turn rid Sv_Queued ok w))) = 0"
proof -
  have "\<forall>m \<in> set (sw_sent (snd (session_turn rid Sv_Queued (fresh_session w ok)))). is_notice m"
    using assms
    by (auto simp: and_then_def on_backend_def take_queued_def fresh_session_def chan_recv_def socket_send_def
        ret_def Let_def dest: only_notices_channel split: option.splits list.splits)
  then show ?thesis by (simp add: serve_turn_def sent_dropped notices_no_grants)
qed

lemma serve_turn_request: "sw_backend (snd (serve_turn rid e ok w)) = run_request (Rq_Turn rid e ok) w"
  by (simp add: serve_turn_def)

lemma after_turn_backend: "snd (after_turn rid res w) = w \<or> snd (after_turn rid res w) = run_request (Rq_Disconnect rid) w"
  by (simp add: after_turn_def)

lemma taken_disconnect: "taken i (bk_db (run_request (Rq_Disconnect rid) w)) = taken i (bk_db w)"
  by (simp add: runner_unregister_def modify_def)

subsection \<open>The invariant\<close>

definition reachable_runner :: "runner \<Rightarrow> bool" where
  "reachable_runner r \<longleftrightarrow> (\<exists>r0. runner_init r0 \<and> runner_step\<^sup>*\<^sup>* r0 r)"

text \<open>
  Grants of a job on their way to a node, and whether its runner knows it. Over all nodes there is
  at most one, and none before the job is taken.
\<close>

definition claims :: "uuid \<Rightarrow> node \<Rightarrow> nat" where
  "claims i nd = grants_in i (nd_down nd) + (if i \<in> known_jobs (nd_runner nd) then 1 else 0)"

definition machines :: "uuid \<Rightarrow> node \<Rightarrow> nat" where
  "machines i nd = count_list (machine_jobs (nd_runner nd)) i"

definition node_ok :: "node \<Rightarrow> bool" where
  "node_ok nd \<longleftrightarrow> reachable_runner (nd_runner nd)
     \<and> (\<forall>i. machines i nd \<le> (if i \<in> known_jobs (nd_runner nd) then 1 else 0))"

definition fleet_total :: "(node \<Rightarrow> nat) \<Rightarrow> fleet \<Rightarrow> nat" where
  "fleet_total g f = sum_list (map g (fl_nodes f))"

definition granted_once :: "fleet \<Rightarrow> bool" where
  "granted_once f \<longleftrightarrow> (\<forall>i. fleet_total (claims i) f \<le> (if taken i (bk_db (fl_backend f)) then 1 else 0))"

definition fleet_inv :: "fleet \<Rightarrow> bool" where
  "fleet_inv f \<longleftrightarrow> backend_ok (fl_backend f) \<and> (\<forall>nd \<in> set (fl_nodes f). node_ok nd) \<and> granted_once f"

lemma total_set_node:
  assumes "n < length (fl_nodes f)"
  shows "fleet_total g (set_node n nd f) + g (fl_nodes f ! n) = fleet_total g f + g nd"
proof -
  have "g (fl_nodes f ! n) \<le> sum_list (map g (fl_nodes f))"
    using assms elem_le_sum_list [of n "map g (fl_nodes f)"] by simp
  then show ?thesis
    using assms by (simp add: fleet_total_def set_node_def map_update sum_list_update)
qed

lemma total_backend [simp]: "fleet_total g (f\<lparr>fl_backend := w\<rparr>) = fleet_total g f"
  by (simp add: fleet_total_def)

lemma total_node: "n < length (fl_nodes f) \<Longrightarrow> g (fl_nodes f ! n) \<le> fleet_total g f"
  using elem_le_sum_list [of n "map g (fl_nodes f)"] by (simp add: fleet_total_def)

lemma fleet_invD:
  assumes "fleet_inv f"
  shows "backend_ok (fl_backend f)" "n < length (fl_nodes f) \<Longrightarrow> node_ok (fl_nodes f ! n)"
    "fleet_total (claims i) f \<le> (if taken i (bk_db (fl_backend f)) then 1 else 0)"
  using assms by (auto simp: fleet_inv_def granted_once_def)

lemma runner_facts:
  assumes "reachable_runner r"
  shows "runner_inv r" "honest r"
  using assms runner.reachable_inv honest.reachable_inv by (auto simp: reachable_runner_def)

lemma reachable_runner_step: "reachable_runner r \<Longrightarrow> runner_step r r' \<Longrightarrow> reachable_runner r'"
  unfolding reachable_runner_def by (meson rtranclp.rtrancl_into_rtrancl)

lemma node_ok_runner: "nd_runner nd' = nd_runner nd \<Longrightarrow> node_ok nd' = node_ok nd"
  by (simp add: node_ok_def machines_def)

lemma node_ok_work:
  assumes "node_ok nd" and "reachable_runner (nd_runner nd')" and "work (nd_runner nd') = work (nd_runner nd)"
  shows "node_ok nd'"
  using assms by (simp add: node_ok_def machines_def work_def)

lemma claims_work:
  "work (nd_runner nd') = work (nd_runner nd) \<Longrightarrow> nd_down nd' = nd_down nd \<Longrightarrow> claims i nd' = claims i nd"
  by (simp add: claims_def work_def)

text \<open>
  Replacing one node and the backend: it is enough that the node is well, that nothing is
  forgotten by the tables, and that the node gains at most the grants the tables record.
\<close>

lemma fleet_inv_change:
  assumes inv: "fleet_inv f" and n: "n < length (fl_nodes f)" and nd: "node_ok nd" and w: "backend_ok w"
    and taken: "\<And>i. taken i (bk_db (fl_backend f)) \<Longrightarrow> taken i (bk_db w)"
    and claims: "\<And>i. claims i nd \<le> claims i (fl_nodes f ! n)
      \<or> \<not> taken i (bk_db (fl_backend f)) \<and> taken i (bk_db w) \<and> claims i nd \<le> Suc (claims i (fl_nodes f ! n))"
  shows "fleet_inv (set_node n nd (f\<lparr>fl_backend := w\<rparr>))"
proof -
  have "fleet_total (claims i) (set_node n nd (f\<lparr>fl_backend := w\<rparr>)) \<le> (if taken i (bk_db w) then 1 else 0)" for i
    using total_set_node [of n "f\<lparr>fl_backend := w\<rparr>" "claims i" nd] n claims [of i] fleet_invD(3) [OF inv, of i]
      taken [of i] by (auto split: if_splits)
  moreover have "\<forall>nd' \<in> set ((fl_nodes f)[n := nd]). node_ok nd'"
    using inv nd set_update_subset_insert [of "fl_nodes f" n nd] by (auto simp: fleet_inv_def)
  ultimately show ?thesis using w by (simp add: fleet_inv_def granted_once_def set_node_def)
qed

lemma fleet_inv_backend:
  assumes inv: "fleet_inv f" and w: "backend_ok w"
    and taken: "\<And>i. taken i (bk_db (fl_backend f)) \<Longrightarrow> taken i (bk_db w)"
  shows "fleet_inv (f\<lparr>fl_backend := w\<rparr>)"
proof -
  have "fleet_total (claims i) f \<le> (if taken i (bk_db w) then 1 else 0)" for i
    using fleet_invD(3) [OF inv, of i] taken [of i] by (auto split: if_splits)
  then show ?thesis using inv w by (simp add: fleet_inv_def granted_once_def)
qed

text \<open>What a runner sends never puts a job back into the queue.\<close>

lemma sent_complete:
  assumes "reachable_runner r" and "UpdateJobStatus i s \<in> set (rn_sent r)"
  shows "is_complete s"
proof -
  have "s \<in> set (updates_of i r)"
    using assms(2) unfolding updates_of_def gather_def by force
  then obtain c where "updates_of i r = [Complete c]"
    using updates_final [OF runner_facts(1) [OF assms(1)], of i] by fastforce
  with \<open>s \<in> set (updates_of i r)\<close> show ?thesis by simp
qed

lemma sent_allowed:
  assumes "reachable_runner r" and "msg \<in> set (rn_sent r)"
  shows "request_allowed (never_requeues i) (Rq_Turn rid (Sv_Client msg) ok)"
  using sent_complete [OF assms(1), of i Queued] assms(2) by (cases msg) auto

lemma taken_request:
  "request_allowed (never_requeues i) rq \<Longrightarrow> taken i (bk_db w) \<Longrightarrow> taken i (bk_db (run_request rq w))"
  by (rule taken_run)

subsection \<open>Every step keeps it\<close>

lemma internal_runner_step: "internal_step r r' \<Longrightarrow> runner_step r r'"
proof (induction rule: internal_step.induct)
  case (turn ev r)
  then show ?case by (cases ev) (auto intro!: runner_step.turn)
qed (auto intro: runner_step.intros)

lemma internal_work: "internal_step r r' \<Longrightarrow> work r' = work r"
proof (induction rule: internal_step.induct)
  case (turn ev r)
  then show ?case by (intro work_turn) auto
next
  case (completion r)
  show ?case by (rule work_completion)
qed (auto simp: work_def known_jobs_def machine_jobs_def jm_resume_def dest: task_jobs
    split: option.splits prod.splits send_outcome.splits)

lemma not_known_yet:
  assumes "fleet_inv f" and "n < length (fl_nodes f)" and "0 < grants_in i (nd_down (fl_nodes f ! n))"
  shows "i \<notin> known_jobs (nd_runner (fl_nodes f ! n))"
proof
  assume "i \<in> known_jobs (nd_runner (fl_nodes f ! n))"
  then have "2 \<le> claims i (fl_nodes f ! n)" using Suc_leI [OF assms(3)] by (simp add: claims_def)
  then show False
    using total_node [OF assms(2), of "claims i"] fleet_invD(3) [OF assms(1), of i] by (simp split: if_splits)
qed

lemma deliver_inv:
  assumes inv: "fleet_inv f" and n: "n < length (fl_nodes f)" and down: "nd_down (fl_nodes f ! n) = msg # rest"
  shows "fleet_inv (set_node n ((fl_nodes f ! n)
      \<lparr>nd_runner := loop_turn (Le_Ws_Message msg) (nd_runner (fl_nodes f ! n)), nd_down := rest\<rparr>) f)"
    and "runner_step (nd_runner (fl_nodes f ! n)) (loop_turn (Le_Ws_Message msg) (nd_runner (fl_nodes f ! n)))"
proof -
  let ?nd = "fl_nodes f ! n" let ?r = "loop_turn (Le_Ws_Message msg) (nd_runner ?nd)"
  let ?nd' = "?nd\<lparr>nd_runner := ?r, nd_down := rest\<rparr>"
  have new: "i \<notin> known_jobs (nd_runner ?nd)" if "claimed_job msg = Some i" for i
    using not_known_yet [OF inv n, of i] down that by (simp add: is_grant_claimed)
  have "fresh_claim (Le_Ws_Message msg) (nd_runner ?nd)"
    using new by (cases msg) (auto simp: known_jobs_def hm_get_None)
  then show step: "runner_step (nd_runner ?nd) ?r" by (rule runner_step.turn)
  have ok: "node_ok ?nd" using fleet_invD(2) [OF inv n] .
  then have r: "reachable_runner ?r" using reachable_runner_step [OF _ step] by (simp add: node_ok_def)
  have "node_ok ?nd' \<and> (\<forall>i. claims i ?nd' \<le> claims i ?nd)"
  proof (cases "claimed_job msg")
    case None
    then have w: "work ?r = work (nd_runner ?nd)" by (intro work_turn) simp
    have "node_ok ?nd'" using node_ok_work [OF ok] r w by simp
    moreover have "claims i ?nd' \<le> claims i ?nd" for i
      using w None by (simp add: claims_def work_def down is_grant_claimed)
    ultimately show ?thesis by blast
  next
    case (Some i)
    have m: "machines k ?nd \<le> (if k \<in> known_jobs (nd_runner ?nd) then 1 else 0)" for k
      using ok by (simp add: node_ok_def)
    have w: "known_jobs ?r \<subseteq> insert i (known_jobs (nd_runner ?nd))"
      "known_jobs (nd_runner ?nd) \<subseteq> known_jobs ?r"
      "machine_jobs ?r = machine_jobs (nd_runner ?nd)
        \<or> machine_jobs ?r = machine_jobs (nd_runner ?nd) @ [i] \<and> i \<in> known_jobs ?r"
      using work_claimed [OF Some, of "nd_runner ?nd"] by (auto simp: work_def)
    have "machines k ?nd' \<le> (if k \<in> known_jobs ?r then 1 else 0)" for k
      using w m [of k] new [OF Some] by (auto simp: machines_def split: if_splits)
    then have "node_ok ?nd'" using r by (simp add: node_ok_def)
    moreover have "claims k ?nd' \<le> claims k ?nd" for k
      using w(1) by (auto simp: claims_def down is_grant_claimed Some)
    ultimately show ?thesis by blast
  qed
  then have "fleet_inv (set_node n ?nd' (f\<lparr>fl_backend := fl_backend f\<rparr>))"
    by (intro fleet_inv_change [OF inv n]) (simp_all add: fleet_invD(1) [OF inv])
  then show "fleet_inv (set_node n ?nd' f)" by simp
qed

text \<open>A change of the backend by one request, with what it sends to a node.\<close>

lemma backend_node_inv:
  assumes inv: "fleet_inv f" and n: "n < length (fl_nodes f)" and allowed: "\<And>i. request_allowed (never_requeues i) rq"
    and w: "w = run_request rq (fl_backend f) \<or> w = run_request (Rq_Disconnect rid) (run_request rq (fl_backend f))"
    and grants: "\<And>i. grants_in i ms \<le> grants i rq (fl_backend f)"
    and nd: "nd_runner nd = nd_runner (fl_nodes f ! n)" "nd_down nd = nd_down (fl_nodes f ! n) @ ms"
  shows "fleet_inv (set_node n nd (f\<lparr>fl_backend := w\<rparr>))"
proof (rule fleet_inv_change [OF inv n])
  show "node_ok nd" using node_ok_runner [OF nd(1)] fleet_invD(2) [OF inv n] by simp
  show "backend_ok w" using w fleet_invD(1) [OF inv] by (auto simp del: run_request.simps intro: backend_ok_request)
  have t: "taken i (bk_db w) = taken i (bk_db (run_request rq (fl_backend f)))" for i
    using w taken_disconnect by auto
  show "taken i (bk_db (fl_backend f)) \<Longrightarrow> taken i (bk_db w)" for i
    using taken_run [OF allowed] t by simp
  show "claims i nd \<le> claims i (fl_nodes f ! n)
      \<or> \<not> taken i (bk_db (fl_backend f)) \<and> taken i (bk_db w) \<and> claims i nd \<le> Suc (claims i (fl_nodes f ! n))" for i
  proof (cases "grants i rq (fl_backend f) = 0")
    case True
    then show ?thesis using grants [of i] nd by (simp add: claims_def)
  next
    case False
    have "db_ok (bk_db (fl_backend f))" using fleet_invD(1) [OF inv] by (simp add: backend_ok_def)
    from grant_takes [OF this False] show ?thesis using grants [of i] nd t by (simp add: claims_def)
  qed
qed

lemma read_inv:
  assumes inv: "fleet_inv f" and n: "n < length (fl_nodes f)"
    and read: "nd_read (fl_nodes f ! n) < length (rn_sent (nd_runner (fl_nodes f ! n)))"
    and turn: "serve_turn rid (Sv_Client (rn_sent (nd_runner (fl_nodes f ! n)) ! nd_read (fl_nodes f ! n))) ok
          (fl_backend f) = (res, s)" "after_turn rid res (sw_backend s) = (c, w)"
    and nd: "nd_runner nd = nd_runner (fl_nodes f ! n)" "nd_down nd = nd_down (fl_nodes f ! n) @ sw_sent s"
  shows "fleet_inv (set_node n nd (f\<lparr>fl_backend := w\<rparr>))"
proof -
  let ?r = "nd_runner (fl_nodes f ! n)" let ?m = "rn_sent ?r ! nd_read (fl_nodes f ! n)"
  have r: "reachable_runner ?r" using fleet_invD(2) [OF inv n] by (simp add: node_ok_def)
  have sent: "?m \<in> set (rn_sent ?r)" using read by simp
  have s: "sw_backend s = run_request (Rq_Turn rid (Sv_Client ?m) ok) (fl_backend f)"
    using serve_turn_request [of rid "Sv_Client ?m" ok "fl_backend f"] turn(1) by simp
  have g: "grants_in i (sw_sent s) = grants i (Rq_Turn rid (Sv_Client ?m) ok) (fl_backend f)" for i
    using grants_client [of i rid ?m ok "fl_backend f"] turn(1) by simp
  show ?thesis
    by (rule backend_node_inv [OF inv n sent_allowed [OF r sent] _ _ nd])
      (use after_turn_backend [of rid res "sw_backend s"] turn(2) s g in \<open>auto simp del: run_request.simps grants.simps\<close>)
qed

lemma forward_inv:
  assumes inv: "fleet_inv f" and n: "n < length (fl_nodes f)"
    and turn: "serve_turn rid Sv_Queued ok (fl_backend f) = (res, s)" "after_turn rid res (sw_backend s) = (c, w)"
    and nd: "nd_runner nd = nd_runner (fl_nodes f ! n)" "nd_down nd = nd_down (fl_nodes f ! n) @ sw_sent s"
  shows "fleet_inv (set_node n nd (f\<lparr>fl_backend := w\<rparr>))"
proof -
  have s: "sw_backend s = run_request (Rq_Turn rid Sv_Queued ok) (fl_backend f)"
    using serve_turn_request [of rid Sv_Queued ok "fl_backend f"] turn(1) by simp
  have g: "grants_in i (sw_sent s) = 0" for i
    using grants_forward [of "fl_backend f" i rid ok] fleet_invD(1) [OF inv] turn(1) by (simp add: backend_ok_def)
  have allowed: "request_allowed (never_requeues i) (Rq_Turn rid Sv_Queued ok)" for i by simp
  show ?thesis
    by (rule backend_node_inv [OF inv n allowed _ _ nd])
      (use after_turn_backend [of rid res "sw_backend s"] turn(2) s g in \<open>auto simp del: run_request.simps\<close>)
qed

lemma serve_inv:
  assumes inv: "fleet_inv f" and n: "n < length (fl_nodes f)"
    and spawn: "spawn_runner rid [] (fresh_session (fl_backend f) ok) = (res, s)"
    and nd: "nd_runner nd = nd_runner (fl_nodes f ! n)" "nd_down nd = nd_down (fl_nodes f ! n) @ sw_sent s"
  shows "fleet_inv (set_node n nd (f\<lparr>fl_backend := sw_backend s\<rparr>))"
proof -
  have allowed: "request_allowed (never_requeues i) (Rq_Start rid ok)" for i by simp
  have g: "grants_in i (sw_sent s) = 0" for i
    using grants_spawn [of i rid "fl_backend f" ok] spawn by simp
  show ?thesis
    by (rule backend_node_inv [OF inv n allowed _ _ nd]) (use spawn g in simp_all)
qed

lemma quiet_change_inv:
  assumes "fleet_inv f" and "n < length (fl_nodes f)" and "\<And>i. request_allowed (never_requeues i) rq"
    and "nd_runner nd = nd_runner (fl_nodes f ! n)" "nd_down nd = nd_down (fl_nodes f ! n)"
  shows "fleet_inv (set_node n nd (f\<lparr>fl_backend := run_request rq (fl_backend f)\<rparr>))"
  using assms by (intro backend_node_inv [where ms = "[]" and rq = rq]) simp_all

lemma request_inv:
  assumes "fleet_inv f" and "\<And>i. request_allowed (never_requeues i) rq"
  shows "fleet_inv (f\<lparr>fl_backend := run_request rq (fl_backend f)\<rparr>)"
  using fleet_invD(1) [OF assms(1)] taken_run [OF assms(2)]
  by (intro fleet_inv_backend [OF assms(1)] backend_ok_request)

lemma node_step_inv:
  assumes inv: "fleet_inv f" and n: "n < length (fl_nodes f)"
    and step: "runner_step (nd_runner (fl_nodes f ! n)) (nd_runner nd)"
    and work: "work (nd_runner nd) = work (nd_runner (fl_nodes f ! n))"
    and down: "nd_down nd = nd_down (fl_nodes f ! n) \<or> nd_down nd = []"
  shows "fleet_inv (set_node n nd f)"
proof -
  have "node_ok (fl_nodes f ! n)" by (rule fleet_invD(2) [OF inv n])
  then have "node_ok nd"
    using node_ok_work reachable_runner_step [OF _ step] work by (auto simp: node_ok_def)
  moreover have "claims i nd \<le> claims i (fl_nodes f ! n)" for i
    using work down by (auto simp: claims_def work_def)
  ultimately have "fleet_inv (set_node n nd (f\<lparr>fl_backend := fl_backend f\<rparr>))"
    by (intro fleet_inv_change [OF inv n]) (simp_all add: fleet_invD(1) [OF inv])
  then show ?thesis by simp
qed

lemma join_inv:
  assumes inv: "fleet_inv f" and r: "runner_init r"
  shows "fleet_inv (f\<lparr>fl_nodes := fl_nodes f @ [node_new r]\<rparr>)"
proof -
  have w: "known_jobs r = {}" "machine_jobs r = []" using work_start [OF r] by (simp_all add: work_def)
  have "reachable_runner r" using r by (auto simp: reachable_runner_def)
  then have "node_ok (node_new r)" using w by (simp add: node_ok_def machines_def node_new_def)
  moreover have "claims i (node_new r) = 0" for i using w by (simp add: claims_def node_new_def)
  ultimately show ?thesis using inv by (auto simp: fleet_inv_def granted_once_def fleet_total_def)
qed

lemma fleet_inv_step: "fleet_step f f' \<Longrightarrow> fleet_inv f \<Longrightarrow> fleet_inv f'"
proof (induction rule: fleet_step.induct)
  case (join r f)
  then show ?case by (intro join_inv)
next
  case (internal n f r)
  then show ?case by (intro node_step_inv) (simp_all add: internal_runner_step internal_work)
next
  case (deliver n f msg rest)
  then show ?case by (intro deliver_inv(1))
next
  case (reconnect n f b)
  let ?r = "nd_runner (fl_nodes f ! n)"
  have "runner_step ?r (loop_turn (Le_Ws_Closed b) ?r)" by (rule runner_step.turn) simp
  moreover have "work (loop_turn (Le_Ws_Closed b) ?r) = work ?r" by (rule work_turn) simp
  ultimately show ?case by (intro node_step_inv [OF reconnect(3,1)]) simp_all
next
  case (accept n f h rid w)
  then have w: "w = run_request (Rq_Connect h) (fl_backend f)" by simp
  show ?case unfolding w by (rule quiet_change_inv [OF accept(4,1)]) simp_all
next
  case (serve n f rid ok res s)
  then show ?case by (intro serve_inv) simp_all
next
  case (read n f rid ok res s c w)
  show ?case by (rule read_inv [OF read(6,1,3,4,5)]) simp_all
next
  case (forward n f rid ok res s c w)
  show ?case by (rule forward_inv [OF forward(5,1,3,4)]) simp_all
next
  case (hang_up n f rid)
  then show ?case using quiet_change_inv [where rq = "Rq_Disconnect rid"] by simp
next
  case (late n f msg rid ok)
  then have "reachable_runner (nd_runner (fl_nodes f ! n))" using fleet_invD(2) by (simp add: node_ok_def)
  from sent_allowed [OF this late(2)] show ?case using late by (intro request_inv)
next
  case (request rq f)
  then show ?case by (intro request_inv) (simp_all add: background_allowed)
qed

lemma fleet_inv_init: "fleet_init f \<Longrightarrow> fleet_inv f"
  by (simp add: fleet_init_def fleet_inv_def backend_ok_def only_notices_def granted_once_def fleet_total_def)

interpretation fleet: transition_system fleet_init fleet_step fleet_inv
  by unfold_locales (auto intro: fleet_inv_init fleet_inv_step)
end
