(* ===== verification/Fleet_Runs.thy ===== *)
theory Fleet_Runs
  imports Fleet Job_Lifecycle
begin

section \<open>Runs of the whole system\<close>

text \<open>
  What holds in every run of the backend with its runners: each runner behaves as one alone, no job
  runs twice, and a job is successful only if its machine was. The last section before the
  properties is a concrete run from a queued job to its success.
\<close>

subsection \<open>The runners of the fleet are runners\<close>

lemma runner_steps_inv: "runner_step r r' \<Longrightarrow> runner_step\<^sup>*\<^sup>* r r'"
  by (rule r_into_rtranclp)

text \<open>In a step every node keeps its place, and its runner does nothing or one step of its own.\<close>

lemma nodes_step:
  assumes "fleet_step f f'" and "fleet_inv f" and "n < length (fl_nodes f)"
  shows "n < length (fl_nodes f')
    \<and> (nd_runner (fl_nodes f' ! n) = nd_runner (fl_nodes f ! n)
       \<or> runner_step (nd_runner (fl_nodes f ! n)) (nd_runner (fl_nodes f' ! n)))"
  using assms
proof (induction rule: fleet_step.induct)
  case (internal k f r)
  then show ?case using internal_runner_step by (cases "k = n") (auto simp: set_node_def)
next
  case (deliver k f msg rest)
  then show ?case using deliver_inv(2) [OF deliver(4,1,2)] by (cases "k = n") (auto simp: set_node_def)
next
  case (reconnect k f b)
  have "runner_step r (loop_turn (Le_Ws_Closed b) r)" for r by (rule runner_step.turn) simp
  then show ?case using reconnect by (cases "k = n") (auto simp: set_node_def)
qed (auto simp: set_node_def nth_append nth_list_update)

text \<open>Some runner's machine ended the job with success.\<close>

definition succeeded_somewhere :: "uuid \<Rightarrow> fleet \<Rightarrow> bool" where
  "succeeded_somewhere i f \<longleftrightarrow> (\<exists>nd \<in> set (fl_nodes f). succeeded i (nd_runner nd))"

lemma succeeded_somewhere_step:
  assumes "fleet_step f f'" and "fleet_inv f" and "succeeded_somewhere i f"
  shows "succeeded_somewhere i f'"
proof -
  obtain n where n: "n < length (fl_nodes f)" "succeeded i (nd_runner (fl_nodes f ! n))"
    using assms(3) by (auto simp: succeeded_somewhere_def in_set_conv_nth)
  with nodes_step [OF assms(1,2) n(1)] have "n < length (fl_nodes f')" "succeeded i (nd_runner (fl_nodes f' ! n))"
    by (auto dest: succeeded_step)
  then show ?thesis by (auto simp: succeeded_somewhere_def)
qed

text \<open>The successful jobs of the tables, and what an action may make successful.\<close>

definition successes_in :: "(uuid \<Rightarrow> bool) \<Rightarrow> db \<Rightarrow> bool" where
  "successes_in F d \<longleftrightarrow> (\<forall>j \<in> set (db_jobs d). j_status j = Complete Success \<longrightarrow> F (j_id j))"

abbreviation truthful :: "(uuid \<Rightarrow> bool) \<Rightarrow> uuid \<Rightarrow> job_status \<Rightarrow> bool" where
  "truthful F \<equiv> \<lambda>i s. s = Complete Success \<longrightarrow> F i"

lemma successes_mono: "successes_in F d \<Longrightarrow> (\<And>i. F i \<Longrightarrow> G i) \<Longrightarrow> successes_in G d"
  by (auto simp: successes_in_def)

lemma successes_update:
  assumes "successes_in F d" and "\<And>j. j_id (f j) = j_id j"
    and "\<And>j. P j \<Longrightarrow> j_status (f j) = Complete Success \<Longrightarrow> F (j_id j) \<or> j_status j = Complete Success"
  shows "successes_in F (update_jobs P f d)"
proof -
  have "F (j_id (f j))" if "j \<in> set (db_jobs d)" "P j" "j_status (f j) = Complete Success" for j
    using assms(1,2) assms(3) [OF that(2,3)] that(1) by (auto simp: successes_in_def)
  with assms(1) show ?thesis by (auto simp: successes_in_def update_jobs_def update_where_def)
qed

lemma successes_act:
  assumes "successes_in F d" and "allowed (truthful F) a"
  shows "successes_in F (db_act a d)"
proof (cases a)
  case (Da_Insert_Job j)
  then show ?thesis
    using assms
    by (auto simp: successes_in_def insert_job_def insert_row_def fresh_job_def split: option.splits if_splits)
next
  case (Da_Claim k r)
  show ?thesis unfolding Da_Claim db_act.simps
    by (rule successes_update [OF assms(1)]) (simp_all add: claimed_by_def)
next
  case (Da_Status k s)
  show ?thesis unfolding Da_Status db_act.simps
    by (rule successes_update [OF assms(1)]) (use assms(2) in \<open>auto simp: Da_Status\<close>)
next
  case (Da_Complete k c t)
  show ?thesis unfolding Da_Complete db_act.simps
    by (rule successes_update [OF assms(1)]) (use assms(2) in \<open>simp_all add: Da_Complete completed_def\<close>)
next
  case (Da_Retried k n)
  show ?thesis
    using assms(1) successes_update [OF assms(1), of "\<lambda>x. x\<lparr>j_retried_job_id := Some n\<rparr>"]
    unfolding Da_Retried by (simp add: link_retried_def)
next
  case (Da_Started k t)
  show ?thesis unfolding Da_Started db_act.simps by (rule successes_update [OF assms(1)]) simp_all
next
  case (Da_Finished k t)
  show ?thesis unfolding Da_Finished db_act.simps by (rule successes_update [OF assms(1)]) simp_all
qed (use assms in \<open>auto simp: insert_runner_def upsert_owner_row_def upsert_installation_row_def
    upsert_repo_row_def upsert_webhook_repo_def insert_commit_def insert_job_github_def set_check_run_def
    insert_row_def Let_def successes_in_def split: option.splits\<close>)

lemma successes_acts:
  "successes_in F d \<Longrightarrow> list_all (allowed (truthful F)) as \<Longrightarrow> successes_in F (fold db_act as d)"
  by (induction as arbitrary: d) (auto intro: successes_act)

lemma successes_request:
  assumes "successes_in F (bk_db w)" and "request_allowed (truthful F) rq"
  shows "successes_in F (bk_db (run_request rq w))"
  using run_request_acts [OF assms(2), of w] successes_acts [OF assms(1)] by metis

lemma sent_truthful:
  assumes "reachable_runner r" and "msg \<in> set (rn_sent r)" and "\<And>i. succeeded i r \<Longrightarrow> F i"
  shows "request_allowed (truthful F) (Rq_Turn rid (Sv_Client msg) ok)"
proof -
  have "F i" if "UpdateJobStatus i (Complete Success) \<in> set (rn_sent r)" for i
    using runner_facts(2) [OF assms(1)] that assms(3) by (auto simp: honest_def claims_only_def)
  then have "F i" if "msg = UpdateJobStatus i (Complete Success)" for i using assms(2) that by blast
  then show ?thesis by (cases msg) simp_all
qed

text \<open>Every step performs one request on the backend, or two, and a runner speaks the truth.\<close>

lemma fleet_successes:
  assumes "fleet_step f f'" and "fleet_inv f" and "successes_in F (bk_db (fl_backend f))"
    and "\<And>i. succeeded_somewhere i f \<Longrightarrow> F i"
  shows "successes_in F (bk_db (fl_backend f'))"
  using assms
proof (induction rule: fleet_step.induct)
  case (accept n f h rid w)
  then show ?case using successes_request [of F "fl_backend f" "Rq_Connect h"] by (simp add: set_node_def)
next
  case (serve n f rid ok res s)
  then show ?case using successes_request [of F "fl_backend f" "Rq_Start rid ok"] by (simp add: set_node_def)
next
  case (read n f rid ok res s c w)
  let ?r = "nd_runner (fl_nodes f ! n)" let ?m = "rn_sent ?r ! nd_read (fl_nodes f ! n)"
  have r: "reachable_runner ?r" using fleet_invD(2) [OF read(6,1)] by (simp add: node_ok_def)
  have F: "succeeded i ?r \<Longrightarrow> F i" for i
    using read(8) [of i] nth_mem [OF read(1)] by (auto simp: succeeded_somewhere_def)
  have sent: "?m \<in> set (rn_sent ?r)" using read(3) by simp
  have s: "sw_backend s = run_request (Rq_Turn rid (Sv_Client ?m) ok) (fl_backend f)"
    using serve_turn_request [of rid "Sv_Client ?m" ok "fl_backend f"] read(4) by simp
  have "successes_in F (bk_db (sw_backend s))"
    unfolding s by (rule successes_request [OF read(7) sent_truthful [OF r sent F]])
  then show ?case
    using after_turn_backend [of rid res "sw_backend s"] read(5) successes_request [of F "sw_backend s" "Rq_Disconnect rid"]
    by (auto simp: set_node_def)
next
  case (forward n f rid ok res s c w)
  have s: "sw_backend s = run_request (Rq_Turn rid Sv_Queued ok) (fl_backend f)"
    using serve_turn_request [of rid Sv_Queued ok "fl_backend f"] forward(3) by simp
  have "successes_in F (bk_db (sw_backend s))"
    unfolding s by (rule successes_request [OF forward(6)]) simp
  then show ?case
    using after_turn_backend [of rid res "sw_backend s"] forward(4) successes_request [of F "sw_backend s" "Rq_Disconnect rid"]
    by (auto simp: set_node_def)
next
  case (hang_up n f rid)
  then show ?case using successes_request [of F "fl_backend f" "Rq_Disconnect rid"] by (simp add: set_node_def)
next
  case (late n f msg rid ok)
  have r: "reachable_runner (nd_runner (fl_nodes f ! n))" using fleet_invD(2) [OF late(3,1)] by (simp add: node_ok_def)
  have F: "succeeded i (nd_runner (fl_nodes f ! n)) \<Longrightarrow> F i" for i
    using late(5) [of i] nth_mem [OF late(1)] by (auto simp: succeeded_somewhere_def)
  show ?case
    using successes_request [OF late(4) sent_truthful [OF r late(2) F]] by simp
next
  case (request rq f)
  then show ?case using successes_request [OF request(3) background_allowed [OF request(1)]] by simp
qed (simp_all add: set_node_def)

lemma fleet_truth:
  assumes "fleet_init f0" and "fleet_step\<^sup>*\<^sup>* f0 f"
  shows "successes_in (\<lambda>i. succeeded_somewhere i f
      \<or> (\<exists>j \<in> set (db_jobs (bk_db (fl_backend f0))). j_id j = i \<and> j_status j = Complete Success)) (bk_db (fl_backend f))"
  using assms(2)
proof (induction rule: rtranclp_induct)
  case base
  show ?case by (auto simp: successes_in_def)
next
  case (step f f')
  have inv: "fleet_inv f" by (rule fleet.reachable_inv [OF assms(1) step(1)])
  show ?case
    by (rule fleet_successes [OF step(2) inv])
      (use succeeded_somewhere_step [OF step(2) inv] in \<open>auto intro: successes_mono [OF step(3)]\<close>)
qed

subsection \<open>A run of the whole system\<close>

text \<open>
  One runner joins, is offered the only queued job, claims it, runs it to its successful end and
  reports it. The states of the runner and of the backend along that run.
\<close>

definition demo_start :: backend where
  "demo_start = demo_backend\<lparr>bk_runners := []\<rparr>"

definition demo_row :: runner_row where
  "demo_row = \<lparr>rr_id = 101, rr_last_seen_at = 2, rr_platform = Job_X86_64Linux, rr_created_at = 3\<rparr>"

definition demo_stage ::
    "job \<Rightarrow> (uuid, server_message chan) hmap \<Rightarrow> github_call list \<Rightarrow> nat \<Rightarrow> backend" where
  "demo_stage j rs calls t = demo_backend
     \<lparr>bk_db := demo_db\<lparr>db_jobs := [j], db_runners := db_runners demo_db @ [demo_row]\<rparr>,
      bk_runners := rs, bk_calls := calls, bk_tick := t\<rparr>"

definition demo_queued :: job where
  "demo_queued = queued_job 7 Job_X86_64Linux 2 256 None 0"

definition demo_claimed :: job where
  "demo_claimed = demo_queued\<lparr>j_status := Running, j_runner_id := Some 101, j_started_at := Some 21\<rparr>"

definition demo_calls :: "github_call list" where
  "demo_calls = [Installation_Client 4, Update_Check_Run ''o'' ''r'' 8 (Check_In_Progress 21)]"

definition demo_done :: job where
  "demo_done = demo_claimed\<lparr>j_status := Complete Success, j_finished_at := Some 33\<rparr>"

definition demo_log_url :: string where
  "demo_log_url = ac_logger_url demo_app_config @ ''/u''"

lemma demo_platform [simp]: "job_platform_parse ''x86_64-linux'' = Some Job_X86_64Linux"
  by code_simp

lemmas session_eval = spawn_runner_def receiver_dropped_def check_and_send_job_def on_backend_def
  runner_register_def get_platform_def find_queued_job_for_platform_def first_by_id_def parsed_platform_def
  fresh_session_def available_for_def hm_insert_def runner_channel_def socket_send_def
  create_job_notification_def handle_claim_def claim_job_for_runner_def claimable_def claimed_by_def
  handle_update_def db_update_job_status_def log_url_def serve_turn_def

lemmas fleet_eval = be_eval job_eval github_eval demo_eval session_eval demo_stage_def demo_row_def
  demo_queued_def demo_claimed_def demo_calls_def demo_log_url_def demo_vm_config_def

definition turn_end :: "backend \<Rightarrow> server_message list \<Rightarrow> nat \<Rightarrow> bool \<Rightarrow> session_world" where
  "turn_end w ms n b = \<lparr>sw_backend = w, sw_sent = ms, sw_sends = n, sw_send_ok = (\<lambda>_. b)\<rparr>"

lemma demo_accept: "ws_handler None demo_start = (Ok (Inr 101), demo_stage demo_queued [] [] 4)"
  by (simp add: demo_start_def ws_handler_def runner_row_new_def insert_runner_def fleet_eval)

lemma demo_serve: "spawn_runner 101 [] (fresh_session (demo_stage demo_queued [] [] 4) (\<lambda>_. True))
  = (Ok (), turn_end (demo_stage demo_queued [(101, runner_channel)] [] 8) [NewJobAvailable 7 demo_vm_config] 1 True)"
  by (simp add: turn_end_def fleet_eval)

lemma demo_request: "serve_turn 101 (Sv_Client RequestJob) (\<lambda>_. False) (demo_stage demo_queued [(101, runner_channel)] [] 8)
  = (Ok True, turn_end (demo_stage demo_queued [(101, runner_channel)] [] 12) [] 1 False)"
  by (simp add: turn_end_def fleet_eval)

lemma demo_claim: "serve_turn 101 (Sv_Client (ClaimJob 7 demo_vm_config)) (\<lambda>_. True)
    (demo_stage demo_queued [(101, runner_channel)] [] 12)
  = (Ok True, turn_end (demo_stage demo_claimed [(101, runner_channel)] demo_calls 24)
      [JobClaimed 7 demo_vm_config demo_log_url] 1 True)"
  by (simp add: turn_end_def fleet_eval)

lemma demo_report: "serve_turn 101 (Sv_Client (UpdateJobStatus 7 (Complete Success))) (\<lambda>_. True)
    (demo_stage demo_claimed [(101, runner_channel)] demo_calls 24)
  = (Ok True, turn_end (demo_stage demo_done [(101, runner_channel)] (demo_calls
        @ [Installation_Client 4, Update_Check_Run ''o'' ''r'' 8 (Check_Completed 33 Concluded_Success)]) 40) [] 0 True)"
  by (simp add: turn_end_def demo_done_def fleet_eval)

text \<open>The runner: its job's status, the phase of its machine, and what is in its channels.\<close>

definition demo_busy :: "job_status \<Rightarrow> status_event list \<Rightarrow> task_phase \<Rightarrow> completion_event list
    \<Rightarrow> completion_event list \<Rightarrow> status_event list \<Rightarrow> client_message list \<Rightarrow> uuid option \<Rightarrow> runner" where
  "demo_busy st evs p cs rep recv sent starting = demo_runner
     \<lparr>rn_jm := \<lparr>jm_jobs = [(7, \<lparr>ji_id = 7, ji_config = runner_job_config 7, ji_status = st\<rparr>)],
        jm_status = \<lparr>ch_queue = evs, ch_cap = Some 100, ch_open = True\<rparr>, jm_waiting = None\<rparr>,
      rn_vmm := \<lparr>vmm_channels = [(7, 0)],
        vmm_tasks = [\<lparr>tk_job = 7, tk_phase = p, tk_control = \<lparr>ch_queue = [], ch_cap = Some 10, ch_open = True\<rparr>\<rparr>],
        vmm_completion = \<lparr>ch_queue = cs, ch_cap = Some 100, ch_open = True\<rparr>, vmm_reported = rep\<rparr>,
      rn_starting := starting, rn_sent := sent, rn_sends := length sent, rn_received := recv,
      rn_log_streams := [(7, demo_log_url)]\<rparr>"

definition demo_event :: "job_status \<Rightarrow> status_event" where
  "demo_event st = \<lparr>se_job_id = 7, se_status = st\<rparr>"

definition demo_exit :: completion_event where
  "demo_exit = \<lparr>ce_job_id = 7, ce_status = Exit_Success\<rparr>"

abbreviation demo_sent :: "client_message list" where
  "demo_sent \<equiv> [RequestJob, ClaimJob 7 demo_vm_config]"

lemmas busy_eval = demo_busy_def demo_runner_def runner_new_def demo_event_def demo_exit_def
  job_manager_new_def vm_manager_new_def loop_turn_def loop_top_def unwrap_run_def run_logged_def
  handle_server_message_def call_jm_def emit_def chan_send_def chan_recv_def chan_full_def
  and_then_def modify_def send_message_def Let_def hm_insert_def hm_get_def

definition demo_offered :: runner where
  "demo_offered = demo_runner\<lparr>rn_sent := demo_sent, rn_sends := 2\<rparr>"

lemma demo_offer: "loop_turn (Le_Ws_Message (NewJobAvailable 7 demo_vm_config)) demo_runner = demo_offered"
  by (simp add: busy_eval demo_offered_def can_allocate_def check_limits_def resource_manager_new_def
      resource_state_new_def demo_limits_def saturating_sub_def demo_vm_config_def hm_len_def)

lemma demo_launch: "loop_turn (Le_Ws_Message (JobClaimed 7 demo_vm_config demo_log_url)) demo_offered
    = demo_busy Queued [demo_event Queued] T_Starting [] [] [] demo_sent (Some 7)"
  by (simp add: busy_eval demo_offered_def register_job_def job_info_new_def launch_vm_def vm_task_new_def)

lemma demo_running: "loop_turn Le_Metrics (demo_busy Queued [demo_event Queued] T_Starting [] [] [] demo_sent (Some 7))
    = demo_busy Running [demo_event Queued, demo_event Running] T_Starting [] [] [] demo_sent None"
  by (simp add: busy_eval set_job_running_def update_job_status_def)

lemma demo_machine:
  "internal_step (demo_busy st evs T_Starting cs rep recv sent s) (demo_busy st evs T_Waiting cs rep recv sent s)"
  "internal_step (demo_busy st evs T_Waiting cs rep recv sent s)
     (demo_busy st evs (T_Reporting Exit_Success) cs rep recv sent s)"
  "internal_step (demo_busy st evs (T_Reporting Exit_Success) [] [] recv sent s)
     (demo_busy st evs T_Cleaning [demo_exit] [demo_exit] recv sent s)"
proof -
  have step: "internal_step (demo_busy st evs p cs rep recv sent s) (demo_busy st evs q cs' rep' recv sent s)"
    if "task_step 0 (rn_vmm (demo_busy st evs p cs rep recv sent s)) (rn_vmm (demo_busy st evs q cs' rep' recv sent s))"
    for p q cs cs' rep rep'
  proof -
    have "(demo_busy st evs p cs rep recv sent s)\<lparr>rn_vmm := rn_vmm (demo_busy st evs q cs' rep' recv sent s)\<rparr>
        = demo_busy st evs q cs' rep' recv sent s"
      by (simp add: demo_busy_def demo_runner_def runner_new_def)
    with internal_step.machine [OF that] show ?thesis by simp
  qed
  show "internal_step (demo_busy st evs T_Starting cs rep recv sent s) (demo_busy st evs T_Waiting cs rep recv sent s)"
    by (rule step, rule task_step.started [THEN back_subst [of "task_step 0 _"]])
      (simp_all add: demo_busy_def set_phase_def)
  show "internal_step (demo_busy st evs T_Waiting cs rep recv sent s)
     (demo_busy st evs (T_Reporting Exit_Success) cs rep recv sent s)"
    by (rule step, rule task_step.exited [where r = "Ok Exit_Success", THEN back_subst [of "task_step 0 _"]])
      (simp_all add: demo_busy_def set_phase_def)
  show "internal_step (demo_busy st evs (T_Reporting Exit_Success) [] [] recv sent s)
     (demo_busy st evs T_Cleaning [demo_exit] [demo_exit] recv sent s)"
    by (rule step, rule task_step.reported [where s = Exit_Success, THEN back_subst [of "task_step 0 _"]])
      (simp_all add: demo_busy_def set_phase_def chan_send_def chan_full_def demo_exit_def)
qed

lemma demo_completed:
  "completion_turn (demo_busy Running [demo_event Queued, demo_event Running] T_Cleaning [demo_exit] [demo_exit] [] demo_sent None)
   = demo_busy (Complete Success) [demo_event Queued, demo_event Running, demo_event (Complete Success)] T_Cleaning []
       [demo_exit] [] demo_sent None"
  by (simp add: busy_eval completion_turn_def complete_job_def update_job_status_def)

lemma demo_status_received:
  "loop_turn Le_Status (demo_busy (Complete Success) (demo_event Queued # evs) T_Cleaning [] [demo_exit] recv demo_sent None)
   = demo_busy (Complete Success) evs T_Cleaning [] [demo_exit] (recv @ [demo_event Queued]) demo_sent None"
  "loop_turn Le_Status (demo_busy (Complete Success) (demo_event Running # evs) T_Cleaning [] [demo_exit] recv demo_sent None)
   = demo_busy (Complete Success) evs T_Cleaning [] [demo_exit] (recv @ [demo_event Running]) demo_sent None"
  "loop_turn Le_Status (demo_busy (Complete Success) [demo_event (Complete Success)] T_Cleaning [] [demo_exit] recv demo_sent None)
   = demo_busy (Complete Success) [] T_Cleaning [] [demo_exit] (recv @ [demo_event (Complete Success)])
       (demo_sent @ [UpdateJobStatus 7 (Complete Success), RequestJob]) None"
  by (simp_all add: busy_eval jm_receive_def handle_status_def check_capacity_and_request_job_def
      has_minimal_capacity_def can_allocate_def check_limits_def resource_manager_new_def
      resource_state_new_def demo_limits_def saturating_sub_def hm_len_def)

text \<open>The fleet with its one runner, and the steps between its states.\<close>

definition one_runner :: "runner \<Rightarrow> connection \<Rightarrow> nat \<Rightarrow> server_message list \<Rightarrow> backend \<Rightarrow> fleet" where
  "one_runner r c n down w = \<lparr>fl_backend = w,
     fl_nodes = [\<lparr>nd_runner = r, nd_connection = c, nd_read = n, nd_down = down\<rparr>]\<rparr>"

definition demo_fleet :: fleet where
  "demo_fleet = \<lparr>fl_backend = demo_start, fl_nodes = []\<rparr>"

lemma demo_fleet_init: "fleet_init demo_fleet"
  using db_ok_demo by (simp add: fleet_init_def demo_fleet_def demo_start_def demo_backend_def)

lemma one_internal:
  assumes "internal_step r r'"
  shows "fleet_step (one_runner r c n down w) (one_runner r' c n down w)"
  using fleet_step.internal [of 0 "one_runner r c n down w" r'] assms by (simp add: one_runner_def set_node_def)

lemma one_deliver:
  assumes "polls_socket r" and "loop_turn (Le_Ws_Message msg) r = r'"
  shows "fleet_step (one_runner r c n (msg # rest) w) (one_runner r' c n rest w)"
  using fleet_step.deliver [of 0 "one_runner r c n (msg # rest) w" msg rest] assms
  by (simp add: one_runner_def set_node_def)

lemma one_serve:
  assumes "spawn_runner rid [] (fresh_session w ok) = (Ok (), turn_end w' ms k b)"
  shows "fleet_step (one_runner r (Accepted rid) n down w) (one_runner r (Serving rid) n (down @ ms) w')"
  using fleet_step.serve [of 0 "one_runner r (Accepted rid) n down w" rid ok "Ok ()" "turn_end w' ms k b"] assms
  by (simp add: one_runner_def set_node_def turn_end_def)

lemma one_read:
  assumes "n < length (rn_sent r)" and "serve_turn rid (Sv_Client (rn_sent r ! n)) ok w = (Ok True, turn_end w' ms k b)"
  shows "fleet_step (one_runner r (Serving rid) n down w) (one_runner r (Serving rid) (Suc n) (down @ ms) w')"
  using fleet_step.read [of 0 "one_runner r (Serving rid) n down w" rid ok "Ok True" "turn_end w' ms k b" "Serving rid" w'] assms
  by (simp add: one_runner_def set_node_def after_turn_def turn_end_def)

abbreviation busy_fleet :: "runner \<Rightarrow> fleet" where
  "busy_fleet r \<equiv> one_runner r (Serving 101) 2 [] (demo_stage demo_claimed [(101, runner_channel)] demo_calls 24)"

lemma demo_fleet_connects: "fleet_step\<^sup>*\<^sup>* demo_fleet
    (one_runner demo_runner (Serving 101) 0 [NewJobAvailable 7 demo_vm_config] (demo_stage demo_queued [(101, runner_channel)] [] 8))"
proof -
  have "fleet_step\<^sup>*\<^sup>* demo_fleet demo_fleet" by simp
  also have "fleet_step demo_fleet (one_runner demo_runner Offline 0 [] demo_start)"
    using fleet_step.join [OF demo_runner_init, of demo_fleet] by (simp add: demo_fleet_def one_runner_def node_new_def)
  also have "fleet_step (one_runner demo_runner Offline 0 [] demo_start)
      (one_runner demo_runner (Accepted 101) 0 [] (demo_stage demo_queued [] [] 4))"
    using fleet_step.accept [of 0 "one_runner demo_runner Offline 0 [] demo_start"] demo_accept
    by (simp add: one_runner_def set_node_def)
  also have "fleet_step (one_runner demo_runner (Accepted 101) 0 [] (demo_stage demo_queued [] [] 4))
      (one_runner demo_runner (Serving 101) 0 [NewJobAvailable 7 demo_vm_config] (demo_stage demo_queued [(101, runner_channel)] [] 8))"
    using one_serve [OF demo_serve, of demo_runner 0 "[]"] by simp
  finally show ?thesis .
qed

lemma demo_fleet_launches: "fleet_step\<^sup>*\<^sup>* demo_fleet
    (busy_fleet (demo_busy Queued [demo_event Queued] T_Starting [] [] [] demo_sent (Some 7)))"
proof -
  note demo_fleet_connects
  also have "fleet_step (one_runner demo_runner (Serving 101) 0 [NewJobAvailable 7 demo_vm_config] (demo_stage demo_queued [(101, runner_channel)] [] 8))
      (one_runner demo_offered (Serving 101) 0 [] (demo_stage demo_queued [(101, runner_channel)] [] 8))"
    by (rule one_deliver [OF _ demo_offer]) (simp add: polls_socket_def demo_runner_def runner_new_def)
  also have "fleet_step \<dots> (one_runner demo_offered (Serving 101) 1 [] (demo_stage demo_queued [(101, runner_channel)] [] 12))"
    using one_read [of 0 demo_offered 101 _ _ _ "[]" 1 False "[]"] demo_request by (simp add: demo_offered_def)
  also have "fleet_step \<dots> (one_runner demo_offered (Serving 101) 2 [JobClaimed 7 demo_vm_config demo_log_url]
      (demo_stage demo_claimed [(101, runner_channel)] demo_calls 24))"
    using one_read [of 1 demo_offered 101 _ _ _ _ 1 True "[]"] demo_claim by (simp add: demo_offered_def numeral_2_eq_2)
  also have "fleet_step \<dots> (busy_fleet (demo_busy Queued [demo_event Queued] T_Starting [] [] [] demo_sent (Some 7)))"
    by (rule one_deliver [OF _ demo_launch]) (simp add: polls_socket_def demo_offered_def demo_runner_def runner_new_def)
  finally show ?thesis .
qed

definition demo_last :: runner where
  "demo_last = demo_busy (Complete Success) [] T_Cleaning [] [demo_exit]
     [demo_event Queued, demo_event Running, demo_event (Complete Success)]
     (demo_sent @ [UpdateJobStatus 7 (Complete Success), RequestJob]) None"

lemma internal_turn: "internal_event ev \<Longrightarrow> loop_turn ev r = r' \<Longrightarrow> internal_step r r'"
  using internal_step.turn by blast

lemma demo_runner_finishes:
  "internal_step\<^sup>*\<^sup>* (demo_busy Queued [demo_event Queued] T_Starting [] [] [] demo_sent (Some 7)) demo_last"
proof -
  let ?st = "demo_busy Running [demo_event Queued, demo_event Running]"
  let ?fin = "\<lambda>evs recv. demo_busy (Complete Success) evs T_Cleaning [] [demo_exit] recv demo_sent None"
  have "internal_step\<^sup>*\<^sup>* (demo_busy Queued [demo_event Queued] T_Starting [] [] [] demo_sent (Some 7))
      (?st T_Starting [] [] [] demo_sent None)"
    by (intro r_into_rtranclp internal_turn [OF _ demo_running]) simp
  also have "internal_step (?st T_Starting [] [] [] demo_sent None) (?st T_Waiting [] [] [] demo_sent None)"
    by (rule demo_machine)
  also have "internal_step \<dots> (?st (T_Reporting Exit_Success) [] [] [] demo_sent None)" by (rule demo_machine)
  also have "internal_step \<dots> (?st T_Cleaning [demo_exit] [demo_exit] [] demo_sent None)" by (rule demo_machine)
  also have "internal_step \<dots> (?fin [demo_event Queued, demo_event Running, demo_event (Complete Success)] [])"
    unfolding demo_completed [symmetric] by (rule internal_step.completion)
  also have "internal_step \<dots> (?fin [demo_event Running, demo_event (Complete Success)] [demo_event Queued])"
    by (rule internal_turn [of Le_Status]) (simp_all add: demo_status_received)
  also have "internal_step \<dots> (?fin [demo_event (Complete Success)] [demo_event Queued, demo_event Running])"
    by (rule internal_turn [of Le_Status]) (simp_all add: demo_status_received)
  also have "internal_step \<dots> demo_last"
    by (rule internal_turn [of Le_Status]) (simp_all add: demo_status_received demo_last_def)
  finally show ?thesis .
qed

lemma one_internals:
  "internal_step\<^sup>*\<^sup>* r r' \<Longrightarrow> fleet_step\<^sup>*\<^sup>* (one_runner r c n down w) (one_runner r' c n down w)"
  by (induction rule: rtranclp_induct) (auto intro: rtranclp.rtrancl_into_rtrancl one_internal)

definition demo_end :: fleet where
  "demo_end = one_runner demo_last (Serving 101) 3 [] (demo_stage demo_done [(101, runner_channel)] (demo_calls
      @ [Installation_Client 4, Update_Check_Run ''o'' ''r'' 8 (Check_Completed 33 Concluded_Success)]) 40)"

lemma demo_fleet_succeeds: "fleet_step\<^sup>*\<^sup>* demo_fleet demo_end"
proof -
  note demo_fleet_launches
  also note one_internals [OF demo_runner_finishes, of "Serving 101" 2 "[]"
    "demo_stage demo_claimed [(101, runner_channel)] demo_calls 24"]
  also have "fleet_step (busy_fleet demo_last) demo_end"
    using one_read [of 2 demo_last 101 _ _ _ "[]" 0 True "[]"] demo_report
    by (simp add: demo_end_def demo_last_def demo_busy_def)
  finally show ?thesis .
qed

section \<open>Properties\<close>

text \<open>
  C2. No job ever runs twice: over all interleavings of the backend and any number of runners, with
  connections that break and come back, messages that arrive late and statements that fail, at
  most one machine is ever launched for a job in the whole system.
\<close>

theorem no_job_runs_twice:
  assumes "fleet_init f0" and "fleet_step\<^sup>*\<^sup>* f0 f"
  shows "fleet_total (machines i) f \<le> 1"
proof -
  have inv: "fleet_inv f" by (rule fleet.reachable_inv [OF assms])
  have "machines i nd \<le> claims i nd" if "nd \<in> set (fl_nodes f)" for nd
  proof -
    have "node_ok nd" using inv that by (simp add: fleet_inv_def)
    then have "machines i nd \<le> (if i \<in> known_jobs (nd_runner nd) then 1 else 0)" by (simp add: node_ok_def)
    also have "\<dots> \<le> claims i nd" by (simp add: claims_def)
    finally show ?thesis .
  qed
  then have "fleet_total (machines i) f \<le> fleet_total (claims i) f"
    unfolding fleet_total_def by (intro sum_list_mono)
  then show ?thesis using fleet_invD(3) [OF inv, of i] by (simp split: if_splits)
qed

theorem no_job_runs_twice_witness:
  "fleet_total (machines 7) demo_end \<le> 1 \<and> machine_jobs demo_last = [7]"
  using no_job_runs_twice [OF demo_fleet_init demo_fleet_succeeds, of 7]
  by (simp add: machine_jobs_def demo_last_def demo_busy_def)

text \<open>
  C4. Each runner of the system behaves as a runner alone: in every reachable state of the system
  the state of every runner is reachable by the steps of the runner itself, so what holds of a
  runner on its own holds of each of them, and the assumption made there, that the backend grants a
  job at most once, is met.
\<close>

theorem fleet_refines_runner:
  assumes "fleet_init f0" and "fleet_step\<^sup>*\<^sup>* f0 f" and "nd \<in> set (fl_nodes f)"
  shows "\<exists>r0. runner_init r0 \<and> runner_step\<^sup>*\<^sup>* r0 (nd_runner nd)"
  using fleet.reachable_inv [OF assms(1,2)] assms(3)
  by (auto simp: fleet_inv_def node_ok_def reachable_runner_def)

theorem fleet_refines_runner_witness:
  "\<exists>r0. runner_init r0 \<and> runner_step\<^sup>*\<^sup>* r0 demo_last"
  using fleet_refines_runner [OF demo_fleet_init demo_fleet_succeeds] by (simp add: demo_end_def one_runner_def)

text \<open>
  C3. A success is real: whenever the backend's tables show a job as successful that was not so at
  the start, a machine of some runner ran that job and ended with success. No failure, lost
  message, late report, timeout or cancellation makes a job successful.
\<close>

theorem success_is_real:
  assumes "fleet_init f0" and "fleet_step\<^sup>*\<^sup>* f0 f"
    and "status_of i (bk_db (fl_backend f)) = Some (Complete Success)"
    and "\<forall>j \<in> set (db_jobs (bk_db (fl_backend f0))). j_status j \<noteq> Complete Success"
  shows "\<exists>nd \<in> set (fl_nodes f).
    \<lparr>ce_job_id = i, ce_status = Exit_Success\<rparr> \<in> set (vmm_reported (rn_vmm (nd_runner nd)))"
proof -
  obtain j where "j \<in> set (db_jobs (bk_db (fl_backend f)))" "j_id j = i" "j_status j = Complete Success"
    using assms(3) by (auto simp: status_of_def by_key_def find_Some_iff intro: nth_mem)
  with fleet_truth [OF assms(1,2)] assms(4) show ?thesis
    by (auto simp: successes_in_def succeeded_somewhere_def succeeded_def)
qed

theorem success_is_real_witness:
  "status_of 7 (bk_db (fl_backend demo_end)) = Some (Complete Success)
   \<and> (\<exists>nd \<in> set (fl_nodes demo_end).
        \<lparr>ce_job_id = 7, ce_status = Exit_Success\<rparr> \<in> set (vmm_reported (rn_vmm (nd_runner nd))))"
proof -
  have "status_of 7 (bk_db (fl_backend demo_end)) = Some (Complete Success)"
    by (simp add: demo_end_def one_runner_def demo_done_def status_of_def by_key_def fleet_eval)
  moreover have "\<forall>j \<in> set (db_jobs (bk_db (fl_backend demo_fleet))). j_status j \<noteq> Complete Success"
    by (simp add: demo_fleet_def demo_start_def demo_eval queued_job_def)
  ultimately show ?thesis
    using success_is_real [OF demo_fleet_init demo_fleet_succeeds] by blast
qed

end
