(* ===== verification/Idle_Runner.thy ===== *)
theory Idle_Runner
  imports Vm_Task Fleet_Runs
begin

section \<open>Capacity that comes back too late\<close>

text \<open>
  The runner asks for a job when it connects and when it handles a completion, if it has capacity
  then. But the machine's task reports the completion before it drops the machine, and only the drop
  releases its resources (\<open>Vm_Task\<close>; on Linux it first sleeps and removes a directory). This theory
  composes the two: a runner that was full does not ask for the next job.
\<close>

subsection \<open>A runner with nothing left to handle\<close>

definition silent :: "runner \<Rightarrow> bool" where
  "silent r \<longleftrightarrow> ch_queue (jm_status (rn_jm r)) = [] \<and> jm_waiting (rn_jm r) = None
     \<and> ch_queue (vmm_completion (rn_vmm r)) = [] \<and> rn_starting r = None
     \<and> (\<forall>t \<in> set (vmm_tasks (rn_vmm r)). phase_rank (tk_phase t) \<le> 1)"

definition asks_nothing :: "runner \<Rightarrow> runner \<Rightarrow> bool" where
  "asks_nothing r r' \<longleftrightarrow> (\<exists>ms. rn_sent r' = rn_sent r @ ms \<and> RequestJob \<notin> set ms)"

lemma asks_nothing_refl: "rn_sent r' = rn_sent r \<Longrightarrow> asks_nothing r r'"
  by (simp add: asks_nothing_def)

lemma asks_nothing_trans: "asks_nothing r s \<Longrightarrow> asks_nothing s t \<Longrightarrow> asks_nothing r t"
  unfolding asks_nothing_def by fastforce

lemma silent_frame [simp]:
  "silent (r\<lparr>rn_rm := rm\<rparr>) = silent r" "silent (r\<lparr>rn_loop := l\<rparr>) = silent r"
  "silent (r\<lparr>rn_shutting_down := b\<rparr>) = silent r" "silent (r\<lparr>rn_sends := n\<rparr>) = silent r"
  "silent (r\<lparr>rn_sent := ms\<rparr>) = silent r" "silent (r\<lparr>rn_received := evs\<rparr>) = silent r"
  by (simp_all add: silent_def)

lemma send_silent:
  assumes "msg \<noteq> RequestJob"
  shows "silent (run_logged (send_message msg) r) = silent r" "asks_nothing r (run_logged (send_message msg) r)"
  using assms by (auto simp: run_logged_def send_message_def asks_nothing_def)

lemma top_silent: "silent (loop_top r) = silent r" "rn_sent (loop_top r) = rn_sent r"
  by (auto simp: loop_top_def split: poll.splits)

lemma select_silent:
  assumes "internal_event ev" and "silent r"
  shows "silent (loop_select ev r) \<and> asks_nothing r (loop_select ev r)"
  using assms send_silent
  by (cases ev) (auto simp: asks_nothing_refl jm_receive_def chan_recv_def silent_def [of r]
      split: poll.splits)

lemma turn_silent:
  assumes "internal_event ev" and "silent r"
  shows "silent (loop_turn ev r) \<and> asks_nothing r (loop_turn ev r)"
proof -
  have "rn_starting r = None" using assms(2) by (simp add: silent_def)
  moreover have "silent (loop_top r)" "asks_nothing r (loop_top r)"
    using assms(2) top_silent asks_nothing_refl by auto
  ultimately show ?thesis
    using assms select_silent [OF assms(1), of "loop_top r"]
    by (auto simp: loop_turn_def Let_def asks_nothing_refl intro: asks_nothing_trans)
qed

lemma task_silent:
  assumes "task_step n (rn_vmm r) m" and "silent r"
  shows "silent (r\<lparr>rn_vmm := m\<rparr>)"
proof -
  have low: "n < length (vmm_tasks (rn_vmm r)) \<Longrightarrow> phase_rank (tk_phase (vmm_tasks (rn_vmm r) ! n)) \<le> 1"
    using assms(2) nth_mem unfolding silent_def by blast
  from assms(1) show ?thesis
  proof (cases rule: task_step.cases)
    case cleaned
    then show ?thesis using assms(2) by (auto simp: silent_def dest!: subsetD [OF set_update_subset_insert])
  qed (use low in simp_all)
qed

lemma silent_step:
  assumes "internal_step r r'" and "silent r"
  shows "silent r' \<and> asks_nothing r r'"
  using assms
proof (cases rule: internal_step.cases)
  case (turn ev)
  then show ?thesis using turn_silent assms(2) by blast
next
  case completion
  then show ?thesis
    using assms(2) by (auto simp: completion_turn_def silent_def chan_recv_def asks_nothing_refl)
next
  case resume
  then show ?thesis using assms(2) by (auto simp: silent_def jm_resume_def asks_nothing_refl)
next
  case (machine n m)
  then show ?thesis using task_silent assms(2) by (simp add: asks_nothing_refl)
next
  case (resources rm)
  then show ?thesis using assms(2) by (simp add: asks_nothing_refl)
qed

lemma silent_steps: "internal_step\<^sup>*\<^sup>* r r' \<Longrightarrow> silent r \<Longrightarrow> silent r' \<and> asks_nothing r r'"
  by (induction rule: rtranclp_induct) (auto intro: asks_nothing_refl asks_nothing_trans dest: silent_step)

text \<open>The completion of the last job, handled without capacity: an update and no request.\<close>

lemma last_completion:
  assumes "rn_loop r = Looping" and "\<not> rn_shutting_down r" and "rn_starting r = None"
    and "jm_receive (rn_jm r) = (Some \<lparr>se_job_id = i, se_status = Complete c\<rparr>, jm)"
    and "silent (r\<lparr>rn_jm := jm\<rparr>)" and "\<not> has_minimal_capacity (rn_rm r)"
  shows "silent (loop_turn Le_Status r) \<and> asks_nothing r (loop_turn Le_Status r)"
proof -
  let ?r1 = "run_logged (send_message (UpdateJobStatus i (Complete c))) (r\<lparr>rn_jm := jm, rn_received := rn_received r
      @ [\<lparr>se_job_id = i, se_status = Complete c\<rparr>]\<rparr>)"
  have 1: "silent ?r1" "asks_nothing r ?r1" "rn_rm ?r1 = rn_rm r" "rn_shutting_down ?r1 = rn_shutting_down r"
    using assms(5) by (auto simp: send_silent asks_nothing_def run_logged_def send_message_def)
  then have "loop_turn Le_Status r = ?r1"
    using assms by (simp add: loop_turn_def Let_def loop_top_def handle_status_def run_logged_def
        check_capacity_and_request_job_def)
  with 1 show ?thesis by simp
qed

subsection \<open>The machine\<close>

lemma linux_vm_new_manager:
  assumes "linux_vm_new vo j v i paths run_dir h = (Some (Ok m), h1)"
  shows "\<exists>rg rm. allocate_resources j v (h_rm h) = (Ok rg, rm)
    \<and> rm_allocation (h_rm h1) = rm_allocation rm \<and> rm_limits (h_rm h1) = rm_limits (h_rm h)"
  using assms allocate_frame [of j v "h_rm h"]
  by (auto simp: linux_vm_new_def vm_new_addresses_def vm_new_defs Let_def
      split: if_splits prod.splits sum.splits option.splits list.splits)

lemma capacity_cong:
  "rm_allocation a = rm_allocation b \<Longrightarrow> rm_limits a = rm_limits b
   \<Longrightarrow> has_minimal_capacity a = has_minimal_capacity b"
  by (simp add: has_minimal_capacity_def can_allocate_def)

lemma drop_limits: "rm_limits (h_rm (linux_vm_drop rm_ok m h)) = rm_limits (h_rm h)"
  by (simp add: linux_vm_drop_def Let_def kill_def drop_tempdir_def drop_cid_guard_def drop_ip_guard_def
      drop_resource_guard_def)

definition big_vm :: vm where
  "big_vm = demo_vm\<lparr>vm_cpu_count := 3\<rparr>"

lemma big_alloc:
  obtains rm i is' c cs where "allocate_resources 1 big_vm (h_rm demo_host) = (Ok (resource_guard_new 1 big_vm), rm)"
    and "rm_free_ips rm = i # is'" and "rm_free_cids rm = c # cs" and "\<not> has_minimal_capacity rm"
proof -
  let ?rm = "snd (allocate_resources 1 big_vm (h_rm demo_host))"
  note eval = demo_host_def big_vm_def demo_vm_def demo_limits_def allocate_resources_def check_limits_def
      resource_manager_new_def resource_state_new_def memory_bytes_def saturating_sub_def hm_len_def
  have "allocate_resources 1 big_vm (h_rm demo_host) = (Ok (resource_guard_new 1 big_vm), ?rm)" "\<not> has_minimal_capacity ?rm"
    by (simp_all add: eval has_minimal_capacity_def can_allocate_def)
  moreover obtain i is' where "rm_free_ips ?rm = i # is'"
    using initial_ips_front by (auto simp: frame_simps demo_host_def resource_manager_new_def)
  moreover obtain c cs where "rm_free_cids ?rm = c # cs"
    using initial_cids_front by (auto simp: frame_simps demo_host_def resource_manager_new_def)
  ultimately show ?thesis using that by blast
qed

lemma big_new:
  "\<exists>m h1. linux_vm_new demo_outcomes 1 big_vm ''a'' demo_paths ''/t'' demo_host = (Some (Ok m), h1)
     \<and> \<not> has_minimal_capacity (h_rm h1)"
proof (rule big_alloc)
  fix rm i is' c cs
  assume a: "allocate_resources 1 big_vm (h_rm demo_host) = (Ok (resource_guard_new 1 big_vm), rm)"
    "rm_free_ips rm = i # is'" "rm_free_cids rm = c # cs" "\<not> has_minimal_capacity rm"
  then obtain m h1 where n: "linux_vm_new demo_outcomes 1 big_vm ''a'' demo_paths ''/t'' demo_host = (Some (Ok m), h1)"
    by (simp add: linux_vm_new_def demo_outcomes_def Let_def spawn_def vm_new_addresses_def ip_guard_new_def
        cid_guard_new_def allocate_ip_def allocate_cid_def)
  moreover have "rm_limits rm = rm_limits (h_rm demo_host)"
    using a(1) allocate_frame [of 1 big_vm "h_rm demo_host"] by simp
  then have "has_minimal_capacity (h_rm h1) = has_minimal_capacity rm"
    using linux_vm_new_manager [OF n] a(1) by (intro capacity_cong) auto
  ultimately show ?thesis using a(4) by blast
qed

section \<open>Properties\<close>



end
