(* ===== verification/Ch_Client.thy ===== *)
theory Ch_Client
  imports Ch_Models
begin

section \<open>The hypervisor's API client: cloud-hypervisor-client/src/apis\<close>

text \<open>
  \<open>Request\<close> with its builder methods and \<open>execute\<close>, the configuration of the client, and one definition
  for every call of \<open>DefaultApi\<close>. A hash map is a list in its iteration order. What other libraries do is
  an argument: \<open>hyperlocal\<close> and the URI parser, the header checks of \<open>http\<close>, form encoding, base64, JSON text,
  and the answer of the hypervisor to a request. A call that panics has the value \<open>Call_Panics\<close>.
\<close>

subsection \<open>Errors and configuration\<close>

text \<open>\<open>Error\<close> and \<open>ApiError\<close>; the library's own error values are left out.\<close>

datatype client_error =
    Api_Error nat string
  | Header_Error
  | Http_Error
  | Hyper_Error
  | Hyper_Client_Error
  | Serde_Error
  | Uri_Error

record api_key =
  key_prefix :: "string option"
  key_key :: string

record ch_configuration =
  cf_base_path :: string
  cf_user_agent :: "string option"
  cf_basic_auth :: "(string \<times> string option) option"
  cf_oauth_access_token :: "string option"
  cf_api_key :: "api_key option"

definition configuration_with_client :: ch_configuration where
  "configuration_with_client =
     \<lparr>cf_base_path = ''/tmp/hyperlocal.sock'',
      cf_user_agent = Some ''OpenAPI-Generator/0.3.0/rust'',
      cf_basic_auth = None, cf_oauth_access_token = None, cf_api_key = None\<rparr>"

definition configuration_new :: ch_configuration where
  "configuration_new = configuration_with_client"

subsection \<open>Requests\<close>

record api_key_place =
  kp_in_header :: bool
  kp_in_query :: bool
  kp_param_name :: string

definition api_key_text :: "string option \<Rightarrow> string \<Rightarrow> string" where
  "api_key_text prefix key =
     (case prefix of None \<Rightarrow> key | Some p \<Rightarrow> p @ '' '' @ key)"

datatype ch_auth = Auth_None | Auth_Api_Key api_key_place | Auth_Basic | Auth_Oauth

datatype http_method = Method_Get | Method_Put

record api_request =
  ar_auth :: "ch_auth option"
  ar_method :: http_method
  ar_path :: string
  ar_query_params :: "(string \<times> string) list"
  ar_no_return_type :: bool
  ar_path_params :: "(string \<times> string) list"
  ar_form_params :: "(string \<times> string) list"
  ar_header_params :: "(string \<times> string) list"
  ar_serialized_body :: "string option"

definition request_new :: "http_method \<Rightarrow> string \<Rightarrow> api_request" where
  "request_new meth path =
     \<lparr>ar_auth = None, ar_method = meth, ar_path = path, ar_query_params = [],
      ar_no_return_type = False, ar_path_params = [], ar_form_params = [], ar_header_params = [],
      ar_serialized_body = None\<rparr>"

text \<open>What the client uses of other code. The answer is \<open>None\<close> when no response arrives, and the body of a
  response is \<open>None\<close> when it cannot be collected.\<close>

record hv_request =
  hr_method :: http_method
  hr_uri :: string
  hr_headers :: "(string \<times> string) list"
  hr_body :: string

type_synonym http_answer = "(nat \<times> string option) option"

record ch_env =
  he_uri :: "string \<Rightarrow> string \<Rightarrow> string option"
  he_name_ok :: "string \<Rightarrow> bool"
  he_value_ok :: "string \<Rightarrow> bool"
  he_form :: "(string \<times> string) list \<Rightarrow> string"
  he_base64 :: "string \<Rightarrow> string"
  he_print :: "json \<Rightarrow> string"
  he_parse :: "string \<Rightarrow> json option"
  he_send :: "hv_request \<Rightarrow> http_answer"

definition with_body_param :: "ch_env \<Rightarrow> ('p \<Rightarrow> json) \<Rightarrow> 'p \<Rightarrow> api_request \<Rightarrow> api_request" where
  "with_body_param env enc param r = r\<lparr>ar_serialized_body := Some (he_print env (enc param))\<rparr>"

definition with_header_param :: "string \<Rightarrow> string \<Rightarrow> api_request \<Rightarrow> api_request" where
  "with_header_param basename param r =
     r\<lparr>ar_header_params := AList.update basename param (ar_header_params r)\<rparr>"

definition with_query_param :: "string \<Rightarrow> string \<Rightarrow> api_request \<Rightarrow> api_request" where
  "with_query_param basename param r =
     r\<lparr>ar_query_params := AList.update basename param (ar_query_params r)\<rparr>"

definition with_path_param :: "string \<Rightarrow> string \<Rightarrow> api_request \<Rightarrow> api_request" where
  "with_path_param basename param r =
     r\<lparr>ar_path_params := AList.update basename param (ar_path_params r)\<rparr>"

definition with_form_param :: "string \<Rightarrow> string \<Rightarrow> api_request \<Rightarrow> api_request" where
  "with_form_param basename param r =
     r\<lparr>ar_form_params := AList.update basename param (ar_form_params r)\<rparr>"

definition returns_nothing :: "api_request \<Rightarrow> api_request" where
  "returns_nothing r = r\<lparr>ar_no_return_type := True\<rparr>"

definition with_auth :: "ch_auth \<Rightarrow> api_request \<Rightarrow> api_request" where
  "with_auth auth r = r\<lparr>ar_auth := Some auth\<rparr>"

subsection \<open>Building a request\<close>

text \<open>
  The request builder keeps its headers under lower-case names, or remembers that one was not valid
  (\<open>None\<close>). \<open>insert\<close> replaces what a name had, \<open>header\<close> adds to it.
\<close>

definition header_append ::
    "ch_env \<Rightarrow> string \<Rightarrow> string \<Rightarrow> (string \<times> string) list option \<Rightarrow> (string \<times> string) list option" where
  "header_append env name val hs =
     (case hs of
        None \<Rightarrow> None
      | Some l \<Rightarrow> if he_name_ok env name \<and> he_value_ok env val
                  then Some (l @ [(to_lowercase name, val)]) else None)"

definition header_insert :: "string \<Rightarrow> string \<Rightarrow> (string \<times> string) list \<Rightarrow> (string \<times> string) list" where
  "header_insert name val l = filter (\<lambda>(n, _). n \<noteq> name) l @ [(name, val)]"

definition request_path :: "ch_env \<Rightarrow> api_request \<Rightarrow> string" where
  "request_path env r =
     (let path = fold (\<lambda>(k, v) p. replace_all (''{'' @ k @ ''}'') v p) (ar_path_params r) (ar_path r);
          query = he_form env (ar_query_params r)
      in if query = [] then path else path @ ''?'' @ query)"

text \<open>The authorization that applies; \<open>None\<close>: an API key that no request names, a panic.\<close>

definition effective_auth :: "ch_configuration \<Rightarrow> api_request \<Rightarrow> ch_auth option" where
  "effective_auth conf r =
     (case ar_auth r of
        Some a \<Rightarrow> Some a
      | None \<Rightarrow>
          if cf_api_key conf \<noteq> None then None
          else if cf_oauth_access_token conf \<noteq> None then Some Auth_Oauth
          else if cf_basic_auth conf \<noteq> None then Some Auth_Basic
          else Some Auth_None)"

text \<open>
  The headers of the authorization. The query serializer has been finished by then, so appending an
  API key to it panics: the outer \<open>None\<close>.
\<close>

definition auth_headers ::
    "ch_env \<Rightarrow> ch_configuration \<Rightarrow> ch_auth \<Rightarrow> (string \<times> string) list option
     \<Rightarrow> (string \<times> string) list option option" where
  "auth_headers env conf auth hs =
     (case auth of
        Auth_None \<Rightarrow> Some hs
      | Auth_Api_Key place \<Rightarrow>
          (case cf_api_key conf of
             None \<Rightarrow> Some hs
           | Some key \<Rightarrow>
               let val = api_key_text (key_prefix key) (key_key key)
               in if kp_in_query place then None
                  else if kp_in_header place
                  then Some (header_append env (kp_param_name place) val hs)
                  else Some hs)
      | Auth_Basic \<Rightarrow>
          (case cf_basic_auth conf of
             None \<Rightarrow> Some hs
           | Some (user, pass) \<Rightarrow>
               let text = user @ '':'' @ (case pass of None \<Rightarrow> [] | Some p \<Rightarrow> p)
               in Some (header_append env ''authorization'' (he_base64 env text) hs))
      | Auth_Oauth \<Rightarrow>
          (case cf_oauth_access_token conf of
             None \<Rightarrow> Some hs
           | Some token \<Rightarrow> Some (header_append env ''authorization'' (''Bearer '' @ token) hs)))"

text \<open>The body and the headers that describe it.\<close>

definition request_body ::
    "ch_env \<Rightarrow> api_request \<Rightarrow> (string \<times> string) list \<Rightarrow> (string \<times> string) list \<times> string" where
  "request_body env r hs =
     (if ar_form_params r \<noteq> []
      then (header_insert ''content-type'' ''application/x-www-form-urlencoded'' hs,
            he_form env (ar_form_params r))
      else case ar_serialized_body r of
             Some body \<Rightarrow>
               (header_insert ''content-length'' (dec_digits (length body))
                  (header_insert ''content-type'' ''application/json'' hs), body)
           | None \<Rightarrow> (hs, []))"

datatype built = Build_Panics | Build_Fails client_error | Built hv_request

text \<open>
  \<open>execute\<close> up to the call of the HTTP client. The headers are unwrapped, so one that is not valid
  panics; only the user agent is checked before it is used.
\<close>

definition build_request :: "ch_env \<Rightarrow> ch_configuration \<Rightarrow> api_request \<Rightarrow> built" where
  "build_request env conf r =
     (case he_uri env (cf_base_path conf) (''/api/v1'' @ request_path env r) of
        None \<Rightarrow> Build_Panics
      | Some uri \<Rightarrow>
          (case effective_auth conf r of
             None \<Rightarrow> Build_Panics
           | Some auth \<Rightarrow>
               (case auth_headers env conf auth (Some []) of
                  None \<Rightarrow> Build_Panics
                | Some hs \<Rightarrow>
                    if (case cf_user_agent conf of None \<Rightarrow> False | Some agent \<Rightarrow> \<not> he_value_ok env agent)
                    then Build_Fails Header_Error
                    else
                      (case fold (\<lambda>(k, v). header_append env k v) (ar_header_params r)
                              (case cf_user_agent conf of
                                 None \<Rightarrow> hs
                               | Some agent \<Rightarrow> header_append env ''user-agent'' agent hs) of
                         None \<Rightarrow> Build_Panics
                       | Some hs' \<Rightarrow>
                           (case request_body env r hs' of
                              (hs'', body) \<Rightarrow>
                                Built \<lparr>hr_method = ar_method r, hr_uri = uri, hr_headers = hs'',
                                       hr_body = body\<rparr>)))))"

subsection \<open>The answer\<close>

datatype 'a call = Call_Panics | Returns "client_error + 'a"

definition is_success :: "nat \<Rightarrow> bool" where
  "is_success status = (200 \<le> status \<and> status < 300)"

definition receive_response ::
    "ch_env \<Rightarrow> (json \<Rightarrow> 'a option) \<Rightarrow> bool \<Rightarrow> http_answer \<Rightarrow> 'a call" where
  "receive_response env dec no_return_type answer =
     (case answer of
        None \<Rightarrow> Returns (Err Hyper_Client_Error)
      | Some (status, body) \<Rightarrow>
          if \<not> is_success status
          then (case body of
                  None \<Rightarrow> Returns (Err Hyper_Error)
                | Some b \<Rightarrow> Returns (Err (Api_Error status b)))
          else if no_return_type
          then (case dec JNull of None \<Rightarrow> Call_Panics | Some a \<Rightarrow> Returns (Ok a))
          else (case body of
                  None \<Rightarrow> Returns (Err Hyper_Error)
                | Some b \<Rightarrow>
                    (case Option.bind (he_parse env b) dec of
                       None \<Rightarrow> Returns (Err Serde_Error)
                     | Some a \<Rightarrow> Returns (Ok a))))"

definition request_execute ::
    "ch_env \<Rightarrow> ch_configuration \<Rightarrow> (json \<Rightarrow> 'a option) \<Rightarrow> api_request \<Rightarrow> 'a call" where
  "request_execute env conf dec r =
     (case build_request env conf r of
        Build_Panics \<Rightarrow> Call_Panics
      | Build_Fails e \<Rightarrow> Returns (Err e)
      | Built req \<Rightarrow> receive_response env dec (ar_no_return_type r) (he_send env req))"

subsection \<open>The calls\<close>

definition boot_vm :: "ch_env \<Rightarrow> ch_configuration \<Rightarrow> unit call" where
  "boot_vm env conf =
     request_execute env conf unit_of_json
       (returns_nothing (request_new Method_Put ''/vm.boot''))"

definition create_vm :: "ch_env \<Rightarrow> ch_configuration \<Rightarrow> vm_config \<Rightarrow> unit call" where
  "create_vm env conf param =
     request_execute env conf unit_of_json
       (returns_nothing (with_body_param env vm_config_to_json param
          (request_new Method_Put ''/vm.create'')))"

definition delete_vm :: "ch_env \<Rightarrow> ch_configuration \<Rightarrow> unit call" where
  "delete_vm env conf =
     request_execute env conf unit_of_json
       (returns_nothing (request_new Method_Put ''/vm.delete''))"

definition pause_vm :: "ch_env \<Rightarrow> ch_configuration \<Rightarrow> unit call" where
  "pause_vm env conf =
     request_execute env conf unit_of_json
       (returns_nothing (request_new Method_Put ''/vm.pause''))"

definition power_button_vm :: "ch_env \<Rightarrow> ch_configuration \<Rightarrow> unit call" where
  "power_button_vm env conf =
     request_execute env conf unit_of_json
       (returns_nothing (request_new Method_Put ''/vm.power-button''))"

definition reboot_vm :: "ch_env \<Rightarrow> ch_configuration \<Rightarrow> unit call" where
  "reboot_vm env conf =
     request_execute env conf unit_of_json
       (returns_nothing (request_new Method_Put ''/vm.reboot''))"

definition resume_vm :: "ch_env \<Rightarrow> ch_configuration \<Rightarrow> unit call" where
  "resume_vm env conf =
     request_execute env conf unit_of_json
       (returns_nothing (request_new Method_Put ''/vm.resume''))"

definition api_shutdown_vm :: "ch_env \<Rightarrow> ch_configuration \<Rightarrow> unit call" where
  "api_shutdown_vm env conf =
     request_execute env conf unit_of_json
       (returns_nothing (request_new Method_Put ''/vm.shutdown''))"

definition shutdown_vmm :: "ch_env \<Rightarrow> ch_configuration \<Rightarrow> unit call" where
  "shutdown_vmm env conf =
     request_execute env conf unit_of_json
       (returns_nothing (request_new Method_Put ''/vmm.shutdown''))"

definition vm_add_device_put :: "ch_env \<Rightarrow> ch_configuration \<Rightarrow> device_config \<Rightarrow> pci_device_info call" where
  "vm_add_device_put env conf param =
     request_execute env conf pci_device_info_of_json
       (with_body_param env device_config_to_json param
          (request_new Method_Put ''/vm.add-device''))"

definition vm_add_disk_put :: "ch_env \<Rightarrow> ch_configuration \<Rightarrow> disk_config \<Rightarrow> pci_device_info call" where
  "vm_add_disk_put env conf param =
     request_execute env conf pci_device_info_of_json
       (with_body_param env disk_config_to_json param
          (request_new Method_Put ''/vm.add-disk''))"

definition vm_add_fs_put :: "ch_env \<Rightarrow> ch_configuration \<Rightarrow> fs_config \<Rightarrow> pci_device_info call" where
  "vm_add_fs_put env conf param =
     request_execute env conf pci_device_info_of_json
       (with_body_param env fs_config_to_json param
          (request_new Method_Put ''/vm.add-fs''))"

definition vm_add_net_put :: "ch_env \<Rightarrow> ch_configuration \<Rightarrow> net_config \<Rightarrow> pci_device_info call" where
  "vm_add_net_put env conf param =
     request_execute env conf pci_device_info_of_json
       (with_body_param env net_config_to_json param
          (request_new Method_Put ''/vm.add-net''))"

definition vm_add_pmem_put :: "ch_env \<Rightarrow> ch_configuration \<Rightarrow> pmem_config \<Rightarrow> pci_device_info call" where
  "vm_add_pmem_put env conf param =
     request_execute env conf pci_device_info_of_json
       (with_body_param env pmem_config_to_json param
          (request_new Method_Put ''/vm.add-pmem''))"

definition vm_add_user_device_put :: "ch_env \<Rightarrow> ch_configuration \<Rightarrow> vm_add_user_device \<Rightarrow> pci_device_info call" where
  "vm_add_user_device_put env conf param =
     request_execute env conf pci_device_info_of_json
       (with_body_param env vm_add_user_device_to_json param
          (request_new Method_Put ''/vm.add-user-device''))"

definition vm_add_vdpa_put :: "ch_env \<Rightarrow> ch_configuration \<Rightarrow> vdpa_config \<Rightarrow> pci_device_info call" where
  "vm_add_vdpa_put env conf param =
     request_execute env conf pci_device_info_of_json
       (with_body_param env vdpa_config_to_json param
          (request_new Method_Put ''/vm.add-vdpa''))"

definition vm_add_vsock_put :: "ch_env \<Rightarrow> ch_configuration \<Rightarrow> vsock_config \<Rightarrow> pci_device_info call" where
  "vm_add_vsock_put env conf param =
     request_execute env conf pci_device_info_of_json
       (with_body_param env vsock_config_to_json param
          (request_new Method_Put ''/vm.add-vsock''))"

definition vm_coredump_put :: "ch_env \<Rightarrow> ch_configuration \<Rightarrow> vm_coredump_data \<Rightarrow> unit call" where
  "vm_coredump_put env conf param =
     request_execute env conf unit_of_json
       (returns_nothing (with_body_param env vm_coredump_data_to_json param
          (request_new Method_Put ''/vm.coredump'')))"

definition vm_counters_get :: "ch_env \<Rightarrow> ch_configuration \<Rightarrow> ((string \<times> (string \<times> i64) list) list) call" where
  "vm_counters_get env conf =
     request_execute env conf (map_of_json (map_of_json signed_of_json))
       (request_new Method_Get ''/vm.counters'')"

definition vm_info_get :: "ch_env \<Rightarrow> ch_configuration \<Rightarrow> vm_info call" where
  "vm_info_get env conf =
     request_execute env conf vm_info_of_json
       (request_new Method_Get ''/vm.info'')"

definition vm_receive_migration_put :: "ch_env \<Rightarrow> ch_configuration \<Rightarrow> receive_migration_data \<Rightarrow> unit call" where
  "vm_receive_migration_put env conf param =
     request_execute env conf unit_of_json
       (returns_nothing (with_body_param env receive_migration_data_to_json param
          (request_new Method_Put ''/vm.receive-migration'')))"

definition vm_remove_device_put :: "ch_env \<Rightarrow> ch_configuration \<Rightarrow> vm_remove_device \<Rightarrow> unit call" where
  "vm_remove_device_put env conf param =
     request_execute env conf unit_of_json
       (returns_nothing (with_body_param env vm_remove_device_to_json param
          (request_new Method_Put ''/vm.remove-device'')))"

definition vm_resize_put :: "ch_env \<Rightarrow> ch_configuration \<Rightarrow> vm_resize \<Rightarrow> unit call" where
  "vm_resize_put env conf param =
     request_execute env conf unit_of_json
       (returns_nothing (with_body_param env vm_resize_to_json param
          (request_new Method_Put ''/vm.resize'')))"

definition vm_resize_zone_put :: "ch_env \<Rightarrow> ch_configuration \<Rightarrow> vm_resize_zone \<Rightarrow> unit call" where
  "vm_resize_zone_put env conf param =
     request_execute env conf unit_of_json
       (returns_nothing (with_body_param env vm_resize_zone_to_json param
          (request_new Method_Put ''/vm.resize-zone'')))"

definition vm_restore_put :: "ch_env \<Rightarrow> ch_configuration \<Rightarrow> restore_config \<Rightarrow> unit call" where
  "vm_restore_put env conf param =
     request_execute env conf unit_of_json
       (returns_nothing (with_body_param env restore_config_to_json param
          (request_new Method_Put ''/vm.restore'')))"

definition vm_send_migration_put :: "ch_env \<Rightarrow> ch_configuration \<Rightarrow> send_migration_data \<Rightarrow> unit call" where
  "vm_send_migration_put env conf param =
     request_execute env conf unit_of_json
       (returns_nothing (with_body_param env send_migration_data_to_json param
          (request_new Method_Put ''/vm.send-migration'')))"

definition vm_snapshot_put :: "ch_env \<Rightarrow> ch_configuration \<Rightarrow> vm_snapshot_config \<Rightarrow> unit call" where
  "vm_snapshot_put env conf param =
     request_execute env conf unit_of_json
       (returns_nothing (with_body_param env vm_snapshot_config_to_json param
          (request_new Method_Put ''/vm.snapshot'')))"

definition vmm_nmi_put :: "ch_env \<Rightarrow> ch_configuration \<Rightarrow> unit call" where
  "vmm_nmi_put env conf =
     request_execute env conf unit_of_json
       (returns_nothing (request_new Method_Put ''/vmm.nmi''))"

definition vmm_ping_get :: "ch_env \<Rightarrow> ch_configuration \<Rightarrow> vmm_ping_response call" where
  "vmm_ping_get env conf =
     request_execute env conf vmm_ping_response_of_json
       (request_new Method_Get ''/vmm.ping'')"

end
