(* ===== verification/Vm_Hypervisor.thy ===== *)
theory Vm_Hypervisor
  imports Vm_Linux Ch_Client "HOL-Library.Countable"
begin

section \<open>A machine and its hypervisor\<close>

text \<open>
  The Linux machine of \<open>Vm_Linux\<close> over the API client of \<open>Ch_Client\<close>: what the hypervisor is asked when
  a machine is created and started, and how its answers decide the outcome.
\<close>

subsection \<open>The calls of the machine\<close>

definition machine_configuration :: "string \<Rightarrow> ch_configuration" where
  "machine_configuration run_dir = configuration_new\<lparr>cf_base_path := path_join run_dir ''ch-api.sock''\<rparr>"

text \<open>
  Creation and start with the calls in the place of their outcomes. Neither call panics under the
  contract below, so anything but \<open>Ok\<close> is an error that is returned.
\<close>

definition api_create :: "ch_env \<Rightarrow> string \<Rightarrow> vm_config \<Rightarrow> bool" where
  "api_create env run_dir c =
     (case create_vm env (machine_configuration run_dir) c of
        Returns r \<Rightarrow> is_ok r | Call_Panics \<Rightarrow> False)"

definition api_boot :: "ch_env \<Rightarrow> string \<Rightarrow> bool" where
  "api_boot env run_dir =
     (case boot_vm env (machine_configuration run_dir) of
        Returns r \<Rightarrow> is_ok r | Call_Panics \<Rightarrow> False)"

definition linux_vm_new_on ::
    "ch_env \<Rightarrow> vm_outcomes \<Rightarrow> uuid \<Rightarrow> vm \<Rightarrow> string \<Rightarrow> vm_paths \<Rightarrow> string \<Rightarrow> host
     \<Rightarrow> (vm_error + linux_vm) option \<times> host" where
  "linux_vm_new_on env vo job_id v i paths run_dir h =
     linux_vm_new (vo\<lparr>vo_create_vm := api_create env run_dir\<rparr>) job_id v i paths run_dir h"

definition linux_vm_start_on :: "ch_env \<Rightarrow> linux_vm \<Rightarrow> vm_error + unit" where
  "linux_vm_start_on env vm = linux_vm_start (api_boot env (lv_run_dir vm)) vm"

subsection \<open>Plain requests\<close>

text \<open>
  The contract of the libraries for the calls of the API: a path of the API is a URI on every socket,
  the client's own header is valid, and an empty query is encoded as the empty text.
\<close>

definition path_text :: "string \<Rightarrow> bool" where
  "path_text p = list_all (\<lambda>c. c \<in> set ''abcdefghijklmnopqrstuvwxyz-./'') p"

definition client_law :: "ch_env \<Rightarrow> bool" where
  "client_law env =
     ((\<forall>socket path. path_text path \<longrightarrow> he_uri env socket (''/api/v1'' @ path) \<noteq> None) \<and> he_form env [] = []
      \<and> he_name_ok env ''user-agent'' \<and> he_value_ok env ''OpenAPI-Generator/0.3.0/rust'')"

definition plain_request :: "api_request \<Rightarrow> bool" where
  "plain_request r =
     (ar_auth r = None \<and> ar_query_params r = [] \<and> ar_path_params r = [] \<and> ar_form_params r = []
      \<and> ar_header_params r = [])"

definition agent_header :: "string \<times> string" where
  "agent_header = (''user-agent'', ''OpenAPI-Generator/0.3.0/rust'')"

definition body_headers :: "string option \<Rightarrow> (string \<times> string) list" where
  "body_headers body =
     (case body of
        None \<Rightarrow> []
      | Some b \<Rightarrow> [(''content-type'', ''application/json''), (''content-length'', dec_digits (length b))])"

lemma build_plain_request:
  assumes "client_law env" and "plain_request r" and "path_text (ar_path r)"
  shows "\<exists>uri. he_uri env (path_join run_dir ''ch-api.sock'') (''/api/v1'' @ ar_path r) = Some uri
    \<and> build_request env (machine_configuration run_dir) r = Built
        \<lparr>hr_method = ar_method r, hr_uri = uri,
         hr_headers = agent_header # body_headers (ar_serialized_body r),
         hr_body = unwrap_or (ar_serialized_body r) []\<rparr>"
proof -
  have lower: "to_lowercase ''user-agent'' = ''user-agent''"
    by (simp add: to_lowercase_def to_lower_def)
  obtain uri where "he_uri env (path_join run_dir ''ch-api.sock'') (''/api/v1'' @ ar_path r) = Some uri"
    using assms(1,3) unfolding client_law_def by blast
  then show ?thesis
    using assms(1,2) lower
    by (simp add: build_request_def request_path_def client_law_def plain_request_def
        machine_configuration_def configuration_new_def configuration_with_client_def
        effective_auth_def auth_headers_def header_append_def request_body_def header_insert_def
        agent_header_def body_headers_def split: option.split)
qed


lemma request_execute_plain:
  assumes "client_law env" and "plain_request r" and "path_text (ar_path r)"
  shows "\<exists>uri. he_uri env (path_join run_dir ''ch-api.sock'') (''/api/v1'' @ ar_path r) = Some uri
    \<and> request_execute env (machine_configuration run_dir) dec r
      = receive_response env dec (ar_no_return_type r) (he_send env
          \<lparr>hr_method = ar_method r, hr_uri = uri,
           hr_headers = agent_header # body_headers (ar_serialized_body r),
           hr_body = unwrap_or (ar_serialized_body r) []\<rparr>)"
  using build_plain_request [OF assms, of run_dir] by (auto simp: request_execute_def)

text \<open>A request was accepted when a response of the class 2xx came back.\<close>

fun accepted :: "http_answer \<Rightarrow> bool" where
  "accepted None = False"
| "accepted (Some (status, body)) = is_success status"

lemma receive_unit:
  "\<exists>r. receive_response env unit_of_json True answer = Returns r \<and> is_ok r = accepted answer"
  by (cases answer) (auto simp: receive_response_def unit_of_json_def split: option.split)

subsection \<open>What the hypervisor is asked\<close>

text \<open>The request is one to create a machine with this configuration.\<close>

definition asks_to_create :: "ch_env \<Rightarrow> string \<Rightarrow> vm_config \<Rightarrow> hv_request \<Rightarrow> bool" where
  "asks_to_create env run_dir c req =
     (hr_method req = Method_Put
      \<and> he_uri env (path_join run_dir ''ch-api.sock'') ''/api/v1/vm.create'' = Some (hr_uri req)
      \<and> map_of (hr_headers req) ''content-type'' = Some ''application/json''
      \<and> map_of (hr_headers req) ''content-length'' = Some (dec_digits (length (hr_body req)))
      \<and> Option.bind (he_parse env (hr_body req)) vm_config_of_json = Some c)"

lemma api_create_asks:
  assumes "client_law env"
    and "he_parse env (he_print env (vm_config_to_json c)) = Some (vm_config_to_json c)"
  shows "\<exists>req. asks_to_create env run_dir c req \<and> api_create env run_dir c = accepted (he_send env req)"
proof -
  let ?r = "returns_nothing (with_body_param env vm_config_to_json c (request_new Method_Put ''/vm.create''))"
  have "plain_request ?r" "path_text (ar_path ?r)"
    by (simp_all add: plain_request_def returns_nothing_def with_body_param_def request_new_def path_text_def)
  from request_execute_plain [OF assms(1) this, of run_dir unit_of_json]
  obtain uri where uri: "he_uri env (path_join run_dir ''ch-api.sock'') ''/api/v1/vm.create'' = Some uri"
    and e: "create_vm env (machine_configuration run_dir) c
      = receive_response env unit_of_json True (he_send env
          \<lparr>hr_method = Method_Put, hr_uri = uri,
           hr_headers = agent_header # body_headers (Some (he_print env (vm_config_to_json c))),
           hr_body = he_print env (vm_config_to_json c)\<rparr>)"
    by (auto simp: create_vm_def returns_nothing_def with_body_param_def request_new_def)
  define req where "req = \<lparr>hr_method = Method_Put, hr_uri = uri,
    hr_headers = agent_header # body_headers (Some (he_print env (vm_config_to_json c))),
    hr_body = he_print env (vm_config_to_json c)\<rparr>"
  have "asks_to_create env run_dir c req"
    using uri assms(2) vm_config.dec_enc [of c]
    by (simp add: asks_to_create_def req_def agent_header_def body_headers_def)
  moreover have "api_create env run_dir c = accepted (he_send env req)"
    using receive_unit [of env "he_send env req"] by (auto simp: api_create_def e req_def)
  ultimately show ?thesis by blast
qed

text \<open>A machine starts exactly when the hypervisor accepts one request to boot.\<close>

lemma machine_starts_when_accepted:
  assumes "client_law env"
  shows "\<exists>uri. he_uri env (path_join (lv_run_dir vm) ''ch-api.sock'') ''/api/v1/vm.boot'' = Some uri
    \<and> linux_vm_start_on env vm = (if accepted (he_send env
        \<lparr>hr_method = Method_Put, hr_uri = uri, hr_headers = [agent_header], hr_body = []\<rparr>)
      then Ok () else Err Ve_Boot)"
proof -
  let ?r = "returns_nothing (request_new Method_Put ''/vm.boot'')"
  have "plain_request ?r" "path_text (ar_path ?r)"
    by (simp_all add: plain_request_def returns_nothing_def request_new_def path_text_def)
  from request_execute_plain [OF assms this, of "lv_run_dir vm" unit_of_json]
  obtain uri where uri: "he_uri env (path_join (lv_run_dir vm) ''ch-api.sock'') ''/api/v1/vm.boot'' = Some uri"
    and e: "boot_vm env (machine_configuration (lv_run_dir vm))
      = receive_response env unit_of_json True (he_send env
          \<lparr>hr_method = Method_Put, hr_uri = uri, hr_headers = [agent_header], hr_body = []\<rparr>)"
    by (auto simp: boot_vm_def returns_nothing_def request_new_def body_headers_def)
  show ?thesis
    using uri receive_unit [of env "he_send env
        \<lparr>hr_method = Method_Put, hr_uri = uri, hr_headers = [agent_header], hr_body = []\<rparr>"]
    by (auto simp: linux_vm_start_on_def linux_vm_start_def api_boot_def e)
qed

lemma linux_vm_new_asks:
  "linux_vm_new vo job_id v i paths run_dir h = (Some (Ok m), h') \<Longrightarrow>
   \<exists>ip cid. lv_ip_guard m = Some ip \<and> lv_cid_guard m = Some cid
     \<and> vo_create_vm vo (ch_config_of v paths run_dir ip cid)"
  "linux_vm_new vo job_id v i paths run_dir h = (Some (Err Ve_Create), h') \<Longrightarrow>
   \<exists>ip cid. \<not> vo_create_vm vo (ch_config_of v paths run_dir ip cid)"
  by (auto simp: linux_vm_new_def vm_new_addresses_def Let_def split: if_splits prod.splits sum.splits option.splits)

subsection \<open>A concrete client for the example\<close>

instance json :: countable
  by countable_datatype

definition demo_client :: ch_env where
  "demo_client =
     \<lparr>he_uri = (\<lambda>socket path. Some (socket @ path)), he_name_ok = (\<lambda>_. True), he_value_ok = (\<lambda>_. True),
      he_form = (\<lambda>kvs. if kvs = [] then [] else ''q''), he_base64 = (\<lambda>s. s),
      he_print = (\<lambda>j. replicate (to_nat j) (CHR ''a'')), he_parse = (\<lambda>s. Some (from_nat (length s))),
      he_send = (\<lambda>req. Some (204, Some []))\<rparr>"

lemma demo_client_ok:
  "client_law demo_client"
  "\<forall>c. he_parse demo_client (he_print demo_client (vm_config_to_json c)) = Some (vm_config_to_json c)"
  by (simp_all add: client_law_def demo_client_def)

lemma demo_client_creates:
  "linux_vm_new_on demo_client demo_outcomes 1 demo_vm ''a'' demo_paths ''/t'' demo_host
   = linux_vm_new demo_outcomes 1 demo_vm ''a'' demo_paths ''/t'' demo_host"
proof -
  have "accepted (he_send demo_client req)" for req by (simp add: demo_client_def is_success_def)
  then have "api_create demo_client ''/t'' = (\<lambda>c. True)"
    using api_create_asks [OF demo_client_ok(1)] demo_client_ok(2) by (metis (full_types))
  then show ?thesis by (simp add: linux_vm_new_on_def demo_outcomes_def)
qed

section \<open>Properties\<close>

text \<open>
  C19. A Linux machine is created exactly as configured, and only with the hypervisor's consent: when
  its creation succeeds, the hypervisor was sent, on the machine's socket, one request to create a
  machine whose body reads back as the configuration with the address and the context identifier
  the machine holds, and whose length is announced, and it answered with success; when the creation
  fails at that step, such a request was not answered with success. The client's libraries obey
  their contract and JSON text reads back as what was printed.
\<close>

theorem machine_is_created_as_configured:
  assumes "client_law env"
    and "\<forall>c. he_parse env (he_print env (vm_config_to_json c)) = Some (vm_config_to_json c)"
    and "linux_vm_new_on env vo job_id v i paths run_dir h = (Some r, h')"
  shows "case r of
      Inr m \<Rightarrow> \<exists>ip cid req. lv_ip_guard m = Some ip \<and> lv_cid_guard m = Some cid
        \<and> asks_to_create env run_dir (ch_config_of v paths run_dir ip cid) req
        \<and> accepted (he_send env req)
    | Inl e \<Rightarrow> e = Ve_Create \<longrightarrow> (\<exists>ip cid req.
        asks_to_create env run_dir (ch_config_of v paths run_dir ip cid) req
        \<and> \<not> accepted (he_send env req))"
proof -
  have asks: "\<exists>req. asks_to_create env run_dir c req \<and> api_create env run_dir c = accepted (he_send env req)" for c
    using assms(1,2) by (intro api_create_asks) simp_all
  show ?thesis
  proof (cases r)
    case (Inl e)
    show ?thesis
    proof (cases "e = Ve_Create")
      case True
      then show ?thesis
        using linux_vm_new_asks(2) [OF assms(3) [unfolded linux_vm_new_on_def Inl True]] asks Inl
        by simp metis
    qed (simp add: Inl)
  next
    case (Inr m)
    then show ?thesis
      using linux_vm_new_asks(1) [OF assms(3) [unfolded linux_vm_new_on_def Inr]] asks by simp metis
  qed
qed

theorem machine_is_created_as_configured_witness:
  "\<exists>m h' ip cid req.
     linux_vm_new_on demo_client demo_outcomes 1 demo_vm ''a'' demo_paths ''/t'' demo_host = (Some (Ok m), h')
     \<and> lv_ip_guard m = Some ip \<and> lv_cid_guard m = Some cid
     \<and> asks_to_create demo_client ''/t'' (ch_config_of demo_vm demo_paths ''/t'' ip cid) req"
proof -
  obtain m h' where new:
    "linux_vm_new_on demo_client demo_outcomes 1 demo_vm ''a'' demo_paths ''/t'' demo_host = (Some (Ok m), h')"
    using demo_new(2) unfolding demo_client_creates by blast
  then show ?thesis
    using machine_is_created_as_configured [OF demo_client_ok new] by auto
qed

end
