(* ===== verification/Vm_Macos.thy ===== *)
theory Vm_Macos
  imports Vm_Manager Vsock
begin

section \<open>The macOS virtual machine: runner/src/vm_impl/macos.rs\<close>

text \<open>
  The same operations as \<open>Vm_Linux\<close> over Apple's Virtualization framework: creation with every early
  return and every panic, the configuration it hands to the framework, the listener that accepts
  guest connections, the configuration server behind it, and the wait loop over the machine's
  state. What the framework, the file system and the JSON parser answer is an argument. The host is
  the one of \<open>Vm_Linux\<close>; there are no child processes and no root filesystem on macOS.
\<close>

subsection \<open>The image\<close>

record display_config =
  dc_width :: u32
  dc_height :: u32

record vm_image_config =
  ic_version :: u32
  ic_arch :: string
  ic_os :: string
  ic_cpu_count :: u32
  ic_cpu_count_min :: u32
  ic_memory_size :: u64
  ic_memory_size_min :: u64
  ic_ecid :: string
  ic_hardware_model :: string
  ic_mac_address :: string
  ic_display :: display_config

datatype mac_error =
    Mac_Tempdir
  | Mac_Resources string rejection_reason
  | Mac_Read_Config string
  | Mac_Parse_Config string

datatype mac_panic =
    Mp_Resources_Dir
  | Mp_Hardware_Model_Text
  | Mp_Hardware_Model
  | Mp_Machine_Identifier_Text
  | Mp_Machine_Identifier
  | Mp_Disk string
  | Mp_Invalid_Configuration

definition vm_image_from_file ::
    "(string \<Rightarrow> string option) \<Rightarrow> (string \<Rightarrow> vm_image_config option) \<Rightarrow> string
     \<Rightarrow> mac_error + vm_image_config" where
  "vm_image_from_file read_to_string from_str p =
     (case read_to_string p of
        None \<Rightarrow> Err (Mac_Read_Config p)
      | Some content \<Rightarrow>
          (case from_str content of None \<Rightarrow> Err (Mac_Parse_Config p) | Some c \<Rightarrow> Ok c))"

subsection \<open>The configuration handed to the framework\<close>

record vz_config =
  vz_auxiliary_storage :: string
  vz_hardware_model :: string
  vz_machine_identifier :: string
  vz_cpu_count :: usize
  vz_memory_size :: u64
  vz_displays :: "(nat \<times> nat \<times> nat) list"
  vz_keyboards :: nat
  vz_trackpads :: nat
  vz_disk :: string
  vz_disk_read_only :: bool
  vz_nat_attachments :: nat
  vz_mac_address :: string
  vz_memory_balloons :: nat
  vz_entropy_devices :: nat
  vz_socket_devices :: nat

text \<open>
  The answers of the framework: \<open>mf_base64\<close> decodes a text to data, the next two tell whether data is
  a hardware model or a machine identifier, \<open>mf_disk\<close> whether the image at a path can be attached,
  \<open>mf_validate\<close> whether a configuration is valid, \<open>mf_mac\<close> is the random address it draws.
\<close>

record mac_framework =
  mf_tempdir :: bool
  mf_resources_dir :: "string option"
  mf_read :: "string \<Rightarrow> string option"
  mf_from_str :: "string \<Rightarrow> vm_image_config option"
  mf_base64 :: "string \<Rightarrow> string option"
  mf_hardware_model :: "string \<Rightarrow> bool"
  mf_machine_identifier :: "string \<Rightarrow> bool"
  mf_disk :: "string \<Rightarrow> bool"
  mf_validate :: "vz_config \<Rightarrow> bool"
  mf_mac :: string

definition vz_config_of :: "vm \<Rightarrow> string \<Rightarrow> string \<Rightarrow> string \<Rightarrow> string \<Rightarrow> vz_config" where
  "vz_config_of v resources_dir hardware_model machine_identifier mac =
     \<lparr>vz_auxiliary_storage = path_join resources_dir ''nvram.bin'',
      vz_hardware_model = hardware_model,
      vz_machine_identifier = machine_identifier,
      vz_cpu_count = vm_cpu_count v,
      vz_memory_size = vm_memory_size_mb v * 1024 * 1024,
      vz_displays = [(1920, 1080, 80)],
      vz_keyboards = 1,
      vz_trackpads = 1,
      vz_disk = path_join resources_dir ''disk.img'',
      vz_disk_read_only = False,
      vz_nat_attachments = 1,
      vz_mac_address = mac,
      vz_memory_balloons = 1,
      vz_entropy_devices = 1,
      vz_socket_devices = 1\<rparr>"

text \<open>From the image's configuration to a validated one; every failure here is a panic.\<close>

definition vz_configure ::
    "mac_framework \<Rightarrow> vm \<Rightarrow> string \<Rightarrow> vm_image_config \<Rightarrow> mac_panic + vz_config" where
  "vz_configure fw v resources_dir img =
     (case mf_base64 fw (ic_hardware_model img) of
        None \<Rightarrow> Err Mp_Hardware_Model_Text
      | Some model \<Rightarrow>
          if \<not> mf_hardware_model fw model then Err Mp_Hardware_Model
          else
            (case mf_base64 fw (ic_ecid img) of
               None \<Rightarrow> Err Mp_Machine_Identifier_Text
             | Some ident \<Rightarrow>
                 if \<not> mf_machine_identifier fw ident then Err Mp_Machine_Identifier
                 else if \<not> mf_disk fw (path_join resources_dir ''disk.img'')
                 then Err (Mp_Disk (path_join resources_dir ''disk.img''))
                 else
                   let c = vz_config_of v resources_dir model ident (mf_mac fw)
                   in if mf_validate fw c then Ok c else Err Mp_Invalid_Configuration))"

subsection \<open>Creation\<close>

record macos_vm =
  mv_config :: vm
  mv_resource_guard :: resource_guard
  mv_id :: string
  mv_vm :: vz_config
  mv_mac_address :: string
  mv_job_config :: "job_config option"
  mv_job_result :: "bool option"
  mv_delegate :: "uuid option"
  mv_server :: bool

text \<open>
  \<open>MacosVm::new\<close>: \<open>Inl\<close> is a panic, which unwinds the thread of the machine. An early return and a
  panic both drop the locals in reverse order: the resource guard, then the temporary directory.
  \<open>job_id\<close> is the fresh identifier drawn inside.
\<close>

definition macos_vm_new ::
    "mac_framework \<Rightarrow> uuid \<Rightarrow> vm \<Rightarrow> string \<Rightarrow> host \<Rightarrow> (mac_panic + (mac_error + macos_vm)) \<times> host" where
  "macos_vm_new fw job_id v i h =
     (if \<not> mf_tempdir fw then (Ok (Err Mac_Tempdir), h)
      else
        let h1 = h\<lparr>h_tmp := Suc (h_tmp h)\<rparr>
        in case allocate_resources job_id v (h_rm h1) of
             (Inl e, rm) \<Rightarrow> (Ok (Err (Mac_Resources i e)), drop_tempdir (h1\<lparr>h_rm := rm\<rparr>))
           | (Inr rg, rm) \<Rightarrow>
               let h2 = h1\<lparr>h_rm := rm\<rparr>;
                   leave = (\<lambda>r. (r, drop_tempdir (drop_resource_guard rg h2)))
               in case mf_resources_dir fw of
                    None \<Rightarrow> leave (Err Mp_Resources_Dir)
                  | Some dir \<Rightarrow>
                      (case vm_image_from_file (mf_read fw) (mf_from_str fw) (path_join dir ''config.json'') of
                         Inl e \<Rightarrow> leave (Ok (Err e))
                       | Inr img \<Rightarrow>
                           (case vz_configure fw v dir img of
                              Inl p \<Rightarrow> leave (Err p)
                            | Inr c \<Rightarrow>
                                (Ok (Ok \<lparr>mv_config = v, mv_resource_guard = rg, mv_id = i, mv_vm = c,
                                         mv_mac_address = vz_mac_address c, mv_job_config = None,
                                         mv_job_result = None, mv_delegate = None, mv_server = False\<rparr>),
                                 h2))))"

text \<open>Dropping the machine drops its fields: the guard and the temporary directory.\<close>

definition macos_vm_drop :: "macos_vm \<Rightarrow> host \<Rightarrow> host" where
  "macos_vm_drop m h = drop_tempdir (drop_resource_guard (mv_resource_guard m) h)"

subsection \<open>Guest connections\<close>

record connection_info =
  ci_stream :: stream
  ci_destination_port :: u32
  ci_source_port :: u32
  ci_job_id :: uuid

text \<open>
  \<open>should_accept_connection\<close>: the answer to the framework and what becomes of the channel. \<open>dup_ok\<close> is
  the outcome of duplicating the file descriptor. \<open>None\<close>: the delegate has no notifier.
\<close>

definition connection_channel :: "connection_info chan" where
  "connection_channel = \<lparr>ch_queue = [], ch_cap = Some 10, ch_open = True\<rparr>"

definition should_accept_connection ::
    "bool \<Rightarrow> stream \<Rightarrow> u32 \<Rightarrow> u32 \<Rightarrow> uuid \<Rightarrow> connection_info chan option
     \<Rightarrow> bool \<times> connection_info chan option" where
  "should_accept_connection dup_ok s destination source job_id notifier =
     (case notifier of
        None \<Rightarrow> (False, None)
      | Some c \<Rightarrow>
          if \<not> dup_ok then (False, notifier)
          else
            (case chan_send \<lparr>ci_stream = s, ci_destination_port = destination,
                             ci_source_port = source, ci_job_id = job_id\<rparr> c of
               (Sent, c') \<Rightarrow> (True, Some c')
             | (_, _) \<Rightarrow> (False, notifier)))"

text \<open>
  \<open>set_job_config\<close>: \<open>None\<close> is the panic without a socket device. It registers the listener and starts
  the server task.
\<close>

definition macos_set_job_config :: "job_config \<Rightarrow> macos_vm \<Rightarrow> macos_vm option" where
  "macos_set_job_config c m =
     (if vz_socket_devices (mv_vm m) = 0 then None
      else Some (m\<lparr>mv_job_config := Some c, mv_delegate := Some (jc_id c), mv_server := True\<rparr>))"

text \<open>
  What the server's \<open>select!\<close> yields: a connection with the outcomes of the two conversions, the end of
  the channel, or the notification that a job has reported its result.
\<close>

datatype connection_event = Con_Accepted bool bool | Con_Closed | Con_Notified

datatype server_state = Srv_Waiting | Srv_Finished | Srv_Aborted

fun connection_loop :: "connection_event list \<Rightarrow> nat \<Rightarrow> nat \<times> server_state" where
  "connection_loop [] n = (n, Srv_Waiting)"
| "connection_loop (Con_Accepted nonblocking from_std # es) n =
     (if nonblocking \<and> from_std then connection_loop es (Suc n) else (n, Srv_Aborted))"
| "connection_loop (Con_Closed # es) n = connection_loop es n"
| "connection_loop (Con_Notified # es) n = (n, Srv_Finished)"

text \<open>
  One connection handled to its end: the exchange of \<open>Vsock\<close> on the machine's shared result. The
  lines are the log lines forwarded.
\<close>

definition macos_connection ::
    "(vsock_host_message \<Rightarrow> u8 list option) \<Rightarrow> (u8 list \<Rightarrow> vsock_guest_message option)
     \<Rightarrow> (log_entry \<Rightarrow> string option) \<Rightarrow> job_config \<Rightarrow> stream \<Rightarrow> macos_vm \<Rightarrow> macos_vm \<times> string list" where
  "macos_connection to_vec from_slice to_string c s m =
     (case handle_guest_connection to_vec from_slice to_string c s
             \<lparr>cs_result = Some (mv_job_result m), cs_notified = False, cs_logs = []\<rparr> of
        (_, _, cs) \<Rightarrow>
          (m\<lparr>mv_job_result := unwrap_or (cs_result cs) (mv_job_result m),
             mv_server := (mv_server m \<and> \<not> cs_notified cs)\<rparr>, cs_logs cs))"

subsection \<open>Start, wait, shutdown\<close>

text \<open>
  \<open>start\<close> always returns \<open>Ok\<close>: the outcome is only seen by the completion handler, which logs it.
  \<open>shutdown\<close> asks the guest to stop when the framework allows it; its outcome is only logged.
\<close>

definition macos_start :: "bool \<Rightarrow> macos_vm \<Rightarrow> mac_error + unit" where
  "macos_start started m = Ok ()"

definition macos_shutdown :: "bool \<Rightarrow> bool \<Rightarrow> macos_vm \<Rightarrow> (mac_error + unit) \<times> bool" where
  "macos_shutdown can_request_stop request_ok m = (Ok (), can_request_stop \<and> request_ok)"

datatype vz_state =
    Vz_Stopped
  | Vz_Running
  | Vz_Paused
  | Vz_Error
  | Vz_Starting
  | Vz_Pausing
  | Vz_Resuming
  | Vz_Stopping
  | Vz_Saving
  | Vz_Restoring

text \<open>The states seen by the polls; \<open>None\<close>: still polling.\<close>

fun macos_wait :: "vz_state list \<Rightarrow> macos_vm \<Rightarrow> (mac_error + vm_exit_status) option" where
  "macos_wait [] m = None"
| "macos_wait (s # ss) m =
     (case s of
        Vz_Running \<Rightarrow> macos_wait ss m
      | Vz_Stopped \<Rightarrow> Some (Ok Exit_Success)
      | Vz_Error \<Rightarrow> Some (Ok Exit_Failure)
      | Vz_Stopping \<Rightarrow> macos_wait ss m
      | _ \<Rightarrow> macos_wait ss m)"

text \<open>
  The first part of \<open>vm_task_impl\<close> on macOS, for the task at position \<open>n\<close> of the manager. The task is a
  thread of its own: a panic ends it, its receiver of commands is dropped, and neither a completion
  is sent nor the control channel removed.
\<close>

definition panicked_task :: "nat \<Rightarrow> vm_manager \<Rightarrow> vm_manager" where
  "panicked_task n m =
     m\<lparr>vmm_tasks := (vmm_tasks m)[n := (vmm_tasks m ! n)
         \<lparr>tk_control := (tk_control (vmm_tasks m ! n))\<lparr>ch_open := False\<rparr>\<rparr>]\<rparr>"

definition macos_task_start ::
    "(mac_panic + (mac_error + macos_vm)) \<Rightarrow> job_config \<Rightarrow> nat \<Rightarrow> vm_manager \<Rightarrow> vm_manager" where
  "macos_task_start r c n m =
     (case r of
        Inl p \<Rightarrow> panicked_task n m
      | Inr (Inl e) \<Rightarrow> set_phase n (T_Reporting Exit_Failure) m
      | Inr (Inr vm) \<Rightarrow>
          (case macos_set_job_config c vm of
             None \<Rightarrow> panicked_task n m
           | Some vm' \<Rightarrow>
               (case macos_start True vm' of
                  Inl e \<Rightarrow> set_phase n (T_Reporting Exit_Failure) m
                | Inr _ \<Rightarrow> set_phase n T_Waiting m)))"


subsection \<open>Lemmas\<close>

lemma macos_vm_new_config:
  "macos_vm_new fw j v i h = (Ok (Ok m), h') \<Longrightarrow> vz_socket_devices (mv_vm m) = 1 \<and> mv_job_result m = None"
  by (auto simp: macos_vm_new_def vz_configure_def vz_config_of_def Let_def
      split: if_splits prod.splits sum.splits option.splits)

lemma macos_wait_skip:
  "\<forall>s \<in> set ss. s \<noteq> Vz_Stopped \<and> s \<noteq> Vz_Error \<Longrightarrow> macos_wait (ss @ rest) m = macos_wait rest m"
  by (induction ss) (auto split: vz_state.splits)

text \<open>What a machine that is gone gives back: a failed creation at once, a created machine when dropped.\<close>

definition macos_gone :: "mac_panic + (mac_error + macos_vm) \<Rightarrow> host \<Rightarrow> host" where
  "macos_gone r h = (case r of Inr (Inr m) \<Rightarrow> macos_vm_drop m h | _ \<Rightarrow> h)"

lemma macos_vm_new_gone:
  assumes "macos_vm_new fw j v i h = (r, h')"
  shows "macos_gone r h' = h \<or>
    (\<exists>rg rm. allocate_resources j v (h_rm h) = (Ok rg, rm)
       \<and> macos_gone r h' = h\<lparr>h_rm := rm, h_tasks := h_tasks h @ resource_guard_drop rg\<rparr>)
    \<or> (\<exists>e. allocate_resources j v (h_rm h) = (Err e, h_rm (macos_gone r h'))
       \<and> macos_gone r h' = h\<lparr>h_rm := h_rm (macos_gone r h')\<rparr>)"
  using assms
  by (auto simp: macos_vm_new_def macos_gone_def macos_vm_drop_def drop_tempdir_def
      drop_resource_guard_def Let_def split: if_splits prod.splits sum.splits option.splits)

text \<open>
  A task whose thread has panicked: no step of the rest of the manager concerns it any more.
\<close>

inductive others_step :: "nat \<Rightarrow> vm_manager \<Rightarrow> vm_manager \<Rightarrow> bool" for n where
  task: "k \<noteq> n \<Longrightarrow> task_step k m m' \<Longrightarrow> others_step n m m'"
| launch: "j \<notin> tk_job ` set (vmm_tasks m) \<Longrightarrow> others_step n m (launch_vm j m)"
| shutdown: "others_step n m (snd (shutdown_vm j m))"
| receive: "others_step n m (m\<lparr>vmm_completion := snd (chan_recv (vmm_completion m))\<rparr>)"

definition lost_task :: "nat \<Rightarrow> uuid \<Rightarrow> vm_manager \<Rightarrow> bool" where
  "lost_task n j m \<longleftrightarrow> n < length (vmm_tasks m) \<and> tk_job (vmm_tasks m ! n) = j
     \<and> \<not> ch_open (tk_control (vmm_tasks m ! n)) \<and> distinct (map tk_job (vmm_tasks m))
     \<and> hm_get (vmm_channels m) j = Some n \<and> reports_of j m = 0"

lemma lost_task_other:
  assumes "lost_task n j m" and "k \<noteq> n" and "k < length (vmm_tasks m)"
    and "tk_job t = tk_job (vmm_tasks m ! k)" and "vmm_tasks m' = (vmm_tasks m)[k := t]"
    and "hm_get (vmm_channels m') j = hm_get (vmm_channels m) j" and "reports_of j m' = reports_of j m"
  shows "lost_task n j m'"
  using assms jobs_update [OF assms(3,4)] by (simp add: lost_task_def)

lemma lost_task_job:
  "lost_task n j m \<Longrightarrow> k \<noteq> n \<Longrightarrow> k < length (vmm_tasks m) \<Longrightarrow> tk_job (vmm_tasks m ! k) \<noteq> j"
  using distinct_job by (fastforce simp: lost_task_def)

lemma lost_task_task:
  assumes "task_step k m m'" and "lost_task n j m" and "k \<noteq> n"
  shows "lost_task n j m'"
  using assms
proof (induction rule: task_step.induct)
  case (cleaned k m)
  then show ?case
    using lost_task_job [OF cleaned(3,4,1)]
    by (intro lost_task_other [OF cleaned(3,4,1)])
      (simp_all add: reports_of_def hm_get_remove lost_task_def)
next
  case (reported k m s ev c)
  then show ?case
    using lost_task_job [OF reported(5,6,1)]
    by (intro lost_task_other [OF reported(5,6,1)]) (simp_all add: reports_of_def set_phase_def)
qed (erule (1) lost_task_other, assumption, (simp_all add: set_phase_def reports_of_def)[4])+

lemma lost_task_shutdown: "lost_task n j m \<Longrightarrow> shutdown_vm j m = (Send_Failed, m)"
  by (simp add: lost_task_def shutdown_vm_def chan_send_def)

lemma lost_task_shutdown_other:
  assumes "lost_task n j m"
  shows "lost_task n j (snd (shutdown_vm i m))"
proof -
  have "lost_task n j (m\<lparr>vmm_tasks := (vmm_tasks m)[k := (vmm_tasks m ! k)
      \<lparr>tk_control := snd (chan_send Shutdown (tk_control (vmm_tasks m ! k)))\<rparr>]\<rparr>)" for k
    using assms jobs_update [of k "vmm_tasks m"]
    by (cases "k < length (vmm_tasks m)"; cases "k = n")
      (simp_all add: lost_task_def reports_of_def chan_send_def list_update_beyond)
  then have sent: "lost_task n j (m\<lparr>vmm_tasks := (vmm_tasks m)[k := (vmm_tasks m ! k)\<lparr>tk_control := c\<rparr>]\<rparr>)"
    if "chan_send Shutdown (tk_control (vmm_tasks m ! k)) = (Sent, c)" for k c
    using that by (metis snd_conv)
  then show ?thesis
    using assms by (auto simp: shutdown_vm_def split: option.splits prod.splits send_outcome.splits)
qed

lemma lost_task_step: "others_step n m m' \<Longrightarrow> lost_task n j m \<Longrightarrow> lost_task n j m'"
proof (induction rule: others_step.induct)
  case (launch i m)
  then have "i \<noteq> j" by (auto simp: lost_task_def)
  with launch show ?case
    by (auto simp: lost_task_def launch_vm_def vm_task_new_def hm_get_insert reports_of_def nth_append)
next
  case (receive m)
  then show ?case by (simp add: lost_task_def reports_of_def)
qed (simp_all add: lost_task_task lost_task_shutdown_other)

lemma lost_task_steps: "(others_step n)\<^sup>*\<^sup>* m m' \<Longrightarrow> lost_task n j m \<Longrightarrow> lost_task n j m'"
  by (induction rule: rtranclp_induct) (auto intro: lost_task_step)

lemma panicked_task_lost:
  assumes "vmm_inv m" and "n < length (vmm_tasks m)" and "tk_phase (vmm_tasks m ! n) = T_Starting"
  shows "lost_task n (tk_job (vmm_tasks m ! n)) (panicked_task n m)"
  using vmm_rowD [OF assms(1,2)] assms jobs_update [OF assms(2)]
  by (simp add: lost_task_def panicked_task_def reports_of_def vmm_inv_def)

definition demo_image :: vm_image_config where
  "demo_image = \<lparr>ic_version = 1, ic_arch = ''arm64'', ic_os = ''darwin'', ic_cpu_count = 2,
     ic_cpu_count_min = 2, ic_memory_size = 4096, ic_memory_size_min = 4096, ic_ecid = ''e'',
     ic_hardware_model = ''h'', ic_mac_address = ''m'', ic_display = \<lparr>dc_width = 1920, dc_height = 1080\<rparr>\<rparr>"

definition demo_framework :: mac_framework where
  "demo_framework = \<lparr>mf_tempdir = True, mf_resources_dir = Some ''/r'', mf_read = (\<lambda>p. Some p),
     mf_from_str = (\<lambda>s. Some demo_image), mf_base64 = (\<lambda>s. Some s), mf_hardware_model = (\<lambda>d. True),
     mf_machine_identifier = (\<lambda>d. True), mf_disk = (\<lambda>p. True), mf_validate = (\<lambda>c. True), mf_mac = ''mac''\<rparr>"

lemma demo_macos_new:
  "\<exists>h'. macos_vm_new (demo_framework\<lparr>mf_disk := (\<lambda>p. False)\<rparr>) 1 demo_vm ''a'' demo_host
     = (Err (Mp_Disk ''/r/disk.img''), h')"
  "\<exists>m h'. macos_vm_new demo_framework 1 demo_vm ''a'' demo_host = (Ok (Ok m), h')"
  by (rule demo_alloc; simp add: macos_vm_new_def demo_framework_def Let_def vm_image_from_file_def
      vz_configure_def demo_image_def path_join_def)+

section \<open>Properties\<close>

text \<open>
  A macOS machine gives back what it took: whatever step of its creation fails, by an early
  return or by a panic, and also when it was created and is dropped, its temporary directory is
  gone and the release tasks restore the resource manager, in any order.
\<close>

theorem macos_machine_gives_resources_back:
  assumes "accounting (h_rm h)" and "hm_get (alloc_jobs (rm_allocation (h_rm h))) j = None"
    and "macos_vm_new fw j v i h = (r, h')"
  shows "h_tmp (macos_gone r h') = h_tmp h
    \<and> (\<exists>ts. h_tasks (macos_gone r h') = h_tasks h @ ts \<and> gives_back (h_rm h) (h_rm (macos_gone r h')) ts)"
proof -
  have none: "gives_back rm rm []" for rm by (simp add: gives_back_def)
  have err: "rm = h_rm h" if "allocate_resources j v (h_rm h) = (Err e, rm)" for e rm
    using that by (auto simp: allocate_resources_def Let_def split: option.splits)
  have one: "gives_back (h_rm h) rm (resource_guard_drop rg)"
    if "allocate_resources j v (h_rm h) = (Ok rg, rm)" for rg rm
    using allocated_release [OF assms(1,2) that] by (intro gives_backI [of _ "[j]"]) simp_all
  from macos_vm_new_gone [OF assms(3)] show ?thesis
    using none one by (elim disjE exE conjE) (auto dest: err intro: exI [of _ "[]"])
qed

theorem macos_machine_gives_resources_back_witness:
  "\<exists>h' ts. macos_vm_new (demo_framework\<lparr>mf_disk := (\<lambda>p. False)\<rparr>) 1 demo_vm ''a'' demo_host
       = (Err (Mp_Disk ''/r/disk.img''), h') \<and> h_tasks h' = ts \<and> gives_back (h_rm demo_host) (h_rm h') ts"
proof -
  obtain h' where h': "macos_vm_new (demo_framework\<lparr>mf_disk := (\<lambda>p. False)\<rparr>) 1 demo_vm ''a'' demo_host
      = (Err (Mp_Disk ''/r/disk.img''), h')"
    using demo_macos_new(1) by blast
  from macos_machine_gives_resources_back [OF demo_host_ok h'] h' show ?thesis
    by (simp add: macos_gone_def) (simp add: demo_host_def)
qed

text \<open>
  C37. On macOS a failed job counts as successful: the guest reports the failure, the host stores it
  as the job's result, and the machine then stops; the wait loop never reads that result and
  answers success, where the Linux machine answers failure.
\<close>

theorem failed_job_succeeds_on_macos:
  assumes new: "macos_vm_new fw j v i h = (Ok (Ok m0), h')" and "macos_set_job_config c m0 = Some m"
    and codec: "codec_ok host_to_vec host_from_slice (Host_Job_Config c)"
      "\<forall>msg \<in> set (Guest_Ready (jc_id c) # ms). codec_ok to_vec from_slice msg"
    and failed: "fst (session (jc_id c) ms) = Some False"
    and guest: "\<not> st_broken s" "st_in s = frames to_vec (Guest_Ready (jc_id c) # ms)"
    and m': "(m', logs) = macos_connection host_to_vec from_slice to_string c s m"
    and states: "\<forall>s \<in> set ss. s \<noteq> Vz_Stopped \<and> s \<noteq> Vz_Error"
  shows "mv_job_result m' = Some False \<and> macos_wait (ss @ Vz_Stopped # rest) m' = Some (Ok Exit_Success)
    \<and> fst (linux_wait ((mv_job_result m', status) # polls) lm lh) = Some (Ok Exit_Failure)"
proof -
  have "mv_job_result m = None"
    using macos_vm_new_config [OF new] assms(2) by (auto simp: macos_set_job_config_def)
  then have "mv_job_result m' = Some False"
    using m' handle_guest_connection_session [OF codec guest] failed
    by (simp add: macos_connection_def)
  then show ?thesis
    using macos_wait_skip [OF states] by (simp add: linux_vm_shutdown_def)
qed

theorem failed_job_succeeds_on_macos_witness:
  "\<exists>m. mv_job_result m = Some False \<and> macos_wait [Vz_Running, Vz_Stopping, Vz_Stopped] m = Some (Ok Exit_Success)"
proof -
  obtain m0 h' where new: "macos_vm_new demo_framework 1 demo_vm ''a'' demo_host = (Ok (Ok m0), h')"
    using demo_macos_new(2) by blast
  obtain m where set: "macos_set_job_config demo_job m0 = Some m"
    using macos_vm_new_config [OF new] by (simp add: macos_set_job_config_def)
  obtain m' logs where conn: "(m', logs) = macos_connection demo_host_to_vec demo_from_slice (\<lambda>e. None) demo_job
      (empty_stream\<lparr>st_in := frames demo_to_vec [Guest_Ready 7, Guest_Complete 7 False]\<rparr>) m"
    by (metis surj_pair)
  have codec: "\<forall>msg \<in> set (Guest_Ready (jc_id demo_job) # [Guest_Complete 7 False]). codec_ok demo_to_vec demo_from_slice msg"
    using demo_codec by (simp add: demo_job_def)
  have guest: "fst (session (jc_id demo_job) [Guest_Complete 7 False]) = Some False"
    "\<not> st_broken (empty_stream\<lparr>st_in := frames demo_to_vec [Guest_Ready 7, Guest_Complete 7 False]\<rparr>)"
    "st_in (empty_stream\<lparr>st_in := frames demo_to_vec [Guest_Ready 7, Guest_Complete 7 False]\<rparr>)
       = frames demo_to_vec (Guest_Ready (jc_id demo_job) # [Guest_Complete 7 False])"
    by (simp_all add: demo_job_def empty_stream_def)
  from failed_job_succeeds_on_macos [OF new set demo_codec(1) codec guest conn, of "[Vz_Running, Vz_Stopping]" "[]"]
  have "mv_job_result m' = Some False \<and> macos_wait ([Vz_Running, Vz_Stopping] @ [Vz_Stopped]) m' = Some (Ok Exit_Success)"
    by simp
  then show ?thesis by auto
qed



end
