(* ===== verification/Runner_Main.thy ===== *)
theory Runner_Main
  imports Runner_Loop Job_Lifecycle Networking
begin

section \<open>The runner's process: connecting, signals, reconnecting\<close>

text \<open>
  What surrounds the main loop: \<open>WebSocketClient\<close> (client.rs) and \<open>main\<close> of bin/runner.rs from the
  start to the end of the process. The process is a step relation over its phases; in the phases
  that hold a runner all its other tasks go on. Retry delays are left out; the library's retry
  policy gives up only after as many retries as a \<open>usize\<close> can count, which is taken as never.
\<close>

subsection \<open>The websocket client\<close>

datatype target_arch = X86_64 | AArch64 | Other_Arch

text \<open>The platform of a build, or \<open>None\<close> when it is not supported.\<close>

fun client_platform :: "target_os \<Rightarrow> target_arch \<Rightarrow> platform option" where
  "client_platform Macos a = (if a = AArch64 then Some AArch64Darwin else None)"
| "client_platform Linux a = (if a = X86_64 then Some X86_64Linux else None)"
| "client_platform Other_Os a = None"

record http_request =
  hq_method :: string
  hq_uri :: string
  hq_headers :: "(string \<times> string) list"

definition websocket_request :: "string \<Rightarrow> string option \<Rightarrow> platform \<Rightarrow> string \<Rightarrow> http_request" where
  "websocket_request uri host p key =
     \<lparr>hq_method = ''GET'', hq_uri = uri,
      hq_headers =
        [(''Host'', unwrap_or host ''localhost''),
         (''Upgrade'', ''websocket''),
         (''Connection'', ''upgrade''),
         (''X-Runner-Platform'', platform_display p),
         (''Sec-Websocket-Key'', key),
         (''Sec-Websocket-Version'', ''13'')]\<rparr>"

datatype websocket_error =
    We_Connection
  | We_Serialization
  | We_Connection_Timeout
  | We_Send_Timeout
  | We_Unsupported_Platform

text \<open>\<open>tokio::time::timeout\<close>: the result of the operation, or \<open>None\<close> when it takes too long.\<close>

type_synonym 'a timed = "'a option"

definition CONNECT_TIMEOUT_SECS :: u64 where
  "CONNECT_TIMEOUT_SECS = 30"

text \<open>
  \<open>WebSocketClient::new\<close>; \<open>connect\<close> is what the network answers to the request within the timeout.
  The result is the request that opened the connection.
\<close>

definition websocket_client_new ::
    "target_os \<Rightarrow> target_arch \<Rightarrow> string \<Rightarrow> string option \<Rightarrow> string \<Rightarrow> u64 option
     \<Rightarrow> (u64 \<Rightarrow> http_request \<Rightarrow> bool timed) \<Rightarrow> websocket_error + http_request" where
  "websocket_client_new os arch uri host key timeout_secs connect =
     (case client_platform os arch of
        None \<Rightarrow> Err We_Unsupported_Platform
      | Some p \<Rightarrow>
          let request = websocket_request uri host p key
          in (case connect (unwrap_or timeout_secs CONNECT_TIMEOUT_SECS) request of
                None \<Rightarrow> Err We_Connection_Timeout
              | Some False \<Rightarrow> Err We_Connection
              | Some True \<Rightarrow> Ok request))"

text \<open>The typed reader: what a frame of the websocket becomes.\<close>

datatype ws_frame = Fr_Text string | Fr_Binary "u8 list" | Fr_Ping | Fr_Pong | Fr_Close

definition typed_read ::
    "(string \<Rightarrow> server_message option) \<Rightarrow> (u8 list \<Rightarrow> server_message option)
     \<Rightarrow> ws_frame option \<Rightarrow> websocket_error + server_message" where
  "typed_read from_str from_slice received =
     (let parsed = (\<lambda>m. case m of None \<Rightarrow> Err We_Serialization | Some x \<Rightarrow> Ok x)
      in case received of
           None \<Rightarrow> Err We_Connection
         | Some (Fr_Text t) \<Rightarrow> parsed (from_str t)
         | Some (Fr_Binary bs) \<Rightarrow> parsed (from_slice bs)
         | Some _ \<Rightarrow> parsed (from_str ''{}''))"

text \<open>\<open>close\<close>: a close frame and a flush within five seconds; taking longer is not an error.\<close>

definition websocket_close :: "(bool \<times> bool) timed \<Rightarrow> websocket_error + unit" where
  "websocket_close outcome =
     (case outcome of
        None \<Rightarrow> Ok ()
      | Some (sent, flushed) \<Rightarrow> if sent \<and> flushed then Ok () else Err We_Connection)"

subsection \<open>The process\<close>

text \<open>The tasks beside the main loop.\<close>

inductive other_task_step :: "runner \<Rightarrow> runner \<Rightarrow> bool" where
  completion: "other_task_step r (completion_turn r)"
| resume: "other_task_step r (r\<lparr>rn_jm := jm_resume (rn_jm r)\<rparr>)"
| machine: "task_step n (rn_vmm r) m \<Longrightarrow> other_task_step r (r\<lparr>rn_vmm := m\<rparr>)"
| resources: "other_task_step r (r\<lparr>rn_rm := rm\<rparr>)"

text \<open>
  The phases of \<open>main\<close>: the first connection, the main loop, a reconnection inside it (with the number
  of failed attempts), the end with its exit code's success. \<open>mn_signalled\<close>: the task of
  \<open>handle_shutdown_signals\<close> has sent its one message.
\<close>

datatype main_phase =
    Ph_Connecting
  | Ph_Serving runner
  | Ph_Reconnecting runner nat
  | Ph_Ended bool

record main_state =
  mn_phase :: main_phase
  mn_signalled :: bool

definition main_start :: main_state where
  "main_start = \<lparr>mn_phase = Ph_Connecting, mn_signalled = False\<rparr>"

text \<open>Where the main loop waits for its next event with the websocket among them.\<close>

definition reads_websocket :: "runner \<Rightarrow> bool" where
  "reads_websocket r \<longleftrightarrow> rn_loop r = Looping \<and> rn_starting r = None \<and> \<not> rn_shutting_down r"

fun ordinary_event :: "loop_event \<Rightarrow> bool" where
  "ordinary_event Le_Shutdown_Signal = False"
| "ordinary_event (Le_Ws_Closed b) = False"
| "ordinary_event ev = True"

text \<open>
  \<open>up\<close> tells whether the backend can be reached: only then does an attempt to connect succeed.
\<close>

inductive main_step ::
    "platform \<Rightarrow> resource_manager \<Rightarrow> (nat \<Rightarrow> bool) \<Rightarrow> bool \<Rightarrow> main_state \<Rightarrow> main_state \<Rightarrow> bool"
  for p rm sends up where
  signal: "main_step p rm sends up s (s\<lparr>mn_signalled := True\<rparr>)"
| exits_before_connecting: "mn_phase s = Ph_Connecting \<Longrightarrow> mn_signalled s
    \<Longrightarrow> main_step p rm sends up s (s\<lparr>mn_phase := Ph_Ended True\<rparr>)"
| connected: "up \<Longrightarrow> mn_phase s = Ph_Connecting \<Longrightarrow> runner_start p rm sends = Ok r
    \<Longrightarrow> main_step p rm sends up s (s\<lparr>mn_phase := Ph_Serving r\<rparr>)"
| first_request_failed: "up \<Longrightarrow> mn_phase s = Ph_Connecting \<Longrightarrow> runner_start p rm sends = Err e
    \<Longrightarrow> main_step p rm sends up s (s\<lparr>mn_phase := Ph_Ended False\<rparr>)"
| turn: "mn_phase s = Ph_Serving r \<Longrightarrow> ordinary_event ev \<Longrightarrow> fresh_claim ev r
    \<Longrightarrow> main_step p rm sends up s (s\<lparr>mn_phase := Ph_Serving (loop_turn ev r)\<rparr>)"
| sees_signal: "mn_phase s = Ph_Serving r \<Longrightarrow> mn_signalled s
    \<Longrightarrow> main_step p rm sends up s (s\<lparr>mn_phase := Ph_Serving (loop_turn Le_Shutdown_Signal r)\<rparr>)"
| connection_lost: "mn_phase s = Ph_Serving r \<Longrightarrow> reads_websocket r
    \<Longrightarrow> main_step p rm sends up s (s\<lparr>mn_phase := Ph_Reconnecting r 0\<rparr>)"
| retry: "mn_phase s = Ph_Reconnecting r n
    \<Longrightarrow> main_step p rm sends up s (s\<lparr>mn_phase := Ph_Reconnecting r (Suc n)\<rparr>)"
| reconnected: "up \<Longrightarrow> mn_phase s = Ph_Reconnecting r n
    \<Longrightarrow> main_step p rm sends up s (s\<lparr>mn_phase := Ph_Serving (loop_turn (Le_Ws_Closed True) r)\<rparr>)"
| others_serving: "mn_phase s = Ph_Serving r \<Longrightarrow> other_task_step r r'
    \<Longrightarrow> main_step p rm sends up s (s\<lparr>mn_phase := Ph_Serving r'\<rparr>)"
| others_reconnecting: "mn_phase s = Ph_Reconnecting r n \<Longrightarrow> other_task_step r r'
    \<Longrightarrow> main_step p rm sends up s (s\<lparr>mn_phase := Ph_Reconnecting r' n\<rparr>)"
| loop_ended: "mn_phase s = Ph_Serving r \<Longrightarrow> rn_loop r = Exited_Normally \<or> rn_loop r = Panicked
    \<Longrightarrow> main_step p rm sends up s (s\<lparr>mn_phase := Ph_Ended (rn_loop r = Exited_Normally)\<rparr>)"

inductive_cases main_stepE: "main_step p rm sends up s s'"

subsection \<open>Lemmas\<close>

lemma other_task_runner: "other_task_step r r' \<Longrightarrow> runner_step r r'"
  by (induction rule: other_task_step.induct) (auto intro: runner_step.intros)

text \<open>The runner of a phase, and that it is always one the main loop can reach.\<close>

fun phase_runner :: "main_phase \<Rightarrow> runner option" where
  "phase_runner (Ph_Serving r) = Some r"
| "phase_runner (Ph_Reconnecting r n) = Some r"
| "phase_runner _ = None"

definition main_inv :: "main_state \<Rightarrow> bool" where
  "main_inv s \<longleftrightarrow> (\<forall>r. phase_runner (mn_phase s) = Some r
     \<longrightarrow> (\<exists>r0. runner_init r0 \<and> runner_step\<^sup>*\<^sup>* r0 r))"

lemma main_inv_step: "main_step p rm sends up s s' \<Longrightarrow> main_inv s \<Longrightarrow> main_inv s'"
proof (induction rule: main_step.induct)
  case (connected s r)
  then show ?case by (auto simp: main_inv_def runner_init_def)
next
  case (turn s r ev)
  then show ?case by (auto simp: main_inv_def intro: rtranclp.rtrancl_into_rtrancl runner_step.turn)
next
  case (sees_signal s r)
  have "runner_step r (loop_turn Le_Shutdown_Signal r)" by (rule runner_step.turn) simp
  with sees_signal show ?case by (auto simp: main_inv_def intro: rtranclp.rtrancl_into_rtrancl)
next
  case (reconnected s r n)
  have "runner_step r (loop_turn (Le_Ws_Closed True) r)" by (rule runner_step.turn) simp
  with reconnected show ?case by (auto simp: main_inv_def intro: rtranclp.rtrancl_into_rtrancl)
qed (auto simp: main_inv_def intro: rtranclp.rtrancl_into_rtrancl dest: other_task_runner)

definition main_init :: "main_state \<Rightarrow> bool" where
  "main_init s \<longleftrightarrow> s = main_start"

interpretation runner_process: transition_system main_init "main_step p rm sends up" main_inv
  by unfold_locales (auto simp: main_init_def main_start_def main_inv_def [of "\<lparr>mn_phase = _, mn_signalled = _\<rparr>"]
      intro: main_inv_step)

lemma offline_step:
  assumes "main_step p rm sends False s s'" and "mn_phase s = Ph_Reconnecting r n"
  shows "\<exists>r' n'. mn_phase s' = Ph_Reconnecting r' n' \<and> n \<le> n'"
  using assms by (cases rule: main_step.cases) auto

lemma registered_platform:
  assumes "ws_handler (Some (platform_display p)) w = (Ok (Inr i), w')"
  shows "\<exists>row \<in> set (db_runners (bk_db w')). rr_id row = i \<and> rr_platform row = job_platform_of p"
proof -
  have "job_platform_parse (platform_display p) = Some (job_platform_of p)"
    by (simp add: job_platform_parse_Some job_platform_text)
  then have "parsed_platform (platform_display p) = job_platform_of p"
    by (simp add: parsed_platform_def)
  then show ?thesis
    using assms
    by (auto simp: ws_handler_def runner_row_new_def insert_runner_def insert_row_def statement_def next_tick_def
        inspect_def and_then_def ret_def unwrapped_def map_err_def now_v7_def utc_now_def ask_def
        pool_get_unwrapped_def split: prod.splits sum.splits if_splits option.splits)
qed

section \<open>Properties\<close>

text \<open>
  C21. A runner registers with its own platform: when the client of a supported build connects, the
  header it sends is read back by the backend as the platform of the build, so the runner's row
  has that platform and never the default for an unknown one.
\<close>

theorem runner_registers_its_platform:
  assumes "websocket_client_new os arch uri host key timeout_secs connect = Ok request"
    and "ws_handler (map_of (hq_headers request) ''X-Runner-Platform'') w = (Ok (Inr i), w')"
  shows "\<exists>p row. client_platform os arch = Some p \<and> row \<in> set (db_runners (bk_db w'))
    \<and> rr_id row = i \<and> rr_platform row = job_platform_of p"
proof -
  obtain p where p: "client_platform os arch = Some p" "request = websocket_request uri host p key"
    using assms(1) by (auto simp: websocket_client_new_def Let_def split: option.splits bool.splits)
  then have "ws_handler (Some (platform_display p)) w = (Ok (Inr i), w')"
    using assms(2) by (simp add: websocket_request_def)
  from registered_platform [OF this] p(1) show ?thesis by blast
qed

theorem runner_registers_its_platform_witness:
  "\<exists>i w' row. ws_handler (Some ''aarch64-darwin'') demo_backend = (Ok (Inr i), w')
     \<and> row \<in> set (db_runners (bk_db w')) \<and> rr_id row = i \<and> rr_platform row = Job_AArch64Darwin"
proof -
  have p: "job_platform_parse ''aarch64-darwin'' = Some Job_AArch64Darwin" by code_simp
  obtain i w' where w': "ws_handler (Some ''aarch64-darwin'') demo_backend = (Ok (Inr i), w')"
    by (simp add: ws_handler_def parsed_platform_def p runner_row_new_def insert_runner_def insert_row_def
        has_key_def be_eval demo_eval)
  have "websocket_client_new Macos AArch64 ''u'' None ''k'' None (\<lambda>t rq. Some True)
      = Ok (websocket_request ''u'' None AArch64Darwin ''k'')"
    by (simp add: websocket_client_new_def)
  from runner_registers_its_platform [OF this, of demo_backend i w'] w' show ?thesis
    by (auto simp: websocket_request_def)
qed

text \<open>
  A runner that has lost its backend does not react to signals: as long as the backend stays
  away, whatever signals arrive and whatever its other tasks do, the process keeps reconnecting and
  never ends, though before its first connection a signal ends it at once.
\<close>

theorem reconnecting_runner_ignores_signals:
  assumes "(main_step p rm sends False)\<^sup>*\<^sup>* s s'" and "mn_phase s = Ph_Reconnecting r n"
  shows "(\<exists>r' n'. mn_phase s' = Ph_Reconnecting r' n' \<and> n \<le> n')
    \<and> (\<exists>s1. (main_step p rm sends False)\<^sup>*\<^sup>* main_start s1 \<and> mn_phase s1 = Ph_Ended True)"
proof
  show "\<exists>r' n'. mn_phase s' = Ph_Reconnecting r' n' \<and> n \<le> n'"
    using assms
  proof (induction rule: rtranclp_induct)
    case (step s1 s2)
    then obtain r1 n1 where "mn_phase s1 = Ph_Reconnecting r1 n1" "n \<le> n1" by auto
    with offline_step [OF step(2) this(1)] show ?case by force
  qed auto
  let ?s = "main_start\<lparr>mn_signalled := True\<rparr>"
  have "main_step p rm sends False main_start ?s" by (rule main_step.signal)
  moreover have "main_step p rm sends False ?s (?s\<lparr>mn_phase := Ph_Ended True\<rparr>)"
    by (rule main_step.exits_before_connecting) (simp_all add: main_start_def)
  ultimately show "\<exists>s1. (main_step p rm sends False)\<^sup>*\<^sup>* main_start s1 \<and> mn_phase s1 = Ph_Ended True"
    by (intro exI [of _ "?s\<lparr>mn_phase := Ph_Ended True\<rparr>"]) auto
qed

theorem reconnecting_runner_ignores_signals_witness:
  "(main_step X86_64Linux (resource_manager_new demo_limits) (\<lambda>_. True) False)\<^sup>*\<^sup>*
     \<lparr>mn_phase = Ph_Reconnecting demo_runner 0, mn_signalled = False\<rparr>
     \<lparr>mn_phase = Ph_Reconnecting demo_runner 1, mn_signalled = True\<rparr>
   \<and> (\<exists>r' n'. Ph_Reconnecting demo_runner 1 = Ph_Reconnecting r' n' \<and> 0 \<le> n')"
proof -
  let ?step = "main_step X86_64Linux (resource_manager_new demo_limits) (\<lambda>_. True) False"
  let ?s = "\<lparr>mn_phase = Ph_Reconnecting demo_runner 0, mn_signalled = False\<rparr>"
  have "?step\<^sup>*\<^sup>* ?s (?s\<lparr>mn_signalled := True\<rparr>)" by (rule r_into_rtranclp) (rule main_step.signal)
  also have "?step (?s\<lparr>mn_signalled := True\<rparr>) (?s\<lparr>mn_signalled := True, mn_phase := Ph_Reconnecting demo_runner (Suc 0)\<rparr>)"
    using main_step.retry [of "?s\<lparr>mn_signalled := True\<rparr>" demo_runner 0] by simp
  finally show ?thesis
    using reconnecting_runner_ignores_signals [of X86_64Linux "resource_manager_new demo_limits" "\<lambda>_. True" ?s _ demo_runner 0]
    by auto
qed

end
