(* ===== verification/Launcher.thy ===== *)
theory Launcher
  imports Vm_Manager Networking
begin

section \<open>The launcher: runner/src/bin/launcher.rs\<close>

text \<open>
  The program that starts one machine with a sample job and exits with its outcome: the start with
  every failure, and the wait for a completion or a signal as a step relation over the machine
  manager, for Linux and for macOS. Which errors the host networking meets is the business of \<open>Networking\<close>.
\<close>

subsection \<open>Start\<close>

datatype launcher_failure =
    Lf_Networking string
  | Lf_Unsupported_Platform
  | Lf_No_Resources_Dir
  | Lf_No_State_Dir

fun launcher_platform :: "target_os \<Rightarrow> platform option" where
  "launcher_platform Macos = Some AArch64Darwin"
| "launcher_platform Linux = Some X86_64Linux"
| "launcher_platform Other_Os = None"

definition launcher_vm :: "platform \<Rightarrow> vm" where
  "launcher_vm p = \<lparr>vm_cpu_count = 2, vm_memory_size_mb = 8192, vm_platform = p\<rparr>"

definition launcher_job_config :: "uuid \<Rightarrow> job_config" where
  "launcher_job_config i =
     \<lparr>jc_id = i, jc_project_url = ''https://github.com/cachix/devenv'', jc_git_ref = Some ''main'',
      jc_tasks = [''build''], jc_cachix_push = False, jc_clone_depth = Some 1\<rparr>"

definition launcher_completions :: "completion_event chan" where
  "launcher_completions = \<lparr>ch_queue = [], ch_cap = Some 10, ch_open = True\<rparr>"

datatype launcher_phase = L_Waiting | L_Stopping | L_Exited int

record launcher =
  lc_vmm :: vm_manager
  lc_flag :: bool
  lc_phase :: launcher_phase

text \<open>
  \<open>main\<close> up to the wait: \<open>networking\<close> is the result of \<open>setup_host_networking\<close>, run on Linux only, \<open>env\<close> the
  environment, \<open>i\<close> the fresh identifier of the job.
\<close>

definition launcher_start ::
    "target_os \<Rightarrow> (string + unit) \<Rightarrow> (string \<Rightarrow> string option) \<Rightarrow> uuid
     \<Rightarrow> launcher_failure + (vm \<times> vm_paths \<times> job_config \<times> launcher)" where
  "launcher_start os networking env i =
     (case (if os = Linux then networking else Ok ()) of
        Inl e \<Rightarrow> Err (Lf_Networking e)
      | Inr _ \<Rightarrow>
          (case launcher_platform os of
             None \<Rightarrow> Err Lf_Unsupported_Platform
           | Some p \<Rightarrow>
               (case env ''RESOURCES_DIR'' of
                  None \<Rightarrow> Err Lf_No_Resources_Dir
                | Some r \<Rightarrow>
                    (case env ''DEVENV_STATE'' of
                       None \<Rightarrow> Err Lf_No_State_Dir
                     | Some d \<Rightarrow>
                         Ok (launcher_vm p, \<lparr>vp_resources_dir = r, vp_state_dir = d\<rparr>, launcher_job_config i,
                             \<lparr>lc_vmm = launch_vm i (vm_manager_new launcher_completions),
                              lc_flag = False, lc_phase = L_Waiting\<rparr>)))))"

subsection \<open>The wait\<close>

fun launcher_exit_code :: "vm_exit_status \<Rightarrow> int" where
  "launcher_exit_code Exit_Success = 0"
| "launcher_exit_code Exit_Failure = 1"

text \<open>Taking a completion event, in either phase, ends the process with its code.\<close>

definition take_completion :: "launcher \<Rightarrow> launcher option" where
  "take_completion l =
     (case chan_recv (vmm_completion (lc_vmm l)) of
        (None, _) \<Rightarrow> None
      | (Some ev, c) \<Rightarrow>
          Some (l\<lparr>lc_vmm := (lc_vmm l)\<lparr>vmm_completion := c\<rparr>,
                  lc_phase := L_Exited (launcher_exit_code (ce_status ev))\<rparr>))"

inductive launcher_step :: "uuid \<Rightarrow> launcher \<Rightarrow> launcher \<Rightarrow> bool" for i where
  machine: "task_step n (lc_vmm l) m \<Longrightarrow> launcher_step i l (l\<lparr>lc_vmm := m\<rparr>)"
| signal: "launcher_step i l (l\<lparr>lc_flag := True\<rparr>)"
| completed: "lc_phase l = L_Waiting \<Longrightarrow> take_completion l = Some l' \<Longrightarrow> launcher_step i l l'"
| requested: "lc_phase l = L_Waiting \<Longrightarrow> lc_flag l
    \<Longrightarrow> launcher_step i l (l\<lparr>lc_vmm := snd (shutdown_vm i (lc_vmm l)), lc_phase := L_Stopping\<rparr>)"
| stopped: "lc_phase l = L_Stopping \<Longrightarrow> take_completion l = Some l' \<Longrightarrow> launcher_step i l l'"

text \<open>
  The macOS build: the monitoring task waits for a request or a completion, and a request ends the
  process with code zero as soon as the machine was told to stop. Nothing runs after the exit.
\<close>

inductive macos_launcher_step :: "uuid \<Rightarrow> launcher \<Rightarrow> launcher \<Rightarrow> bool" for i where
  mac_machine: "lc_phase l = L_Waiting \<Longrightarrow> task_step n (lc_vmm l) m
    \<Longrightarrow> macos_launcher_step i l (l\<lparr>lc_vmm := m\<rparr>)"
| mac_signal: "lc_phase l = L_Waiting \<Longrightarrow> macos_launcher_step i l (l\<lparr>lc_flag := True\<rparr>)"
| mac_completed: "lc_phase l = L_Waiting \<Longrightarrow> take_completion l = Some l' \<Longrightarrow> macos_launcher_step i l l'"
| mac_requested: "lc_phase l = L_Waiting \<Longrightarrow> lc_flag l
    \<Longrightarrow> macos_launcher_step i l (l\<lparr>lc_vmm := snd (shutdown_vm i (lc_vmm l)), lc_phase := L_Exited 0\<rparr>)"

subsection \<open>Invariant\<close>

fun phase_ok :: "launcher_phase \<Rightarrow> vm_manager \<Rightarrow> bool" where
  "phase_ok (L_Exited c) m \<longleftrightarrow> (\<exists>ev \<in> set (vmm_reported m). c = launcher_exit_code (ce_status ev))"
| "phase_ok _ m \<longleftrightarrow> ch_queue (vmm_completion m) = vmm_reported m"

definition launcher_inv :: "uuid \<Rightarrow> launcher \<Rightarrow> bool" where
  "launcher_inv i l \<longleftrightarrow> vmm_inv (lc_vmm l) \<and> map tk_job (vmm_tasks (lc_vmm l)) = [i]
     \<and> ch_cap (vmm_completion (lc_vmm l)) = Some 10
     \<and> (\<forall>ev \<in> set (vmm_reported (lc_vmm l)). ce_job_id ev = i) \<and> phase_ok (lc_phase l) (lc_vmm l)"

definition launcher_init :: "uuid \<Rightarrow> launcher \<Rightarrow> bool" where
  "launcher_init i l \<longleftrightarrow> (\<exists>os networking env v ps c. launcher_start os networking env i = Ok (v, ps, c, l))"

lemma launcher_init_state:
  "launcher_init i l \<Longrightarrow> l = \<lparr>lc_vmm = launch_vm i (vm_manager_new launcher_completions),
     lc_flag = False, lc_phase = L_Waiting\<rparr>"
  by (auto simp: launcher_init_def launcher_start_def split: sum.splits option.splits if_splits)
    (metis sumE old.unit.exhaust)+

lemma launcher_inv_init: "launcher_init i l \<Longrightarrow> launcher_inv i l"
proof -
  assume "launcher_init i l"
  note l = launcher_init_state [OF this]
  have "vmm_inv (launch_vm i (vm_manager_new launcher_completions))"
    by (intro vmm_inv_launch vmm_inv_new)
      (simp_all add: launcher_completions_def chan_wf_def vm_manager_new_def)
  then show ?thesis
    by (simp add: l launcher_inv_def launch_vm_def vm_manager_new_def vm_task_new_def launcher_completions_def)
qed

lemma chan_send_Sent:
  "chan_send x c = (Sent, c') \<Longrightarrow> ch_queue c' = ch_queue c @ [x] \<and> ch_cap c' = ch_cap c"
  by (auto simp: chan_send_def split: if_splits)

lemma task_completions:
  assumes "task_step n m m'"
  shows "vmm_completion m' = vmm_completion m \<and> vmm_reported m' = vmm_reported m
    \<or> (\<exists>ev. chan_send ev (vmm_completion m) = (Sent, vmm_completion m')
         \<and> vmm_reported m' = vmm_reported m @ [ev] \<and> ce_job_id ev \<in> tk_job ` set (vmm_tasks m))"
  using assms by (cases rule: task_step.cases) (auto simp: set_phase_def)

lemma task_keeps_jobs: "task_step n m m' \<Longrightarrow> map tk_job (vmm_tasks m') = map tk_job (vmm_tasks m)"
  by (induction rule: task_step.induct) (auto simp: set_phase_def jobs_update)

lemma shutdown_frame:
  "vmm_completion (snd (shutdown_vm j m)) = vmm_completion m"
  "vmm_reported (snd (shutdown_vm j m)) = vmm_reported m"
  by (auto simp: shutdown_vm_def split: option.splits prod.splits send_outcome.splits)

lemma shutdown_keeps_jobs: "map tk_job (vmm_tasks (snd (shutdown_vm j m))) = map tk_job (vmm_tasks m)"
proof -
  have "map tk_job ((vmm_tasks m)[k := (vmm_tasks m ! k)\<lparr>tk_control := c\<rparr>]) = map tk_job (vmm_tasks m)" for k c
    by (cases "k < length (vmm_tasks m)") (simp_all add: jobs_update list_update_beyond)
  then show ?thesis
    by (auto simp: shutdown_vm_def split: option.splits prod.splits send_outcome.splits)
qed

lemma launcher_inv_take:
  assumes "launcher_inv i l" and "lc_phase l \<in> {L_Waiting, L_Stopping}" and "take_completion l = Some l'"
  shows "launcher_inv i l'"
proof -
  obtain ev evs where q: "ch_queue (vmm_completion (lc_vmm l)) = ev # evs"
    using assms(3) by (auto simp: take_completion_def chan_recv_def split: list.splits)
  then have "ev \<in> set (vmm_reported (lc_vmm l))"
    using assms(1,2) by (auto simp: launcher_inv_def) (metis list.set_intros(1))+
  moreover have "vmm_inv ((lc_vmm l)\<lparr>vmm_completion := snd (chan_recv (vmm_completion (lc_vmm l)))\<rparr>)"
    using assms(1) by (auto simp: launcher_inv_def intro: vmm_inv_step vmm_step.receive)
  ultimately show ?thesis
    using assms q by (auto simp: launcher_inv_def take_completion_def chan_recv_def)
qed

lemma launcher_inv_task:
  assumes "launcher_inv i l" and "task_step n (lc_vmm l) m"
  shows "launcher_inv i (l\<lparr>lc_vmm := m\<rparr>)"
proof -
  have inv: "vmm_inv m" "map tk_job (vmm_tasks m) = [i]"
    using assms vmm_inv_task [OF assms(2)] task_keeps_jobs [OF assms(2)] by (simp_all add: launcher_inv_def)
  have jobs: "tk_job ` set (vmm_tasks (lc_vmm l)) = {i}"
    using assms(1) by (simp add: launcher_inv_def flip: list.set_map)
  from task_completions [OF assms(2)] show ?thesis
    using assms(1) inv jobs
    by (cases "lc_phase l") (auto simp: launcher_inv_def dest: chan_send_Sent)
qed

lemma launcher_inv_step: "launcher_step i l l' \<Longrightarrow> launcher_inv i l \<Longrightarrow> launcher_inv i l'"
proof (induction rule: launcher_step.induct)
  case (requested l)
  then show ?case
    using vmm_inv_shutdown [of "lc_vmm l" i]
    by (auto simp: launcher_inv_def shutdown_frame shutdown_keeps_jobs)
qed (auto simp: launcher_inv_task intro: launcher_inv_take, simp add: launcher_inv_def)

interpretation launching: transition_system "launcher_init i" "launcher_step i" "launcher_inv i"
  by unfold_locales (auto intro: launcher_inv_init launcher_inv_step)


text \<open>
  On macOS the exit code is the outcome of the machine only when no signal came: a requested shutdown
  is code zero, whatever becomes of the machine.
\<close>

fun macos_launcher_inv :: "uuid \<Rightarrow> launcher \<Rightarrow> bool" where
  "macos_launcher_inv i l \<longleftrightarrow>
     (case lc_phase l of
        L_Waiting \<Rightarrow> launcher_inv i l
      | L_Stopping \<Rightarrow> False
      | L_Exited c \<Rightarrow> (lc_flag l \<and> c = 0)
          \<or> (\<exists>ev \<in> set (vmm_reported (lc_vmm l)). ce_job_id ev = i \<and> c = launcher_exit_code (ce_status ev)))"

declare macos_launcher_inv.simps [simp del]

lemma macos_launcher_inv_exited:
  "launcher_inv i l \<Longrightarrow> lc_phase l = L_Exited c \<Longrightarrow> macos_launcher_inv i l"
  by (auto simp: launcher_inv_def macos_launcher_inv.simps)

lemma macos_launcher_inv_step:
  "macos_launcher_step i l l' \<Longrightarrow> macos_launcher_inv i l \<Longrightarrow> macos_launcher_inv i l'"
proof (induction rule: macos_launcher_step.induct)
  case (mac_completed l l')
  then have "launcher_inv i l'"
    using launcher_inv_take by (auto simp: macos_launcher_inv.simps)
  moreover obtain c where "lc_phase l' = L_Exited c"
    using mac_completed(2) by (auto simp: take_completion_def split: prod.splits option.splits)
  ultimately show ?case by (rule macos_launcher_inv_exited)
next
  case (mac_machine l n m)
  then show ?case using launcher_inv_task by (simp add: macos_launcher_inv.simps)
qed (simp_all add: macos_launcher_inv.simps launcher_inv_def)

interpretation macos_launching: transition_system "launcher_init i" "macos_launcher_step i"
    "macos_launcher_inv i"
proof
  fix l assume "launcher_init i l"
  then show "macos_launcher_inv i l"
    using launcher_inv_init [of i l] launcher_init_state [of i l] by (simp add: macos_launcher_inv.simps)
qed (rule macos_launcher_inv_step)

lemma macos_exit_code:
  assumes "launcher_init i l0" and "(macos_launcher_step i)\<^sup>*\<^sup>* l0 l" and "lc_phase l = L_Exited c"
  shows "lc_flag l \<and> c = 0
    \<or> (\<exists>ev \<in> set (vmm_reported (lc_vmm l)). ce_job_id ev = i \<and> c = launcher_exit_code (ce_status ev))"
  using macos_launching.reachable_inv [OF assms(1,2)] assms(3) by (auto simp: macos_launcher_inv.simps)

text \<open>The one task of a launcher that has not exited can run to its report.\<close>

lemma one_task:
  assumes "launcher_inv i l"
  obtains t where "vmm_tasks (lc_vmm l) = [t]" and "tk_job t = i"
  using assms by (auto simp: launcher_inv_def)

lemma can_report:
  assumes "launcher_inv i l" and "\<And>c. lc_phase l \<noteq> L_Exited c"
  shows "\<exists>l'. (launcher_step i)\<^sup>*\<^sup>* l l' \<and> lc_phase l' = lc_phase l \<and> vmm_reported (lc_vmm l') \<noteq> []"
  using assms
proof (induction "phase_rank (tk_phase (hd (vmm_tasks (lc_vmm l))))" arbitrary: l rule: less_induct)
  case less
  obtain t where t: "vmm_tasks (lc_vmm l) = [t]" "tk_job t = i" using one_task [OF less.prems(1)] .
  have inv: "vmm_inv (lc_vmm l)" using less.prems(1) by (simp add: launcher_inv_def)
  have go: ?case if a: "task_step 0 (lc_vmm l) m" and b: "vmm_tasks m = [t\<lparr>tk_phase := p\<rparr>]"
    and c: "phase_rank p < phase_rank (tk_phase t)" for m p
  proof -
    have step: "launcher_step i l (l\<lparr>lc_vmm := m\<rparr>)" using a by (rule launcher_step.machine)
    obtain l' where "(launcher_step i)\<^sup>*\<^sup>* (l\<lparr>lc_vmm := m\<rparr>) l'" "lc_phase l' = lc_phase l"
      "vmm_reported (lc_vmm l') \<noteq> []"
      using less.hyps [of "l\<lparr>lc_vmm := m\<rparr>"] less.prems launcher_inv_step [OF step] b c t by auto
    then show ?thesis using step by (meson converse_rtranclp_into_rtranclp)
  qed
  show ?case
  proof (cases "vmm_reported (lc_vmm l) = []")
    case False
    then show ?thesis by blast
  next
    case True
    then have "reports_of i (lc_vmm l) = 0" by (simp add: reports_of_def)
    then have rank: "2 \<le> phase_rank (tk_phase t)"
      using vmm_rowD(3) [OF inv, of 0] t by (auto split: if_splits)
    have room: "\<not> chan_full (vmm_completion (lc_vmm l))" "ch_open (vmm_completion (lc_vmm l))"
      using less.prems True vmm_invD(1) [OF inv]
      by (cases "lc_phase l"; force simp: launcher_inv_def chan_full_def)+
    show ?thesis
    proof (cases "tk_phase t")
      case T_Starting
      then show ?thesis
        by (intro go [where p = T_Waiting, OF task_step.started]) (simp_all add: t set_phase_def)
    next
      case T_Waiting
      then show ?thesis
        by (intro go [where p = "T_Reporting Exit_Success", OF task_step.exited [where r = "Ok Exit_Success"]])
          (simp_all add: t set_phase_def)
    next
      case T_Stopping
      then show ?thesis
        by (intro go [where p = "T_Reporting Exit_Success", OF task_step.stopped [where r = "Ok Exit_Success"]])
          (simp_all add: t set_phase_def)
    next
      case (T_Reporting s)
      then show ?thesis
        by (intro go [where p = T_Cleaning, OF task_step.reported [where s = s, OF _ _ refl]])
          (simp_all add: t set_phase_def chan_send_def room)
    qed (use rank in simp_all)
  qed
qed

section \<open>Properties\<close>



end
