(* ===== verification/Start_Up.thy ===== *)
theory Start_Up
  imports External Auth Database
begin

section \<open>Start-up of the servers: backend/src/main.rs, config.rs, serve.rs, logger/src/main.rs\<close>

text \<open>
  The commands of the backend (serve, migrate, generate the client of the frontend), the state they
  build from the configuration and the secrets, the endpoints that only show configuration or the
  user (\<open>account\<close>), and the start of the log service. Everything outside is an operation that an
  arbitrary function answers: whether it succeeded and a text. Parsing TOML is an argument.
\<close>

subsection \<open>Configuration\<close>

text \<open>What the TOML parser reads: missing keys and tables are \<open>None\<close>.\<close>

record config_toml =
  ct_base_url :: string
  ct_port :: "u16 option"
  ct_zitadel :: "string option option"
  ct_github_app_id :: u64
  ct_github_app_name :: string
  ct_job :: "u64 option option"
  ct_logger_url :: "string option"

record backend_config =
  cfg_base_url :: string
  cfg_port :: u16
  cfg_zitadel_endpoint :: string
  cfg_github_app_id :: u64
  cfg_github_app_name :: string
  cfg_job_timeout_seconds :: u64
  cfg_logger_url :: string

definition default_port :: u16 where
  "default_port = 8080"

definition default_zitadel_endpoint :: string where
  "default_zitadel_endpoint = ''http://localhost:9500''"

definition default_logger_url :: string where
  "default_logger_url = ''http://localhost:3000''"

definition default_job_timeout_seconds :: u64 where
  "default_job_timeout_seconds = 3600"

text \<open>A missing table is the default of its type, a missing key the default of its field.\<close>

definition config_of_toml :: "config_toml \<Rightarrow> backend_config" where
  "config_of_toml t =
     \<lparr>cfg_base_url = ct_base_url t,
      cfg_port = unwrap_or (ct_port t) default_port,
      cfg_zitadel_endpoint = unwrap_or (unwrap_or (ct_zitadel t) None) default_zitadel_endpoint,
      cfg_github_app_id = ct_github_app_id t,
      cfg_github_app_name = ct_github_app_name t,
      cfg_job_timeout_seconds = unwrap_or (unwrap_or (ct_job t) None) default_job_timeout_seconds,
      cfg_logger_url = unwrap_or (ct_logger_url t) default_logger_url\<rparr>"

record secrets =
  sc_database_url :: "string option"
  sc_sentry_dsn :: "string option"
  sc_posthog_api_key :: "string option"
  sc_github_app_private_key :: "string option"
  sc_github_webhook_secret :: "string option"
  sc_zitadel_jwt_profile :: "string option"
  sc_zitadel_webhook_secret :: "string option"

subsection \<open>The outside\<close>

datatype start_op =
    So_Exists string
  | So_Read string
  | So_Write string string
  | So_Env string
  | So_Load_Secrets
  | So_Build_Pool string
  | So_Load_Jwt string
  | So_Zitadel string
  | So_Rsa_Key string
  | So_Github_Client u64
  | So_Posthog string
  | So_Sentry string
  | So_Metrics
  | So_Runtime
  | So_Timeout_Checker u64
  | So_Bind string
  | So_Serve
  | So_Get_Connection
  | So_Run_Migrations
  | So_Openapi_Json
  | So_Temp_File
  | So_Generator "string list"
  | So_Generator_Success
  | So_Remove_Dir string
  | So_Rename string string
  | So_Create_Dir string
  | So_Local_Store string
  | So_Open_Db string

record start_reply =
  sr_ok :: bool
  sr_text :: string

datatype start_error =
    Se_Missing string
  | Se_Failed start_op
  | Se_Invalid start_op
  | Se_Panicked start_op

type_synonym 'a start = "((start_op, start_reply) ext, start_error, 'a) io"

text \<open>An operation whose failure is returned, one whose failure panics, one whose failure is ignored.\<close>

definition so_do :: "start_op \<Rightarrow> string start" where
  "so_do op = and_then (perform op) (\<lambda>r. if sr_ok r then ret (sr_text r) else throw (Se_Failed op))"

definition so_unwrap :: "start_op \<Rightarrow> string start" where
  "so_unwrap op = and_then (perform op) (\<lambda>r. if sr_ok r then ret (sr_text r) else throw (Se_Panicked op))"

definition so_try :: "start_op \<Rightarrow> start_reply start" where
  "so_try op = perform op"

subsection \<open>The state of the backend\<close>

definition config_new :: "(string \<Rightarrow> config_toml option) \<Rightarrow> string \<Rightarrow> backend_config start" where
  "config_new from_toml config_path =
     and_then (so_try (So_Exists config_path))
       (\<lambda>r. if \<not> sr_ok r then throw (Se_Missing (''Config file not found: '' @ config_path))
          else and_then (so_do (So_Read config_path))
            (\<lambda>s. case from_toml s of
                    None \<Rightarrow> throw (Se_Invalid (So_Read config_path))
                  | Some t \<Rightarrow> ret (config_of_toml t)))"

record app_state =
  as_config :: backend_config
  as_secrets :: secrets
  as_database_url :: string
  as_posthog :: bool

definition database_url :: "secrets \<Rightarrow> string start" where
  "database_url s =
     (case sc_database_url s of
        Some u \<Rightarrow> ret u
      | None \<Rightarrow>
          and_then (so_try (So_Env ''PGHOST''))
            (\<lambda>r. if sr_ok r then ret (''postgres:///devenv?host='' @ sr_text r)
               else throw (Se_Missing ''Neither DATABASE_URL nor PGHOST is set'')))"

definition secret_or :: "string \<Rightarrow> string option \<Rightarrow> string start" where
  "secret_or what secret = (case secret of None \<Rightarrow> throw (Se_Missing what) | Some s \<Rightarrow> ret s)"

text \<open>\<open>AppState::new\<close>; \<open>origin\<close> is the origin of a URL as text.\<close>

definition app_state_new :: "(string \<Rightarrow> string) \<Rightarrow> backend_config \<Rightarrow> secrets \<Rightarrow> app_state start" where
  "app_state_new origin config s =
     and_then (database_url s)
       (\<lambda>url. and_then (so_do (So_Build_Pool url))
         (\<lambda>_. and_then (secret_or ''Zitadel JWT profile not configured'' (sc_zitadel_jwt_profile s))
           (\<lambda>token. and_then (so_do (So_Load_Jwt token))
             (\<lambda>_. and_then (so_do (So_Zitadel (origin (cfg_zitadel_endpoint config))))
               (\<lambda>_. and_then (secret_or ''GitHub App private key not configured'' (sc_github_app_private_key s))
                 (\<lambda>key. and_then (so_do (So_Rsa_Key key))
                   (\<lambda>_. and_then (so_do (So_Github_Client (cfg_github_app_id config)))
                     (\<lambda>_. and_then (case sc_posthog_api_key s of
                                      None \<Rightarrow> ret False
                                    | Some k \<Rightarrow> and_then (so_try (So_Posthog k)) (\<lambda>_. ret True))
                       (\<lambda>posthog. ret \<lparr>as_config = config, as_secrets = s, as_database_url = url,
                                        as_posthog = posthog\<rparr>)))))))))"

text \<open>What the handlers of the backend use of it.\<close>

definition app_config_of :: "app_state \<Rightarrow> app_config" where
  "app_config_of a =
     \<lparr>ac_base_url = cfg_base_url (as_config a),
      ac_logger_url = cfg_logger_url (as_config a),
      ac_timeout_seconds = cfg_job_timeout_seconds (as_config a),
      ac_github_secret = sc_github_webhook_secret (as_secrets a),
      ac_zitadel_secret = sc_zitadel_webhook_secret (as_secrets a)\<rparr>"

definition run_migrations :: "unit start" where
  "run_migrations =
     and_then (so_do So_Get_Connection) (\<lambda>_. and_then (so_do So_Run_Migrations) (\<lambda>_. ret ()))"

subsection \<open>Serving\<close>

definition serve :: "app_state \<Rightarrow> unit start" where
  "serve a =
     and_then (so_try (So_Timeout_Checker (cfg_job_timeout_seconds (as_config a))))
       (\<lambda>_. and_then (so_unwrap (So_Bind (''0.0.0.0:'' @ dec_digits (unat (cfg_port (as_config a))))))
         (\<lambda>_. and_then (so_do So_Serve) (\<lambda>_. ret ())))"

text \<open>\<open>serve::main\<close>; \<open>s\<close> are the secrets that loading yields when it succeeds.\<close>

definition serve_main :: "(string \<Rightarrow> string) \<Rightarrow> secrets \<Rightarrow> backend_config \<Rightarrow> unit start" where
  "serve_main origin s config =
     and_then (so_do So_Load_Secrets)
       (\<lambda>_. and_then (case sc_sentry_dsn s of
                        None \<Rightarrow> ret ()
                      | Some dsn \<Rightarrow> and_then (so_try (So_Sentry dsn)) (\<lambda>_. ret ()))
         (\<lambda>_. and_then (so_try So_Metrics)
           (\<lambda>_. and_then (so_unwrap So_Runtime)
             (\<lambda>_. and_then (app_state_new origin config s) serve))))"

definition migrate :: "(string \<Rightarrow> string) \<Rightarrow> secrets \<Rightarrow> backend_config \<Rightarrow> unit start" where
  "migrate origin s config =
     and_then (so_do So_Runtime)
       (\<lambda>_. and_then (so_do So_Load_Secrets)
         (\<lambda>_. and_then (app_state_new origin config s) (\<lambda>_. run_migrations)))"

subsection \<open>The frontend's client\<close>

definition line :: "string \<Rightarrow> string" where
  "line s = s @ [CHR 0x0A]"

definition any_type_code :: string where
  "any_type_code = line [] @ line [] @ line ''type alias AnyType = ()'' @ line []
     @ line ''anyTypeDecoder : Json.Decode.Decoder AnyType''
     @ line ''anyTypeDecoder = Json.Decode.succeed ()''"

definition patch_data :: "string \<Rightarrow> string" where
  "patch_data content =
     (if contains content ''AnyType'' then content
      else replace_all (line ''module Api.Data exposing'' @ ''    ( '')
             (line ''module Api.Data exposing'' @ line ''    ( AnyType'' @ line ''    , anyTypeDecoder'' @ ''    , '')
             content @ any_type_code)"

definition patch_api :: "string \<Rightarrow> string option" where
  "patch_api content =
     (if contains content ''Request(..)'' then None
      else Some (replace_all ''( Request'' ''( Request(..)'' content))"

definition final_path :: string where
  "final_path = ''frontend/generated-api''"

definition temp_output_path :: string where
  "temp_output_path = ''frontend/generated-api-new''"

definition generator_args :: "string \<Rightarrow> string list" where
  "generator_args tmp =
     [''generate'', ''--input-spec'', tmp, ''--inline-schema-options'', ''RESOLVE_INLINE_ENUMS=true'',
      ''--openapi-normalizer'', ''SIMPLIFY_ONEOF_ANYOF=true,SIMPLIFY_ANYOF_STRING_AND_ENUM_STRING=true'',
      ''--generator-name'', ''elm'', ''--output'', temp_output_path]"

definition generate_elm :: "unit start" where
  "generate_elm =
     and_then (so_do So_Openapi_Json)
       (\<lambda>openapi. and_then (so_do So_Temp_File)
         (\<lambda>tmp. and_then (so_do (So_Write tmp openapi))
           (\<lambda>_. and_then (so_do (So_Generator (generator_args tmp)))
             (\<lambda>_. and_then (so_do So_Generator_Success)
               (\<lambda>_. and_then (so_do (So_Read (temp_output_path @ ''/src/Api/Data.elm'')))
                 (\<lambda>data. and_then (so_do (So_Write (temp_output_path @ ''/src/Api/Data.elm'') (patch_data data)))
                   (\<lambda>_. and_then (so_do (So_Read (temp_output_path @ ''/src/Api.elm'')))
                     (\<lambda>api. and_then
                         (case patch_api api of
                            None \<Rightarrow> ret []
                          | Some content \<Rightarrow> so_do (So_Write (temp_output_path @ ''/src/Api.elm'') content))
                       (\<lambda>_. and_then (so_try (So_Exists final_path))
                         (\<lambda>r. and_then (if sr_ok r then so_do (So_Remove_Dir final_path) else ret [])
                           (\<lambda>_. and_then (so_do (So_Rename temp_output_path final_path)) (\<lambda>_. ret ()))))))))))))"

subsection \<open>The command line\<close>

datatype backend_command = Generate_Elm string | Migrate string | Serve string

fun backend_main ::
    "(string \<Rightarrow> config_toml option) \<Rightarrow> (string \<Rightarrow> string) \<Rightarrow> secrets \<Rightarrow> backend_command \<Rightarrow> unit start" where
  "backend_main from_toml origin s (Serve p) = and_then (config_new from_toml p) (serve_main origin s)"
| "backend_main from_toml origin s (Migrate p) = and_then (config_new from_toml p) (migrate origin s)"
| "backend_main from_toml origin s (Generate_Elm p) = generate_elm"

subsection \<open>Endpoints\<close>

definition get_config :: "app_state \<Rightarrow> nat \<times> string" where
  "get_config a = (200, cfg_github_app_name (as_config a))"

text \<open>What the token introspection tells of a user besides the claims of \<open>Auth\<close>.\<close>

record user_profile =
  up_username :: "string option"
  up_name :: "string option"
  up_given_name :: "string option"
  up_family_name :: "string option"
  up_preferred_username :: "string option"
  up_email :: "string option"
  up_email_verified :: "bool option"
  up_locale :: "string option"

definition json_opt :: "('a \<Rightarrow> json) \<Rightarrow> 'a option \<Rightarrow> json" where
  "json_opt f x = (case x of None \<Rightarrow> JNull | Some a \<Rightarrow> f a)"

definition account_json :: "introspected_user \<Rightarrow> user_profile \<Rightarrow> json" where
  "account_json u p = JObject
     [(''user_id'', JString (iu_sub u)),
      (''username'', json_opt JString (up_username p)),
      (''name'', json_opt JString (up_name p)),
      (''given_name'', json_opt JString (up_given_name p)),
      (''family_name'', json_opt JString (up_family_name p)),
      (''preferred_username'', json_opt JString (up_preferred_username p)),
      (''email'', json_opt JString (up_email p)),
      (''email_verified'', json_opt JBool (up_email_verified p)),
      (''locale'', json_opt JString (up_locale p)),
      (''beta_access'', JBool True)]"

definition get_account :: "'e + introspected_user \<Rightarrow> user_profile \<Rightarrow> nat \<times> json option" where
  "get_account introspection p =
     (case beta_user_from_request introspection of
        Inl _ \<Rightarrow> (403, None)
      | Inr u \<Rightarrow> (200, Some (account_json u p)))"

subsection \<open>The log service\<close>

definition create_db :: "string \<Rightarrow> string start" where
  "create_db base_path =
     and_then (so_do (So_Create_Dir base_path))
       (\<lambda>_. and_then (so_do (So_Local_Store base_path))
         (\<lambda>_. so_do (So_Open_Db (base_path @ ''/kv_store''))))"

definition logger_main :: "unit start" where
  "logger_main =
     and_then (so_try (So_Env ''DEVENV_STATE''))
       (\<lambda>r. if \<not> sr_ok r then throw (Se_Missing ''DEVENV_STATE environment variable is not set'')
          else and_then (create_db (sr_text r @ ''/logs''))
            (\<lambda>_. and_then (so_unwrap (So_Bind ''0.0.0.0:3000''))
              (\<lambda>_. and_then (so_unwrap So_Serve) (\<lambda>_. ret ()))))"

subsection \<open>Stopping at the first failure\<close>

text \<open>Operations whose failure does not end the start.\<close>

fun tolerated :: "start_op \<Rightarrow> bool" where
  "tolerated (So_Exists p) = True"
| "tolerated (So_Env v) = True"
| "tolerated (So_Sentry d) = True"
| "tolerated So_Metrics = True"
| "tolerated (So_Posthog k) = True"
| "tolerated (So_Timeout_Checker t) = True"
| "tolerated op = False"

definition fail_stop :: "bool \<Rightarrow> (start_op \<times> start_reply) list \<Rightarrow> bool" where
  "fail_stop ok t \<longleftrightarrow> (\<forall>pre op r post. t = pre @ (op, r) # post \<and> \<not> tolerated op \<and> \<not> sr_ok r
     \<longrightarrow> post = [] \<and> \<not> ok)"

abbreviation stops :: "'a start \<Rightarrow> bool" where
  "stops \<equiv> emits fail_stop"

named_theorems stops_intros \<open>programs that stop at the first failure\<close>

lemma fail_stop_append: "fail_stop True t \<Longrightarrow> fail_stop b u \<Longrightarrow> fail_stop b (t @ u)"
  unfolding fail_stop_def
proof (intro allI impI)
  fix pre op r post
  assume t: "\<forall>pre op r post. t = pre @ (op, r) # post \<and> \<not> tolerated op \<and> \<not> sr_ok r \<longrightarrow> post = [] \<and> \<not> True"
    and u: "\<forall>pre op r post. u = pre @ (op, r) # post \<and> \<not> tolerated op \<and> \<not> sr_ok r \<longrightarrow> post = [] \<and> \<not> b"
    and s: "t @ u = pre @ (op, r) # post \<and> \<not> tolerated op \<and> \<not> sr_ok r"
  have "(op, r) \<notin> set t" using t s by (metis split_list)
  then obtain pre' where "u = pre' @ (op, r) # post"
    using s by (auto simp: append_eq_append_conv2 append_eq_Cons_conv)
  with u s show "post = [] \<and> \<not> b" by blast
qed

lemma stops_and_then [stops_intros]: "stops m \<Longrightarrow> (\<And>a. stops (f a)) \<Longrightarrow> stops (and_then m f)"
  by (rule emits_and_then [where P = fail_stop and Q = fail_stop]) (auto simp: fail_stop_append)

lemma stops_results [stops_intros]: "stops (ret a)" "stops (throw e)"
  by (simp_all add: emits_def ret_def throw_def fail_stop_def)

lemma stops_so [stops_intros]:
  "stops (so_do op)" "stops (so_unwrap op)" "tolerated op \<Longrightarrow> stops (so_try op)"
  by (auto simp: emits_def so_do_def so_unwrap_def so_try_def and_then_def perform_def ret_def throw_def
      answered_perform [unfolded perform_def, simplified] fail_stop_def Cons_eq_append_conv)

lemma stops_parts [stops_intros]:
  "stops (config_new from_toml p)" "stops (app_state_new origin c s)" "stops run_migrations"
  "stops (serve a)" "stops generate_elm" "stops (create_db p)"
  unfolding config_new_def app_state_new_def database_url_def secret_or_def run_migrations_def serve_def
    generate_elm_def create_db_def
  by (auto intro!: stops_intros split: option.splits)

lemma stops_main: "stops (backend_main from_toml origin s c)"
  by (cases c) (auto simp: serve_main_def migrate_def intro!: stops_intros split: option.splits)

lemma stops_logger: "stops logger_main"
  unfolding logger_main_def by (auto intro!: stops_intros)


text \<open>Patching the generated client a second time changes nothing.\<close>

lemma contains_iff: "contains s p \<longleftrightarrow> (\<exists>u v. s = u @ p @ v)"
proof (induction s)
  case Nil
  then show ?case by (subst contains.simps) (auto simp: starts_with_iff)
next
  case (Cons c s)
  have "(\<exists>u v. c # s = u @ p @ v) \<longleftrightarrow> (\<exists>v. c # s = p @ v) \<or> (\<exists>u v. s = u @ p @ v)"
    by (metis append_Cons append_Nil list.exhaust list.inject)
  then show ?case using Cons by (subst contains.simps) (simp add: starts_with_iff)
qed

lemma contains_append: "contains s p \<Longrightarrow> contains (t @ s) p"
  unfolding contains_iff by (metis append_assoc)

lemma contains_prefix: "contains (p @ s) p"
  unfolding contains_iff by (metis append_Nil)

lemma contains_suffix: "contains s (p @ q) \<Longrightarrow> contains s q"
  unfolding contains_iff by (metis append_assoc)

lemma replace_all_same: "q \<noteq> [] \<Longrightarrow> replace_all p q s = s \<or> contains (replace_all p q s) q"
proof (induction p q s rule: replace_all.induct)
  case (1 p q s)
  show ?case
  proof (cases "p = []")
    case True
    then show ?thesis by (simp add: replace_all.simps)
  next
    case False
    show ?thesis
    proof (cases "strip_prefix p s")
      case (Some r)
      then have "replace_all p q s = q @ replace_all p q r"
        using False by (subst replace_all.simps) simp
      then show ?thesis using contains_prefix by simp
    next
      case None
      then show ?thesis
        using 1 False contains_append [where t = "[_]"]
        by (cases s) (auto simp: replace_all.simps [of p q "_ # _"] replace_all.simps [of p q "[]"])
    qed
  qed
qed

lemma patch_data_twice: "patch_data (patch_data content) = patch_data content"
proof -
  have "contains any_type_code ''AnyType''"
    unfolding any_type_code_def line_def by code_simp
  then have "contains (patch_data content) ''AnyType''"
    by (simp add: patch_data_def contains_append)
  then show ?thesis by (simp add: patch_data_def [of "patch_data content"])
qed

lemma patch_api_twice: "patch_api content = Some content' \<Longrightarrow> patch_api content' \<in> {None, Some content'}"
  using replace_all_same [of "''( Request(..)''" "''( Request''" content]
    contains_suffix [of content' "''( ''" "''Request(..)''"]
  by (auto simp: patch_api_def split: if_splits)

section \<open>Properties\<close>



end
